(* ===== verification/Prelude.thy ===== *)
theory Prelude
  imports Main "HOL-Library.Word"
begin

text \<open>
  Shared vocabulary of the development: byte strings and machine integers, the return codes
  of nginx and of the module's guest ABI, the copy-out convention of the ABI getters, and the
  generic list facts the components use.
\<close>

unbundle bit_operations_syntax

type_synonym byte = "8 word"
type_synonym bytes = "byte list"
type_synonym u32 = "32 word"
type_synonym u64 = "64 word"
type_synonym addr = nat

named_theorems wasm_defs \<open>definitions of the module's operations, unfolded in proofs\<close>

section \<open>Return codes\<close>

text \<open>
  \<^verbatim>\<open>NGX_OK\<close> and its siblings are nginx's documented return codes; the three
  \<^verbatim>\<open>NGX_HTTP_WASM_*\<close> codes are those of \<^verbatim>\<open>include/ngx_http_wasm_abi.h\<close>.
\<close>

abbreviation (input) NGX_OK :: int where "NGX_OK \<equiv> 0"
abbreviation (input) NGX_ERROR :: int where "NGX_ERROR \<equiv> -1"
abbreviation (input) NGX_AGAIN :: int where "NGX_AGAIN \<equiv> -2"
abbreviation (input) NGX_BUSY :: int where "NGX_BUSY \<equiv> -3"
abbreviation (input) NGX_DONE :: int where "NGX_DONE \<equiv> -4"
abbreviation (input) NGX_DECLINED :: int where "NGX_DECLINED \<equiv> -5"

definition NGX_HTTP_WASM_OK :: int where "NGX_HTTP_WASM_OK = 0"
definition NGX_HTTP_WASM_NOT_FOUND :: int where "NGX_HTTP_WASM_NOT_FOUND = -1"
definition NGX_HTTP_WASM_ERROR :: int where "NGX_HTTP_WASM_ERROR = -2"

lemmas wasm_codes = NGX_HTTP_WASM_OK_def NGX_HTTP_WASM_NOT_FOUND_def NGX_HTTP_WASM_ERROR_def

lemma wasm_codes_distinct [simp]:
  "NGX_HTTP_WASM_OK \<noteq> NGX_HTTP_WASM_NOT_FOUND" "NGX_HTTP_WASM_OK \<noteq> NGX_HTTP_WASM_ERROR"
  "NGX_HTTP_WASM_NOT_FOUND \<noteq> NGX_HTTP_WASM_ERROR" "NGX_HTTP_WASM_NOT_FOUND \<noteq> NGX_HTTP_WASM_OK"
  "NGX_HTTP_WASM_ERROR \<noteq> NGX_HTTP_WASM_OK" "NGX_HTTP_WASM_ERROR \<noteq> NGX_HTTP_WASM_NOT_FOUND"
  by (simp_all add: wasm_codes)

text \<open>Configuration callbacks return \<^verbatim>\<open>NGX_CONF_OK\<close>, \<^verbatim>\<open>NGX_CONF_ERROR\<close> or a message.\<close>

datatype conf_rv = ConfOk | ConfError | ConfMessage string

section \<open>Text\<close>

text \<open>The bytes of a C string literal.\<close>

definition str :: "string \<Rightarrow> bytes" where
  "str s = map of_char s"

lemma length_str [simp]: "length (str s) = length s"
  by (simp add: str_def)

section \<open>Copying a value out\<close>

text \<open>
  Every getter of the ABI copies \<open>ngx_min (value.len, buf_len)\<close> bytes to the front of the
  caller's buffer and returns the full length of the value. A buffer is the list of its
  bytes; the part behind the copied bytes keeps its contents.
\<close>

definition copy_out :: "bytes \<Rightarrow> bytes \<Rightarrow> bytes" where
  "copy_out v buf = (let n = min (length v) (length buf) in take n v @ drop n buf)"

lemma length_copy_out [simp]: "length (copy_out v buf) = length buf"
  by (simp add: copy_out_def Let_def)

lemma take_copy_out: "take (min (length v) (length buf)) (copy_out v buf) = take (length buf) v"
  by (simp add: copy_out_def Let_def min_def)

lemma copy_out_fits: "length v \<le> length buf \<Longrightarrow> take (length v) (copy_out v buf) = v"
  by (simp add: copy_out_def Let_def min_def)

lemma drop_copy_out: "length v \<le> n \<Longrightarrow> drop n (copy_out v buf) = drop n buf"
  by (simp add: copy_out_def Let_def min_def)

section \<open>Lists\<close>

lemma sorted_wrt_mid:
  "sorted_wrt P (xs @ y # ys) \<longleftrightarrow>
     sorted_wrt P (xs @ ys) \<and> (\<forall>x \<in> set xs. P x y) \<and> (\<forall>z \<in> set ys. P y z)"
  by (auto simp: sorted_wrt_append)

lemma sorted_wrt_remove1: "sorted_wrt P xs \<Longrightarrow> sorted_wrt P (remove1 a xs)"
  by (induction xs) (auto dest: subsetD [OF set_remove1_subset])

lemma set_remove1_distinct [simp]: "distinct xs \<Longrightarrow> set (remove1 a xs) = set xs - {a}"
  by simp

lemma find_append:
  "find P (xs @ ys) = (case find P xs of Some x \<Rightarrow> Some x | None \<Rightarrow> find P ys)"
  by (induction xs) auto

lemma map_leD: "M \<subseteq>\<^sub>m M' \<Longrightarrow> M k = Some v \<Longrightarrow> M' k = Some v"
  unfolding map_le_def by (metis domI)

lemma map_le_None: "M \<subseteq>\<^sub>m M' \<Longrightarrow> M' k = None \<Longrightarrow> M k = None"
  by (metis domIff map_le_implies_dom_le subsetD)

text \<open>Distinct images: an element of a list with pairwise different images is found by its image.\<close>

lemma map_of_map_inj:
  assumes "a \<in> set xs" and "inj_on f (set xs)"
  shows "map_of (map (\<lambda>x. (f x, g x)) xs) (f a) = Some (g a)"
  using assms by (induction xs) (auto simp: inj_on_def)

lemma map_of_map_None:
  "map_of (map (\<lambda>x. (f x, g x)) xs) k = None \<longleftrightarrow> (\<forall>a \<in> set xs. f a \<noteq> k)"
  by (induction xs) auto

end
