(* ===== verification/NginxCore.thy ===== *)
theory NginxCore
  imports Prelude
begin

text \<open>
  The parts of nginx core the shared-memory components are written against. nginx is not part
  of this repository, so its functions are the fields of a record that every operation takes
  as an argument; \<open>nginx_core_ok\<close> collects what nginx documents about them and is the only
  thing the proofs use:
  \<^item> \<^verbatim>\<open>ngx_crc32_short\<close> is any function of the bytes;
  \<^item> \<^verbatim>\<open>ngx_memn2cmp\<close> is the comparison function of a strict total order on byte strings;
  \<^item> after an insertion \<^verbatim>\<open>ngx_rbtree_insert\<close> recolours and rotates, and
    \<^verbatim>\<open>ngx_rbtree_delete\<close> takes one node out: both are known by the in-order sequence of
    nodes only, colours and shape are left open;
  \<^item> \<^verbatim>\<open>ngx_slab_alloc_locked\<close> may fail, and returns an address that is not in use.
  Queues (\<^verbatim>\<open>ngx_queue_t\<close>) are lists of node addresses, head first.
\<close>

section \<open>Red-black tree nodes\<close>

text \<open>
  A node is its left subtree, its address, its colour bit (true for red) and its right
  subtree; \<open>Sentinel\<close> is the tree's sentinel.
\<close>

datatype rbtree = Sentinel | Node (left: rbtree) (naddr: addr) (red: bool) (right: rbtree)

fun inorder :: "rbtree \<Rightarrow> addr list" where
  "inorder Sentinel = []"
| "inorder (Node l a c r) = inorder l @ a # inorder r"

abbreviation nodes :: "rbtree \<Rightarrow> addr set" where
  "nodes t \<equiv> set (inorder t)"

section \<open>The interface\<close>

record 's nginx_core =
  ngx_crc32_short :: "bytes \<Rightarrow> u32"
  ngx_memn2cmp :: "bytes \<Rightarrow> bytes \<Rightarrow> int"
  ngx_rbtree_rebalance :: "addr \<Rightarrow> rbtree \<Rightarrow> rbtree"
  ngx_rbtree_delete :: "addr \<Rightarrow> rbtree \<Rightarrow> rbtree"
  ngx_slab_alloc_locked :: "'s \<Rightarrow> nat \<Rightarrow> (addr \<times> 's) option"
  ngx_slab_free_locked :: "'s \<Rightarrow> addr \<Rightarrow> 's"
  slab_live :: "'s \<Rightarrow> addr set"

definition memcmp_order :: "(bytes \<Rightarrow> bytes \<Rightarrow> int) \<Rightarrow> bool" where
  "memcmp_order m \<longleftrightarrow>
     (\<forall>x y. m x y = 0 \<longleftrightarrow> x = y) \<and> (\<forall>x y. m x y < 0 \<longleftrightarrow> 0 < m y x) \<and>
     (\<forall>x y z. m x y < 0 \<longrightarrow> m y z < 0 \<longrightarrow> m x z < 0)"

definition slab_ok :: "'s nginx_core \<Rightarrow> bool" where
  "slab_ok e \<longleftrightarrow>
     (\<forall>s n a s'. ngx_slab_alloc_locked e s n = Some (a, s') \<longrightarrow>
        a \<notin> slab_live e s \<and> slab_live e s' = insert a (slab_live e s)) \<and>
     (\<forall>s a. slab_live e (ngx_slab_free_locked e s a) = slab_live e s - {a})"

definition nginx_core_ok :: "'s nginx_core \<Rightarrow> bool" where
  "nginx_core_ok e \<longleftrightarrow> memcmp_order (ngx_memn2cmp e) \<and> slab_ok e \<and>
     (\<forall>a t. inorder (ngx_rbtree_rebalance e a t) = inorder t) \<and>
     (\<forall>a t. inorder (ngx_rbtree_delete e a t) = remove1 a (inorder t))"

lemma nginx_core_okD:
  assumes "nginx_core_ok e"
  shows inorder_rebalance: "inorder (ngx_rbtree_rebalance e a t) = inorder t"
    and inorder_rbtree_delete: "inorder (ngx_rbtree_delete e a t) = remove1 a (inorder t)"
    and slab_live_free: "slab_live e (ngx_slab_free_locked e s a) = slab_live e s - {a}"
  using assms by (auto simp: nginx_core_ok_def slab_ok_def)

lemma slab_allocD:
  assumes "nginx_core_ok e" and "ngx_slab_alloc_locked e s n = Some (a, s')"
  shows "a \<notin> slab_live e s" and "slab_live e s' = insert a (slab_live e s)"
  using assms by (auto simp: nginx_core_ok_def slab_ok_def)

lemma memn2cmpD:
  assumes "nginx_core_ok e"
  shows memn2cmp_eq [simp]: "ngx_memn2cmp e x y = 0 \<longleftrightarrow> x = y"
    and memn2cmp_flip: "ngx_memn2cmp e x y < 0 \<longleftrightarrow> 0 < ngx_memn2cmp e y x"
    and memn2cmp_trans:
      "ngx_memn2cmp e x y < 0 \<Longrightarrow> ngx_memn2cmp e y z < 0 \<Longrightarrow> ngx_memn2cmp e x z < 0"
  using assms unfolding nginx_core_ok_def memcmp_order_def by blast+

section \<open>A concrete instance\<close>

text \<open>
  One executable instance that satisfies the interface, for evaluating the model on concrete
  inputs: lexicographic comparison, no rebalancing, and a slab pool with a fixed number of
  cells. The hash is an argument, so that colliding and collision-free hashes can both be tried.
\<close>

fun demo_memn2cmp :: "bytes \<Rightarrow> bytes \<Rightarrow> int" where
  "demo_memn2cmp [] [] = 0"
| "demo_memn2cmp [] (_ # _) = -1"
| "demo_memn2cmp (_ # _) [] = 1"
| "demo_memn2cmp (x # xs) (y # ys) =
     (if x < y then -1 else if y < x then 1 else demo_memn2cmp xs ys)"

fun demo_tree :: "addr list \<Rightarrow> rbtree" where
  "demo_tree [] = Sentinel"
| "demo_tree (a # as) = Node Sentinel a False (demo_tree as)"

record demo_slab =
  cells :: nat
  in_use :: "addr list"

fun demo_fresh :: "addr list \<Rightarrow> addr" where
  "demo_fresh [] = 0"
| "demo_fresh (a # as) = max (Suc a) (demo_fresh as)"

definition demo_core :: "(bytes \<Rightarrow> u32) \<Rightarrow> demo_slab nginx_core" where
  "demo_core h = \<lparr>ngx_crc32_short = h, ngx_memn2cmp = demo_memn2cmp,
     ngx_rbtree_rebalance = (\<lambda>_ t. t),
     ngx_rbtree_delete = (\<lambda>a t. demo_tree (remove1 a (inorder t))),
     ngx_slab_alloc_locked = (\<lambda>s _. if length (in_use s) < cells s
        then Some (demo_fresh (in_use s), s\<lparr>in_use := demo_fresh (in_use s) # in_use s\<rparr>)
        else None),
     ngx_slab_free_locked = (\<lambda>s a. s\<lparr>in_use := filter (\<lambda>b. b \<noteq> a) (in_use s)\<rparr>),
     slab_live = (\<lambda>s. set (in_use s))\<rparr>"

lemma demo_core_sel [simp]:
  "ngx_crc32_short (demo_core h) = h"
  "ngx_memn2cmp (demo_core h) = demo_memn2cmp"
  "ngx_rbtree_rebalance (demo_core h) a t = t"
  "ngx_rbtree_delete (demo_core h) a t = demo_tree (remove1 a (inorder t))"
  "ngx_slab_alloc_locked (demo_core h) s n = (if length (in_use s) < cells s
        then Some (demo_fresh (in_use s), s\<lparr>in_use := demo_fresh (in_use s) # in_use s\<rparr>)
        else None)"
  "ngx_slab_free_locked (demo_core h) s a = s\<lparr>in_use := filter (\<lambda>b. b \<noteq> a) (in_use s)\<rparr>"
  "slab_live (demo_core h) s = set (in_use s)"
  by (simp_all add: demo_core_def)

lemma demo_memn2cmp_eq: "demo_memn2cmp x y = 0 \<longleftrightarrow> x = y"
  by (induction x y rule: demo_memn2cmp.induct) auto

lemma demo_memn2cmp_flip: "demo_memn2cmp x y < 0 \<longleftrightarrow> 0 < demo_memn2cmp y x"
  by (induction x y rule: demo_memn2cmp.induct) auto

lemma demo_memn2cmp_trans:
  "demo_memn2cmp x y < 0 \<Longrightarrow> demo_memn2cmp y z < 0 \<Longrightarrow> demo_memn2cmp x z < 0"
proof (induction x y arbitrary: z rule: demo_memn2cmp.induct)
  case (4 a as b bs)
  then show ?case by (cases z) (auto split: if_splits)
next
  case (2 b bs)
  then show ?case by (cases z) auto
qed auto

lemma inorder_demo_tree [simp]: "inorder (demo_tree as) = as"
  by (induction as) auto

lemma demo_fresh_above: "a \<in> set as \<Longrightarrow> a < demo_fresh as"
  by (induction as) auto

lemma demo_fresh_notin: "demo_fresh as \<notin> set as"
  using demo_fresh_above by blast

lemma demo_core_ok: "nginx_core_ok (demo_core h)"
proof -
  have "memcmp_order demo_memn2cmp"
    unfolding memcmp_order_def
    using demo_memn2cmp_eq demo_memn2cmp_flip demo_memn2cmp_trans by blast
  then show ?thesis
    by (auto simp: nginx_core_ok_def slab_ok_def demo_fresh_notin split: if_splits)
qed

end
