(* ===== verification/RBTree.thy ===== *)
theory RBTree
  imports NginxCore
begin

text \<open>
  The contract between an nginx red-black tree and the module's two comparison callbacks: the
  insertion callback walks to a leaf, the lookup walks by its own comparison. The locale
  \<open>rbtree_walk\<close> states the walks by their equations; its lemmas say where an insertion puts
  the node in the in-order sequence, when that keeps the sequence sorted, and when the lookup
  finds exactly the node that compares equal. Both stores (key-value and metrics) interpret it
  on their own insertion and lookup functions.
\<close>

section \<open>Insertion at a leaf\<close>

locale rbtree_insertion =
  fixes ins :: "rbtree \<Rightarrow> addr \<Rightarrow> rbtree"
    and goes_left :: "addr \<Rightarrow> addr \<Rightarrow> bool"
  assumes ins_Sentinel: "ins Sentinel n = Node Sentinel n True Sentinel"
    and ins_Node: "ins (Node l t c r) n =
      (if goes_left n t then Node (ins l n) t c r else Node l t c (ins r n))"
begin

lemma inorder_ins:
  "\<exists>xs ys. inorder t = xs @ ys \<and> inorder (ins t n) = xs @ n # ys"
proof (induction t)
  case Sentinel
  show ?case by (simp add: ins_Sentinel)
next
  case (Node l a c r)
  show ?case
  proof (cases "goes_left n a")
    case True
    from Node(1) obtain xs ys where "inorder l = xs @ ys" "inorder (ins l n) = xs @ n # ys"
      by blast
    with True have "inorder (Node l a c r) = xs @ (ys @ a # inorder r) \<and>
        inorder (ins (Node l a c r) n) = xs @ n # (ys @ a # inorder r)"
      by (simp add: ins_Node)
    then show ?thesis by blast
  next
    case False
    from Node(2) obtain xs ys where "inorder r = xs @ ys" "inorder (ins r n) = xs @ n # ys"
      by blast
    with False have "inorder (Node l a c r) = (inorder l @ a # xs) @ ys \<and>
        inorder (ins (Node l a c r) n) = (inorder l @ a # xs) @ n # ys"
      by (simp add: ins_Node)
    then show ?thesis by blast
  qed
qed

lemma nodes_ins [simp]: "nodes (ins t n) = insert n (nodes t)"
  using inorder_ins [of t n] by auto

lemma distinct_ins: "distinct (inorder t) \<Longrightarrow> n \<notin> nodes t \<Longrightarrow> distinct (inorder (ins t n))"
  using inorder_ins [of t n] by auto

text \<open>
  When the callback's direction is that of an order on the nodes present, the sequence stays
  sorted by that order.
\<close>

lemma sorted_ins:
  assumes "sorted_wrt lt (inorder t)"
    and "\<And>a. a \<in> nodes t \<Longrightarrow> goes_left n a \<longleftrightarrow> lt n a"
    and "\<And>a. a \<in> nodes t \<Longrightarrow> \<not> lt n a \<Longrightarrow> lt a n"
    and "\<And>a b. lt n a \<Longrightarrow> lt a b \<Longrightarrow> lt n b"
    and "\<And>a b. lt a b \<Longrightarrow> lt b n \<Longrightarrow> lt a n"
  shows "sorted_wrt lt (inorder (ins t n))"
  using assms(1-3)
proof (induction t)
  case Sentinel
  show ?case by (simp add: ins_Sentinel)
next
  case (Node l a c r)
  show ?case
  proof (cases "goes_left n a")
    case True
    with Node.prems have "lt n a" by simp
    moreover have "sorted_wrt lt (inorder (ins l n))"
      using Node by (simp add: sorted_wrt_append)
    ultimately show ?thesis
      using True Node.prems(1) assms(4) by (auto simp: ins_Node sorted_wrt_append)
  next
    case False
    with Node.prems have "lt a n" by simp
    moreover have "sorted_wrt lt (inorder (ins r n))"
      using Node by (simp add: sorted_wrt_append)
    ultimately show ?thesis
      using False Node.prems(1) assms(5) by (auto simp: ins_Node sorted_wrt_append)
  qed
qed

text \<open>
  Whatever the nodes are, the sequence stays in the order of the callback itself, if that is a
  weak order: no node comes after one that it would be put to the left of.
\<close>

lemma sorted_ins_weak:
  assumes "\<And>a b. goes_left a b \<Longrightarrow> \<not> goes_left b a" and "\<And>a b c. \<not> goes_left a b \<Longrightarrow> \<not> goes_left b c \<Longrightarrow> \<not> goes_left a c"
    and "sorted_wrt (\<lambda>a b. \<not> goes_left b a) (inorder t)"
  shows "sorted_wrt (\<lambda>a b. \<not> goes_left b a) (inorder (ins t n))"
  using assms(3)
proof (induction t)
  case Sentinel
  show ?case by (simp add: ins_Sentinel)
next
  case (Node l a c r)
  then have IH: "sorted_wrt (\<lambda>a b. \<not> goes_left b a) (inorder (ins l n))"
      "sorted_wrt (\<lambda>a b. \<not> goes_left b a) (inorder (ins r n))"
    by (simp_all add: sorted_wrt_append)
  show ?case
  proof (cases "goes_left n a")
    case True
    then show ?thesis
      using IH(1) Node.prems assms(1) [OF True] assms(2) by (auto simp: ins_Node sorted_wrt_append)
  next
    case False
    then show ?thesis
      using IH(2) Node.prems assms(2) [OF False] by (auto simp: ins_Node sorted_wrt_append)
  qed
qed

end

section \<open>Search\<close>

text \<open>
  \<open>probe a\<close> is the sign of comparing the sought key with node \<open>a\<close>. The search is right when
  the signs along the in-order sequence are positive, then at most once zero, then negative.
\<close>

definition probe_sorted :: "(addr \<Rightarrow> int) \<Rightarrow> addr list \<Rightarrow> bool" where
  "probe_sorted probe as \<longleftrightarrow> sorted_wrt (\<lambda>a b. probe a \<le> 0 \<longrightarrow> probe b < 0) as"

locale rbtree_search =
  fixes look :: "rbtree \<Rightarrow> addr option"
    and probe :: "addr \<Rightarrow> int"
  assumes look_Sentinel: "look Sentinel = None"
    and look_Node: "look (Node l a c r) =
      (if probe a < 0 then look l else if probe a > 0 then look r else Some a)"
begin

lemma look_sound: "look t = Some a \<Longrightarrow> a \<in> nodes t \<and> probe a = 0"
  by (induction t) (auto simp: look_Sentinel look_Node split: if_splits)

lemma look_complete:
  assumes "probe_sorted probe (inorder t)" and "a \<in> nodes t" and "probe a = 0"
  shows "look t = Some a"
  using assms
proof (induction t)
  case Sentinel
  then show ?case by simp
next
  case (Node l b c r)
  have ps: "probe_sorted probe (inorder l)" "probe_sorted probe (inorder r)"
    using Node.prems(1) by (auto simp: probe_sorted_def sorted_wrt_append)
  consider "a \<in> nodes l" | "a = b" | "a \<in> nodes r" using Node.prems(2) by auto
  then show ?case
  proof cases
    case 1
    with Node.prems have "probe b < 0" by (fastforce simp: probe_sorted_def sorted_wrt_append)
    with 1 Node.IH(1) ps(1) Node.prems(3) show ?thesis by (simp add: look_Node)
  next
    case 2
    with Node.prems(3) show ?thesis by (simp add: look_Node)
  next
    case 3
    with Node.prems have "0 < probe b"
      by (force simp: probe_sorted_def sorted_wrt_append not_less)
    with 3 Node.IH(2) ps(2) Node.prems(3) show ?thesis by (simp add: look_Node)
  qed
qed

lemma look_iff:
  assumes "probe_sorted probe (inorder t)"
  shows "look t = Some a \<longleftrightarrow> a \<in> nodes t \<and> probe a = 0"
  using assms look_sound look_complete by blast

lemma look_None:
  assumes "probe_sorted probe (inorder t)"
  shows "look t = None \<longleftrightarrow> (\<forall>a \<in> nodes t. probe a \<noteq> 0)"
  using look_iff [OF assms] by (metis not_None_eq)

end

text \<open>
  Two searches, for a greater and a smaller key: when both succeed, the smaller key's node comes
  first, in whatever way the nodes are ordered.
\<close>

lemma search_antimono:
  assumes "rbtree_search look1 p1" "rbtree_search look2 p2" and "\<And>a. p1 a \<le> 0 \<Longrightarrow> p2 a < 0"
    and "sorted_wrt R (inorder t)" "look1 t = Some a" "look2 t = Some b"
  shows "R b a"
  using assms(4-6)
proof (induction t)
  case Sentinel
  then show ?case using rbtree_search.look_Sentinel [OF assms(1)] by simp
next
  case (Node l c col r)
  note step = rbtree_search.look_Node [OF assms(1)] rbtree_search.look_Node [OF assms(2)]
  note sound = rbtree_search.look_sound [OF assms(1)] rbtree_search.look_sound [OF assms(2)]
  show ?case
  proof (cases "p1 c" "0 :: int" rule: linorder_cases)
    case less
    with assms(3) [of c] Node show ?thesis by (auto simp: step sorted_wrt_append)
  next
    case equal
    with assms(3) [of c] Node.prems sound(2) [of l b] show ?thesis by (auto simp: step sorted_wrt_append)
  next
    case greater
    with Node sound(1) [of r a] sound(2) [of l b] show ?thesis
      by (auto simp: step sorted_wrt_append split: if_splits)
  qed
qed

section \<open>Nodes ordered by hash and key\<close>

text \<open>
  Both stores order their nodes by hash and then by \<^verbatim>\<open>ngx_memn2cmp\<close> on the keys; \<open>h\<close> and \<open>k\<close>
  read a node's hash and key. The lookup's probe along a sequence sorted by this order changes
  its sign once.
\<close>

definition hk_less ::
  "'s nginx_core \<Rightarrow> (addr \<Rightarrow> u32) \<Rightarrow> (addr \<Rightarrow> bytes) \<Rightarrow> addr \<Rightarrow> addr \<Rightarrow> bool" where
  "hk_less e h k a b \<longleftrightarrow> h a < h b \<or> h a = h b \<and> ngx_memn2cmp e (k a) (k b) < 0"

definition hk_probe ::
  "'s nginx_core \<Rightarrow> (addr \<Rightarrow> u32) \<Rightarrow> (addr \<Rightarrow> bytes) \<Rightarrow> bytes \<Rightarrow> u32 \<Rightarrow> addr \<Rightarrow> int" where
  "hk_probe e h k key hash a =
     (if hash < h a then -1 else if hash > h a then 1 else ngx_memn2cmp e key (k a))"

lemma hk_less_trans:
  assumes "nginx_core_ok e" and "hk_less e h k a b" and "hk_less e h k b c"
  shows "hk_less e h k a c"
  using assms(2,3) memn2cmp_trans [OF assms(1), of "k a" "k b" "k c"]
  unfolding hk_less_def by (auto intro: less_trans)

lemma hk_less_total:
  assumes ok: "nginx_core_ok e" and "k a \<noteq> k b" and "\<not> hk_less e h k a b"
  shows "hk_less e h k b a"
  using assms(2,3) memn2cmp_eq [OF ok, of "k a" "k b"] memn2cmp_flip [OF ok, of "k b" "k a"]
  by (auto simp: hk_less_def not_less_iff_gr_or_eq)

lemma hk_probe_sorted:
  assumes ok: "nginx_core_ok e" and "sorted_wrt (hk_less e h k) as"
  shows "probe_sorted (hk_probe e h k key hash) as"
  unfolding probe_sorted_def
proof (rule sorted_wrt_mono_rel [OF _ assms(2)])
  fix a b
  assume "hk_less e h k a b"
  then show "hk_probe e h k key hash a \<le> 0 \<longrightarrow> hk_probe e h k key hash b < 0"
    using memn2cmp_trans [OF ok, of key "k a" "k b"] memn2cmp_eq [OF ok]
    by (auto simp: hk_less_def hk_probe_def le_less split: if_splits)
qed

lemma hk_probe_0:
  assumes "nginx_core_ok e" and "h a = ngx_crc32_short e (k a)"
  shows "hk_probe e h k key (ngx_crc32_short e key) a = 0 \<longleftrightarrow> k a = key"
  using assms by (cases "k a = key") (simp_all add: hk_probe_def)

lemma hk_sorted_cong:
  assumes "\<And>a. a \<in> set as \<Longrightarrow> h a = h' a \<and> k a = k' a"
  shows "sorted_wrt (hk_less e h k) as = sorted_wrt (hk_less e h' k') as"
  using assms by (induction as) (auto simp: hk_less_def)

end
