(* ===== verification/Shm.thy ===== *)
theory Shm
  imports RBTree
begin

text \<open>
  The shared-memory key-value store, \<^verbatim>\<open>src/ngx_http_wasm_shm.c\<close>: the entries of a zone are
  nodes of a red-black tree ordered by hash and key and members of an LRU queue; they live in
  a slab pool shared by the workers under one mutex. This theory holds the data and every
  operation, in the order of the source; the proofs are in \<open>Shm_Correct\<close>.
\<close>

section \<open>Data\<close>

text \<open>
  \<^verbatim>\<open>ngx_http_wasm_shm_node_t\<close>: the key and then the value are stored in \<open>data\<close>. The tree
  links and the queue links of the node are the tree and the queue of the segment.
\<close>

record shm_node =
  hash_key :: u32
  key_len :: nat
  value_len :: nat
  expires_at_msec :: u64
  data :: bytes

definition entry_key :: "shm_node \<Rightarrow> bytes" where
  "entry_key n = take (key_len n) (data n)"

definition entry_value :: "shm_node \<Rightarrow> bytes" where
  "entry_value n = take (value_len n) (drop (key_len n) (data n))"

text \<open>
  The shared segment: the slab allocator's state, whether \<^verbatim>\<open>shpool->data\<close> points to a
  \<^verbatim>\<open>ngx_http_wasm_shm_ctx_t\<close> yet, that context's tree and LRU queue (most recently used
  first), and the node stored at each address. A zone is the worker's handle: its
  \<^verbatim>\<open>shpool\<close> pointer and whether its \<^verbatim>\<open>sh\<close> pointer is set.
\<close>

record 's shm_seg =
  slab :: 's
  pool_data :: bool
  rb_root :: rbtree
  lru_queue :: "addr list"
  entries :: "addr \<Rightarrow> shm_node"

record 's shm_zone =
  shpool :: "'s shm_seg option"
  sh_set :: bool

definition NGX_HTTP_WASM_SHM_MAX_KEY_LEN :: nat where "NGX_HTTP_WASM_SHM_MAX_KEY_LEN = 256"
definition NGX_HTTP_WASM_SHM_MAX_VALUE_LEN :: nat where "NGX_HTTP_WASM_SHM_MAX_VALUE_LEN = 65535"

text \<open>
  Sizes of the two allocated structures on an LP64 target: \<^verbatim>\<open>sizeof(ngx_http_wasm_shm_ctx_t)\<close>
  and \<^verbatim>\<open>offsetof(ngx_http_wasm_shm_node_t, data)\<close>.
\<close>

definition shm_ctx_size :: nat where "shm_ctx_size = 80"
definition shm_node_data_offset :: nat where "shm_node_data_offset = 80"

definition set_node :: "'s shm_seg \<Rightarrow> addr \<Rightarrow> shm_node \<Rightarrow> 's shm_seg" where
  "set_node seg a n = seg\<lparr>entries := (entries seg)(a := n)\<rparr>"

section \<open>Zone configuration and initialisation\<close>

text \<open>
  The zone as the configuration declares it. \<open>pcalloc\<close> tells whether the allocation of the zone
  context succeeds, \<open>add\<close> is \<^verbatim>\<open>ngx_shared_memory_add\<close> with whether the segment it returns
  already belongs to a zone context.
\<close>

record 'd zone_conf =
  zc_name :: bytes
  zc_size :: nat
  zc_definitions :: 'd

definition shm_add_zone ::
  "unit zone_conf option \<Rightarrow> bool \<Rightarrow> (bytes \<Rightarrow> nat \<Rightarrow> bool option) \<Rightarrow> bytes \<Rightarrow> nat
     \<Rightarrow> conf_rv \<times> unit zone_conf option" where
  "shm_add_zone dst pcalloc add name sz =
     (if dst \<noteq> None then (ConfMessage ''is duplicate'', dst)
      else if \<not> pcalloc then (ConfError, dst)
      else (case add name sz of
              None \<Rightarrow> (ConfError, dst)
            | Some data_set \<Rightarrow>
                if data_set then (ConfError, dst)
                else (ConfOk, Some \<lparr>zc_name = name, zc_size = sz, zc_definitions = ()\<rparr>)))"

text \<open>
  \<open>old\<close> is the zone of the previous configuration cycle, if it is being reused. The segment a
  zone is mapped to is \<open>seg\<close>; the result is the return code, the zone and the segment.
\<close>

definition shm_init_zone ::
  "'s nginx_core \<Rightarrow> 's shm_seg \<Rightarrow> 's shm_zone option \<Rightarrow> int \<times> 's shm_zone" where
  "shm_init_zone e seg old =
     (case old of
        Some oz \<Rightarrow> (NGX_OK, \<lparr>shpool = Some seg, sh_set = sh_set oz\<rparr>)
      | None \<Rightarrow>
          if pool_data seg then (NGX_OK, \<lparr>shpool = Some seg, sh_set = True\<rparr>)
          else (case ngx_slab_alloc_locked e (slab seg) shm_ctx_size of
              None \<Rightarrow> (NGX_ERROR, \<lparr>shpool = Some seg, sh_set = False\<rparr>)
            | Some (_, s') \<Rightarrow>
                (NGX_OK, \<lparr>shpool = Some (seg\<lparr>slab := s', pool_data := True,
                            rb_root := Sentinel, lru_queue := []\<rparr>), sh_set = True\<rparr>)))"

section \<open>Tree walks\<close>

text \<open>
  The insertion callback orders nodes by hash, then by key length, then by
  \<^verbatim>\<open>ngx_memn2cmp\<close>; a negative result sends the new node to the left.
\<close>

definition shm_insert_rc :: "'s nginx_core \<Rightarrow> shm_node \<Rightarrow> shm_node \<Rightarrow> int" where
  "shm_insert_rc e n t =
     (if hash_key n < hash_key t then -1
      else if hash_key n > hash_key t then 1
      else if key_len n < key_len t then -1
      else if key_len n > key_len t then 1
      else ngx_memn2cmp e (entry_key n) (entry_key t))"

fun shm_rbtree_insert_value ::
  "'s nginx_core \<Rightarrow> (addr \<Rightarrow> shm_node) \<Rightarrow> rbtree \<Rightarrow> addr \<Rightarrow> rbtree" where
  "shm_rbtree_insert_value e m Sentinel n = Node Sentinel n True Sentinel"
| "shm_rbtree_insert_value e m (Node l temp c r) n =
     (if shm_insert_rc e (m n) (m temp) < 0
      then Node (shm_rbtree_insert_value e m l n) temp c r
      else Node l temp c (shm_rbtree_insert_value e m r n))"

text \<open>The lookup compares hashes, and then keys with \<^verbatim>\<open>ngx_memn2cmp\<close> alone.\<close>

fun shm_lookup ::
  "'s nginx_core \<Rightarrow> (addr \<Rightarrow> shm_node) \<Rightarrow> rbtree \<Rightarrow> bytes \<Rightarrow> u32 \<Rightarrow> addr option" where
  "shm_lookup e m Sentinel key hash = None"
| "shm_lookup e m (Node l a c r) key hash =
     (if hash < hash_key (m a) then shm_lookup e m l key hash
      else if hash > hash_key (m a) then shm_lookup e m r key hash
      else (let rc = ngx_memn2cmp e key (entry_key (m a))
            in if rc = 0 then Some a
               else if rc < 0 then shm_lookup e m l key hash
               else shm_lookup e m r key hash))"

section \<open>Operations under the mutex\<close>

definition shm_is_expired :: "shm_node \<Rightarrow> u64 \<Rightarrow> bool" where
  "shm_is_expired n now = (if expires_at_msec n = 0 then False else expires_at_msec n \<le> now)"

definition shm_delete_locked :: "'s nginx_core \<Rightarrow> 's shm_seg \<Rightarrow> addr \<Rightarrow> 's shm_seg" where
  "shm_delete_locked e seg a =
     seg\<lparr>lru_queue := remove1 a (lru_queue seg),
         rb_root := ngx_rbtree_delete e a (rb_root seg),
         slab := ngx_slab_free_locked e (slab seg) a\<rparr>"

definition shm_touch_locked :: "'s shm_seg \<Rightarrow> addr \<Rightarrow> 's shm_seg" where
  "shm_touch_locked seg a = seg\<lparr>lru_queue := a # remove1 a (lru_queue seg)\<rparr>"

definition shm_evict_lru_locked ::
  "'s nginx_core \<Rightarrow> 's shm_seg \<Rightarrow> addr option \<Rightarrow> int \<times> 's shm_seg" where
  "shm_evict_lru_locked e seg skip =
     (if lru_queue seg = [] then (NGX_DECLINED, seg)
      else (case find (\<lambda>a. Some a \<noteq> skip) (rev (lru_queue seg)) of
              None \<Rightarrow> (NGX_DECLINED, seg)
            | Some a \<Rightarrow> (NGX_OK, shm_delete_locked e seg a)))"

text \<open>The allocation loop, with the attempts left; each failed attempt evicts one entry.\<close>

fun shm_alloc_attempts ::
  "'s nginx_core \<Rightarrow> nat \<Rightarrow> nat \<Rightarrow> addr option \<Rightarrow> 's shm_seg \<Rightarrow> addr option \<times> 's shm_seg" where
  "shm_alloc_attempts e 0 sz skip seg = (None, seg)"
| "shm_alloc_attempts e (Suc k) sz skip seg =
     (case ngx_slab_alloc_locked e (slab seg) sz of
        Some (a, s') \<Rightarrow> (Some a, seg\<lparr>slab := s'\<rparr>)
      | None \<Rightarrow>
          (case shm_evict_lru_locked e seg skip of
             (rc, seg') \<Rightarrow>
               if rc \<noteq> NGX_OK then (None, seg')
               else shm_alloc_attempts e k sz skip seg'))"

definition shm_alloc_node ::
  "'s nginx_core \<Rightarrow> 's shm_seg \<Rightarrow> bytes \<Rightarrow> bytes \<Rightarrow> u32 \<Rightarrow> addr option
     \<Rightarrow> addr option \<times> 's shm_seg" where
  "shm_alloc_node e seg key value hash skip =
     (case shm_alloc_attempts e 32 (shm_node_data_offset + length key + length value) skip seg of
        (None, seg') \<Rightarrow> (None, seg')
      | (Some a, seg') \<Rightarrow>
          (Some a, set_node seg' a
             \<lparr>hash_key = hash, key_len = length key, value_len = length value,
              expires_at_msec = 0, data = key @ value\<rparr>))"

definition shm_key_valid :: "'s shm_zone option \<Rightarrow> bytes \<Rightarrow> bool" where
  "shm_key_valid zone key =
     (case zone of
        None \<Rightarrow> False
      | Some z \<Rightarrow> shpool z \<noteq> None \<and> sh_set z \<and> length key \<noteq> 0 \<and>
                  length key \<le> NGX_HTTP_WASM_SHM_MAX_KEY_LEN)"

definition mem_write :: "bytes \<Rightarrow> nat \<Rightarrow> bytes \<Rightarrow> bytes" where
  "mem_write d off v = take off d @ v @ drop (off + length v) d"

text \<open>Linking a node: into the tree, with nginx's rebalancing, and at the head of the queue.\<close>

definition shm_insert :: "'s nginx_core \<Rightarrow> 's shm_seg \<Rightarrow> addr \<Rightarrow> 's shm_seg" where
  "shm_insert e seg a =
     seg\<lparr>rb_root := ngx_rbtree_rebalance e a
           (shm_rbtree_insert_value e (entries seg) (rb_root seg) a),
         lru_queue := a # lru_queue seg\<rparr>"

text \<open>
  The tail of \<^verbatim>\<open>shm_set_locked\<close>: allocate a node (never evicting \<open>existing\<close>), drop the node
  it replaces, and link it.
\<close>

definition shm_store_new ::
  "'s nginx_core \<Rightarrow> 's shm_seg \<Rightarrow> bytes \<Rightarrow> bytes \<Rightarrow> u64 \<Rightarrow> u32 \<Rightarrow> addr option
     \<Rightarrow> int \<times> 's shm_seg" where
  "shm_store_new e seg key value expires hash existing =
     (case shm_alloc_node e seg key value hash existing of
        (None, seg) \<Rightarrow> (NGX_HTTP_WASM_ERROR, seg)
      | (Some a, seg) \<Rightarrow>
          (let seg = set_node seg a ((entries seg a)\<lparr>expires_at_msec := expires\<rparr>);
               seg = (case existing of Some x \<Rightarrow> shm_delete_locked e seg x | None \<Rightarrow> seg)
           in (NGX_HTTP_WASM_OK, shm_insert e seg a)))"

definition shm_set_locked ::
  "'s nginx_core \<Rightarrow> u64 \<Rightarrow> 's shm_seg \<Rightarrow> bytes \<Rightarrow> bytes \<Rightarrow> u64 \<Rightarrow> u32 \<Rightarrow> bool \<Rightarrow> bool
     \<Rightarrow> int \<times> 's shm_seg" where
  "shm_set_locked e now seg key value expires hash require_exists require_missing =
     (let found = shm_lookup e (entries seg) (rb_root seg) key hash;
          (existing, seg) =
            (case found of
               Some x \<Rightarrow> if shm_is_expired (entries seg x) now
                         then (None, shm_delete_locked e seg x) else (Some x, seg)
             | None \<Rightarrow> (None, seg))
      in if require_exists \<and> existing = None then (NGX_HTTP_WASM_NOT_FOUND, seg)
         else if require_missing \<and> existing \<noteq> None then (NGX_HTTP_WASM_NOT_FOUND, seg)
         else (case existing of
             Some x \<Rightarrow>
               if value_len (entries seg x) = length value
               then (let n = entries seg x
                     in (NGX_HTTP_WASM_OK,
                         shm_touch_locked
                           (set_node seg x (n\<lparr>data := mem_write (data n) (key_len n) value,
                                              expires_at_msec := expires\<rparr>)) x))
               else shm_store_new e seg key value expires hash existing
           | None \<Rightarrow> shm_store_new e seg key value expires hash existing))"

section \<open>Decimal integers\<close>

text \<open>
  \<^verbatim>\<open>int32_t\<close> values are 32-bit words read by \<open>sint\<close>; the parser's accumulator is compared as
  \<^verbatim>\<open>uint32_t\<close>, which is the word's unsigned reading. Signed overflow wraps in the model;
  \<open>Shm_Correct\<close> shows the one input on which it happens.
\<close>

definition INT32_MIN :: int where "INT32_MIN = - (2 ^ 31)"
definition INT32_MAX :: int where "INT32_MAX = 2 ^ 31 - 1"

definition digit_of :: "byte \<Rightarrow> u32" where
  "digit_of ch = ucast (ch - 0x30)"

definition digit_too_big :: "u32 \<Rightarrow> u32 \<Rightarrow> u32 \<Rightarrow> bool" where
  "digit_too_big limit result digit \<longleftrightarrow>
     result > limit div 10 \<or> (result = limit div 10 \<and> digit > limit mod 10)"

fun shm_parse_digits :: "u32 \<Rightarrow> bytes \<Rightarrow> u32 \<Rightarrow> u32 option" where
  "shm_parse_digits limit [] result = Some result"
| "shm_parse_digits limit (ch # cs) result =
     (if ch < 0x30 \<or> ch > 0x39 then None
      else if digit_too_big limit result (digit_of ch) then None
      else shm_parse_digits limit cs (result * 10 + digit_of ch))"

definition shm_parse_i32 :: "bytes \<Rightarrow> u32 option" where
  "shm_parse_i32 d =
     (case d of
        [] \<Rightarrow> None
      | c # rest \<Rightarrow>
          if c = 0x2D
          then (if rest = [] then None
                else (case shm_parse_digits 2147483648 rest 0 of
                        None \<Rightarrow> None
                      | Some r \<Rightarrow> Some (if r = 2147483648 then word_of_int INT32_MIN else - r)))
          else shm_parse_digits 2147483647 d 0)"

text \<open>The digits of the magnitude, least significant first: the \<^verbatim>\<open>do ... while\<close> loop into \<^verbatim>\<open>tmp\<close>.\<close>

function shm_format_tmp :: "u32 \<Rightarrow> bytes" where
  "shm_format_tmp magnitude =
     (let d = 0x30 + ucast (magnitude mod 10)
      in if magnitude div 10 = 0 then [d] else d # shm_format_tmp (magnitude div 10))"
  by pat_completeness auto
termination
proof (relation "measure unat")
  fix m :: u32 and x :: byte
  assume "m div 10 \<noteq> 0"
  then have "unat (m div 10) \<noteq> 0" by (simp add: unat_eq_0)
  then have "unat m div 10 \<noteq> 0" by (simp add: unat_div)
  then have "unat m div 10 < unat m" by simp
  then show "(m div 10, m) \<in> measure unat" by (simp add: unat_div)
qed simp

declare shm_format_tmp.simps [simp del]

definition shm_magnitude :: "u32 \<Rightarrow> u32" where
  "shm_magnitude v = (if v <s 0 then - (v + 1) + 1 else v)"

definition shm_format_i32 :: "u32 \<Rightarrow> bytes" where
  "shm_format_i32 v =
     (let tmp = shm_format_tmp (shm_magnitude v)
      in if v <s 0 then 0x2D # rev tmp else rev tmp)"

section \<open>The public operations\<close>

text \<open>
  Every operation validates zone and key, takes the mutex, works on the segment and releases
  it: \<open>shm_section\<close> runs a body on the segment the zone points to and stores the result, or
  returns the error value of an invalid call. Keys, values and buffers are passed by
  (pointer, length); the pointers come from guest memory and are not NULL.
\<close>

definition shm_section ::
  "'s shm_zone option \<Rightarrow> bytes \<Rightarrow> 'r \<Rightarrow> ('s shm_seg \<Rightarrow> 'r \<times> 's shm_seg) \<Rightarrow> 'r \<times> 's shm_zone option" where
  "shm_section zone key err body =
     (if \<not> shm_key_valid zone key then (err, zone)
      else (case zone of
              Some z \<Rightarrow>
                (case shpool z of
                   Some seg \<Rightarrow> (case body seg of (r, seg') \<Rightarrow> (r, Some (z\<lparr>shpool := Some seg'\<rparr>)))
                 | None \<Rightarrow> (err, zone))
            | None \<Rightarrow> (err, zone)))"

definition shm_get_locked ::
  "'s nginx_core \<Rightarrow> u64 \<Rightarrow> bytes \<Rightarrow> bytes \<Rightarrow> 's shm_seg \<Rightarrow> (int \<times> bytes) \<times> 's shm_seg" where
  "shm_get_locked e now key buf seg =
     (case shm_lookup e (entries seg) (rb_root seg) key (ngx_crc32_short e key) of
        None \<Rightarrow> ((NGX_HTTP_WASM_NOT_FOUND, buf), seg)
      | Some a \<Rightarrow>
          (let n = entries seg a
           in if shm_is_expired n now
              then ((NGX_HTTP_WASM_NOT_FOUND, buf), shm_delete_locked e seg a)
              else ((int (value_len n), copy_out (entry_value n) buf), shm_touch_locked seg a)))"

definition shm_get ::
  "'s nginx_core \<Rightarrow> u64 \<Rightarrow> 's shm_zone option \<Rightarrow> bytes \<Rightarrow> bytes
     \<Rightarrow> (int \<times> bytes) \<times> 's shm_zone option" where
  "shm_get e now zone key buf =
     shm_section zone key (NGX_HTTP_WASM_ERROR, buf) (shm_get_locked e now key buf)"

definition shm_exists_locked ::
  "'s nginx_core \<Rightarrow> u64 \<Rightarrow> bytes \<Rightarrow> 's shm_seg \<Rightarrow> int \<times> 's shm_seg" where
  "shm_exists_locked e now key seg =
     (case shm_lookup e (entries seg) (rb_root seg) key (ngx_crc32_short e key) of
        None \<Rightarrow> (0, seg)
      | Some a \<Rightarrow>
          if shm_is_expired (entries seg a) now then (0, shm_delete_locked e seg a)
          else (1, shm_touch_locked seg a))"

definition shm_exists ::
  "'s nginx_core \<Rightarrow> u64 \<Rightarrow> 's shm_zone option \<Rightarrow> bytes \<Rightarrow> int \<times> 's shm_zone option" where
  "shm_exists e now zone key =
     shm_section zone key NGX_HTTP_WASM_ERROR (shm_exists_locked e now key)"

definition shm_incr_locked ::
  "'s nginx_core \<Rightarrow> u64 \<Rightarrow> bytes \<Rightarrow> int \<Rightarrow> 's shm_seg \<Rightarrow> int \<times> 's shm_seg" where
  "shm_incr_locked e now key delta32 seg =
     (let hash = ngx_crc32_short e key
      in case shm_lookup e (entries seg) (rb_root seg) key hash of
        None \<Rightarrow> (NGX_HTTP_WASM_ERROR, seg)
      | Some a \<Rightarrow>
          (let n = entries seg a
           in if shm_is_expired n now then (NGX_HTTP_WASM_ERROR, shm_delete_locked e seg a)
              else (case shm_parse_i32 (entry_value n) of
                  None \<Rightarrow> (NGX_HTTP_WASM_ERROR, seg)
                | Some current \<Rightarrow>
                    (let sum = sint current + delta32
                     in if sum < INT32_MIN \<or> sum > INT32_MAX then (NGX_HTTP_WASM_ERROR, seg)
                        else (case shm_set_locked e now seg key
                                     (shm_format_i32 (word_of_int sum))
                                     (expires_at_msec n) hash True False of
                                (rc, seg') \<Rightarrow>
                                  if rc \<noteq> NGX_HTTP_WASM_OK then (rc, seg') else (sum, seg'))))))"

definition shm_incr ::
  "'s nginx_core \<Rightarrow> u64 \<Rightarrow> 's shm_zone option \<Rightarrow> bytes \<Rightarrow> int \<Rightarrow> int \<times> 's shm_zone option" where
  "shm_incr e now zone key delta =
     (if delta < INT32_MIN \<or> delta > INT32_MAX then (NGX_HTTP_WASM_ERROR, zone)
      else shm_section zone key NGX_HTTP_WASM_ERROR (shm_incr_locked e now key delta))"

definition shm_set_section ::
  "'s nginx_core \<Rightarrow> u64 \<Rightarrow> 's shm_zone option \<Rightarrow> bytes \<Rightarrow> bytes \<Rightarrow> u64 \<Rightarrow> bool \<Rightarrow> bool
     \<Rightarrow> int \<times> 's shm_zone option" where
  "shm_set_section e now zone key value expires require_exists require_missing =
     (if length value > NGX_HTTP_WASM_SHM_MAX_VALUE_LEN then (NGX_HTTP_WASM_ERROR, zone)
      else shm_section zone key NGX_HTTP_WASM_ERROR
             (\<lambda>seg. shm_set_locked e now seg key value expires (ngx_crc32_short e key)
                      require_exists require_missing))"

definition shm_set ::
  "'s nginx_core \<Rightarrow> u64 \<Rightarrow> 's shm_zone option \<Rightarrow> bytes \<Rightarrow> bytes \<Rightarrow> int \<times> 's shm_zone option" where
  "shm_set e now zone key value = shm_set_section e now zone key value 0 False False"

definition shm_expires_at :: "u64 \<Rightarrow> u64 \<Rightarrow> u64" where
  "shm_expires_at now ttl_msec =
     (if ttl_msec \<noteq> 0
      then (let expires = now + ttl_msec in if expires = 0 then 1 else expires)
      else 0)"

definition shm_set_ex ::
  "'s nginx_core \<Rightarrow> u64 \<Rightarrow> 's shm_zone option \<Rightarrow> bytes \<Rightarrow> bytes \<Rightarrow> u64 \<Rightarrow> int \<times> 's shm_zone option" where
  "shm_set_ex e now zone key value ttl_msec =
     shm_set_section e now zone key value (shm_expires_at now ttl_msec) False False"

definition shm_add ::
  "'s nginx_core \<Rightarrow> u64 \<Rightarrow> 's shm_zone option \<Rightarrow> bytes \<Rightarrow> bytes \<Rightarrow> int \<times> 's shm_zone option" where
  "shm_add e now zone key value = shm_set_section e now zone key value 0 False True"

definition shm_replace ::
  "'s nginx_core \<Rightarrow> u64 \<Rightarrow> 's shm_zone option \<Rightarrow> bytes \<Rightarrow> bytes \<Rightarrow> int \<times> 's shm_zone option" where
  "shm_replace e now zone key value = shm_set_section e now zone key value 0 True False"

definition shm_delete_body :: "'s nginx_core \<Rightarrow> bytes \<Rightarrow> 's shm_seg \<Rightarrow> int \<times> 's shm_seg" where
  "shm_delete_body e key seg =
     (NGX_HTTP_WASM_OK,
      case shm_lookup e (entries seg) (rb_root seg) key (ngx_crc32_short e key) of
        None \<Rightarrow> seg
      | Some a \<Rightarrow> shm_delete_locked e seg a)"

definition shm_delete ::
  "'s nginx_core \<Rightarrow> 's shm_zone option \<Rightarrow> bytes \<Rightarrow> int \<times> 's shm_zone option" where
  "shm_delete e zone key = shm_section zone key NGX_HTTP_WASM_ERROR (shm_delete_body e key)"

end
