(* ===== verification/Shm_Correct.thy ===== *)
theory Shm_Correct
  imports Shm
begin

text \<open>
  Correctness of the key-value store. The abstraction of a segment is the finite map from keys
  to values and expiry times; the invariant ties the tree, the LRU queue and the slab pool
  together. Every operation under the mutex keeps the invariant and is described by its effect
  on the map. The results are relative to a set \<open>K\<close> of keys on which the two comparison
  callbacks of the tree agree (\<open>hash_orders_agree\<close>).
\<close>

section \<open>Invariant and abstraction\<close>

abbreviation key_less :: "'s nginx_core \<Rightarrow> (addr \<Rightarrow> shm_node) \<Rightarrow> addr \<Rightarrow> addr \<Rightarrow> bool" where
  "key_less e m \<equiv> hk_less e (\<lambda>a. hash_key (m a)) (\<lambda>a. entry_key (m a))"

definition node_ok :: "'s nginx_core \<Rightarrow> bytes set \<Rightarrow> shm_node \<Rightarrow> bool" where
  "node_ok e K n \<longleftrightarrow> entry_key n \<in> K \<and> hash_key n = ngx_crc32_short e (entry_key n) \<and>
     key_len n + value_len n = length (data n)"

definition shm_inv :: "'s nginx_core \<Rightarrow> bytes set \<Rightarrow> 's shm_seg \<Rightarrow> bool" where
  "shm_inv e K seg \<longleftrightarrow>
     distinct (inorder (rb_root seg)) \<and> distinct (lru_queue seg) \<and>
     set (lru_queue seg) = nodes (rb_root seg) \<and>
     nodes (rb_root seg) \<subseteq> slab_live e (slab seg) \<and>
     (\<forall>a \<in> nodes (rb_root seg). node_ok e K (entries seg a)) \<and>
     sorted_wrt (key_less e (entries seg)) (inorder (rb_root seg))"

text \<open>
  Keys whose hashes collide are ordered by length in the insertion callback and by
  \<^verbatim>\<open>ngx_memn2cmp\<close> in the lookup; the two agree on \<open>K\<close> when a shorter key of a colliding pair
  is also the smaller one. A set of keys without hash collisions satisfies this.
\<close>

definition hash_orders_agree :: "'s nginx_core \<Rightarrow> bytes set \<Rightarrow> bool" where
  "hash_orders_agree e K \<longleftrightarrow>
     (\<forall>k1 \<in> K. \<forall>k2 \<in> K. ngx_crc32_short e k1 = ngx_crc32_short e k2 \<longrightarrow>
        length k1 < length k2 \<longrightarrow> ngx_memn2cmp e k1 k2 < 0)"

definition shm_abs :: "'s shm_seg \<Rightarrow> bytes \<Rightarrow> (bytes \<times> u64) option" where
  "shm_abs seg = map_of (map (\<lambda>a. (entry_key (entries seg a),
     (entry_value (entries seg a), expires_at_msec (entries seg a)))) (inorder (rb_root seg)))"

lemma hash_orders_agree_inj:
  "inj_on (ngx_crc32_short e) K \<Longrightarrow> hash_orders_agree e K"
  by (auto simp: hash_orders_agree_def inj_on_def)

lemma shm_invD:
  assumes "shm_inv e K seg"
  shows shm_inv_distinct: "distinct (inorder (rb_root seg))"
    and shm_inv_lru_distinct: "distinct (lru_queue seg)"
    and shm_inv_lru: "set (lru_queue seg) = nodes (rb_root seg)"
    and shm_inv_live: "a \<in> nodes (rb_root seg) \<Longrightarrow> a \<in> slab_live e (slab seg)"
    and shm_inv_node: "a \<in> nodes (rb_root seg) \<Longrightarrow> node_ok e K (entries seg a)"
    and shm_inv_sorted: "sorted_wrt (key_less e (entries seg)) (inorder (rb_root seg))"
  using assms by (auto simp: shm_inv_def)

section \<open>The tree contract\<close>

abbreviation shm_probe :: "'s nginx_core \<Rightarrow> (addr \<Rightarrow> shm_node) \<Rightarrow> bytes \<Rightarrow> u32 \<Rightarrow> addr \<Rightarrow> int" where
  "shm_probe e m \<equiv> hk_probe e (\<lambda>a. hash_key (m a)) (\<lambda>a. entry_key (m a))"

interpretation shm_ins: rbtree_insertion
  "shm_rbtree_insert_value e m" "\<lambda>n t. shm_insert_rc e (m n) (m t) < 0" for e m
  by unfold_locales auto

interpretation shm_look: rbtree_search
  "\<lambda>t. shm_lookup e m t key hash" "shm_probe e m key hash" for e m key hash
proof
  fix l a c r
  show "shm_lookup e m (Node l a c r) key hash =
      (if shm_probe e m key hash a < 0 then shm_lookup e m l key hash
       else if shm_probe e m key hash a > 0 then shm_lookup e m r key hash else Some a)"
    by (cases "ngx_memn2cmp e key (entry_key (m a))" "0 :: int" rule: linorder_cases)
      (simp_all add: hk_probe_def)
qed simp

lemma lookup_Some:
  assumes ok: "nginx_core_ok e" and inv: "shm_inv e K seg"
  shows "shm_lookup e (entries seg) (rb_root seg) k (ngx_crc32_short e k) = Some a \<longleftrightarrow>
           a \<in> nodes (rb_root seg) \<and> entry_key (entries seg a) = k"
proof -
  have ps: "probe_sorted (shm_probe e (entries seg) k (ngx_crc32_short e k)) (inorder (rb_root seg))"
    using ok shm_inv_sorted [OF inv] by (rule hk_probe_sorted)
  show ?thesis
    unfolding shm_look.look_iff [OF ps]
  proof (intro conj_cong refl)
    assume "a \<in> nodes (rb_root seg)"
    with shm_inv_node [OF inv] have "hash_key (entries seg a) = ngx_crc32_short e (entry_key (entries seg a))"
      by (simp add: node_ok_def)
    then show "(shm_probe e (entries seg) k (ngx_crc32_short e k) a = 0) = (entry_key (entries seg a) = k)"
      by (rule hk_probe_0 [OF ok])
  qed
qed

lemma lookup_None:
  assumes "nginx_core_ok e" and "shm_inv e K seg"
  shows "shm_lookup e (entries seg) (rb_root seg) k (ngx_crc32_short e k) = None \<longleftrightarrow>
           (\<forall>a \<in> nodes (rb_root seg). entry_key (entries seg a) \<noteq> k)"
  using lookup_Some [OF assms] by (metis not_None_eq)

lemma keys_inj:
  assumes ok: "nginx_core_ok e" and inv: "shm_inv e K seg"
  shows "inj_on (\<lambda>a. entry_key (entries seg a)) (nodes (rb_root seg))"
proof (rule inj_onI)
  fix a b
  assume "a \<in> nodes (rb_root seg)" "b \<in> nodes (rb_root seg)"
    and eq: "entry_key (entries seg a) = entry_key (entries seg b)"
  let ?k = "entry_key (entries seg b)"
  have "shm_lookup e (entries seg) (rb_root seg) ?k (ngx_crc32_short e ?k) = Some a"
    using \<open>a \<in> _\<close> eq by (simp add: lookup_Some [OF assms])
  moreover have "shm_lookup e (entries seg) (rb_root seg) ?k (ngx_crc32_short e ?k) = Some b"
    using \<open>b \<in> _\<close> by (simp add: lookup_Some [OF assms])
  ultimately show "a = b" by simp
qed

lemma abs_at:
  assumes "nginx_core_ok e" and "shm_inv e K seg" and "a \<in> nodes (rb_root seg)"
  shows "shm_abs seg (entry_key (entries seg a)) =
           Some (entry_value (entries seg a), expires_at_msec (entries seg a))"
  unfolding shm_abs_def
  using assms(3) keys_inj [OF assms(1,2)] by (rule map_of_map_inj)

lemma abs_None: "shm_abs seg k = None \<longleftrightarrow> (\<forall>a \<in> nodes (rb_root seg). entry_key (entries seg a) \<noteq> k)"
  unfolding shm_abs_def by (rule map_of_map_None)

text \<open>The lookup computes the abstract map.\<close>

lemma lookup_abs:
  assumes "nginx_core_ok e" and "shm_inv e K seg"
  shows "shm_abs seg k = map_option (\<lambda>a. (entry_value (entries seg a), expires_at_msec (entries seg a)))
           (shm_lookup e (entries seg) (rb_root seg) k (ngx_crc32_short e k))"
proof (cases "shm_lookup e (entries seg) (rb_root seg) k (ngx_crc32_short e k)")
  case None
  then have "shm_abs seg k = None" by (simp add: abs_None lookup_None [OF assms])
  with None show ?thesis by simp
next
  case (Some a)
  then have "a \<in> nodes (rb_root seg)" "entry_key (entries seg a) = k"
    by (simp_all add: lookup_Some [OF assms])
  with Some show ?thesis using abs_at [OF assms] by force
qed

text \<open>
  An abstraction is determined by its nodes: the rule the state updates below are verified with.
\<close>

lemma abs_eqI:
  assumes "nginx_core_ok e" and "shm_inv e K seg"
    and "\<And>a. a \<in> nodes (rb_root seg) \<Longrightarrow>
           f (entry_key (entries seg a)) = Some (entry_value (entries seg a), expires_at_msec (entries seg a))"
    and "\<And>k. f k \<noteq> None \<Longrightarrow> \<exists>a \<in> nodes (rb_root seg). entry_key (entries seg a) = k"
  shows "shm_abs seg = f"
proof
  fix k
  show "shm_abs seg k = f k"
  proof (cases "shm_abs seg k")
    case None
    then have "f k = None" using assms(4) [of k] unfolding abs_None by blast
    with None show ?thesis by simp
  next
    case (Some v)
    then have "shm_abs seg k \<noteq> None" by simp
    then obtain a where a: "a \<in> nodes (rb_root seg)" "entry_key (entries seg a) = k"
      unfolding abs_None by blast
    then show ?thesis using assms(3) [OF a(1)] abs_at [OF assms(1,2) a(1)] by simp
  qed
qed

section \<open>Deletion, touch, eviction\<close>

lemma delete_sel [simp]:
  "lru_queue (shm_delete_locked e seg a) = remove1 a (lru_queue seg)"
  "slab (shm_delete_locked e seg a) = ngx_slab_free_locked e (slab seg) a"
  "entries (shm_delete_locked e seg a) = entries seg"
  "pool_data (shm_delete_locked e seg a) = pool_data seg"
  by (simp_all add: shm_delete_locked_def)

lemma inorder_delete:
  "nginx_core_ok e \<Longrightarrow> inorder (rb_root (shm_delete_locked e seg a)) = remove1 a (inorder (rb_root seg))"
  by (simp add: shm_delete_locked_def inorder_rbtree_delete)

lemma nodes_delete:
  assumes "nginx_core_ok e" and "shm_inv e K seg"
  shows "nodes (rb_root (shm_delete_locked e seg a)) = nodes (rb_root seg) - {a}"
  using shm_inv_distinct [OF assms(2)] by (simp add: inorder_delete [OF assms(1)])

lemma inv_delete:
  assumes ok: "nginx_core_ok e" and inv: "shm_inv e K seg"
  shows "shm_inv e K (shm_delete_locked e seg a)"
  using inv
  by (auto simp: shm_inv_def inorder_delete [OF ok] slab_live_free [OF ok] sorted_wrt_remove1)

lemma abs_delete:
  assumes ok: "nginx_core_ok e" and inv: "shm_inv e K seg" and a: "a \<in> nodes (rb_root seg)"
  shows "shm_abs (shm_delete_locked e seg a) = (shm_abs seg)(entry_key (entries seg a) := None)"
proof (rule abs_eqI [OF ok inv_delete [OF ok inv]])
  fix b assume "b \<in> nodes (rb_root (shm_delete_locked e seg a))"
  then show "((shm_abs seg)(entry_key (entries seg a) := None)) (entry_key (entries (shm_delete_locked e seg a) b)) =
      Some (entry_value (entries (shm_delete_locked e seg a) b), expires_at_msec (entries (shm_delete_locked e seg a) b))"
    using keys_inj [OF ok inv] a abs_at [OF ok inv] by (auto simp: nodes_delete [OF ok inv] inj_on_def)
next
  fix k assume "((shm_abs seg)(entry_key (entries seg a) := None)) k \<noteq> None"
  then have "shm_abs seg k \<noteq> None" "k \<noteq> entry_key (entries seg a)" by (auto split: if_splits)
  then show "\<exists>b \<in> nodes (rb_root (shm_delete_locked e seg a)). entry_key (entries (shm_delete_locked e seg a) b) = k"
    by (auto simp: abs_None nodes_delete [OF ok inv])
qed

lemma touch_sel [simp]:
  "rb_root (shm_touch_locked seg a) = rb_root seg"
  "slab (shm_touch_locked seg a) = slab seg"
  "entries (shm_touch_locked seg a) = entries seg"
  "pool_data (shm_touch_locked seg a) = pool_data seg"
  by (simp_all add: shm_touch_locked_def)

lemma abs_touch [simp]: "shm_abs (shm_touch_locked seg a) = shm_abs seg"
  by (simp add: shm_abs_def)

lemma inv_touch:
  assumes "shm_inv e K seg" and "a \<in> nodes (rb_root seg)"
  shows "shm_inv e K (shm_touch_locked seg a)"
  using assms by (auto simp: shm_inv_def shm_touch_locked_def)

lemma evict_cases:
  assumes "shm_evict_lru_locked e seg skip = (rc, seg')"
  obtains "rc = NGX_DECLINED" "seg' = seg"
  | a where "rc = NGX_OK" "a \<in> set (lru_queue seg)" "Some a \<noteq> skip" "seg' = shm_delete_locked e seg a"
proof (cases "find (\<lambda>a. Some a \<noteq> skip) (rev (lru_queue seg))")
  case None
  with assms that(1) show ?thesis by (simp add: shm_evict_lru_locked_def split: if_splits)
next
  case (Some a)
  then have "a \<in> set (lru_queue seg)" "Some a \<noteq> skip"
    by (auto simp: find_Some_iff dest: nth_mem [where xs = "rev (lru_queue seg)", simplified])
  with Some assms that show ?thesis by (auto simp: shm_evict_lru_locked_def split: if_splits)
qed

section \<open>Writing nodes\<close>

lemma set_node_sel [simp]:
  "rb_root (set_node seg a n) = rb_root seg" "lru_queue (set_node seg a n) = lru_queue seg"
  "slab (set_node seg a n) = slab seg" "pool_data (set_node seg a n) = pool_data seg"
  "entries (set_node seg a n) = (entries seg)(a := n)"
  by (simp_all add: set_node_def)

text \<open>The invariant and the map depend on the reachable nodes only.\<close>

lemma inv_set_node:
  assumes inv: "shm_inv e K seg" and n: "a \<in> nodes (rb_root seg) \<Longrightarrow> node_ok e K n"
    and same: "a \<in> nodes (rb_root seg) \<Longrightarrow> entry_key n = entry_key (entries seg a)"
  shows "shm_inv e K (set_node seg a n)"
proof -
  have "sorted_wrt (key_less e ((entries seg)(a := n))) (inorder (rb_root seg)) =
        sorted_wrt (key_less e (entries seg)) (inorder (rb_root seg))"
    using n same shm_inv_node [OF inv]
    by (intro hk_sorted_cong) (auto simp: node_ok_def)
  with inv n show ?thesis by (auto simp: shm_inv_def)
qed

lemma abs_set_unused: "a \<notin> nodes (rb_root seg) \<Longrightarrow> shm_abs (set_node seg a n) = shm_abs seg"
  unfolding shm_abs_def
  by (intro arg_cong [where f = map_of] map_cong) auto

lemma abs_set_used:
  assumes ok: "nginx_core_ok e" and inv: "shm_inv e K seg" and a: "a \<in> nodes (rb_root seg)"
    and n: "node_ok e K n" and same: "entry_key n = entry_key (entries seg a)"
  shows "shm_abs (set_node seg a n) =
           (shm_abs seg)(entry_key n \<mapsto> (entry_value n, expires_at_msec n))"
proof (rule abs_eqI [OF ok inv_set_node [OF inv n same]])
  fix b assume "b \<in> nodes (rb_root (set_node seg a n))"
  then show "((shm_abs seg)(entry_key n \<mapsto> (entry_value n, expires_at_msec n)))
      (entry_key (entries (set_node seg a n) b)) =
      Some (entry_value (entries (set_node seg a n) b), expires_at_msec (entries (set_node seg a n) b))"
    using keys_inj [OF ok inv] a same abs_at [OF ok inv] by (auto simp: inj_on_def)
next
  fix k assume "((shm_abs seg)(entry_key n \<mapsto> (entry_value n, expires_at_msec n))) k \<noteq> None"
  then have "k = entry_key n \<or> shm_abs seg k \<noteq> None" by (auto split: if_splits)
  then show "\<exists>b \<in> nodes (rb_root (set_node seg a n)). entry_key (entries (set_node seg a n) b) = k"
    using a same unfolding abs_None by auto
qed

lemma entry_key_overwrite:
  assumes "key_len n \<le> length (data n)"
  shows "entry_key (n\<lparr>data := mem_write (data n) (key_len n) v, expires_at_msec := x\<rparr>) = entry_key n"
  using assms by (simp add: entry_key_def mem_write_def)

lemma entry_value_overwrite:
  assumes "key_len n + value_len n = length (data n)" and "value_len n = length v"
  shows "entry_value (n\<lparr>data := mem_write (data n) (key_len n) v, expires_at_msec := x\<rparr>) = v"
  using assms by (simp add: entry_value_def mem_write_def min_def)

lemma node_ok_overwrite:
  assumes "node_ok e K n" and "value_len n = length v"
  shows "node_ok e K (n\<lparr>data := mem_write (data n) (key_len n) v, expires_at_msec := x\<rparr>)"
  using assms entry_key_overwrite [where n = n and v = v and x = x] by (auto simp: node_ok_def mem_write_def)

section \<open>Allocation under eviction\<close>

text \<open>
  \<open>shm_shrinks e K n skip seg seg'\<close>: \<open>seg'\<close> is \<open>seg\<close> with at most \<open>n\<close> entries evicted, never
  the entry \<open>skip\<close>.
\<close>

definition shm_shrinks ::
  "'s nginx_core \<Rightarrow> bytes set \<Rightarrow> nat \<Rightarrow> addr option \<Rightarrow> 's shm_seg \<Rightarrow> 's shm_seg \<Rightarrow> bool" where
  "shm_shrinks e K n skip seg seg' \<longleftrightarrow>
     shm_inv e K seg' \<and> nodes (rb_root seg') \<subseteq> nodes (rb_root seg) \<and>
     card (nodes (rb_root seg) - nodes (rb_root seg')) \<le> n \<and>
     (\<forall>x \<in> nodes (rb_root seg). skip = Some x \<longrightarrow> x \<in> nodes (rb_root seg')) \<and>
     (\<forall>x \<in> nodes (rb_root seg'). entries seg' x = entries seg x)"

lemma inv_slab:
  "shm_inv e K seg \<Longrightarrow> slab_live e (slab seg) \<subseteq> slab_live e s' \<Longrightarrow> shm_inv e K (seg\<lparr>slab := s'\<rparr>)"
  by (auto simp: shm_inv_def)

lemma shrinks_refl: "shm_inv e K seg \<Longrightarrow> shm_shrinks e K n skip seg seg"
  by (simp add: shm_shrinks_def)

lemma shrinks_evict:
  assumes ok: "nginx_core_ok e" and inv: "shm_inv e K seg" and "Some a \<noteq> skip"
  shows "shm_shrinks e K (Suc 0) skip seg (shm_delete_locked e seg a)"
proof -
  have "nodes (rb_root seg) - (nodes (rb_root seg) - {a}) \<subseteq> {a}" by blast
  then have "card (nodes (rb_root seg) - (nodes (rb_root seg) - {a})) \<le> card {a}"
    by (intro card_mono) auto
  with assms show ?thesis
    by (auto simp: shm_shrinks_def inv_delete nodes_delete [OF ok inv])
qed

lemma shrinks_trans:
  assumes "shm_shrinks e K n skip s1 s2" and "shm_shrinks e K k skip s2 s3"
  shows "shm_shrinks e K (n + k) skip s1 s3"
proof -
  have "nodes (rb_root s1) - nodes (rb_root s3) \<subseteq>
      (nodes (rb_root s1) - nodes (rb_root s2)) \<union> (nodes (rb_root s2) - nodes (rb_root s3))"
    by blast
  then have "card (nodes (rb_root s1) - nodes (rb_root s3)) \<le>
      card ((nodes (rb_root s1) - nodes (rb_root s2)) \<union> (nodes (rb_root s2) - nodes (rb_root s3)))"
    by (intro card_mono) auto
  also have "\<dots> \<le> card (nodes (rb_root s1) - nodes (rb_root s2)) + card (nodes (rb_root s2) - nodes (rb_root s3))"
    by (rule card_Un_le)
  finally have "card (nodes (rb_root s1) - nodes (rb_root s3)) \<le> n + k"
    using assms by (simp add: shm_shrinks_def)
  with assms show ?thesis unfolding shm_shrinks_def by (auto 4 3)
qed

lemma alloc_attempts_spec:
  assumes ok: "nginx_core_ok e"
  shows "shm_inv e K seg \<Longrightarrow> shm_alloc_attempts e k sz skip seg = (r, seg') \<Longrightarrow>
    shm_shrinks e K k skip seg seg' \<and>
    (\<forall>a. r = Some a \<longrightarrow> a \<notin> nodes (rb_root seg') \<and> a \<in> slab_live e (slab seg'))"
proof (induction k arbitrary: seg)
  case 0
  then show ?case by (simp add: shrinks_refl)
next
  case (Suc k)
  show ?case
  proof (cases "ngx_slab_alloc_locked e (slab seg) sz")
    case (Some p)
    obtain a s' where p: "p = (a, s')" by fastforce
    note al = slab_allocD [OF ok Some [unfolded p]]
    have "shm_inv e K (seg\<lparr>slab := s'\<rparr>)" using Suc.prems(1) al(2) by (intro inv_slab) auto
    moreover have "a \<notin> nodes (rb_root seg)" using al(1) shm_inv_live [OF Suc.prems(1)] by blast
    ultimately show ?thesis using Suc.prems(2) Some p al(2) by (auto simp: shm_shrinks_def)
  next
    case None
    obtain rc seg1 where ev: "shm_evict_lru_locked e seg skip = (rc, seg1)" by fastforce
    then show ?thesis
    proof (cases rule: evict_cases)
      case 1
      with Suc.prems None ev show ?thesis by (auto simp: shrinks_refl)
    next
      case (2 a)
      have sh: "shm_shrinks e K (Suc 0) skip seg seg1"
        unfolding 2(4) by (rule shrinks_evict [OF ok Suc.prems(1) 2(3)])
      have eq: "shm_alloc_attempts e k sz skip seg1 = (r, seg')" using Suc.prems(2) None ev 2(1) by simp
      have "shm_inv e K seg1" using sh by (simp add: shm_shrinks_def)
      from Suc.IH [OF this eq] shrinks_trans [OF sh] show ?thesis by auto
    qed
  qed
qed

lemma alloc_node_spec:
  assumes ok: "nginx_core_ok e" and inv: "shm_inv e K seg"
    and eq: "shm_alloc_node e seg key value (ngx_crc32_short e key) skip = (r, seg')"
  shows "shm_shrinks e K 32 skip seg seg' \<and>
    (\<forall>a. r = Some a \<longrightarrow> a \<notin> nodes (rb_root seg') \<and> a \<in> slab_live e (slab seg') \<and>
       entries seg' a = \<lparr>hash_key = ngx_crc32_short e key, key_len = length key,
         value_len = length value, expires_at_msec = 0, data = key @ value\<rparr>)"
proof -
  obtain r1 seg1 where at: "shm_alloc_attempts e 32 (shm_node_data_offset + length key + length value) skip seg
      = (r1, seg1)" by fastforce
  note sp = alloc_attempts_spec [OF ok inv at]
  show ?thesis
  proof (cases r1)
    case None
    with eq at sp show ?thesis by (auto simp: shm_alloc_node_def)
  next
    case (Some a)
    with sp have a: "a \<notin> nodes (rb_root seg1)" by simp
    then have "shm_inv e K (set_node seg1 a n)" for n
      using sp by (intro inv_set_node) (auto simp: shm_shrinks_def)
    with eq at sp Some a show ?thesis
      by (auto simp: shm_alloc_node_def shm_shrinks_def)
  qed
qed

section \<open>Insertion\<close>

lemma insert_rc_key_less:
  assumes ok: "nginx_core_ok e" and agree: "hash_orders_agree e K"
    and "node_ok e K (m a)" "node_ok e K (m b)"
  shows "shm_insert_rc e (m a) (m b) < 0 \<longleftrightarrow> key_less e m a b"
proof -
  have len: "key_len (m x) = length (entry_key (m x))" if "node_ok e K (m x)" for x
    using that by (auto simp: node_ok_def entry_key_def)
  have agr: "hash_key (m x) = hash_key (m y) \<Longrightarrow> key_len (m x) < key_len (m y) \<Longrightarrow>
      ngx_memn2cmp e (entry_key (m x)) (entry_key (m y)) < 0"
    if "node_ok e K (m x)" "node_ok e K (m y)" for x y
    using agree that len [OF that(1)] len [OF that(2)] by (auto simp: hash_orders_agree_def node_ok_def)
  show ?thesis
  proof (cases "hash_key (m a)" "hash_key (m b)" rule: linorder_cases)
    case equal
    show ?thesis
    proof (cases "key_len (m a)" "key_len (m b)" rule: linorder_cases)
      case less
      with equal agr [OF assms(3,4)] show ?thesis by (simp add: shm_insert_rc_def hk_less_def)
    next
      case greater
      with equal agr [OF assms(4,3)] memn2cmp_flip [OF ok, of "entry_key (m b)" "entry_key (m a)"]
      show ?thesis by (simp add: shm_insert_rc_def hk_less_def)
    qed (use equal in \<open>simp add: shm_insert_rc_def hk_less_def\<close>)
  qed (auto simp: shm_insert_rc_def hk_less_def)
qed

lemma insert_sel [simp]:
  "entries (shm_insert e seg a) = entries seg" "slab (shm_insert e seg a) = slab seg"
  "lru_queue (shm_insert e seg a) = a # lru_queue seg"
  by (simp_all add: shm_insert_def)

lemma inorder_insert:
  "nginx_core_ok e \<Longrightarrow> inorder (rb_root (shm_insert e seg a)) =
     inorder (shm_rbtree_insert_value e (entries seg) (rb_root seg) a)"
  by (simp add: shm_insert_def inorder_rebalance)

lemma nodes_insert:
  "nginx_core_ok e \<Longrightarrow> nodes (rb_root (shm_insert e seg a)) = insert a (nodes (rb_root seg))"
  by (simp add: inorder_insert)

lemma inv_insert:
  assumes ok: "nginx_core_ok e" and agree: "hash_orders_agree e K" and inv: "shm_inv e K seg"
    and a: "a \<notin> nodes (rb_root seg)" "a \<in> slab_live e (slab seg)" "node_ok e K (entries seg a)"
    and fresh: "\<And>b. b \<in> nodes (rb_root seg) \<Longrightarrow> entry_key (entries seg b) \<noteq> entry_key (entries seg a)"
  shows "shm_inv e K (shm_insert e seg a)"
proof -
  have "sorted_wrt (key_less e (entries seg))
      (inorder (shm_rbtree_insert_value e (entries seg) (rb_root seg) a))"
  proof (rule shm_ins.sorted_ins [OF shm_inv_sorted [OF inv]])
    fix b assume b: "b \<in> nodes (rb_root seg)"
    show "(shm_insert_rc e (entries seg a) (entries seg b) < 0) = key_less e (entries seg) a b"
      using ok agree a(3) shm_inv_node [OF inv b] by (rule insert_rc_key_less)
    show "\<not> key_less e (entries seg) a b \<Longrightarrow> key_less e (entries seg) b a"
      using fresh [OF b] by (intro hk_less_total [OF ok]) auto
  qed (use hk_less_trans [OF ok] in blast)+
  then show ?thesis
    using inv a shm_ins.distinct_ins [OF shm_inv_distinct [OF inv] a(1)]
    by (auto simp: shm_inv_def inorder_insert [OF ok])
qed

lemma abs_insert:
  assumes ok: "nginx_core_ok e" and inv': "shm_inv e K (shm_insert e seg a)"
    and inv: "shm_inv e K seg"
    and fresh: "\<And>b. b \<in> nodes (rb_root seg) \<Longrightarrow> entry_key (entries seg b) \<noteq> entry_key (entries seg a)"
  shows "shm_abs (shm_insert e seg a) = (shm_abs seg)(entry_key (entries seg a) \<mapsto>
           (entry_value (entries seg a), expires_at_msec (entries seg a)))"
proof (rule abs_eqI [OF ok inv'])
  fix b assume "b \<in> nodes (rb_root (shm_insert e seg a))"
  then show "((shm_abs seg)(entry_key (entries seg a) \<mapsto>
        (entry_value (entries seg a), expires_at_msec (entries seg a))))
      (entry_key (entries (shm_insert e seg a) b)) =
      Some (entry_value (entries (shm_insert e seg a) b), expires_at_msec (entries (shm_insert e seg a) b))"
    using fresh abs_at [OF ok inv] by (auto simp: nodes_insert [OF ok])
next
  fix k assume "((shm_abs seg)(entry_key (entries seg a) \<mapsto>
        (entry_value (entries seg a), expires_at_msec (entries seg a)))) k \<noteq> None"
  then have "k = entry_key (entries seg a) \<or> shm_abs seg k \<noteq> None" by (auto split: if_splits)
  then show "\<exists>b \<in> nodes (rb_root (shm_insert e seg a)). entry_key (entries (shm_insert e seg a) b) = k"
    unfolding abs_None by (auto simp: nodes_insert [OF ok])
qed

end
