(* ===== verification/Refine.thy ===== *)
theory Refine
  imports Prelude
begin

text \<open>
  The contract of a store under a mutex. Its operations are run one after the other; each keeps
  the invariant and does to the abstraction of the state what a specification allows. The locale
  \<open>refinement\<close> gives the same for sequences; \<open>exact_refinement\<close> is the case of a specification that
  is a function. The key-value store interprets the first, the metrics registry the second.
\<close>

fun run_ops :: "('op \<Rightarrow> 's \<Rightarrow> 'r \<times> 's) \<Rightarrow> 'op list \<Rightarrow> 's \<Rightarrow> 'r list \<times> 's" where
  "run_ops step [] s = ([], s)"
| "run_ops step (t # ops) s =
     (case step t s of (r, s) \<Rightarrow> (case run_ops step ops s of (rs, s) \<Rightarrow> (r # rs, s)))"

inductive trace ::
  "('op \<Rightarrow> 'a \<Rightarrow> 'r \<Rightarrow> 'a \<Rightarrow> bool) \<Rightarrow> 'op list \<Rightarrow> 'a \<Rightarrow> 'r list \<Rightarrow> 'a \<Rightarrow> bool" for allows where
  trace_done: "trace allows [] M [] M"
| trace_next: "allows t M r M1 \<Longrightarrow> trace allows ops M1 rs M' \<Longrightarrow> trace allows (t # ops) M (r # rs) M'"

inductive_simps trace_simps [simp]: "trace allows [] M rs M'" "trace allows (t # ops) M rs M'"

lemma trace_exact: "trace (\<lambda>t M r M'. f t M = (r, M')) ops M rs M' \<longleftrightarrow> run_ops f ops M = (rs, M')"
  by (induction ops arbitrary: M rs) (auto split: prod.splits)

locale refinement =
  fixes step :: "'op \<Rightarrow> 's \<Rightarrow> 'r \<times> 's"
    and inv :: "'s \<Rightarrow> bool"
    and ok :: "'op \<Rightarrow> bool"
    and abs :: "'s \<Rightarrow> 'a"
    and allows :: "'op \<Rightarrow> 'a \<Rightarrow> 'r \<Rightarrow> 'a \<Rightarrow> bool"
  assumes step_refines: "\<And>s t r s'. inv s \<Longrightarrow> ok t \<Longrightarrow> step t s = (r, s') \<Longrightarrow> inv s' \<and> allows t (abs s) r (abs s')"
begin

lemma run_refines:
  "inv s \<Longrightarrow> \<forall>t \<in> set ops. ok t \<Longrightarrow> run_ops step ops s = (rs, s') \<Longrightarrow>
     inv s' \<and> trace allows ops (abs s) rs (abs s')"
proof (induction ops arbitrary: s rs)
  case (Cons t ops)
  obtain r s1 where st: "step t s = (r, s1)" by fastforce
  obtain rs1 where run: "run_ops step ops s1 = (rs1, s')" "rs = r # rs1"
    using Cons.prems(3) st by (auto split: prod.splits)
  from step_refines [OF Cons.prems(1) _ st] Cons.prems(2)
  have "inv s1" "allows t (abs s) r (abs s1)" by auto
  with Cons.IH [OF _ _ run(1)] Cons.prems(2) show ?case by (auto simp: run(2))
qed simp

end

locale exact_refinement =
  fixes step :: "'op \<Rightarrow> 's \<Rightarrow> 'r \<times> 's"
    and inv :: "'s \<Rightarrow> bool"
    and abs :: "'s \<Rightarrow> 'a"
    and spec :: "'op \<Rightarrow> 'a \<Rightarrow> 'r \<times> 'a"
  assumes step_exact: "\<And>s t r s'. inv s \<Longrightarrow> step t s = (r, s') \<Longrightarrow> inv s' \<and> spec t (abs s) = (r, abs s')"

sublocale exact_refinement \<subseteq> refinement step inv "\<lambda>_. True" abs "\<lambda>t M r M'. spec t M = (r, M')"
  by unfold_locales (rule step_exact)

context exact_refinement
begin

lemma run_exact:
  "inv s \<Longrightarrow> run_ops step ops s = (rs, s') \<Longrightarrow> inv s' \<and> run_ops spec ops (abs s) = (rs, abs s')"
  using run_refines by (simp add: trace_exact)

end

end
