(* ===== verification/Shm_Ops.thy ===== *)
theory Shm_Ops
  imports Shm_Correct Refine
begin

text \<open>
  The store seen as a cache: what each operation may do to the map from keys to values and
  expiry times is the relation \<open>kv_allows\<close>, and every operation of the segment, and every
  sequence of operations the mutex lets through, refines it.
\<close>

section \<open>The abstract cache\<close>

type_synonym kv = "bytes \<Rightarrow> (bytes \<times> u64) option"

text \<open>An entry is live until its expiry time, which is 0 when it never expires.\<close>

definition kv_expired :: "u64 \<Rightarrow> bytes \<times> u64 \<Rightarrow> bool" where
  "kv_expired now v \<longleftrightarrow> snd v \<noteq> 0 \<and> snd v \<le> now"

definition kv_live :: "u64 \<Rightarrow> kv \<Rightarrow> bytes \<Rightarrow> (bytes \<times> u64) option" where
  "kv_live now M k = (case M k of None \<Rightarrow> None | Some v \<Rightarrow> if kv_expired now v then None else Some v)"

text \<open>
  Storing a value succeeds, and then other entries may have been evicted, at most 32 of them;
  or it fails for want of memory, with the key's live entry still there.
\<close>

definition kv_put :: "u64 \<Rightarrow> kv \<Rightarrow> bytes \<Rightarrow> bytes \<times> u64 \<Rightarrow> int \<Rightarrow> kv \<Rightarrow> bool" where
  "kv_put now M k v rc M' \<longleftrightarrow>
     card (dom M - dom M' - {k}) \<le> 32 \<and> M'(k := None) \<subseteq>\<^sub>m M \<and>
     (rc = NGX_HTTP_WASM_OK \<and> M' k = Some v \<or>
      rc = NGX_HTTP_WASM_ERROR \<and> M' k = kv_live now M k) \<and>
     (\<forall>u. kv_live now M k = Some u \<longrightarrow> length (fst u) = length (fst v) \<longrightarrow>
        rc = NGX_HTTP_WASM_OK \<and> M' = M(k \<mapsto> v))"

definition kv_set :: "u64 \<Rightarrow> kv \<Rightarrow> bytes \<Rightarrow> bytes \<times> u64 \<Rightarrow> bool \<Rightarrow> bool \<Rightarrow> int \<Rightarrow> kv \<Rightarrow> bool" where
  "kv_set now M k v require_exists require_missing rc M' \<longleftrightarrow>
     (if require_exists \<and> kv_live now M k = None \<or> require_missing \<and> kv_live now M k \<noteq> None
      then rc = NGX_HTTP_WASM_NOT_FOUND \<and> M' = M(k := kv_live now M k)
      else kv_put now M k v rc M')"

section \<open>Segment lemmas\<close>

lemma dom_abs: "dom (shm_abs seg) = (\<lambda>a. entry_key (entries seg a)) ` nodes (rb_root seg)"
  by (auto simp: dom_def abs_None image_iff)

lemma is_expired_abs [simp]: "kv_expired now (v, expires_at_msec n) = shm_is_expired n now"
  by (simp add: shm_is_expired_def kv_expired_def)

lemma live_lookup:
  assumes ok: "nginx_core_ok e" and inv: "shm_inv e K seg"
  shows "kv_live now (shm_abs seg) k =
    (case shm_lookup e (entries seg) (rb_root seg) k (ngx_crc32_short e k) of
       None \<Rightarrow> None
     | Some a \<Rightarrow> if shm_is_expired (entries seg a) now then None
                 else Some (entry_value (entries seg a), expires_at_msec (entries seg a)))"
  by (simp add: kv_live_def lookup_abs [OF ok inv] split: option.split)

lemma shrinks_abs:
  assumes ok: "nginx_core_ok e" and inv: "shm_inv e K seg" and sh: "shm_shrinks e K n skip seg seg'"
  shows "shm_abs seg' \<subseteq>\<^sub>m shm_abs seg" and "card (dom (shm_abs seg) - dom (shm_abs seg')) \<le> n"
    and "skip = Some x \<Longrightarrow> x \<in> nodes (rb_root seg) \<Longrightarrow>
      x \<in> nodes (rb_root seg') \<and> entries seg' x = entries seg x"
proof -
  note d = sh [unfolded shm_shrinks_def]
  have inv': "shm_inv e K seg'" using d by blast
  show "shm_abs seg' \<subseteq>\<^sub>m shm_abs seg"
    unfolding map_le_def dom_abs
  proof clarify
    fix a assume a: "a \<in> nodes (rb_root seg')"
    then have "a \<in> nodes (rb_root seg)" "entries seg' a = entries seg a" using d by blast+
    then show "shm_abs seg' (entry_key (entries seg' a)) = shm_abs seg (entry_key (entries seg' a))"
      using abs_at [OF ok inv] abs_at [OF ok inv' a] by metis
  qed
  let ?f = "\<lambda>a. entry_key (entries seg a)"
  have "?f ` nodes (rb_root seg') = (\<lambda>a. entry_key (entries seg' a)) ` nodes (rb_root seg')"
    using d by (intro image_cong) auto
  then have "dom (shm_abs seg) - dom (shm_abs seg') \<subseteq> ?f ` (nodes (rb_root seg) - nodes (rb_root seg'))"
    unfolding dom_abs by blast
  then have "card (dom (shm_abs seg) - dom (shm_abs seg')) \<le>
      card (?f ` (nodes (rb_root seg) - nodes (rb_root seg')))"
    by (intro card_mono) auto
  also have "\<dots> \<le> card (nodes (rb_root seg) - nodes (rb_root seg'))" by (intro card_image_le) auto
  finally show "card (dom (shm_abs seg) - dom (shm_abs seg')) \<le> n" using d by linarith
  show "skip = Some x \<Longrightarrow> x \<in> nodes (rb_root seg) \<Longrightarrow>
      x \<in> nodes (rb_root seg') \<and> entries seg' x = entries seg x"
    using d by blast
qed

text \<open>The new node's contents.\<close>

lemma new_node:
  assumes "n = \<lparr>hash_key = ngx_crc32_short e key, key_len = length key,
      value_len = length value, expires_at_msec = x, data = key @ value\<rparr>"
  shows "entry_key n = key" and "entry_value n = value" and "expires_at_msec n = x"
    and "key \<in> K \<Longrightarrow> node_ok e K n"
  using assms by (simp_all add: entry_key_def entry_value_def node_ok_def)

lemma store_new_spec:
  assumes ok: "nginx_core_ok e" and agree: "hash_orders_agree e K" and inv: "shm_inv e K seg"
    and key: "key \<in> K"
    and ex: "existing = shm_lookup e (entries seg) (rb_root seg) key (ngx_crc32_short e key)"
    and eq: "shm_store_new e seg key value x (ngx_crc32_short e key) existing = (rc, seg')"
  shows "shm_inv e K seg' \<and> card (dom (shm_abs seg) - dom (shm_abs seg') - {key}) \<le> 32 \<and>
    (shm_abs seg')(key := None) \<subseteq>\<^sub>m shm_abs seg \<and>
    (rc = NGX_HTTP_WASM_OK \<and> shm_abs seg' key = Some (value, x) \<or>
     rc = NGX_HTTP_WASM_ERROR \<and> shm_abs seg' key = shm_abs seg key)"
proof -
  obtain r s1 where al: "shm_alloc_node e seg key value (ngx_crc32_short e key) existing = (r, s1)"
    by fastforce
  note sp = alloc_node_spec [OF ok inv al]
  then have sh: "shm_shrinks e K 32 existing seg s1" by blast
  then have inv1: "shm_inv e K s1" by (simp add: shm_shrinks_def)
  note sa = shrinks_abs [OF ok inv sh]
  have look1: "shm_abs s1 key = shm_abs seg key"
  proof (cases existing)
    case None
    then have "shm_abs seg key = None" by (simp add: lookup_abs [OF ok inv] flip: ex)
    with map_le_None [OF sa(1)] show ?thesis by simp
  next
    case (Some b)
    then have b: "b \<in> nodes (rb_root seg)" "entry_key (entries seg b) = key"
      using ex lookup_Some [OF ok inv] by auto
    with sa(3) [OF Some b(1)] abs_at [OF ok inv b(1)] abs_at [OF ok inv1, of b]
    show ?thesis by simp
  qed
  have card1: "card (dom (shm_abs seg) - dom M - {key}) \<le> 32"
    if "dom (shm_abs s1) - {key} \<subseteq> dom M" for M :: kv
  proof -
    have "dom (shm_abs seg) - dom M - {key} \<subseteq> dom (shm_abs seg) - dom (shm_abs s1)"
      using that by blast
    then have "card (dom (shm_abs seg) - dom M - {key}) \<le> card (dom (shm_abs seg) - dom (shm_abs s1))"
      by (intro card_mono) (auto simp: dom_abs)
    with sa(2) show ?thesis by simp
  qed
  show ?thesis
  proof (cases r)
    case None
    with eq al have "rc = NGX_HTTP_WASM_ERROR" "seg' = s1" by (auto simp: shm_store_new_def)
    then show ?thesis using inv1 look1 card1 [of "shm_abs s1"] sa(1)
      by (auto simp: map_le_def dom_def)
  next
    case (Some a)
    let ?n = "\<lparr>hash_key = ngx_crc32_short e key, key_len = length key,
         value_len = length value, expires_at_msec = x, data = key @ value\<rparr>"
    note n = new_node [OF refl, where e = e and key = key]
    from sp Some have a: "a \<notin> nodes (rb_root s1)" "a \<in> slab_live e (slab s1)"
      and at: "entries s1 a = \<lparr>hash_key = ngx_crc32_short e key, key_len = length key,
         value_len = length value, expires_at_msec = 0, data = key @ value\<rparr>" by auto
    define s2 where "s2 = set_node s1 a ?n"
    have inv2: "shm_inv e K s2" unfolding s2_def using a by (intro inv_set_node [OF inv1]) auto
    have abs2: "shm_abs s2 = shm_abs s1" unfolding s2_def by (rule abs_set_unused [OF a(1)])
    have a2: "a \<notin> nodes (rb_root s2)" "a \<in> slab_live e (slab s2)" "entries s2 a = ?n"
      using a by (auto simp: s2_def)
    define s3 where "s3 = (case existing of Some b \<Rightarrow> shm_delete_locked e s2 b | None \<Rightarrow> s2)"
    have s3: "shm_inv e K s3 \<and> shm_abs s3 = (shm_abs s1)(key := None) \<and> a \<notin> nodes (rb_root s3) \<and>
        a \<in> slab_live e (slab s3) \<and> entries s3 = entries s2"
    proof (cases existing)
      case None
      then have "shm_abs s1 key = None" by (simp add: look1 lookup_abs [OF ok inv] flip: ex)
      with None inv2 abs2 a2 show ?thesis by (simp add: s3_def fun_upd_idem)
    next
      case (Some b)
      then have b: "b \<in> nodes (rb_root seg)" "entry_key (entries seg b) = key"
        using ex lookup_Some [OF ok inv] by auto
      with sa(3) [OF Some b(1)] have b1: "b \<in> nodes (rb_root s1)" "entry_key (entries s1 b) = key"
        by auto
      then have "a \<noteq> b" using a by auto
      then have b2: "b \<in> nodes (rb_root s2)" "entry_key (entries s2 b) = key"
        using b1 by (auto simp: s2_def)
      show ?thesis
        using Some inv_delete [OF ok inv2, of b] abs_delete [OF ok inv2 b2(1)] b2(2) abs2 a2 \<open>a \<noteq> b\<close>
        by (simp add: s3_def nodes_delete [OF ok inv2] slab_live_free [OF ok])
    qed
    have fresh: "entry_key (entries s3 b) \<noteq> entry_key (entries s3 a)" if "b \<in> nodes (rb_root s3)" for b
    proof -
      have "shm_abs s3 key = None" using s3 by simp
      then show ?thesis using that s3 a2(3) n(1) unfolding abs_None by simp
    qed
    have inv4: "shm_inv e K (shm_insert e s3 a)"
      using s3 a2(3) n(4) [OF key] by (intro inv_insert [OF ok agree _ _ _ _ fresh]) auto
    have abs4: "shm_abs (shm_insert e s3 a) = (shm_abs s1)(key \<mapsto> (value, x))"
      using abs_insert [OF ok inv4 _ fresh] s3 a2(3) n by simp
    have "rc = NGX_HTTP_WASM_OK" "seg' = shm_insert e s3 a"
      using eq al Some at by (cases existing; auto simp: shm_store_new_def Let_def s3_def s2_def)+
    moreover have "card (dom (shm_abs seg) - dom ((shm_abs s1)(key \<mapsto> (value, x))) - {key}) \<le> 32"
      by (rule card1) auto
    moreover have "((shm_abs s1)(key := None)) \<subseteq>\<^sub>m shm_abs seg"
      using sa(1) by (auto simp: map_le_def dom_def)
    ultimately show ?thesis using inv4 by (simp add: abs4)
  qed
qed

section \<open>The operations of the segment\<close>

lemma expired_abs:
  assumes ok: "nginx_core_ok e" and inv: "shm_inv e K seg"
    and look: "shm_lookup e (entries seg) (rb_root seg) key (ngx_crc32_short e key) = Some a"
    and expd: "shm_is_expired (entries seg a) now"
  shows "shm_inv e K (shm_delete_locked e seg a)"
    and "shm_abs (shm_delete_locked e seg a) = (shm_abs seg)(key := kv_live now (shm_abs seg) key)"
proof -
  have a: "a \<in> nodes (rb_root seg)" "entry_key (entries seg a) = key"
    using look lookup_Some [OF ok inv] by auto
  show "shm_inv e K (shm_delete_locked e seg a)" by (rule inv_delete [OF ok inv])
  show "shm_abs (shm_delete_locked e seg a) = (shm_abs seg)(key := kv_live now (shm_abs seg) key)"
    using abs_delete [OF ok inv a(1)] a(2) look expd by (simp add: live_lookup [OF ok inv])
qed

lemma live_unchanged: "kv_live now M k = M k \<Longrightarrow> M(k := kv_live now M k) = M"
  by simp

lemma live_found:
  assumes ok: "nginx_core_ok e" and inv: "shm_inv e K seg"
    and look: "shm_lookup e (entries seg) (rb_root seg) key (ngx_crc32_short e key) = r"
    and fresh: "\<And>a. r = Some a \<Longrightarrow> \<not> shm_is_expired (entries seg a) now"
  shows "kv_live now (shm_abs seg) key = shm_abs seg key"
  using fresh by (simp add: live_lookup [OF ok inv] lookup_abs [OF ok inv] look split: option.split)

lemma set_fresh_spec:
  assumes ok: "nginx_core_ok e" and agree: "hash_orders_agree e K" and inv: "shm_inv e K seg"
    and key: "key \<in> K"
    and look: "shm_lookup e (entries seg) (rb_root seg) key (ngx_crc32_short e key) = r"
    and fresh: "\<And>a. r = Some a \<Longrightarrow> \<not> shm_is_expired (entries seg a) now"
    and eq: "shm_set_locked e now seg key v x (ngx_crc32_short e key) rex rmiss = (rc, seg')"
  shows "shm_inv e K seg' \<and> kv_set now (shm_abs seg) key (v, x) rex rmiss rc (shm_abs seg')"
proof -
  have live: "kv_live now (shm_abs seg) key = shm_abs seg key"
    by (rule live_found [OF ok inv look fresh])
  have none: "shm_abs seg key = None \<longleftrightarrow> r = None"
    by (simp add: lookup_abs [OF ok inv] look)
  have split: "(case r of None \<Rightarrow> (None, seg) | Some y \<Rightarrow> if shm_is_expired (entries seg y) now
      then (None, shm_delete_locked e seg y) else (Some y, seg)) = (r, seg)"
    using fresh by (auto split: option.split)
  have store: "shm_inv e K seg' \<and> kv_set now (shm_abs seg) key (v, x) rex rmiss rc (shm_abs seg')"
    if "shm_store_new e seg key v x (ngx_crc32_short e key) r = (rc, seg')"
      and "\<not> (rex \<and> r = None)" "\<not> (rmiss \<and> r \<noteq> None)"
      and len: "\<And>a. r = Some a \<Longrightarrow> value_len (entries seg a) \<noteq> length v"
  proof -
    have "length (fst u) \<noteq> length v" if "shm_abs seg key = Some u" for u
    proof -
      from that obtain a where a: "r = Some a" "u = (entry_value (entries seg a), expires_at_msec (entries seg a))"
        by (auto simp: lookup_abs [OF ok inv] look)
      then have "a \<in> nodes (rb_root seg)" using lookup_Some [OF ok inv] look by auto
      from shm_inv_node [OF inv this] have "length (fst u) = value_len (entries seg a)"
        using a(2) by (auto simp: node_ok_def entry_value_def min_def)
      with len [OF a(1)] show ?thesis by simp
    qed
    then show ?thesis
      using store_new_spec [OF ok agree inv key look [symmetric] that(1)] that(2,3)
      by (auto simp: kv_set_def kv_put_def live none)
  qed
  show ?thesis
  proof (cases "rex \<and> r = None \<or> rmiss \<and> r \<noteq> None")
    case True
    then have "rc = NGX_HTTP_WASM_NOT_FOUND \<and> seg' = seg"
      using eq look split by (auto simp: shm_set_locked_def)
    with True show ?thesis using inv by (simp add: kv_set_def live none)
  next
    case ok2: False
    show ?thesis
    proof (cases "\<exists>a. r = Some a \<and> value_len (entries seg a) = length v")
      case True
      then obtain a where a: "r = Some a" "value_len (entries seg a) = length v" by blast
      let ?n = "(entries seg a)\<lparr>data := mem_write (data (entries seg a)) (key_len (entries seg a)) v,
          expires_at_msec := x\<rparr>"
      have node: "a \<in> nodes (rb_root seg)" "entry_key (entries seg a) = key"
        using lookup_Some [OF ok inv] look a by auto
      note nok = shm_inv_node [OF inv node(1)]
      have len: "key_len (entries seg a) + value_len (entries seg a) = length (data (entries seg a))"
        "key_len (entries seg a) \<le> length (data (entries seg a))"
        using nok by (auto simp: node_ok_def)
      have n: "node_ok e K ?n" "entry_key ?n = key" "entry_value ?n = v"
        using node_ok_overwrite [OF nok a(2)] entry_key_overwrite [OF len(2)] node(2)
          entry_value_overwrite [OF len(1) a(2)] by (blast, metis, blast)
      have "shm_inv e K (set_node seg a ?n)" using inv n node by (intro inv_set_node) auto
      then have "shm_inv e K (shm_touch_locked (set_node seg a ?n) a)"
        using node by (intro inv_touch) auto
      moreover have "shm_abs (shm_touch_locked (set_node seg a ?n) a) = (shm_abs seg)(key \<mapsto> (v, x))"
        using abs_set_used [OF ok inv node(1) n(1)] n node by simp
      moreover have "rc = NGX_HTTP_WASM_OK \<and> seg' = shm_touch_locked (set_node seg a ?n) a"
        using eq look split a ok2 by (auto simp: shm_set_locked_def Let_def)
      moreover have "card (dom (shm_abs seg) - insert key (dom (shm_abs seg)) - {key}) \<le> 32"
        by (metis Diff_eq_empty_iff card.empty empty_Diff le0 subset_insertI)
      moreover have "(shm_abs seg)(key := None) \<subseteq>\<^sub>m shm_abs seg" by (simp add: map_le_def)
      ultimately show ?thesis using ok2
        by (simp add: kv_set_def kv_put_def live none)
    next
      case False
      then have "shm_store_new e seg key v x (ngx_crc32_short e key) r = (rc, seg')"
        using eq look split ok2 by (auto simp: shm_set_locked_def split: option.splits if_splits)
      with False ok2 store show ?thesis by blast
    qed
  qed
qed

text \<open>A live view computes the same result: an expired entry is dropped first.\<close>

lemma kv_set_dropped:
  assumes "kv_live now M k = None" and "kv_set now (M(k := None)) k v rex rmiss rc M'"
  shows "kv_set now M k v rex rmiss rc M'"
proof -
  have live: "kv_live now (M(k := None)) k = None" by (simp add: kv_live_def)
  have dom: "dom (M(k := None)) - dom M' - {k} = dom M - dom M' - {k}" by auto
  have le: "M'(k := None) \<subseteq>\<^sub>m M(k := None) \<Longrightarrow> M'(k := None) \<subseteq>\<^sub>m M"
    by (auto simp: map_le_def dom_def split: if_splits)
  show ?thesis using assms(2) dom le by (simp add: kv_set_def kv_put_def live assms(1) split: if_splits)
qed

lemma set_locked_spec:
  assumes ok: "nginx_core_ok e" and agree: "hash_orders_agree e K" and inv: "shm_inv e K seg"
    and key: "key \<in> K"
    and eq: "shm_set_locked e now seg key v x (ngx_crc32_short e key) rex rmiss = (rc, seg')"
  shows "shm_inv e K seg' \<and> kv_set now (shm_abs seg) key (v, x) rex rmiss rc (shm_abs seg')"
proof (cases "\<exists>a. shm_lookup e (entries seg) (rb_root seg) key (ngx_crc32_short e key) = Some a \<and>
    shm_is_expired (entries seg a) now")
  case False
  then show ?thesis by (intro set_fresh_spec [OF ok agree inv key refl _ eq]) blast
next
  case True
  then obtain a where a: "shm_lookup e (entries seg) (rb_root seg) key (ngx_crc32_short e key) = Some a"
    "shm_is_expired (entries seg a) now" by blast
  let ?s1 = "shm_delete_locked e seg a"
  note d = expired_abs [OF ok inv a]
  have live: "kv_live now (shm_abs seg) key = None" using a by (simp add: live_lookup [OF ok inv])
  have "shm_abs ?s1 key = None" using d(2) live by simp
  then have gone: "shm_lookup e (entries ?s1) (rb_root ?s1) key (ngx_crc32_short e key) = None"
    by (simp add: lookup_abs [OF ok d(1)])
  then have "shm_set_locked e now ?s1 key v x (ngx_crc32_short e key) rex rmiss = (rc, seg')"
    using eq a by (simp add: shm_set_locked_def)
  from set_fresh_spec [OF ok agree d(1) key gone _ this]
  show ?thesis using kv_set_dropped [OF live] d(2) live by simp
qed

section \<open>Operations as a type\<close>

datatype shm_op =
    ShmGet bytes bytes
  | ShmExists bytes
  | ShmIncr bytes int
  | ShmSet bytes bytes
  | ShmSetEx bytes bytes u64
  | ShmAdd bytes bytes
  | ShmReplace bytes bytes
  | ShmDelete bytes

fun shm_op_key :: "shm_op \<Rightarrow> bytes" where
  "shm_op_key (ShmGet k _) = k"
| "shm_op_key (ShmExists k) = k"
| "shm_op_key (ShmIncr k _) = k"
| "shm_op_key (ShmSet k _) = k"
| "shm_op_key (ShmSetEx k _ _) = k"
| "shm_op_key (ShmAdd k _) = k"
| "shm_op_key (ShmReplace k _) = k"
| "shm_op_key (ShmDelete k) = k"

text \<open>The result of an operation: the return code, and the caller's buffer of a get.\<close>

type_synonym shm_result = "int \<times> bytes"

definition no_buf :: "int \<times> 'z \<Rightarrow> shm_result \<times> 'z" where
  "no_buf p = ((fst p, []), snd p)"

fun shm_step ::
  "'s nginx_core \<Rightarrow> u64 \<Rightarrow> shm_op \<Rightarrow> 's shm_zone option \<Rightarrow> shm_result \<times> 's shm_zone option" where
  "shm_step e now (ShmGet k buf) z = shm_get e now z k buf"
| "shm_step e now (ShmExists k) z = no_buf (shm_exists e now z k)"
| "shm_step e now (ShmIncr k d) z = no_buf (shm_incr e now z k d)"
| "shm_step e now (ShmSet k v) z = no_buf (shm_set e now z k v)"
| "shm_step e now (ShmSetEx k v ttl) z = no_buf (shm_set_ex e now z k v ttl)"
| "shm_step e now (ShmAdd k v) z = no_buf (shm_add e now z k v)"
| "shm_step e now (ShmReplace k v) z = no_buf (shm_replace e now z k v)"
| "shm_step e now (ShmDelete k) z = no_buf (shm_delete e z k)"

text \<open>What the abstract cache allows an operation to return and to leave behind.\<close>

definition kv_put_checked ::
  "u64 \<Rightarrow> kv \<Rightarrow> bytes \<Rightarrow> bytes \<times> u64 \<Rightarrow> bool \<Rightarrow> bool \<Rightarrow> int \<Rightarrow> kv \<Rightarrow> bool" where
  "kv_put_checked now M k v rex rmiss rc M' \<longleftrightarrow>
     (if length (fst v) > NGX_HTTP_WASM_SHM_MAX_VALUE_LEN then rc = NGX_HTTP_WASM_ERROR \<and> M' = M
      else kv_set now M k v rex rmiss rc M')"

definition kv_incr :: "u64 \<Rightarrow> kv \<Rightarrow> bytes \<Rightarrow> int \<Rightarrow> int \<Rightarrow> kv \<Rightarrow> bool" where
  "kv_incr now M k delta rc M' \<longleftrightarrow>
     (if delta < INT32_MIN \<or> delta > INT32_MAX then rc = NGX_HTTP_WASM_ERROR \<and> M' = M
      else case kv_live now M k of
        None \<Rightarrow> rc = NGX_HTTP_WASM_ERROR \<and> M' = M(k := None)
      | Some (v, x) \<Rightarrow>
          (case shm_parse_i32 v of
             None \<Rightarrow> rc = NGX_HTTP_WASM_ERROR \<and> M' = M
           | Some cur \<Rightarrow>
               (let sum = sint cur + delta
                in if sum < INT32_MIN \<or> sum > INT32_MAX
                   then rc = NGX_HTTP_WASM_ERROR \<and> M' = M
                   else \<exists>c. kv_put now M k (shm_format_i32 (word_of_int sum), x) c M' \<and>
                        rc = (if c = NGX_HTTP_WASM_OK then sum else c))))"

fun kv_allows :: "u64 \<Rightarrow> shm_op \<Rightarrow> kv \<Rightarrow> shm_result \<Rightarrow> kv \<Rightarrow> bool" where
  "kv_allows now (ShmGet k buf) M r M' =
     (M' = M(k := kv_live now M k) \<and>
      r = (case kv_live now M k of None \<Rightarrow> (NGX_HTTP_WASM_NOT_FOUND, buf)
           | Some (v, _) \<Rightarrow> (int (length v), copy_out v buf)))"
| "kv_allows now (ShmExists k) M r M' =
     (M' = M(k := kv_live now M k) \<and> fst r = (if kv_live now M k = None then 0 else 1))"
| "kv_allows now (ShmIncr k d) M r M' = kv_incr now M k d (fst r) M'"
| "kv_allows now (ShmSet k v) M r M' = kv_put_checked now M k (v, 0) False False (fst r) M'"
| "kv_allows now (ShmSetEx k v ttl) M r M' =
     kv_put_checked now M k (v, shm_expires_at now ttl) False False (fst r) M'"
| "kv_allows now (ShmAdd k v) M r M' = kv_put_checked now M k (v, 0) False True (fst r) M'"
| "kv_allows now (ShmReplace k v) M r M' = kv_put_checked now M k (v, 0) True False (fst r) M'"
| "kv_allows now (ShmDelete k) M r M' = (M' = M(k := None) \<and> fst r = NGX_HTTP_WASM_OK)"

section \<open>Refinement\<close>

text \<open>
  A usable zone maps a segment that satisfies the invariant. Each operation of the segment
  under the mutex does what the abstract cache allows.
\<close>

fun shm_zone_inv :: "'s nginx_core \<Rightarrow> bytes set \<Rightarrow> 's shm_zone option \<Rightarrow> bool" where
  "shm_zone_inv e K (Some z) = (sh_set z \<and> (case shpool z of Some seg \<Rightarrow> shm_inv e K seg | None \<Rightarrow> False))"
| "shm_zone_inv e K None = False"

fun shm_zone_abs :: "'s shm_zone option \<Rightarrow> kv" where
  "shm_zone_abs (Some z) = (case shpool z of Some seg \<Rightarrow> shm_abs seg | None \<Rightarrow> (\<lambda>_. None))"
| "shm_zone_abs None = (\<lambda>_. None)"

definition key_fits :: "bytes \<Rightarrow> bool" where
  "key_fits k \<longleftrightarrow> k \<noteq> [] \<and> length k \<le> NGX_HTTP_WASM_SHM_MAX_KEY_LEN"

lemma section_invalid:
  "shm_zone_inv e K zone \<Longrightarrow> \<not> key_fits k \<Longrightarrow> shm_section zone k err body = (err, zone)"
  by (cases zone) (auto simp: shm_section_def shm_key_valid_def key_fits_def)

text \<open>A section keeps the zone's invariant and relates the maps as its body does.\<close>

lemma section_rule:
  assumes zi: "shm_zone_inv e K zone" and k: "key_fits k"
    and body: "\<And>seg r seg'. shm_inv e K seg \<Longrightarrow> body seg = (r, seg') \<Longrightarrow>
      shm_inv e K seg' \<and> P (shm_abs seg) r (shm_abs seg')"
    and eq: "shm_section zone k err body = (r, zone')"
  shows "shm_zone_inv e K zone' \<and> P (shm_zone_abs zone) r (shm_zone_abs zone')"
proof -
  from zi obtain z seg where z: "zone = Some z" "shpool z = Some seg" "sh_set z" "shm_inv e K seg"
    by (cases zone) (auto split: option.splits)
  obtain r1 seg1 where b: "body seg = (r1, seg1)" by fastforce
  have "r = r1" "zone' = Some (z\<lparr>shpool := Some seg1\<rparr>)"
    using eq z b k by (auto simp: shm_section_def shm_key_valid_def key_fits_def)
  with body [OF z(4) b] z show ?thesis by simp
qed

lemma missing_abs:
  assumes ok: "nginx_core_ok e" and inv: "shm_inv e K seg"
    and "shm_lookup e (entries seg) (rb_root seg) k (ngx_crc32_short e k) = None"
  shows "kv_live now (shm_abs seg) k = None" and "(shm_abs seg)(k := None) = shm_abs seg"
  using assms(3) by (auto simp: live_lookup [OF ok inv] lookup_abs [OF ok inv] fun_upd_idem)

lemma get_locked_spec:
  assumes ok: "nginx_core_ok e" and inv: "shm_inv e K seg"
    and eq: "shm_get_locked e now k buf seg = (r, seg')"
  shows "shm_inv e K seg' \<and> kv_allows now (ShmGet k buf) (shm_abs seg) r (shm_abs seg')"
proof (cases "shm_lookup e (entries seg) (rb_root seg) k (ngx_crc32_short e k)")
  case None
  with eq inv missing_abs [OF ok inv None] show ?thesis
    by (auto simp: shm_get_locked_def)
next
  case (Some a)
  then have a: "a \<in> nodes (rb_root seg)" using lookup_Some [OF ok inv] by auto
  have len: "length (entry_value (entries seg a)) = value_len (entries seg a)"
    using shm_inv_node [OF inv a] by (auto simp: node_ok_def entry_value_def min_def)
  show ?thesis
  proof (cases "shm_is_expired (entries seg a) now")
    case True
    with eq Some expired_abs [OF ok inv Some True] show ?thesis
      by (auto simp: shm_get_locked_def live_lookup [OF ok inv])
  next
    case False
    with eq Some inv_touch [OF inv a] len show ?thesis
      by (auto simp: Let_def shm_get_locked_def live_lookup [OF ok inv] lookup_abs [OF ok inv] fun_upd_idem)
  qed
qed

lemma exists_locked_spec:
  assumes ok: "nginx_core_ok e" and inv: "shm_inv e K seg"
    and eq: "shm_exists_locked e now k seg = (r, seg')"
  shows "shm_inv e K seg' \<and> kv_allows now (ShmExists k) (shm_abs seg) (r, b) (shm_abs seg')"
proof (cases "shm_lookup e (entries seg) (rb_root seg) k (ngx_crc32_short e k)")
  case None
  with eq inv missing_abs [OF ok inv None] show ?thesis
    by (auto simp: shm_exists_locked_def)
next
  case (Some a)
  then have a: "a \<in> nodes (rb_root seg)" using lookup_Some [OF ok inv] by auto
  show ?thesis
  proof (cases "shm_is_expired (entries seg a) now")
    case True
    with eq Some expired_abs [OF ok inv Some True] show ?thesis
      by (auto simp: shm_exists_locked_def live_lookup [OF ok inv])
  next
    case False
    with eq Some inv_touch [OF inv a] show ?thesis
      by (auto simp: shm_exists_locked_def live_lookup [OF ok inv] lookup_abs [OF ok inv] fun_upd_idem)
  qed
qed

lemma delete_body_spec:
  assumes ok: "nginx_core_ok e" and inv: "shm_inv e K seg"
    and eq: "shm_delete_body e k seg = (r, seg')"
  shows "shm_inv e K seg' \<and> kv_allows now (ShmDelete k) (shm_abs seg) (r, b) (shm_abs seg')"
proof (cases "shm_lookup e (entries seg) (rb_root seg) k (ngx_crc32_short e k)")
  case None
  with eq inv missing_abs [OF ok inv None] show ?thesis
    by (auto simp: shm_delete_body_def)
next
  case (Some a)
  then have "a \<in> nodes (rb_root seg)" "entry_key (entries seg a) = k"
    using lookup_Some [OF ok inv] by auto
  with eq Some inv_delete [OF ok inv, of a] abs_delete [OF ok inv, of a] show ?thesis
    by (auto simp: shm_delete_body_def)
qed

lemma incr_locked_spec:
  assumes ok: "nginx_core_ok e" and agree: "hash_orders_agree e K" and inv: "shm_inv e K seg"
    and k: "k \<in> K" and d: "\<not> (delta < INT32_MIN \<or> delta > INT32_MAX)"
    and eq: "shm_incr_locked e now k delta seg = (r, seg')"
  shows "shm_inv e K seg' \<and> kv_incr now (shm_abs seg) k delta r (shm_abs seg')"
proof (cases "shm_lookup e (entries seg) (rb_root seg) k (ngx_crc32_short e k)")
  case None
  with eq inv d missing_abs [OF ok inv None] show ?thesis
    by (auto simp: shm_incr_locked_def kv_incr_def)
next
  case (Some a)
  show ?thesis
  proof (cases "shm_is_expired (entries seg a) now")
    case True
    with eq d Some expired_abs [OF ok inv Some True] show ?thesis
      by (auto simp: shm_incr_locked_def kv_incr_def live_lookup [OF ok inv])
  next
    case fresh: False
    let ?n = "entries seg a"
    have live: "kv_live now (shm_abs seg) k = Some (entry_value ?n, expires_at_msec ?n)"
      using Some fresh by (simp add: live_lookup [OF ok inv])
    show ?thesis
    proof (cases "shm_parse_i32 (entry_value ?n)")
      case None
      with eq d Some fresh inv live show ?thesis by (auto simp: shm_incr_locked_def kv_incr_def)
    next
      case cur: (Some cur)
      let ?sum = "sint cur + delta"
      show ?thesis
      proof (cases "?sum < INT32_MIN \<or> ?sum > INT32_MAX")
        case True
        with eq d Some fresh inv live cur show ?thesis by (auto simp: shm_incr_locked_def kv_incr_def)
      next
        case False
        obtain c s1 where set: "shm_set_locked e now seg k (shm_format_i32 (word_of_int ?sum))
            (expires_at_msec ?n) (ngx_crc32_short e k) True False = (c, s1)" by fastforce
        from set_locked_spec [OF ok agree inv k set]
        have put: "shm_inv e K s1" "kv_put now (shm_abs seg) k
            (shm_format_i32 (word_of_int ?sum), expires_at_msec ?n) c (shm_abs s1)"
          by (simp_all add: kv_set_def live)
        have "r = (if c = NGX_HTTP_WASM_OK then ?sum else c)" "seg' = s1"
          using eq Some fresh cur False set by (auto simp: shm_incr_locked_def Let_def split: if_splits)
        with put d live cur False show ?thesis by (auto simp: kv_incr_def Let_def)
      qed
    qed
  qed
qed

text \<open>One operation on a zone.\<close>

definition op_ok :: "bytes set \<Rightarrow> u64 \<times> shm_op \<Rightarrow> bool" where
  "op_ok K t \<longleftrightarrow> key_fits (shm_op_key (snd t)) \<and> shm_op_key (snd t) \<in> K"

lemma set_section_spec:
  assumes ok: "nginx_core_ok e" and agree: "hash_orders_agree e K" and zi: "shm_zone_inv e K zone"
    and k: "key_fits k" "k \<in> K"
    and eq: "shm_set_section e now zone k v x rex rmiss = (r, zone')"
  shows "shm_zone_inv e K zone' \<and>
    kv_put_checked now (shm_zone_abs zone) k (v, x) rex rmiss r (shm_zone_abs zone')"
proof (cases "length v > NGX_HTTP_WASM_SHM_MAX_VALUE_LEN")
  case True
  with eq zi show ?thesis by (auto simp: shm_set_section_def kv_put_checked_def)
next
  case False
  have "shm_section zone k NGX_HTTP_WASM_ERROR
      (\<lambda>seg. shm_set_locked e now seg k v x (ngx_crc32_short e k) rex rmiss) = (r, zone')"
    using eq False by (simp add: shm_set_section_def)
  then have "shm_zone_inv e K zone' \<and>
      kv_set now (shm_zone_abs zone) k (v, x) rex rmiss r (shm_zone_abs zone')"
    by (rule section_rule [OF zi k(1), where P = "\<lambda>M r M'. kv_set now M k (v, x) rex rmiss r M'", rotated])
      (rule set_locked_spec [OF ok agree _ k(2)])
  with False show ?thesis by (simp add: kv_put_checked_def)
qed

lemmas set_wrappers = shm_set_def shm_set_ex_def shm_add_def shm_replace_def

lemma shm_step_refines:
  assumes ok: "nginx_core_ok e" and agree: "hash_orders_agree e K" and zi: "shm_zone_inv e K zone"
    and k: "op_ok K (now, op)" and eq: "shm_step e now op zone = (r, zone')"
  shows "shm_zone_inv e K zone' \<and> kv_allows now op (shm_zone_abs zone) r (shm_zone_abs zone')"
proof -
  note set_rule = set_section_spec [OF ok agree zi _ _ prod.collapse [symmetric]]
  show ?thesis
  proof (cases op)
    case (ShmGet key buf)
    with eq have "shm_section zone key (NGX_HTTP_WASM_ERROR, buf) (shm_get_locked e now key buf) = (r, zone')"
      by (simp add: shm_get_def)
    note sec = this
    show ?thesis unfolding ShmGet
      by (rule section_rule [where P = "kv_allows now (ShmGet key buf)", OF zi _ _ sec])
        (use k ShmGet get_locked_spec [OF ok] in \<open>auto simp: op_ok_def simp del: kv_allows.simps\<close>)
  next
    case (ShmExists key)
    with eq obtain c where c: "shm_section zone key NGX_HTTP_WASM_ERROR (shm_exists_locked e now key) = (c, zone')"
      "r = (c, [])" by (cases "shm_exists e now zone key") (auto simp: shm_exists_def no_buf_def)
    show ?thesis unfolding ShmExists c(2)
      by (rule section_rule [where P = "\<lambda>M r. kv_allows now (ShmExists key) M (r, [])", OF zi _ _ c(1)])
        (use k ShmExists exists_locked_spec [OF ok] in \<open>auto simp: op_ok_def simp del: kv_allows.simps\<close>)
  next
    case (ShmDelete key)
    with eq obtain c where c: "shm_section zone key NGX_HTTP_WASM_ERROR (shm_delete_body e key) = (c, zone')"
      "r = (c, [])" by (cases "shm_delete e zone key") (auto simp: shm_delete_def no_buf_def)
    show ?thesis unfolding ShmDelete c(2)
      by (rule section_rule [where P = "\<lambda>M r. kv_allows now (ShmDelete key) M (r, [])", OF zi _ _ c(1)])
        (use k ShmDelete delete_body_spec [OF ok] in \<open>auto simp: op_ok_def simp del: kv_allows.simps\<close>)
  next
    case (ShmIncr key d)
    with eq obtain c where c: "shm_incr e now zone key d = (c, zone')" "r = (c, [])"
      by (cases "shm_incr e now zone key d") (auto simp: no_buf_def)
    show ?thesis
    proof (cases "d < INT32_MIN \<or> d > INT32_MAX")
      case True
      with c zi ShmIncr show ?thesis by (auto simp: shm_incr_def kv_incr_def)
    next
      case False
      with c(1) have sec: "shm_section zone key NGX_HTTP_WASM_ERROR (shm_incr_locked e now key d) = (c, zone')"
        by (simp add: shm_incr_def)
      have key: "key_fits key" "key \<in> K" using k ShmIncr by (auto simp: op_ok_def)
      show ?thesis unfolding ShmIncr c(2) kv_allows.simps fst_conv
        by (rule section_rule [where P = "\<lambda>M r. kv_incr now M key d r", OF zi key(1) _ sec])
          (rule incr_locked_spec [OF ok agree _ key(2) False])
    qed
  next
    case (ShmSet key v)
    with eq k show ?thesis
      by (auto simp: set_wrappers no_buf_def op_ok_def set_rule)
  next
    case (ShmSetEx key v ttl)
    with eq k show ?thesis
      by (auto simp: set_wrappers no_buf_def op_ok_def set_rule)
  next
    case (ShmAdd key v)
    with eq k show ?thesis
      by (auto simp: set_wrappers no_buf_def op_ok_def set_rule)
  next
    case (ShmReplace key v)
    with eq k show ?thesis
      by (auto simp: set_wrappers no_buf_def op_ok_def set_rule)
  qed
qed

section \<open>Sequences of operations\<close>

text \<open>
  The mutex makes the operations of all workers one sequence; each carries the cached time at
  which its worker runs it. The times are those of the workers' clocks and need not be sorted.
\<close>

abbreviation shm_run ::
  "'s nginx_core \<Rightarrow> (u64 \<times> shm_op) list \<Rightarrow> 's shm_zone option \<Rightarrow> shm_result list \<times> 's shm_zone option" where
  "shm_run e \<equiv> run_ops (\<lambda>(now, op). shm_step e now op)"

abbreviation kv_trace :: "(u64 \<times> shm_op) list \<Rightarrow> kv \<Rightarrow> shm_result list \<Rightarrow> kv \<Rightarrow> bool" where
  "kv_trace \<equiv> trace (\<lambda>(now, op). kv_allows now op)"

interpretation shm_cache: refinement "\<lambda>(now, op). shm_step e now op"
  "\<lambda>zone. nginx_core_ok e \<and> hash_orders_agree e K \<and> shm_zone_inv e K zone" "op_ok K" shm_zone_abs
  "\<lambda>(now, op). kv_allows now op" for e K
proof unfold_locales
  fix s s' and t :: "u64 \<times> shm_op" and r
  assume "nginx_core_ok e \<and> hash_orders_agree e K \<and> shm_zone_inv e K s" "op_ok K t"
    "(case t of (now, op) \<Rightarrow> shm_step e now op) s = (r, s')"
  with shm_step_refines [of e K s "fst t" "snd t" r s'] show
    "(nginx_core_ok e \<and> hash_orders_agree e K \<and> shm_zone_inv e K s') \<and>
     (case t of (now, op) \<Rightarrow> kv_allows now op) (shm_zone_abs s) r (shm_zone_abs s')"
    by (simp add: case_prod_beta)
qed

lemma shm_run_sim:
  assumes "nginx_core_ok e" and "hash_orders_agree e K" and "shm_zone_inv e K zone" and "\<forall>t \<in> set ops. op_ok K t"
    and "shm_run e ops zone = (rs, zone')"
  shows "shm_zone_inv e K zone' \<and> kv_trace ops (shm_zone_abs zone) rs (shm_zone_abs zone')"
  using shm_cache.run_refines [of e K zone ops rs zone'] assms by simp

text \<open>Initialisation gives an empty cache, or the cache of the previous cycle.\<close>

lemma init_zone_fresh:
  assumes ok: "nginx_core_ok e" and "\<not> pool_data seg" and eq: "shm_init_zone e seg None = (NGX_OK, z)"
  shows "shm_zone_inv e K (Some z)" and "shm_zone_abs (Some z) = Map.empty"
  using eq assms(2)
  by (auto simp: shm_init_zone_def shm_inv_def shm_abs_def split: option.splits if_splits)

end
