(* ===== verification/Shm_Order.thy ===== *)
theory Shm_Order
  imports Shm_Ops
begin

text \<open>
  What holds of the key-value store for any keys, also for those on which the two comparison
  callbacks of the tree disagree: the nodes stay in the order of the insertion callback. Every
  operation, whatever its lookups find or miss, keeps this invariant; the end of the theory shows
  what the lookup makes of it for two keys with the same hash.
\<close>

section \<open>The order of insertion\<close>

abbreviation insert_less :: "'s nginx_core \<Rightarrow> (addr \<Rightarrow> shm_node) \<Rightarrow> addr \<Rightarrow> addr \<Rightarrow> bool" where
  "insert_less e m a b \<equiv> shm_insert_rc e (m a) (m b) < 0"

lemma insert_less_asym: "nginx_core_ok e \<Longrightarrow> insert_less e m a b \<Longrightarrow> \<not> insert_less e m b a"
  using memn2cmp_flip [of e "entry_key (m a)" "entry_key (m b)"]
  by (auto simp: shm_insert_rc_def split: if_splits)

lemma insert_less_negtrans:
  assumes ok: "nginx_core_ok e" and "\<not> insert_less e m a b" "\<not> insert_less e m b c"
  shows "\<not> insert_less e m a c"
proof -
  let ?k = "\<lambda>a. entry_key (m a)"
  have "\<not> ngx_memn2cmp e (?k a) (?k c) < 0"
    if "\<not> ngx_memn2cmp e (?k a) (?k b) < 0" "\<not> ngx_memn2cmp e (?k b) (?k c) < 0"
    using that memn2cmp_trans [OF ok] memn2cmp_flip [OF ok] memn2cmp_eq [OF ok] by (metis linorder_neqE)
  with assms(2,3) show ?thesis by (auto simp: shm_insert_rc_def split: if_splits)
qed

definition tree_inv :: "'s nginx_core \<Rightarrow> 's shm_seg \<Rightarrow> bool" where
  "tree_inv e seg \<longleftrightarrow> distinct (inorder (rb_root seg)) \<and> nodes (rb_root seg) \<subseteq> slab_live e (slab seg) \<and>
     (\<forall>a \<in> nodes (rb_root seg). node_ok e UNIV (entries seg a)) \<and>
     sorted_wrt (\<lambda>a b. \<not> insert_less e (entries seg) b a) (inorder (rb_root seg))"

lemma tree_inv_delete:
  "nginx_core_ok e \<Longrightarrow> tree_inv e seg \<Longrightarrow> tree_inv e (shm_delete_locked e seg a)"
  by (auto simp: tree_inv_def inorder_delete slab_live_free sorted_wrt_remove1)

lemma tree_inv_touch: "tree_inv e seg \<Longrightarrow> tree_inv e (shm_touch_locked seg a)"
  by (simp add: tree_inv_def)

lemma tree_inv_unused: "tree_inv e seg \<Longrightarrow> a \<notin> nodes (rb_root seg) \<Longrightarrow> tree_inv e (set_node seg a n)"
proof -
  assume inv: "tree_inv e seg" and a: "a \<notin> nodes (rb_root seg)"
  have "sorted_wrt (\<lambda>x y. \<not> insert_less e ((entries seg)(a := n)) y x) (inorder (rb_root seg))"
    by (rule sorted_wrt_mono_rel [of _ "\<lambda>x y. \<not> insert_less e (entries seg) y x"])
      (use a inv in \<open>auto simp: tree_inv_def\<close>)
  with inv a show ?thesis by (auto simp: tree_inv_def)
qed

lemma tree_inv_overwrite:
  assumes "tree_inv e seg" "value_len (entries seg a) = length v" "a \<in> nodes (rb_root seg)"
  shows "tree_inv e (set_node seg a ((entries seg a)\<lparr>data := mem_write (data (entries seg a)) (key_len (entries seg a)) v,
    expires_at_msec := x\<rparr>))" (is "tree_inv e (set_node seg a ?n)")
proof -
  have nok: "node_ok e UNIV (entries seg a)" using assms(1,3) by (simp add: tree_inv_def)
  then have "key_len (entries seg a) \<le> length (data (entries seg a))" by (simp add: node_ok_def)
  then have "entry_key ?n = entry_key (entries seg a)" by (rule entry_key_overwrite)
  moreover have "hash_key ?n = hash_key (entries seg a)" "key_len ?n = key_len (entries seg a)" by simp_all
  ultimately have "shm_insert_rc e ?n y = shm_insert_rc e (entries seg a) y"
      "shm_insert_rc e y ?n = shm_insert_rc e y (entries seg a)" for y
    by (simp_all only: shm_insert_rc_def)
  then have less: "insert_less e (entries (set_node seg a ?n)) x y = insert_less e (entries seg) x y" for x y by simp
  have "sorted_wrt (\<lambda>x y. \<not> insert_less e (entries (set_node seg a ?n)) y x) (inorder (rb_root seg))"
    unfolding less using assms(1) by (simp add: tree_inv_def)
  with assms(1) node_ok_overwrite [OF nok assms(2)] show ?thesis by (auto simp: tree_inv_def)
qed

lemma tree_inv_insert:
  assumes ok: "nginx_core_ok e" and inv: "tree_inv e seg"
    and a: "a \<notin> nodes (rb_root seg)" "a \<in> slab_live e (slab seg)" "node_ok e UNIV (entries seg a)"
  shows "tree_inv e (shm_insert e seg a)"
proof -
  have "sorted_wrt (\<lambda>a b. \<not> insert_less e (entries seg) b a)
      (inorder (shm_rbtree_insert_value e (entries seg) (rb_root seg) a))"
    by (rule shm_ins.sorted_ins_weak [OF insert_less_asym [OF ok] insert_less_negtrans [OF ok]])
      (use inv in \<open>auto simp: tree_inv_def\<close>)
  with inv a shm_ins.distinct_ins show ?thesis by (auto simp: tree_inv_def inorder_insert [OF ok])
qed

section \<open>The operations\<close>

lemma tree_inv_attempts:
  assumes ok: "nginx_core_ok e"
  shows "tree_inv e seg \<Longrightarrow> shm_alloc_attempts e k sz skip seg = (r, seg') \<Longrightarrow>
    tree_inv e seg' \<and> (\<forall>a. r = Some a \<longrightarrow> a \<notin> nodes (rb_root seg') \<and> a \<in> slab_live e (slab seg')) \<and>
    (\<forall>a \<in> nodes (rb_root seg). skip = Some a \<longrightarrow> a \<in> nodes (rb_root seg'))"
proof (induction k arbitrary: seg)
  case (Suc k)
  show ?case
  proof (cases "ngx_slab_alloc_locked e (slab seg) sz")
    case (Some p)
    with Suc.prems slab_allocD [OF ok, of "slab seg" sz] show ?thesis by (cases p) (auto simp: tree_inv_def)
  next
    case None
    obtain rc seg1 where ev: "shm_evict_lru_locked e seg skip = (rc, seg1)" by fastforce
    then show ?thesis
    proof (cases rule: evict_cases)
      case 1
      with Suc.prems None ev show ?thesis by auto
    next
      case (2 a)
      with Suc.prems None ev have "shm_alloc_attempts e k sz skip seg1 = (r, seg')" by simp
      moreover have "nodes (rb_root seg1) = nodes (rb_root seg) - {a}"
        using 2(4) Suc.prems(1) by (simp add: inorder_delete [OF ok] tree_inv_def)
      ultimately show ?thesis using Suc.IH [of seg1] 2(3,4) tree_inv_delete [OF ok Suc.prems(1)] by auto
    qed
  qed
qed simp

lemma tree_inv_store_new:
  assumes ok: "nginx_core_ok e" and inv: "tree_inv e seg" and ex: "\<And>b. existing = Some b \<Longrightarrow> b \<in> nodes (rb_root seg)"
    and eq: "shm_store_new e seg key value x (ngx_crc32_short e key) existing = (rc, seg')"
  shows "tree_inv e seg'"
proof -
  let ?sz = "shm_node_data_offset + length key + length value"
  obtain r s1 where at: "shm_alloc_attempts e 32 ?sz existing seg = (r, s1)" by fastforce
  note s1 = tree_inv_attempts [OF ok inv at]
  show ?thesis
  proof (cases r)
    case None
    with eq at s1 show ?thesis by (auto simp: shm_store_new_def shm_alloc_node_def)
  next
    case (Some a)
    define s2 where "s2 = set_node s1 a \<lparr>hash_key = ngx_crc32_short e key, key_len = length key,
         value_len = length value, expires_at_msec = x, data = key @ value\<rparr>"
    define s3 where "s3 = (case existing of Some b \<Rightarrow> shm_delete_locked e s2 b | None \<Rightarrow> s2)"
    from s1 Some have a: "tree_inv e s2" "a \<notin> nodes (rb_root s2)" "a \<in> slab_live e (slab s2)"
      and n: "node_ok e UNIV (entries s2 a)"
      using tree_inv_unused by (auto simp: s2_def new_node)
    have seg': "seg' = shm_insert e s3 a"
      using eq at Some by (cases existing) (auto simp: shm_store_new_def shm_alloc_node_def Let_def s3_def s2_def set_node_def)
    have "existing \<noteq> Some a" using s1 Some ex by blast
    with a n show ?thesis unfolding seg'
      by (intro tree_inv_insert [OF ok])
        (auto simp: s3_def tree_inv_delete [OF ok] inorder_delete [OF ok] slab_live_free [OF ok]
          dest: notin_set_remove1 split: option.split)
  qed
qed

lemma tree_inv_lookup:
  assumes "shm_lookup e (entries seg) (rb_root seg) key (ngx_crc32_short e key) = Some a"
  shows "a \<in> nodes (rb_root seg)"
  using shm_look.look_sound [OF assms] by blast

lemma tree_inv_set:
  assumes ok: "nginx_core_ok e" and inv: "tree_inv e seg"
    and eq: "shm_set_locked e now seg key v x (ngx_crc32_short e key) rex rmiss = (rc, seg')"
  shows "tree_inv e seg'"
proof -
  define p where "p = (case shm_lookup e (entries seg) (rb_root seg) key (ngx_crc32_short e key) of
      Some y \<Rightarrow> if shm_is_expired (entries seg y) now then (None, shm_delete_locked e seg y) else (Some y, seg)
    | None \<Rightarrow> (None, seg))"
  obtain existing s1 where p: "p = (existing, s1)" by fastforce
  have s1: "tree_inv e s1" "\<And>b. existing = Some b \<Longrightarrow> b \<in> nodes (rb_root s1)"
    using p inv tree_inv_delete [OF ok inv] tree_inv_lookup by (auto simp: p_def split: option.splits if_splits)
  have store: "tree_inv e seg'" if "shm_store_new e s1 key v x (ngx_crc32_short e key) existing = (rc, seg')"
    by (rule tree_inv_store_new [OF ok s1(1) s1(2) that])
  show ?thesis
  proof (cases existing)
    case None
    with eq p [unfolded p_def] s1(1) store show ?thesis by (auto simp: shm_set_locked_def Let_def split: if_splits)
  next
    case (Some a)
    with eq p [unfolded p_def] s1(1) store tree_inv_touch [OF tree_inv_overwrite [OF s1(1) _ s1(2) [OF Some]]]
    show ?thesis by (auto simp: shm_set_locked_def Let_def split: if_splits)
  qed
qed

lemma tree_inv_get: "nginx_core_ok e \<Longrightarrow> tree_inv e seg \<Longrightarrow> tree_inv e (snd (shm_get_locked e now key buf seg))"
  by (simp add: shm_get_locked_def Let_def tree_inv_delete tree_inv_touch split: option.split)

lemma tree_inv_exists: "nginx_core_ok e \<Longrightarrow> tree_inv e seg \<Longrightarrow> tree_inv e (snd (shm_exists_locked e now key seg))"
  by (simp add: shm_exists_locked_def tree_inv_delete tree_inv_touch split: option.split)

lemma tree_inv_delete_body: "nginx_core_ok e \<Longrightarrow> tree_inv e seg \<Longrightarrow> tree_inv e (snd (shm_delete_body e key seg))"
  by (simp add: shm_delete_body_def tree_inv_delete split: option.split)

lemma tree_inv_incr:
  assumes "nginx_core_ok e" "tree_inv e seg"
  shows "tree_inv e (snd (shm_incr_locked e now key d seg))"
  using assms tree_inv_set [OF assms prod.collapse [symmetric]]
  by (simp add: shm_incr_locked_def Let_def tree_inv_delete case_prod_beta split: option.split)

section \<open>Zones\<close>

fun zone_tree_inv :: "'s nginx_core \<Rightarrow> 's shm_zone option \<Rightarrow> bool" where
  "zone_tree_inv e (Some z) = (sh_set z \<and> (case shpool z of Some seg \<Rightarrow> tree_inv e seg | None \<Rightarrow> False))"
| "zone_tree_inv e None = False"

lemma zone_tree_inv_section:
  assumes "zone_tree_inv e zone" and "\<And>seg. tree_inv e seg \<Longrightarrow> tree_inv e (snd (body seg))"
  shows "zone_tree_inv e (snd (shm_section zone key err body))"
  using assms by (cases zone) (auto simp: shm_section_def case_prod_beta split: option.splits)

lemma zone_tree_inv_step:
  assumes ok: "nginx_core_ok e" and zi: "zone_tree_inv e zone"
  shows "zone_tree_inv e (snd (shm_step e now op zone))"
proof -
  note sec = zone_tree_inv_section [OF zi]
  have set: "zone_tree_inv e (snd (shm_set_section e now zone k v x rex rmiss))" for k v x rex rmiss
    by (auto simp: shm_set_section_def zi intro!: sec intro: tree_inv_set [OF ok _ prod.collapse [symmetric]])
  show ?thesis
    by (cases op) (simp_all add: set set_wrappers no_buf_def case_prod_beta shm_get_def shm_exists_def shm_delete_def
        shm_incr_def sec zi tree_inv_get [OF ok] tree_inv_exists [OF ok] tree_inv_delete_body [OF ok] tree_inv_incr [OF ok])
qed

lemma zone_tree_inv_run:
  "nginx_core_ok e \<Longrightarrow> zone_tree_inv e zone \<Longrightarrow> zone_tree_inv e (snd (shm_run e ops zone))"
  by (induction ops arbitrary: zone) (auto simp: case_prod_beta zone_tree_inv_step)

lemma zone_tree_inv_init:
  assumes "nginx_core_ok e" and "\<not> pool_data seg" and "shm_init_zone e seg None = (NGX_OK, z)"
  shows "zone_tree_inv e (Some z)"
  using assms by (auto simp: shm_init_zone_def tree_inv_def split: option.splits if_splits)

section \<open>Colliding keys\<close>

text \<open>
  Two keys with the same hash, the longer one the smaller for \<^verbatim>\<open>ngx_memn2cmp\<close>: the insertion has
  put the shorter one's node first, the lookups of both can only succeed if it comes last.
\<close>

definition keys_conflict :: "'s nginx_core \<Rightarrow> bytes \<Rightarrow> bytes \<Rightarrow> bool" where
  "keys_conflict e k1 k2 \<longleftrightarrow> ngx_crc32_short e k1 = ngx_crc32_short e k2 \<and> length k1 < length k2 \<and>
     ngx_memn2cmp e k2 k1 < 0"

lemma conflict_lookup:
  assumes ok: "nginx_core_ok e" and inv: "tree_inv e seg" and c: "keys_conflict e k1 k2"
    and l1: "shm_lookup e (entries seg) (rb_root seg) k1 (ngx_crc32_short e k1) = Some a"
    and l2: "shm_lookup e (entries seg) (rb_root seg) k2 (ngx_crc32_short e k2) = Some b"
  shows False
proof -
  let ?m = "entries seg"
  have probes: "shm_probe e ?m k2 (ngx_crc32_short e k2) x < 0" if "shm_probe e ?m k1 (ngx_crc32_short e k1) x \<le> 0" for x
    using that c memn2cmp_trans [OF ok, of k2 k1] memn2cmp_eq [OF ok]
    by (auto simp: keys_conflict_def hk_probe_def le_less split: if_splits)
  have "\<not> insert_less e ?m a b"
    by (rule search_antimono [OF shm_look.rbtree_search_axioms shm_look.rbtree_search_axioms probes _ l1 l2])
      (use inv in \<open>auto simp: tree_inv_def\<close>)
  moreover have "entry_key (?m a) = k1" "entry_key (?m b) = k2" "node_ok e UNIV (?m a)" "node_ok e UNIV (?m b)"
    using shm_look.look_sound [OF l1] shm_look.look_sound [OF l2] inv hk_probe_0 [OF ok]
    by (auto simp: tree_inv_def node_ok_def)
  moreover have "key_len n = length (entry_key n)" if "node_ok e UNIV n" for n
    using that by (auto simp: node_ok_def entry_key_def)
  ultimately show False using c by (auto simp: keys_conflict_def node_ok_def shm_insert_rc_def)
qed

end
