(* ===== verification/Shm_Int.thy ===== *)
theory Shm_Int
  imports Shm
begin

text \<open>
  The decimal integers of \<open>shm_incr\<close>: the parser against the mathematical value of a numeral,
  and the formatter as its inverse on every 32-bit value.
\<close>

section \<open>Numerals\<close>

text \<open>The value of a string of digits behind a prefix of value \<open>acc\<close>, without any bound.\<close>

fun dec_digits :: "bytes \<Rightarrow> nat \<Rightarrow> nat option" where
  "dec_digits [] acc = Some acc"
| "dec_digits (ch # cs) acc =
     (if ch < 0x30 \<or> ch > 0x39 then None else dec_digits cs (acc * 10 + (unat ch - 48)))"

definition dec_int :: "bytes \<Rightarrow> int option" where
  "dec_int d =
     (case d of
        [] \<Rightarrow> None
      | c # rest \<Rightarrow>
          if c = 0x2D
          then (if rest = [] then None else map_option (\<lambda>n. - int n) (dec_digits rest 0))
          else map_option int (dec_digits d 0))"

lemma dec_digits_mono: "dec_digits cs acc = Some n \<Longrightarrow> acc \<le> n"
  by (induction cs arbitrary: acc) (fastforce split: if_splits)+

lemma dec_digits_append:
  "dec_digits (xs @ ys) acc = (case dec_digits xs acc of None \<Rightarrow> None | Some n \<Rightarrow> dec_digits ys n)"
  by (induction xs arbitrary: acc) auto

section \<open>The parser\<close>

lemma unat_digit_of:
  assumes "\<not> (ch < 0x30 \<or> ch > 0x39)"
  shows "unat (digit_of ch) = unat ch - 48" and "unat ch - 48 \<le> 9"
proof -
  have le: "0x30 \<le> ch" "ch \<le> 0x39" using assms by auto
  then have "48 \<le> unat ch" "unat ch \<le> 57" by (simp_all add: word_le_nat_alt)
  moreover have "unat (ch - 0x30) = unat ch - 48" using le(1) by (simp add: unat_sub)
  moreover have "unat (ucast w :: u32) = unat w" for w :: byte
    using unsigned_less [of w, where 'a = nat]
    by (simp add: unsigned_ucast_eq take_bit_nat_eq_self)
  ultimately show "unat (digit_of ch) = unat ch - 48" "unat ch - 48 \<le> 9"
    by (simp_all add: digit_of_def)
qed

lemma nat_digit_bound:
  fixes l r d :: nat
  assumes "d \<le> 9"
  shows "(l div 10 < r \<or> r = l div 10 \<and> l mod 10 < d) \<longleftrightarrow> l < r * 10 + d"
proof -
  have "l = l div 10 * 10 + l mod 10" "l mod 10 < 10" by simp_all
  with assms show ?thesis by linarith
qed

lemma digit_too_big_iff:
  assumes "unat d \<le> 9"
  shows "digit_too_big limit r d \<longleftrightarrow> unat limit < unat r * 10 + unat d"
proof -
  have "r = limit div 10 \<longleftrightarrow> unat r = unat limit div 10"
    by (simp add: word_unat_eq_iff unat_div)
  then show ?thesis
    unfolding nat_digit_bound [OF assms, symmetric]
    by (simp add: digit_too_big_def word_less_nat_alt unat_div unat_mod)
qed

text \<open>The accumulator never wraps: the bound is checked before each step.\<close>

lemma parse_digits_step:
  assumes "unat d \<le> 9" and "\<not> digit_too_big limit r d"
  shows "unat (r * 10 + d) = unat r * 10 + unat d" and "unat (r * 10 + d) \<le> unat limit"
proof -
  have b: "unat r * 10 + unat d \<le> unat limit" using assms by (simp add: digit_too_big_iff)
  then have "unat r * 10 + unat d < 2 ^ 32" using unsigned_less [of limit, where 'a = nat] by simp
  then show "unat (r * 10 + d) = unat r * 10 + unat d"
    by (simp add: unat_word_ariths)
  with b show "unat (r * 10 + d) \<le> unat limit" by simp
qed

lemma parse_digits_spec:
  "unat r \<le> unat limit \<Longrightarrow> shm_parse_digits limit cs r =
     (case dec_digits cs (unat r) of
        None \<Rightarrow> None
      | Some n \<Rightarrow> if n \<le> unat limit then Some (of_nat n) else None)"
proof (induction cs arbitrary: r)
  case Nil
  then show ?case by simp
next
  case (Cons ch cs)
  show ?case
  proof (cases "ch < 0x30 \<or> ch > 0x39")
    case True
    then show ?thesis by auto
  next
    case digit: False
    note d = unat_digit_of [OF digit]
    show ?thesis
    proof (cases "digit_too_big limit r (digit_of ch)")
      case True
      then have "unat limit < unat r * 10 + (unat ch - 48)" using d by (simp add: digit_too_big_iff)
      then have "dec_digits cs (unat r * 10 + (unat ch - 48)) = Some n \<Longrightarrow> \<not> n \<le> unat limit" for n
        using dec_digits_mono by fastforce
      with True digit show ?thesis by (auto split: option.split)
    next
      case False
      with d parse_digits_step [of "digit_of ch" limit r]
      have "unat (r * 10 + digit_of ch) = unat r * 10 + (unat ch - 48)"
        "unat (r * 10 + digit_of ch) \<le> unat limit" by simp_all
      with Cons.IH [of "r * 10 + digit_of ch"] digit False show ?thesis by simp
    qed
  qed
qed

lemma sint_small: "n < 2 ^ 31 \<Longrightarrow> sint (of_nat n :: u32) = int n"
  by (simp add: signed_of_nat signed_take_bit_int_eq_self)

lemma sint_neg_small: "0 < n \<Longrightarrow> n \<le> 2 ^ 31 \<Longrightarrow> sint (- of_nat n :: u32) = - int n"
proof -
  assume n: "0 < n" "n \<le> 2 ^ 31"
  have "(- of_nat n :: u32) = word_of_int (- int n)" by simp
  then have "sint (- of_nat n :: u32) = signed_take_bit 31 (- int n)" by (simp only: sint_sbintrunc')simp
  with n show ?thesis by (simp add: signed_take_bit_int_eq_self)
qed

definition in_i32 :: "int \<Rightarrow> bool" where
  "in_i32 i \<longleftrightarrow> INT32_MIN \<le> i \<and> i \<le> INT32_MAX"

text \<open>
  The parser accepts exactly the numerals whose value fits 32 bits, and returns that value.
\<close>

lemma parse_i32_spec:
  "map_option sint (shm_parse_i32 d) =
     (case dec_int d of None \<Rightarrow> None | Some i \<Rightarrow> if in_i32 i then Some i else None)"
proof (cases d)
  case Nil
  then show ?thesis by (simp add: shm_parse_i32_def dec_int_def)
next
  case (Cons c rest)
  note lim = parse_digits_spec [of 0 2147483648 rest, simplified]
    parse_digits_spec [of 0 2147483647 d, simplified]
  show ?thesis
  proof (cases "c = 0x2D")
    case neg: True
    show ?thesis
    proof (cases "dec_digits rest 0")
      case None
      with neg Cons lim show ?thesis by (simp add: shm_parse_i32_def dec_int_def)
    next
      case (Some n)
      show ?thesis
      proof (cases "n \<le> 2147483648")
        case True
        have big: "(of_nat n :: u32) = 2147483648 \<longleftrightarrow> n = 2147483648"
          using True by (simp add: word_unat_eq_iff unsigned_of_nat take_bit_nat_eq_self)
        have min: "sint (word_of_int INT32_MIN :: u32) = - 2147483648"
          by (simp add: INT32_MIN_def)
        consider "n = 0" | "0 < n" "n < 2147483648" | "n = 2147483648" using True by linarith
        then show ?thesis
          using neg Cons lim Some True big min sint_neg_small [of n]
          by cases (auto simp: shm_parse_i32_def dec_int_def in_i32_def INT32_MIN_def INT32_MAX_def)
      next
        case False
        with neg Cons lim Some show ?thesis
          by (auto simp: shm_parse_i32_def dec_int_def in_i32_def INT32_MIN_def INT32_MAX_def)
      qed
    qed
  next
    case False
    show ?thesis
    proof (cases "dec_digits d 0")
      case None
      with False Cons lim show ?thesis by (simp add: shm_parse_i32_def dec_int_def)
    next
      case (Some n)
      with False Cons lim sint_small [of n] show ?thesis
        by (auto simp: shm_parse_i32_def dec_int_def in_i32_def INT32_MIN_def INT32_MAX_def)
    qed
  qed
qed

section \<open>The formatter\<close>

lemma unat_digit_char:
  fixes m :: u32
  shows "unat (0x30 + ucast (m mod 10) :: byte) = 48 + unat m mod 10"
proof -
  have "unat m mod 10 < 10" by simp
  then have "unat (ucast (m mod 10) :: byte) = unat m mod 10"
    by (simp add: unsigned_ucast_eq unat_mod take_bit_nat_eq_self unsigned_take_bit_eq)
  with \<open>unat m mod 10 < 10\<close> show ?thesis by (simp add: unat_word_ariths)
qed

lemma unat_div10: "unat (m div 10 :: u32) = unat m div 10"
  by (simp add: unat_div)

lemma dec_digits_format:
  "dec_digits (rev (shm_format_tmp m)) acc = Some (acc * 10 ^ length (shm_format_tmp m) + unat m)"
proof (induction m arbitrary: acc rule: shm_format_tmp.induct)
  case (1 m)
  let ?d = "0x30 + ucast (m mod 10) :: byte"
  have d: "unat ?d = 48 + unat m mod 10" by (rule unat_digit_char)
  have ok: "\<not> (?d < 0x30 \<or> ?d > 0x39)"
    by (simp add: word_less_nat_alt d)
  show ?case
  proof (cases "m div 10 = 0")
    case True
    then have "unat (m div 10) = 0" by simp
    then have "unat m div 10 = 0" by (simp add: unat_div)
    then have "unat m mod 10 = unat m" by simp
    with True ok d show ?thesis
      by (subst (1 2) shm_format_tmp.simps) (simp add: Let_def)
  next
    case False
    have "unat m = unat m div 10 * 10 + unat m mod 10" by simp
    with 1 [OF refl False] ok d False show ?thesis
      by (subst (1 2) shm_format_tmp.simps)
        (simp add: Let_def dec_digits_append unat_div10 algebra_simps)
  qed
qed

lemma format_tmp_length: "length (shm_format_tmp m) = (if unat m < 10 then 1 else Suc (length (shm_format_tmp (m div 10))))"
proof -
  have "m div 10 = 0 \<longleftrightarrow> unat m < 10"
    by (auto simp: word_unat_eq_iff unat_div)
  then show ?thesis by (subst shm_format_tmp.simps) (simp add: Let_def)
qed

lemma format_tmp_bound: "unat m < 10 ^ Suc k \<Longrightarrow> length (shm_format_tmp m) \<le> Suc k"
proof (induction k arbitrary: m)
  case 0
  then show ?case by (simp add: format_tmp_length)
next
  case (Suc k)
  then have "unat (m div 10) < 10 ^ Suc k" by (simp add: unat_div)
  from Suc.IH [OF this] show ?case by (subst format_tmp_length) simp
qed

lemma magnitude_value:
  "unat (shm_magnitude v) = nat \<bar>sint v\<bar>"
proof (cases "v <s 0")
  case True
  then have "sint v < 0" by (simp add: word_sless_alt)
  have "shm_magnitude v = - v" using True by (simp add: shm_magnitude_def)
  also have "\<dots> = of_nat (nat (- sint v))" using \<open>sint v < 0\<close> by simp
  finally have m: "shm_magnitude v = of_nat (nat (- sint v))" .
  have "- (2 ^ 31) \<le> sint v" using sint_ge [of v] by simp
  then have "nat (- sint v) < 2 ^ 32" by simp
  then have "unat (of_nat (nat (- sint v)) :: u32) = nat (- sint v)"
    by (simp only: unsigned_of_nat) (simp add: take_bit_nat_eq_self)
  with \<open>sint v < 0\<close> show ?thesis unfolding m by simp
next
  case False
  then have "0 \<le> sint v" by (simp add: word_sless_alt)
  have "nat (sint v) < 2 ^ 32" using sint_lt [of v] by simp
  then have "unat (of_nat (nat (sint v)) :: u32) = nat (sint v)"
    by (simp only: unsigned_of_nat) (simp add: take_bit_nat_eq_self)
  moreover have "(of_nat (nat (sint v)) :: u32) = v" using \<open>0 \<le> sint v\<close> by simp
  ultimately have "unat v = nat (sint v)" by (simp only:)
  with False \<open>0 \<le> sint v\<close> show ?thesis by (simp add: shm_magnitude_def)
qed

text \<open>
  The formatter writes at most eleven bytes, so neither \<^verbatim>\<open>tmp\<close> nor the caller's buffer, of
  \<^verbatim>\<open>NGX_INT_T_LEN\<close> (20) bytes on an LP64 target, overflows.
\<close>

definition NGX_INT_T_LEN :: nat where "NGX_INT_T_LEN = 20"

lemma format_i32_length: "length (shm_format_i32 v) \<le> 11 \<and> length (shm_format_tmp (shm_magnitude v)) \<le> 10"
proof -
  have "unat (shm_magnitude v) < 10 ^ Suc 9"
    using unsigned_less [of "shm_magnitude v", where 'a = nat] by simp
  then have "length (shm_format_tmp (shm_magnitude v)) \<le> 10" by (metis format_tmp_bound numeral_nat(3) Suc_numeral semiring_norm(2,4,5,8))
  then show ?thesis by (simp add: shm_format_i32_def Let_def)
qed

lemma dec_digits_minus: "dec_digits (0x2D # cs) acc = None"
  by simp

lemma format_i32_value: "dec_int (shm_format_i32 v) = Some (sint v)"
proof -
  let ?t = "rev (shm_format_tmp (shm_magnitude v))"
  have t: "dec_digits ?t 0 = Some (nat \<bar>sint v\<bar>)"
    by (simp add: dec_digits_format magnitude_value)
  have ne: "?t \<noteq> []" by (subst shm_format_tmp.simps) (simp add: Let_def)
  show ?thesis
  proof (cases "v <s 0")
    case True
    then have "sint v < 0" by (simp add: word_sless_alt)
    with True t ne show ?thesis by (simp add: shm_format_i32_def dec_int_def)
  next
    case False
    then have "0 \<le> sint v" by (simp add: word_sless_alt)
    moreover obtain c cs where c: "?t = c # cs" using ne by (cases ?t) auto
    moreover have "c \<noteq> 0x2D" using t c dec_digits_minus by (metis option.distinct(1))
    ultimately show ?thesis using False t by (simp add: shm_format_i32_def dec_int_def Let_def)
  qed
qed

lemma in_i32_sint: "in_i32 (sint (v :: u32))"
  using sint_ge [of v] sint_lt [of v] by (simp add: in_i32_def INT32_MIN_def INT32_MAX_def)

lemma parse_format: "shm_parse_i32 (shm_format_i32 v) = Some v"
proof -
  have "map_option sint (shm_parse_i32 (shm_format_i32 v)) = Some (sint v)"
    by (simp add: parse_i32_spec format_i32_value in_i32_sint)
  then show ?thesis by (auto intro: signed_word_eqI)
qed

end
