(* ===== verification/Shm_Props.thy ===== *)
theory Shm_Props
  imports Shm_Order Shm_Int
begin

text \<open>
  The properties of the key-value store, with the instances that show their hypotheses can
  hold. The instances run on \<open>demo_core\<close>.
\<close>

section \<open>Instances\<close>

definition demo_seg :: "nat \<Rightarrow> demo_slab shm_seg" where
  "demo_seg n = \<lparr>slab = \<lparr>cells = n, in_use = []\<rparr>, pool_data = False, rb_root = Sentinel,
     lru_queue = [], entries = (\<lambda>_. \<lparr>hash_key = 0, key_len = 0, value_len = 0,
       expires_at_msec = 0, data = []\<rparr>)\<rparr>"

definition first_byte_hash :: "bytes \<Rightarrow> u32" where
  "first_byte_hash k = (case k of [] \<Rightarrow> 0 | b # _ \<Rightarrow> ucast b)"

definition demo_env :: "demo_slab nginx_core" where
  "demo_env = demo_core first_byte_hash"

definition demo_zone :: "nat \<Rightarrow> demo_slab shm_zone option" where
  "demo_zone n = Some (snd (shm_init_zone demo_env (demo_seg n) None))"

definition demo_keys :: "bytes set" where
  "demo_keys = {[0x61], [0x62], [0x63]}"

lemma alloc_attempts_numeral:
  "shm_alloc_attempts e (numeral k) sz skip seg =
     (case ngx_slab_alloc_locked e (slab seg) sz of
        Some (a, s') \<Rightarrow> (Some a, seg\<lparr>slab := s'\<rparr>)
      | None \<Rightarrow>
          (case shm_evict_lru_locked e seg skip of
             (rc, seg') \<Rightarrow>
               if rc \<noteq> NGX_OK then (None, seg')
               else shm_alloc_attempts e (pred_numeral k) sz skip seg'))"
  by (simp add: numeral_eq_Suc)

lemmas shm_eval = demo_zone_def demo_seg_def demo_env_def first_byte_hash_def shm_init_zone_def shm_set_def shm_get_def shm_set_ex_def
  shm_add_def shm_replace_def shm_delete_def shm_exists_def shm_incr_def shm_set_section_def
  shm_section_def shm_key_valid_def shm_set_locked_def shm_get_locked_def shm_exists_locked_def
  shm_delete_body_def shm_incr_locked_def shm_store_new_def shm_alloc_node_def set_node_def
  shm_insert_def shm_insert_rc_def shm_delete_locked_def shm_touch_locked_def entry_key_def
  entry_value_def shm_is_expired_def shm_expires_at_def no_buf_def wasm_codes copy_out_def
  NGX_HTTP_WASM_SHM_MAX_KEY_LEN_def NGX_HTTP_WASM_SHM_MAX_VALUE_LEN_def mem_write_def Let_def
  alloc_attempts_numeral

lemma demo_env_ok: "nginx_core_ok demo_env"
  unfolding demo_env_def by (rule demo_core_ok)

lemma demo_agree: "hash_orders_agree demo_env demo_keys"
  by (simp add: hash_orders_agree_def demo_keys_def)

lemma demo_zone_inv: "0 < n \<Longrightarrow> shm_zone_inv demo_env K (demo_zone n)"
proof -
  assume "0 < n"
  then have "shm_init_zone demo_env (demo_seg n) None =
      (NGX_OK, snd (shm_init_zone demo_env (demo_seg n) None))"
    by (simp add: shm_init_zone_def demo_seg_def demo_env_def)
  from init_zone_fresh(1) [OF demo_env_ok _ this] show ?thesis
    by (simp add: demo_zone_def demo_seg_def)
qed

lemmas demo_facts = demo_env_ok demo_agree demo_zone_inv

section \<open>Properties\<close>

text \<open>C1: the store refines the abstract cache. Started on a zone whose segment satisfies the
  invariant, any sequence of operations of any workers, in the order the mutex grants them and
  with the times their workers' clocks show, returns results and leaves a map that the abstract
  cache allows, and the invariant of tree, queue and slab pool holds afterwards. The keys are from a set on
  which the two comparison callbacks of the tree agree (\<open>hash_orders_agree\<close>) and have an admitted length
  (\<open>key_fits\<close>).\<close>

theorem shm_cache_refinement:
  assumes "nginx_core_ok e" and "hash_orders_agree e K" and "shm_zone_inv e K zone"
    and "\<forall>t \<in> set ops. op_ok K t" and "shm_run e ops zone = (rs, zone')"
  shows "shm_zone_inv e K zone' \<and> kv_trace ops (shm_zone_abs zone) rs (shm_zone_abs zone')"
  using shm_run_sim [OF assms] .

definition demo_ops :: "(u64 \<times> shm_op) list" where
  "demo_ops = [(1, ShmSet [0x61] [0x37]), (2, ShmAdd [0x61] [0x38]), (2, ShmIncr [0x61] 5),
     (3, ShmSetEx [0x62] [9] 4), (8, ShmGet [0x62] [0, 0]), (9, ShmGet [0x61] [0])]"

lemma demo_parse: "shm_parse_i32 [0x37] = Some 7"
  by code_simp

lemma demo_format: "shm_format_i32 12 = [0x31, 0x32]"
  by code_simp

lemma demo_run: "fst (shm_run demo_env demo_ops (demo_zone 3)) =
    [(0, []), (-1, []), (12, []), (0, []), (-1, [0, 0]), (2, [0x31])]"
  by (simp add: demo_ops_def shm_eval demo_parse demo_format INT32_MIN_def INT32_MAX_def)

text \<open>The instance: six operations on a fresh zone with room for two entries.\<close>

theorem shm_cache_refinement_witness:
  "\<exists>zone'. shm_run demo_env demo_ops (demo_zone 3) =
       ([(0, []), (-1, []), (12, []), (0, []), (-1, [0, 0]), (2, [0x31])], zone') \<and>
     shm_zone_inv demo_env demo_keys zone' \<and>
     kv_trace demo_ops (shm_zone_abs (demo_zone 3))
       [(0, []), (-1, []), (12, []), (0, []), (-1, [0, 0]), (2, [0x31])] (shm_zone_abs zone')"
proof -
  obtain zone' where run: "shm_run demo_env demo_ops (demo_zone 3) =
      ([(0, []), (-1, []), (12, []), (0, []), (-1, [0, 0]), (2, [0x31])], zone')"
    using demo_run by (cases "shm_run demo_env demo_ops (demo_zone 3)") simp
  have "\<forall>t \<in> set demo_ops. op_ok demo_keys t"
    by (simp add: demo_ops_def op_ok_def key_fits_def demo_keys_def NGX_HTTP_WASM_SHM_MAX_KEY_LEN_def)
  from shm_cache_refinement [OF demo_env_ok demo_agree _ this run] run show ?thesis
    by (simp add: demo_zone_inv)
qed

text \<open>Creating the zone. On a fresh segment \<open>shm_init_zone\<close> either fails for want of memory or
  yields a usable, empty cache that satisfies the invariant for every key set; on a
  reload with the previous zone, or on a segment some process initialised before, it keeps the
  contents.\<close>

theorem shm_init_zone_spec:
  assumes "nginx_core_ok e" and "shm_init_zone e seg old = (rc, z)"
  shows "rc = (if old = None \<and> \<not> pool_data seg \<and> ngx_slab_alloc_locked e (slab seg) shm_ctx_size = None
            then NGX_ERROR else NGX_OK) \<and>
    (rc = NGX_OK \<and> old = None \<and> \<not> pool_data seg \<longrightarrow>
       shm_zone_inv e K (Some z) \<and> shm_zone_abs (Some z) = Map.empty) \<and>
    (old \<noteq> None \<or> pool_data seg \<longrightarrow> shpool z = Some seg)"
proof -
  have "shm_zone_inv e K (Some z) \<and> shm_zone_abs (Some z) = Map.empty"
    if "rc = NGX_OK" "old = None" "\<not> pool_data seg"
    using init_zone_fresh [OF assms(1) that(3)] assms(2) that by simp
  moreover have "shpool z = Some seg" if "old \<noteq> None \<or> pool_data seg"
    using assms(2) that by (auto simp: shm_init_zone_def split: option.splits)
  moreover have "rc = (if old = None \<and> \<not> pool_data seg \<and>
      ngx_slab_alloc_locked e (slab seg) shm_ctx_size = None then NGX_ERROR else NGX_OK)"
    using assms(2) by (auto simp: shm_init_zone_def split: option.splits if_splits)
  ultimately show ?thesis by blast
qed

theorem shm_init_zone_spec_witness:
  "shm_zone_inv demo_env UNIV (demo_zone 1) \<and> shm_zone_abs (demo_zone 1) = Map.empty"
  using shm_init_zone_spec [OF demo_env_ok prod.collapse [symmetric],
      where seg = "demo_seg 1" and old = None and K = UNIV]
  unfolding demo_zone_def
  by (simp add: demo_seg_def shm_init_zone_def demo_env_def split: option.splits)

text \<open>C32: a stored value can be read until it expires. After a successful set with a time to live,
  a get before the expiry time returns the value's length and copies as much of it as the
  buffer holds; a get at or after the expiry time finds nothing and leaves the buffer alone. The key is of
  admitted length and from a set on which the tree's comparison callbacks agree (\<open>hash_orders_agree\<close>).\<close>

theorem shm_set_ex_then_get:
  assumes "nginx_core_ok e" and "hash_orders_agree e K" and "shm_zone_inv e K zone"
    and "key_fits k" and "k \<in> K" and "length v \<le> NGX_HTTP_WASM_SHM_MAX_VALUE_LEN"
    and "shm_set_ex e now zone k v ttl = (NGX_HTTP_WASM_OK, zone')"
  shows "fst (shm_get e later zone' k buf) =
    (if ttl \<noteq> 0 \<and> shm_expires_at now ttl \<le> later then (NGX_HTTP_WASM_NOT_FOUND, buf)
     else (int (length v), copy_out v buf))"
proof -
  let ?x = "shm_expires_at now ttl"
  have "shm_step e now (ShmSetEx k v ttl) zone = ((NGX_HTTP_WASM_OK, []), zone')"
    using assms(7) by (simp add: no_buf_def)
  from shm_step_refines [OF assms(1-3) _ this] assms(4-6)
  have z': "shm_zone_inv e K zone'" "shm_zone_abs zone' k = Some (v, ?x)"
    by (auto simp: op_ok_def kv_put_checked_def kv_set_def kv_put_def)
  have x: "?x = 0 \<longleftrightarrow> ttl = 0" by (simp add: shm_expires_at_def Let_def)
  obtain r z2 where g: "shm_step e later (ShmGet k buf) zone' = (r, z2)" by fastforce
  from shm_step_refines [OF assms(1,2) z'(1) _ g] assms(4,5) z'(2) x g show ?thesis
    by (auto simp: op_ok_def kv_live_def kv_expired_def)
qed

theorem shm_set_ex_then_get_witness:
  "\<exists>zone'. shm_set_ex demo_env 10 (demo_zone 3) [0x61] [7, 8] 5 = (NGX_HTTP_WASM_OK, zone') \<and>
     fst (shm_get demo_env 14 zone' [0x61] [0]) = (2, [7]) \<and>
     fst (shm_get demo_env 15 zone' [0x61] [0]) = (NGX_HTTP_WASM_NOT_FOUND, [0])"
proof -
  obtain zone' where z: "shm_set_ex demo_env 10 (demo_zone 3) [0x61] [7, 8] 5 = (NGX_HTTP_WASM_OK, zone')"
    by (cases "shm_set_ex demo_env 10 (demo_zone 3) [0x61] [7, 8] 5") (simp add: shm_eval)
  have "fst (shm_get demo_env later zone' [0x61] [0]) =
      (if shm_expires_at 10 5 \<le> later then (NGX_HTTP_WASM_NOT_FOUND, [0]) else (2, copy_out [7, 8] [0]))" for later
    using shm_set_ex_then_get [OF demo_env_ok demo_agree demo_zone_inv _ _ _ z, of later "[0]"]
    by (simp add: key_fits_def demo_keys_def NGX_HTTP_WASM_SHM_MAX_KEY_LEN_def NGX_HTTP_WASM_SHM_MAX_VALUE_LEN_def)
  with z show ?thesis by (simp add: shm_expires_at_def copy_out_def Let_def)
qed

text \<open>C15: \<open>shm_add\<close> never overwrites. If the key has a live entry, the call returns
  \<open>NOT_FOUND\<close> and the whole cache is unchanged; if it returns \<open>OK\<close>, there was no live entry
  and now the key is stored without expiry.\<close>

theorem shm_add_exclusive:
  assumes "nginx_core_ok e" and "hash_orders_agree e K" and "shm_zone_inv e K zone"
    and "key_fits k" and "k \<in> K" and "length v \<le> NGX_HTTP_WASM_SHM_MAX_VALUE_LEN"
    and "shm_add e now zone k v = (rc, zone')"
  shows "(kv_live now (shm_zone_abs zone) k \<noteq> None \<longrightarrow>
            rc = NGX_HTTP_WASM_NOT_FOUND \<and> shm_zone_abs zone' = shm_zone_abs zone) \<and>
         (rc = NGX_HTTP_WASM_OK \<longrightarrow>
            kv_live now (shm_zone_abs zone) k = None \<and> shm_zone_abs zone' k = Some (v, 0))"
proof -
  have live: "kv_live now M k \<noteq> None \<Longrightarrow> M(k := kv_live now M k) = M" for M
    by (auto simp: kv_live_def split: option.splits if_splits)
  have "shm_step e now (ShmAdd k v) zone = ((rc, []), zone')"
    using assms(7) by (simp add: no_buf_def)
  from shm_step_refines [OF assms(1-3) _ this] assms(4-6)
  have "kv_set now (shm_zone_abs zone) k (v, 0) False True rc (shm_zone_abs zone')"
    by (auto simp: op_ok_def kv_put_checked_def)
  with live [of "shm_zone_abs zone"] show ?thesis
    by (cases "kv_live now (shm_zone_abs zone) k") (auto simp: kv_set_def kv_put_def)
qed

theorem shm_add_exclusive_witness:
  "\<exists>zone'. shm_add demo_env 10 (demo_zone 3) [0x61] [7] = (NGX_HTTP_WASM_OK, zone') \<and>
     shm_zone_abs zone' [0x61] = Some ([7], 0)"
proof -
  obtain zone' where z: "shm_add demo_env 10 (demo_zone 3) [0x61] [7] = (NGX_HTTP_WASM_OK, zone')"
    by (cases "shm_add demo_env 10 (demo_zone 3) [0x61] [7]") (simp add: shm_eval)
  with shm_add_exclusive [OF demo_env_ok demo_agree demo_zone_inv _ _ _ z] show ?thesis
    by (simp add: key_fits_def demo_keys_def NGX_HTTP_WASM_SHM_MAX_KEY_LEN_def NGX_HTTP_WASM_SHM_MAX_VALUE_LEN_def)
qed

text \<open>C24: \<open>shm_incr\<close> adds. On a live entry that holds the numeral of a 32-bit integer, with a
  delta and a sum in range, the call either returns the sum and the entry holds the sum's
  numeral with its expiry time kept, or it returns the error code and the entry is unchanged. The key is of
  admitted length and from a set on which the tree's comparison callbacks agree (\<open>hash_orders_agree\<close>).\<close>

theorem shm_incr_adds:
  assumes "nginx_core_ok e" and "hash_orders_agree e K" and "shm_zone_inv e K zone"
    and "key_fits k" and "k \<in> K" and "in_i32 delta"
    and "kv_live now (shm_zone_abs zone) k = Some (v, x)"
    and "dec_int v = Some i" and "in_i32 i" and "in_i32 (i + delta)"
    and "shm_incr e now zone k delta = (r, zone')"
  shows "(r = i + delta \<and> (\<exists>w. shm_zone_abs zone' k = Some (w, x) \<and> dec_int w = Some (i + delta))) \<or>
         (r = NGX_HTTP_WASM_ERROR \<and> shm_zone_abs zone' k = Some (v, x))"
proof -
  have "shm_step e now (ShmIncr k delta) zone = ((r, []), zone')"
    using assms(11) by (simp add: no_buf_def)
  from shm_step_refines [OF assms(1-3) _ this] assms(4,5)
  have inc: "kv_incr now (shm_zone_abs zone) k delta r (shm_zone_abs zone')"
    by (simp add: op_ok_def)
  from assms(8,9) parse_i32_spec [of v]
  obtain cur where cur: "shm_parse_i32 v = Some cur" "sint cur = i" by auto
  have sint: "in_i32 j \<Longrightarrow> sint (word_of_int j :: u32) = j" for j
    by (simp add: in_i32_def INT32_MIN_def INT32_MAX_def sint_sbintrunc' signed_take_bit_int_eq_self)
  have "dec_int (shm_format_i32 (word_of_int (i + delta))) = Some (i + delta)"
    by (simp only: format_i32_value sint [OF assms(10)])
  with inc cur assms(6,7,10) show ?thesis
    by (auto simp: kv_incr_def kv_put_def Let_def in_i32_def split: if_splits)
qed

theorem shm_incr_adds_witness:
  "\<exists>zone'. shm_incr demo_env 1 (snd (shm_set demo_env 1 (demo_zone 3) [0x61] [0x37])) [0x61] 5 = (12, zone') \<and>
     (\<exists>w. shm_zone_abs zone' [0x61] = Some (w, 0) \<and> dec_int w = Some 12)"
proof -
  let ?z = "snd (shm_set demo_env 1 (demo_zone 3) [0x61] [0x37])"
  obtain zone' where r: "shm_incr demo_env 1 ?z [0x61] 5 = (12, zone')"
    by (cases "shm_incr demo_env 1 ?z [0x61] 5")
      (simp add: shm_eval demo_parse demo_format INT32_MIN_def INT32_MAX_def)
  have "shm_run demo_env [(1, ShmSet [0x61] [0x37])] (demo_zone 3) = ([(0, [])], ?z)"
    by (simp add: shm_eval)
  from shm_run_sim [OF demo_env_ok demo_agree demo_zone_inv _ this]
  have zi: "shm_zone_inv demo_env demo_keys ?z"
    by (simp add: op_ok_def key_fits_def demo_keys_def NGX_HTTP_WASM_SHM_MAX_KEY_LEN_def)
  have live: "kv_live 1 (shm_zone_abs ?z) [0x61] = Some ([0x37], 0)"
    by (simp add: shm_eval kv_live_def kv_expired_def shm_abs_def)
  have d: "dec_int [0x37] = Some 7" by code_simp
  show ?thesis
    using r shm_incr_adds [OF demo_env_ok demo_agree zi _ _ _ live d _ _ r]
    by (simp add: key_fits_def demo_keys_def NGX_HTTP_WASM_SHM_MAX_KEY_LEN_def in_i32_def
        INT32_MIN_def INT32_MAX_def wasm_codes)
qed

text \<open>C31: eviction is least-recently-used and spares the entry being replaced. Evicting takes out
  the last entry of the queue that is not \<open>skip\<close>, and is declined exactly when there is none.\<close>

theorem shm_evict_lru_spec:
  "(case shm_evict_lru_locked e seg skip of (rc, seg') \<Rightarrow>
      rc = NGX_DECLINED \<and> seg' = seg \<and> (\<forall>a \<in> set (lru_queue seg). skip = Some a) \<or>
      rc = NGX_OK \<and> (\<exists>xs a ys. lru_queue seg = xs @ a # ys \<and> Some a \<noteq> skip \<and>
         (\<forall>y \<in> set ys. skip = Some y) \<and> seg' = shm_delete_locked e seg a))"
proof (cases "find (\<lambda>a. Some a \<noteq> skip) (rev (lru_queue seg))")
  case None
  then have "shm_evict_lru_locked e seg skip = (NGX_DECLINED, seg)"
    by (simp add: shm_evict_lru_locked_def)
  moreover have "\<forall>a \<in> set (lru_queue seg). skip = Some a" using None by (auto simp: find_None_iff)
  ultimately show ?thesis by simp
next
  case (Some a)
  then obtain i where i: "i < length (lru_queue seg)" "a = rev (lru_queue seg) ! i" "Some a \<noteq> skip"
    "\<forall>j < i. Some (rev (lru_queue seg) ! j) = skip"
    by (auto simp: find_Some_iff)
  let ?r = "rev (lru_queue seg)"
  have "?r = take i ?r @ a # drop (Suc i) ?r" using i by (simp add: id_take_nth_drop)
  then have "lru_queue seg = rev (take i ?r @ a # drop (Suc i) ?r)" by (metis rev_rev_ident)
  then have "lru_queue seg = rev (drop (Suc i) ?r) @ a # rev (take i ?r)" by simp
  moreover have "\<forall>y \<in> set (rev (take i ?r)). skip = Some y"
    using i(1,4) by (auto simp: in_set_conv_nth)
  ultimately have "\<exists>xs ys. lru_queue seg = xs @ a # ys \<and> (\<forall>y \<in> set ys. skip = Some y)" by blast
  moreover have "shm_evict_lru_locked e seg skip = (NGX_OK, shm_delete_locked e seg a)"
    using Some by (auto simp: shm_evict_lru_locked_def)
  ultimately show ?thesis using i(3) by auto
qed

text \<open>The instance: the least recently used of two entries, and the other one when it is spared.\<close>

theorem shm_evict_lru_spec_witness:
  "lru_queue (snd (shm_evict_lru_locked demo_env ((demo_seg 3)\<lparr>lru_queue := [4, 7]\<rparr>) None)) = [4] \<and>
   lru_queue (snd (shm_evict_lru_locked demo_env ((demo_seg 3)\<lparr>lru_queue := [4, 7]\<rparr>) (Some 7))) = [7]"
  using shm_evict_lru_spec [where e = demo_env and seg = "(demo_seg 3)\<lparr>lru_queue := [4, 7]\<rparr>" and skip = None]
  by (simp add: shm_evict_lru_locked_def shm_delete_locked_def)

lemma find_last: "xs \<noteq> [] \<Longrightarrow> find (\<lambda>_. True) (rev xs) = Some (last xs)"
  by (cases xs rule: rev_cases) auto

text \<open>A hit protects an entry. After a successful get, the next eviction takes another entry,
  as long as the queue holds one: the key keeps its value.\<close>

theorem shm_get_protects:
  assumes "nginx_core_ok e" and "shm_inv e K seg"
    and "shm_get_locked e now k buf seg = ((rc, buf'), seg')" and "rc \<noteq> NGX_HTTP_WASM_NOT_FOUND"
    and "1 < length (lru_queue seg)"
    and "shm_evict_lru_locked e seg' None = (rc2, seg'')"
  shows "rc2 = NGX_OK \<and> shm_abs seg'' k = shm_abs seg k"
proof -
  obtain a where look: "shm_lookup e (entries seg) (rb_root seg) k (ngx_crc32_short e k) = Some a"
    and seg': "seg' = shm_touch_locked seg a"
    using assms(3,4) by (auto simp: shm_get_locked_def Let_def split: option.splits if_splits)
  have a: "a \<in> nodes (rb_root seg)" "entry_key (entries seg a) = k"
    using look lookup_Some [OF assms(1,2)] by auto
  have inv': "shm_inv e K seg'" unfolding seg' by (rule inv_touch [OF assms(2) a(1)])
  have q: "lru_queue seg' = a # remove1 a (lru_queue seg)" by (simp add: seg' shm_touch_locked_def)
  have aq: "a \<in> set (lru_queue seg)" using a shm_inv_lru [OF assms(2)] by simp
  have "length (remove1 a (lru_queue seg)) = length (lru_queue seg) - 1"
    using aq by (simp add: length_remove1)
  then have ne: "remove1 a (lru_queue seg) \<noteq> []"
    using assms(5) by auto
  let ?b = "last (lru_queue seg')"
  have b: "?b \<in> set (remove1 a (lru_queue seg))" using ne q by simp
  then have ba: "?b \<noteq> a" using shm_inv_lru_distinct [OF assms(2)] by auto
  have "lru_queue seg' \<noteq> []" using q by simp
  then have "shm_evict_lru_locked e seg' None = (NGX_OK, shm_delete_locked e seg' ?b)"
    by (simp add: shm_evict_lru_locked_def find_last)
  then have r: "rc2 = NGX_OK" "seg'' = shm_delete_locked e seg' ?b" using assms(6) by simp_all
  have bn: "?b \<in> nodes (rb_root seg')"
    using q by (simp flip: shm_inv_lru [OF inv'])
  have "entry_key (entries seg' ?b) \<noteq> entry_key (entries seg' a)"
    using keys_inj [OF assms(1) inv'] bn a(1) ba by (auto simp: inj_on_def seg')
  then have "shm_abs seg'' k = shm_abs seg' k"
    using r(2) abs_delete [OF assms(1) inv' bn] a(2) by (simp add: seg')
  with r(1) show ?thesis by (simp add: seg')
qed

theorem shm_get_protects_witness:
  "\<exists>seg seg' seg''. shm_get_locked demo_env 1 [0x61] [] seg = ((1, []), seg') \<and>
     shm_evict_lru_locked demo_env seg' None = (NGX_OK, seg'') \<and> shm_abs seg'' [0x61] = Some ([0x37], 0)"
proof -
  let ?z1 = "snd (shm_set demo_env 1 (demo_zone 3) [0x61] [0x37])"
  let ?z = "snd (shm_set demo_env 1 ?z1 [0x62] [0x38])"
  have "shm_run demo_env [(1, ShmSet [0x61] [0x37]), (1, ShmSet [0x62] [0x38])] (demo_zone 3) = ([(0, []), (0, [])], ?z)"
    by (simp add: shm_eval)
  from shm_run_sim [OF demo_env_ok demo_agree demo_zone_inv _ this]
  have zi: "shm_zone_inv demo_env demo_keys ?z"
    by (simp add: op_ok_def key_fits_def demo_keys_def NGX_HTTP_WASM_SHM_MAX_KEY_LEN_def)
  define seg where "seg = the (shpool (the ?z))"
  have inv: "shm_inv demo_env demo_keys seg"
    using zi by (cases "?z"; cases "shpool (the ?z)") (auto simp: seg_def)
  have len: "1 < length (lru_queue seg)" by (simp add: seg_def shm_eval)
  have val: "shm_abs seg [0x61] = Some ([0x37], 0)" by (simp add: seg_def shm_eval shm_abs_def)
  obtain seg' where g: "shm_get_locked demo_env 1 [0x61] [] seg = ((1, []), seg')"
    by (simp add: seg_def shm_eval)
  obtain rc seg'' where e: "shm_evict_lru_locked demo_env seg' None = (rc, seg'')" by fastforce
  from shm_get_protects [OF demo_env_ok inv g _ len e] g e val show ?thesis
    by (auto simp: wasm_codes)
qed

text \<open>The parser of \<open>shm_incr\<close>. It accepts exactly an optional minus sign followed by one or
  more digits whose value fits a signed 32-bit integer, and returns that value.\<close>

theorem shm_parse_i32_value:
  "map_option sint (shm_parse_i32 d) =
     (case dec_int d of None \<Rightarrow> None | Some i \<Rightarrow> if in_i32 i then Some i else None)"
  by (rule parse_i32_spec)

text \<open>C39: formatting is inverted by parsing on every 32-bit value, and the text fits the
  20-byte buffers.\<close>

theorem shm_format_parse_roundtrip:
  "shm_parse_i32 (shm_format_i32 v) = Some v \<and> length (shm_format_i32 v) \<le> 11 \<and>
   length (shm_format_tmp (shm_magnitude v)) \<le> NGX_INT_T_LEN \<and>
   length (shm_format_i32 v) \<le> NGX_INT_T_LEN"
  using format_i32_length [of v] by (simp add: parse_format NGX_INT_T_LEN_def)

text \<open>Calls the guards reject have no effect. Without a zone, without an initialised segment,
  or with an empty or an over-long key, every operation returns the error code and changes
  neither the cache nor the caller's buffer.\<close>

theorem shm_invalid_call_rejected:
  assumes "\<not> shm_key_valid zone (shm_op_key op)"
  shows "snd (shm_step e now op zone) = zone \<and>
     fst (shm_step e now op zone) =
       (NGX_HTTP_WASM_ERROR, case op of ShmGet _ buf \<Rightarrow> buf | _ \<Rightarrow> [])"
  using assms
  by (cases op)
    (auto simp: shm_get_def shm_exists_def shm_incr_def shm_set_section_def set_wrappers
      shm_delete_def shm_section_def no_buf_def)

theorem shm_invalid_call_rejected_witness:
  "snd (shm_step demo_env 3 (ShmIncr [] 5) (demo_zone 3)) = demo_zone 3 \<and>
   snd (shm_step demo_env 3 (ShmGet [] [1]) (demo_zone 3)) = demo_zone 3 \<and>
   fst (shm_step demo_env 3 (ShmGet [] [1]) (demo_zone 3)) = (NGX_HTTP_WASM_ERROR, [1])"
  using shm_invalid_call_rejected [of "demo_zone 3" "ShmIncr [] 5" demo_env 3]
    shm_invalid_call_rejected [of "demo_zone 3" "ShmGet [] [1]" demo_env 3]
  by (simp add: shm_key_valid_def demo_zone_def)

text \<open>C40: the two tree walks disagree on some colliding keys. Take two keys with the same hash,
  the longer one the smaller for \<^verbatim>\<open>ngx_memn2cmp\<close>: the insertion orders them by length first,
  the lookup by \<^verbatim>\<open>ngx_memn2cmp\<close> alone. Whatever operations the workers have run on a zone, the store
  never shows both: while one of them exists, a get of the other one finds nothing, even right after a
  store of it that has reported success.\<close>

theorem shm_colliding_keys_exclusive:
  assumes "nginx_core_ok e" and "\<not> pool_data seg" "shm_init_zone e seg None = (NGX_OK, z)"
    and run: "shm_run e ops (Some z) = (rs, zone)" and c: "keys_conflict e k1 k2" and "key_fits k1" "key_fits k2"
  shows "(fst (shm_exists e now zone k1) = 1 \<longrightarrow> fst (shm_get e now' zone k2 buf) = (NGX_HTTP_WASM_NOT_FOUND, buf)) \<and>
    (fst (shm_exists e now zone k2) = 1 \<longrightarrow> fst (shm_get e now' zone k1 buf) = (NGX_HTTP_WASM_NOT_FOUND, buf))"
proof -
  have "zone_tree_inv e zone"
    using zone_tree_inv_run [OF assms(1) zone_tree_inv_init [OF assms(1-3)], of ops] run by simp
  then obtain z1 s where z: "zone = Some z1" "shpool z1 = Some s" "sh_set z1" "tree_inv e s"
    by (cases zone) (auto split: option.splits)
  let ?look = "\<lambda>k. shm_lookup e (entries s) (rb_root s) k (ngx_crc32_short e k)"
  have valid: "shm_key_valid zone k1" "shm_key_valid zone k2"
    using z assms(6,7) by (simp_all add: shm_key_valid_def key_fits_def)
  have "?look k \<noteq> None" if "fst (shm_exists e now zone k) = 1" "shm_key_valid zone k" for k
    using that z by (auto simp: shm_exists_def shm_section_def shm_exists_locked_def split: option.splits)
  moreover have "fst (shm_get e now' zone k buf) = (NGX_HTTP_WASM_NOT_FOUND, buf)"
    if "?look k = None" "shm_key_valid zone k" for k
    using that z by (simp add: shm_get_def shm_section_def shm_get_locked_def)
  moreover have "?look k1 = None \<or> ?look k2 = None"
    using conflict_lookup [OF assms(1) z(4) c] by fastforce
  ultimately show ?thesis using valid by blast
qed

theorem shm_colliding_keys_exclusive_witness:
  "\<exists>z rs zone. shm_init_zone (demo_core (\<lambda>_. 0)) (demo_seg 8) None = (NGX_OK, z) \<and>
     shm_run (demo_core (\<lambda>_. 0)) [(5, ShmSet [0x62] [1, 2]), (5, ShmSet [0x61, 0x61] [3])] (Some z) = (rs, zone) \<and>
     rs = [(NGX_HTTP_WASM_OK, []), (NGX_HTTP_WASM_OK, [])] \<and> fst (shm_exists (demo_core (\<lambda>_. 0)) 5 zone [0x62]) = 1 \<and>
     fst (shm_get (demo_core (\<lambda>_. 0)) 5 zone [0x61, 0x61] [0, 0]) = (NGX_HTTP_WASM_NOT_FOUND, [0, 0])"
proof -
  let ?e = "demo_core (\<lambda>_. 0)"
  let ?ops = "[(5, ShmSet [0x62] [1, 2]), (5, ShmSet [0x61, 0x61] [3])]"
  obtain z where z: "shm_init_zone ?e (demo_seg 8) None = (NGX_OK, z)"
      "Some z = Some (snd (shm_init_zone ?e (demo_seg 8) None))"
    by (simp add: shm_init_zone_def demo_seg_def)
  obtain rs zone where run: "shm_run ?e ?ops (Some z) = (rs, zone)" by fastforce
  have stored: "rs = [(NGX_HTTP_WASM_OK, []), (NGX_HTTP_WASM_OK, [])]" "fst (shm_exists ?e 5 zone [0x62]) = 1"
    using run unfolding z(2) by (auto simp: shm_eval)
  have "keys_conflict ?e [0x62] [0x61, 0x61]" "key_fits [0x62]" "key_fits [0x61, 0x61]" "\<not> pool_data (demo_seg 8)"
    by (simp_all add: keys_conflict_def key_fits_def NGX_HTTP_WASM_SHM_MAX_KEY_LEN_def demo_seg_def)
  from shm_colliding_keys_exclusive [OF demo_core_ok this(4) z(1) run this(1-3), of 5 5 "[0, 0]"] stored z(1) run
  show ?thesis by blast
qed

end
