(* ===== verification/Metrics.thy ===== *)
theory Metrics
  imports RBTree Shm
begin

text \<open>
  The shared-memory metrics registry, \<^verbatim>\<open>src/ngx_http_wasm_metrics.c\<close>: the metrics declared in
  the configuration are nodes of a red-black tree in a shared segment, created when the zone is
  initialised and updated by all workers under the segment's mutex. The first part holds the
  data and the operations in the order of the source, the second the invariant and the map
  from names to kinds and values that the operations act on.
\<close>

section \<open>Data\<close>

text \<open>\<^verbatim>\<open>ngx_http_wasm_metric_node_t\<close>; the value is an \<^verbatim>\<open>int64_t\<close>, a word read by \<open>sint\<close>.\<close>

record metric_node =
  metric_hash :: u32
  name_len :: nat
  metric_kind :: nat
  metric_value :: u64
  metric_data :: bytes

definition metric_name :: "metric_node \<Rightarrow> bytes" where
  "metric_name n = take (name_len n) (metric_data n)"

definition METRIC_MAX_NAME_LEN :: nat where "METRIC_MAX_NAME_LEN = 256"
definition METRIC_KIND_COUNTER :: nat where "METRIC_KIND_COUNTER = 1"
definition METRIC_KIND_GAUGE :: nat where "METRIC_KIND_GAUGE = 2"

record 's metrics_seg =
  m_slab :: 's
  m_pool_data :: bool
  m_root :: rbtree
  metrics :: "addr \<Rightarrow> metric_node"

type_synonym metric_defs = "(bytes \<times> nat) list"

record 's metrics_zone =
  m_shpool :: "'s metrics_seg option"
  m_sh_set :: bool
  definitions :: "metric_defs option"

definition metrics_ctx_size :: nat where "metrics_ctx_size = 64"
definition metric_node_data_offset :: nat where "metric_node_data_offset = 64"

section \<open>Configuration\<close>

definition metrics_add_zone ::
  "metric_defs zone_conf option \<Rightarrow> bool \<Rightarrow> (bytes \<Rightarrow> nat \<Rightarrow> bool option) \<Rightarrow> metric_defs \<Rightarrow> bytes \<Rightarrow> nat
     \<Rightarrow> conf_rv \<times> metric_defs zone_conf option" where
  "metrics_add_zone dst pcalloc add defs name sz =
     (if dst \<noteq> None then (ConfMessage ''is duplicate'', dst)
      else if \<not> pcalloc then (ConfError, dst)
      else (case add name sz of
              None \<Rightarrow> (ConfError, dst)
            | Some data_set \<Rightarrow>
                if data_set then (ConfError, dst)
                else (ConfOk, Some \<lparr>zc_name = name, zc_size = sz, zc_definitions = defs\<rparr>)))"

text \<open>\<^verbatim>\<open>ngx_strncmp\<close> returns 0 on equal lengths when the strings agree up to a NUL byte.\<close>

definition strn_eq :: "bytes \<Rightarrow> bytes \<Rightarrow> bool" where
  "strn_eq x y \<longleftrightarrow> takeWhile (\<lambda>b. b \<noteq> 0) x = takeWhile (\<lambda>b. b \<noteq> 0) y"

text \<open>\<open>push\<close> tells whether \<^verbatim>\<open>ngx_array_push\<close> finds room.\<close>

definition metrics_declare ::
  "metric_defs option \<Rightarrow> bool \<Rightarrow> bytes \<Rightarrow> nat \<Rightarrow> conf_rv \<times> metric_defs option" where
  "metrics_declare defs push name kind =
     (case defs of
        None \<Rightarrow> (ConfError, defs)
      | Some ds \<Rightarrow>
          if length name = 0 \<or> length name > METRIC_MAX_NAME_LEN then (ConfError, defs)
          else if \<exists>d \<in> set ds. length (fst d) = length name \<and> strn_eq (fst d) name then (ConfError, defs)
          else if \<not> push then (ConfError, defs)
          else (ConfOk, Some (ds @ [(name, kind)])))"

section \<open>Tree walks\<close>

definition metrics_insert_rc :: "'s nginx_core \<Rightarrow> metric_node \<Rightarrow> metric_node \<Rightarrow> int" where
  "metrics_insert_rc e n t =
     (if metric_hash n < metric_hash t then -1
      else if metric_hash n > metric_hash t then 1
      else ngx_memn2cmp e (metric_name n) (metric_name t))"

fun metrics_rbtree_insert_value ::
  "'s nginx_core \<Rightarrow> (addr \<Rightarrow> metric_node) \<Rightarrow> rbtree \<Rightarrow> addr \<Rightarrow> rbtree" where
  "metrics_rbtree_insert_value e m Sentinel n = Node Sentinel n True Sentinel"
| "metrics_rbtree_insert_value e m (Node l temp c r) n =
     (if metrics_insert_rc e (m n) (m temp) < 0
      then Node (metrics_rbtree_insert_value e m l n) temp c r
      else Node l temp c (metrics_rbtree_insert_value e m r n))"

fun metrics_lookup ::
  "'s nginx_core \<Rightarrow> (addr \<Rightarrow> metric_node) \<Rightarrow> rbtree \<Rightarrow> bytes \<Rightarrow> u32 \<Rightarrow> addr option" where
  "metrics_lookup e m Sentinel name hash = None"
| "metrics_lookup e m (Node l a c r) name hash =
     (if hash < metric_hash (m a) then metrics_lookup e m l name hash
      else if hash > metric_hash (m a) then metrics_lookup e m r name hash
      else (let rc = ngx_memn2cmp e name (metric_name (m a))
            in if rc = 0 then Some a
               else if rc < 0 then metrics_lookup e m l name hash
               else metrics_lookup e m r name hash))"

definition metrics_alloc_node ::
  "'s nginx_core \<Rightarrow> 's metrics_seg \<Rightarrow> bytes \<Rightarrow> nat \<Rightarrow> u32 \<Rightarrow> (addr \<times> 's metrics_seg) option" where
  "metrics_alloc_node e seg name kind hash =
     (case ngx_slab_alloc_locked e (m_slab seg) (metric_node_data_offset + length name) of
        None \<Rightarrow> None
      | Some (a, s') \<Rightarrow>
          Some (a, seg\<lparr>m_slab := s', metrics := (metrics seg)(a :=
             \<lparr>metric_hash = hash, name_len = length name, metric_kind = kind,
              metric_value = 0, metric_data = name\<rparr>)\<rparr>))"

definition metrics_insert :: "'s nginx_core \<Rightarrow> 's metrics_seg \<Rightarrow> addr \<Rightarrow> 's metrics_seg" where
  "metrics_insert e seg a =
     seg\<lparr>m_root := ngx_rbtree_rebalance e a
           (metrics_rbtree_insert_value e (metrics seg) (m_root seg) a)\<rparr>"

section \<open>Creating the declared metrics\<close>

fun metrics_ensure_loop ::
  "'s nginx_core \<Rightarrow> metric_defs \<Rightarrow> 's metrics_seg \<Rightarrow> int \<times> 's metrics_seg" where
  "metrics_ensure_loop e [] seg = (NGX_OK, seg)"
| "metrics_ensure_loop e ((name, kind) # defs) seg =
     (let hash = ngx_crc32_short e name
      in case metrics_lookup e (metrics seg) (m_root seg) name hash of
           Some a \<Rightarrow>
             if metric_kind (metrics seg a) \<noteq> kind then (NGX_ERROR, seg)
             else metrics_ensure_loop e defs seg
         | None \<Rightarrow>
             (case metrics_alloc_node e seg name kind hash of
                None \<Rightarrow> (NGX_ERROR, seg)
              | Some (a, seg') \<Rightarrow> metrics_ensure_loop e defs (metrics_insert e seg' a)))"

definition metrics_ensure_definitions ::
  "'s nginx_core \<Rightarrow> 's metrics_zone \<Rightarrow> int \<times> 's metrics_zone" where
  "metrics_ensure_definitions e zone =
     (case (m_shpool zone, definitions zone) of
        (Some seg, Some defs) \<Rightarrow>
          if \<not> m_sh_set zone then (NGX_OK, zone)
          else (case metrics_ensure_loop e defs seg of
                  (rc, seg') \<Rightarrow> (rc, zone\<lparr>m_shpool := Some seg'\<rparr>))
      | _ \<Rightarrow> (NGX_OK, zone))"

text \<open>
  \<open>old\<close> is the zone of the previous configuration cycle; a zone context created by the
  configuration has its definitions and neither pointer set.
\<close>

definition metrics_init_zone ::
  "'s nginx_core \<Rightarrow> metric_defs option \<Rightarrow> 's metrics_seg \<Rightarrow> 's metrics_zone option
     \<Rightarrow> int \<times> 's metrics_zone" where
  "metrics_init_zone e defs seg old =
     (let zone = \<lparr>m_shpool = Some seg, m_sh_set = False, definitions = defs\<rparr>
      in case old of
           Some oz \<Rightarrow> metrics_ensure_definitions e (zone\<lparr>m_sh_set := m_sh_set oz\<rparr>)
         | None \<Rightarrow>
             if m_pool_data seg then metrics_ensure_definitions e (zone\<lparr>m_sh_set := True\<rparr>)
             else (case ngx_slab_alloc_locked e (m_slab seg) metrics_ctx_size of
                 None \<Rightarrow> (NGX_ERROR, zone)
               | Some (_, s') \<Rightarrow>
                   metrics_ensure_definitions e
                     (zone\<lparr>m_shpool := Some (seg\<lparr>m_slab := s', m_root := Sentinel, m_pool_data := True\<rparr>),
                           m_sh_set := True\<rparr>)))"

section \<open>Updating and reading\<close>

definition metrics_args_ok :: "'s metrics_zone option \<Rightarrow> bytes \<Rightarrow> bool" where
  "metrics_args_ok zone name =
     (case zone of
        None \<Rightarrow> False
      | Some z \<Rightarrow> m_shpool z \<noteq> None \<and> m_sh_set z \<and> length name \<noteq> 0 \<and>
                  length name \<le> METRIC_MAX_NAME_LEN)"

text \<open>
  An update looks the metric up under the mutex, requires its kind, and rewrites its value.
\<close>

definition metrics_modify ::
  "'s nginx_core \<Rightarrow> 's metrics_zone option \<Rightarrow> bytes \<Rightarrow> nat \<Rightarrow> (u64 \<Rightarrow> u64)
     \<Rightarrow> int \<times> 's metrics_zone option" where
  "metrics_modify e zone name kind f =
     (case zone of
        None \<Rightarrow> (NGX_HTTP_WASM_ERROR, zone)
      | Some z \<Rightarrow>
          (case m_shpool z of
             None \<Rightarrow> (NGX_HTTP_WASM_ERROR, zone)
           | Some seg \<Rightarrow>
               (case metrics_lookup e (metrics seg) (m_root seg) name (ngx_crc32_short e name) of
                  None \<Rightarrow> (NGX_HTTP_WASM_ERROR, zone)
                | Some a \<Rightarrow>
                    (let n = metrics seg a
                     in if metric_kind n \<noteq> kind then (NGX_HTTP_WASM_ERROR, zone)
                        else (NGX_HTTP_WASM_OK, Some (z\<lparr>m_shpool := Some (seg\<lparr>metrics :=
                               (metrics seg)(a := n\<lparr>metric_value := f (metric_value n)\<rparr>)\<rparr>)\<rparr>))))))"

definition LLONG_MAX :: u64 where "LLONG_MAX = 0x7FFFFFFFFFFFFFFF"

definition counter_next :: "u64 \<Rightarrow> u64 \<Rightarrow> u64" where
  "counter_next delta v = (if LLONG_MAX - delta <s v then LLONG_MAX else v + delta)"

definition metrics_counter_inc ::
  "'s nginx_core \<Rightarrow> 's metrics_zone option \<Rightarrow> bytes \<Rightarrow> u64 \<Rightarrow> int \<times> 's metrics_zone option" where
  "metrics_counter_inc e zone name delta =
     (if \<not> metrics_args_ok zone name \<or> delta <s 0 then (NGX_HTTP_WASM_ERROR, zone)
      else metrics_modify e zone name METRIC_KIND_COUNTER (counter_next delta))"

definition metrics_gauge_set ::
  "'s nginx_core \<Rightarrow> 's metrics_zone option \<Rightarrow> bytes \<Rightarrow> u64 \<Rightarrow> int \<times> 's metrics_zone option" where
  "metrics_gauge_set e zone name v =
     (if \<not> metrics_args_ok zone name then (NGX_HTTP_WASM_ERROR, zone)
      else metrics_modify e zone name METRIC_KIND_GAUGE (\<lambda>_. v))"

text \<open>\<^verbatim>\<open>entry->value += delta\<close> on \<^verbatim>\<open>int64_t\<close>; the word addition wraps where C leaves it open.\<close>

definition metrics_gauge_add ::
  "'s nginx_core \<Rightarrow> 's metrics_zone option \<Rightarrow> bytes \<Rightarrow> u64 \<Rightarrow> int \<times> 's metrics_zone option" where
  "metrics_gauge_add e zone name delta =
     (if \<not> metrics_args_ok zone name then (NGX_HTTP_WASM_ERROR, zone)
      else metrics_modify e zone name METRIC_KIND_GAUGE (\<lambda>v. v + delta))"

text \<open>The kind and the value come back through the caller's pointers, \<open>None\<close> where they are not written.\<close>

definition metrics_get ::
  "'s nginx_core \<Rightarrow> 's metrics_zone option \<Rightarrow> bytes \<Rightarrow> int \<times> (nat \<times> u64) option" where
  "metrics_get e zone name =
     (if \<not> metrics_args_ok zone name then (NGX_HTTP_WASM_ERROR, None)
      else (case zone of
          None \<Rightarrow> (NGX_HTTP_WASM_ERROR, None)
        | Some z \<Rightarrow>
            (case m_shpool z of
               None \<Rightarrow> (NGX_HTTP_WASM_ERROR, None)
             | Some seg \<Rightarrow>
                 (case metrics_lookup e (metrics seg) (m_root seg) name (ngx_crc32_short e name) of
                    None \<Rightarrow> (NGX_HTTP_WASM_NOT_FOUND, None)
                  | Some a \<Rightarrow> (NGX_HTTP_WASM_OK,
                      Some (metric_kind (metrics seg a), metric_value (metrics seg a)))))))"

section \<open>The exposition handler\<close>

text \<open>
  \<^verbatim>\<open>ngx_http_wasm_metrics_handler\<close> of \<^verbatim>\<open>src/ngx_http_wasm_module.c\<close>: it sizes a buffer from
  the definitions, writes one block per metric into it with \<^verbatim>\<open>ngx_sprintf\<close>, and sends it.
  \<open>fmt\<close> is nginx's \<^verbatim>\<open>%L\<close> conversion of an \<^verbatim>\<open>int64_t\<close>, at most \<^verbatim>\<open>NGX_INT64_LEN\<close> bytes.
\<close>

definition NGX_INT64_LEN :: nat where "NGX_INT64_LEN = 20"

definition metric_line :: "(u64 \<Rightarrow> bytes) \<Rightarrow> bytes \<Rightarrow> nat \<Rightarrow> u64 \<Rightarrow> bytes" where
  "metric_line fmt name kind v =
     str ''# TYPE '' @ name @ str '' '' @
     (if kind = METRIC_KIND_COUNTER then str ''counter'' else str ''gauge'') @ [0x0A] @
     name @ str '' '' @ fmt v @ [0x0A]"

definition metrics_buffer_size :: "metric_defs \<Rightarrow> nat" where
  "metrics_buffer_size defs =
     (\<Sum>d \<leftarrow> defs. length ''# TYPE '' + length (fst d) + (length '' counter'' + 1) + length (fst d) +
        NGX_INT64_LEN + 2)"

fun metrics_render ::
  "'s nginx_core \<Rightarrow> (u64 \<Rightarrow> bytes) \<Rightarrow> 's metrics_zone option \<Rightarrow> metric_defs \<Rightarrow> bytes option" where
  "metrics_render e fmt zone [] = Some []"
| "metrics_render e fmt zone ((name, _) # defs) =
     (case metrics_get e zone name of
        (rc, out) \<Rightarrow>
          if rc \<noteq> NGX_HTTP_WASM_OK then None
          else (case out of
                  None \<Rightarrow> None
                | Some (kind, v) \<Rightarrow>
                    map_option (\<lambda>rest. metric_line fmt name kind v @ rest)
                      (metrics_render e fmt zone defs)))"

text \<open>
  The reply: the handler's return code, and the body handed to the output filter with the
  declared content length. \<open>palloc\<close> is the pool (given the size asked for), \<open>send_header\<close> and
  \<open>output\<close> are nginx's, \<open>buf_ok\<close> whether \<^verbatim>\<open>ngx_calloc_buf\<close> succeeds.
\<close>

definition metrics_handler ::
  "'s nginx_core \<Rightarrow> (u64 \<Rightarrow> bytes) \<Rightarrow> (nat \<Rightarrow> bool) \<Rightarrow> (nat \<Rightarrow> int) \<Rightarrow> bool \<Rightarrow> bool \<Rightarrow> (bytes \<Rightarrow> int)
     \<Rightarrow> 's metrics_zone option \<Rightarrow> metric_defs option \<Rightarrow> int \<times> bytes option" where
  "metrics_handler e fmt palloc send_header header_only buf_ok output zone defs =
     (case (zone, defs) of
        (Some _, Some ds) \<Rightarrow>
          (let len = metrics_buffer_size ds
           in if \<not> palloc (if len = 0 then 1 else len) then (500, None)
              else (case metrics_render e fmt zone ds of
                  None \<Rightarrow> (500, None)
                | Some body \<Rightarrow>
                    (let rc = send_header (length body)
                     in if rc = NGX_ERROR \<or> rc > NGX_OK \<or> header_only then (rc, None)
                        else if \<not> buf_ok then (500, None)
                        else (output body, Some body))))
      | _ \<Rightarrow> (500, None))"

end
