(* ===== verification/Metrics_Correct.thy ===== *)
theory Metrics_Correct
  imports Metrics Refine
begin

text \<open>
  Correctness of the metrics registry. A segment stands for the finite map from metric names to
  kinds and values; every operation is a function of that map.
\<close>

section \<open>Invariant and abstraction\<close>

type_synonym registry = "bytes \<Rightarrow> (nat \<times> u64) option"

abbreviation metric_less :: "'s nginx_core \<Rightarrow> (addr \<Rightarrow> metric_node) \<Rightarrow> addr \<Rightarrow> addr \<Rightarrow> bool" where
  "metric_less e m \<equiv> hk_less e (\<lambda>a. metric_hash (m a)) (\<lambda>a. metric_name (m a))"

abbreviation metric_probe :: "'s nginx_core \<Rightarrow> (addr \<Rightarrow> metric_node) \<Rightarrow> bytes \<Rightarrow> u32 \<Rightarrow> addr \<Rightarrow> int" where
  "metric_probe e m \<equiv> hk_probe e (\<lambda>a. metric_hash (m a)) (\<lambda>a. metric_name (m a))"

definition metrics_inv :: "'s nginx_core \<Rightarrow> 's metrics_seg \<Rightarrow> bool" where
  "metrics_inv e seg \<longleftrightarrow>
     distinct (inorder (m_root seg)) \<and> nodes (m_root seg) \<subseteq> slab_live e (m_slab seg) \<and>
     (\<forall>a \<in> nodes (m_root seg). metric_hash (metrics seg a) = ngx_crc32_short e (metric_name (metrics seg a))) \<and>
     sorted_wrt (metric_less e (metrics seg)) (inorder (m_root seg))"

definition metrics_abs :: "'s metrics_seg \<Rightarrow> registry" where
  "metrics_abs seg = map_of (map (\<lambda>a. (metric_name (metrics seg a),
     (metric_kind (metrics seg a), metric_value (metrics seg a)))) (inorder (m_root seg)))"

interpretation metric_ins: rbtree_insertion
  "metrics_rbtree_insert_value e m" "\<lambda>n t. metrics_insert_rc e (m n) (m t) < 0" for e m
  by unfold_locales auto

interpretation metric_look: rbtree_search
  "\<lambda>t. metrics_lookup e m t name hash" "metric_probe e m name hash" for e m name hash
proof
  fix l a c r
  show "metrics_lookup e m (Node l a c r) name hash =
      (if metric_probe e m name hash a < 0 then metrics_lookup e m l name hash
       else if metric_probe e m name hash a > 0 then metrics_lookup e m r name hash else Some a)"
    by (cases "ngx_memn2cmp e name (metric_name (m a))" "0 :: int" rule: linorder_cases)
      (simp_all add: hk_probe_def)
qed simp

lemma metrics_invD:
  assumes "metrics_inv e seg"
  shows metrics_inv_distinct: "distinct (inorder (m_root seg))"
    and metrics_inv_live: "a \<in> nodes (m_root seg) \<Longrightarrow> a \<in> slab_live e (m_slab seg)"
    and metrics_inv_hash: "a \<in> nodes (m_root seg) \<Longrightarrow>
      metric_hash (metrics seg a) = ngx_crc32_short e (metric_name (metrics seg a))"
    and metrics_inv_sorted: "sorted_wrt (metric_less e (metrics seg)) (inorder (m_root seg))"
  using assms by (auto simp: metrics_inv_def)

lemma metrics_lookup_Some:
  assumes ok: "nginx_core_ok e" and inv: "metrics_inv e seg"
  shows "metrics_lookup e (metrics seg) (m_root seg) k (ngx_crc32_short e k) = Some a \<longleftrightarrow>
           a \<in> nodes (m_root seg) \<and> metric_name (metrics seg a) = k"
  unfolding metric_look.look_iff [OF hk_probe_sorted [OF ok metrics_inv_sorted [OF inv]]]
proof (intro conj_cong refl)
  assume "a \<in> nodes (m_root seg)"
  from metrics_inv_hash [OF inv this]
  show "(metric_probe e (metrics seg) k (ngx_crc32_short e k) a = 0) = (metric_name (metrics seg a) = k)"
    by (rule hk_probe_0 [OF ok])
qed

lemma metric_names_inj:
  assumes ok: "nginx_core_ok e" and inv: "metrics_inv e seg"
  shows "inj_on (\<lambda>a. metric_name (metrics seg a)) (nodes (m_root seg))"
  using metrics_lookup_Some [OF assms] unfolding inj_on_def by (metis option.inject)

lemma metrics_abs_at:
  assumes "nginx_core_ok e" and "metrics_inv e seg" and "a \<in> nodes (m_root seg)"
  shows "metrics_abs seg (metric_name (metrics seg a)) =
           Some (metric_kind (metrics seg a), metric_value (metrics seg a))"
  unfolding metrics_abs_def
  using assms(3) metric_names_inj [OF assms(1,2)] by (rule map_of_map_inj)

lemma metrics_abs_None:
  "metrics_abs seg k = None \<longleftrightarrow> (\<forall>a \<in> nodes (m_root seg). metric_name (metrics seg a) \<noteq> k)"
  unfolding metrics_abs_def by (rule map_of_map_None)

lemma metrics_lookup_abs:
  assumes ok: "nginx_core_ok e" and inv: "metrics_inv e seg"
  shows "metrics_abs seg k =
    map_option (\<lambda>a. (metric_kind (metrics seg a), metric_value (metrics seg a)))
      (metrics_lookup e (metrics seg) (m_root seg) k (ngx_crc32_short e k))"
proof (cases "metrics_lookup e (metrics seg) (m_root seg) k (ngx_crc32_short e k)")
  case None
  then have "metrics_abs seg k = None"
    unfolding metrics_abs_None using metrics_lookup_Some [OF assms] by (metis option.distinct(1))
  with None show ?thesis by simp
next
  case (Some a)
  then have "a \<in> nodes (m_root seg)" "metric_name (metrics seg a) = k"
    by (simp_all add: metrics_lookup_Some [OF assms])
  with Some show ?thesis using metrics_abs_at [OF assms] by force
qed

text \<open>An abstraction is determined by its nodes.\<close>

lemma metrics_abs_eqI:
  assumes "nginx_core_ok e" and "metrics_inv e seg"
    and "\<And>a. a \<in> nodes (m_root seg) \<Longrightarrow>
      f (metric_name (metrics seg a)) = Some (metric_kind (metrics seg a), metric_value (metrics seg a))"
    and "\<And>k. f k \<noteq> None \<Longrightarrow> \<exists>a \<in> nodes (m_root seg). metric_name (metrics seg a) = k"
  shows "metrics_abs seg = f"
proof
  fix k
  show "metrics_abs seg k = f k"
  proof (cases "metrics_abs seg k")
    case None
    then have "f k = None" using assms(4) [of k] unfolding metrics_abs_None by blast
    with None show ?thesis by simp
  next
    case (Some v)
    then have "metrics_abs seg k \<noteq> None" by simp
    then obtain a where a: "a \<in> nodes (m_root seg)" "metric_name (metrics seg a) = k"
      unfolding metrics_abs_None by blast
    then show ?thesis using assms(3) [OF a(1)] metrics_abs_at [OF assms(1,2) a(1)] by simp
  qed
qed

section \<open>Writing a value\<close>

definition set_metric :: "'s metrics_seg \<Rightarrow> addr \<Rightarrow> u64 \<Rightarrow> 's metrics_seg" where
  "set_metric seg a v = seg\<lparr>metrics := (metrics seg)(a := (metrics seg a)\<lparr>metric_value := v\<rparr>)\<rparr>"

lemma set_metric_sel [simp]:
  "m_root (set_metric seg a v) = m_root seg" "m_slab (set_metric seg a v) = m_slab seg"
  "metric_name (metrics (set_metric seg a v) b) = metric_name (metrics seg b)"
  "metric_hash (metrics (set_metric seg a v) b) = metric_hash (metrics seg b)"
  "metric_kind (metrics (set_metric seg a v) b) = metric_kind (metrics seg b)"
  "metric_value (metrics (set_metric seg a v) b) = (if b = a then v else metric_value (metrics seg b))"
  by (simp_all add: set_metric_def metric_name_def)

lemma inv_set_metric: "metrics_inv e seg \<Longrightarrow> metrics_inv e (set_metric seg a v)"
  by (simp add: metrics_inv_def)

lemma abs_set_metric:
  assumes ok: "nginx_core_ok e" and inv: "metrics_inv e seg" and a: "a \<in> nodes (m_root seg)"
  shows "metrics_abs (set_metric seg a v) =
    (metrics_abs seg)(metric_name (metrics seg a) \<mapsto> (metric_kind (metrics seg a), v))"
proof (rule metrics_abs_eqI [OF ok inv_set_metric [OF inv]])
  fix b assume "b \<in> nodes (m_root (set_metric seg a v))"
  then show "((metrics_abs seg)(metric_name (metrics seg a) \<mapsto> (metric_kind (metrics seg a), v)))
      (metric_name (metrics (set_metric seg a v) b)) =
      Some (metric_kind (metrics (set_metric seg a v) b), metric_value (metrics (set_metric seg a v) b))"
    using metric_names_inj [OF ok inv] a metrics_abs_at [OF ok inv] by (auto simp: inj_on_def)
next
  fix k
  assume "((metrics_abs seg)(metric_name (metrics seg a) \<mapsto> (metric_kind (metrics seg a), v))) k \<noteq> None"
  then have "k = metric_name (metrics seg a) \<or> metrics_abs seg k \<noteq> None" by (auto split: if_splits)
  then show "\<exists>b \<in> nodes (m_root (set_metric seg a v)). metric_name (metrics (set_metric seg a v) b) = k"
    using a unfolding metrics_abs_None by auto
qed

section \<open>Creating a metric\<close>

lemma metrics_insert_sel [simp]:
  "metrics (metrics_insert e seg a) = metrics seg" "m_slab (metrics_insert e seg a) = m_slab seg"
  by (simp_all add: metrics_insert_def)

lemma inorder_metrics_insert:
  "nginx_core_ok e \<Longrightarrow> inorder (m_root (metrics_insert e seg a)) =
     inorder (metrics_rbtree_insert_value e (metrics seg) (m_root seg) a)"
  by (simp add: metrics_insert_def inorder_rebalance)

lemma metrics_insert_rc_less: "metrics_insert_rc e (m n) (m t) < 0 \<longleftrightarrow> metric_less e m n t"
  by (auto simp: metrics_insert_rc_def hk_less_def)

lemma metrics_create:
  assumes ok: "nginx_core_ok e" and inv: "metrics_inv e seg"
    and new: "metrics_abs seg name = None"
    and al: "metrics_alloc_node e seg name kind (ngx_crc32_short e name) = Some (a, seg1)"
  shows "metrics_inv e (metrics_insert e seg1 a)"
    and "metrics_abs (metrics_insert e seg1 a) = (metrics_abs seg)(name \<mapsto> (kind, 0))"
proof -
  obtain s' where s': "ngx_slab_alloc_locked e (m_slab seg) (metric_node_data_offset + length name) = Some (a, s')"
    and seg1: "seg1 = seg\<lparr>m_slab := s', metrics := (metrics seg)(a :=
      \<lparr>metric_hash = ngx_crc32_short e name, name_len = length name, metric_kind = kind,
       metric_value = 0, metric_data = name\<rparr>)\<rparr>"
    using al by (auto simp: metrics_alloc_node_def split: option.splits)
  note live = slab_allocD [OF ok s']
  have a: "a \<notin> nodes (m_root seg)" using live(1) metrics_inv_live [OF inv] by blast
  have n: "metric_name (metrics seg1 a) = name" "metric_kind (metrics seg1 a) = kind"
    "metric_value (metrics seg1 a) = 0" "metric_hash (metrics seg1 a) = ngx_crc32_short e name"
    by (simp_all add: seg1 metric_name_def)
  have old: "metrics seg1 b = metrics seg b" if "b \<in> nodes (m_root seg)" for b
    using a that by (auto simp: seg1)
  have root: "m_root seg1 = m_root seg" by (simp add: seg1)
  have sorted1: "sorted_wrt (metric_less e (metrics seg1)) (inorder (m_root seg1))"
    using metrics_inv_sorted [OF inv] old root
    by (subst hk_sorted_cong [where h' = "\<lambda>a. metric_hash (metrics seg a)"
          and k' = "\<lambda>a. metric_name (metrics seg a)"]) auto
  have fresh: "metric_name (metrics seg1 b) \<noteq> metric_name (metrics seg1 a)" if "b \<in> nodes (m_root seg1)" for b
    using that new n(1) old root by (auto simp: metrics_abs_None)
  have "sorted_wrt (metric_less e (metrics seg1))
      (inorder (metrics_rbtree_insert_value e (metrics seg1) (m_root seg1) a))"
  proof (rule metric_ins.sorted_ins [OF sorted1 metrics_insert_rc_less])
    fix b assume b: "b \<in> nodes (m_root seg1)"
    show "\<not> metric_less e (metrics seg1) a b \<Longrightarrow> metric_less e (metrics seg1) b a"
      using fresh [OF b] by (intro hk_less_total [OF ok]) auto
  qed (use hk_less_trans [OF ok] in blast)+
  moreover have "distinct (inorder (metrics_rbtree_insert_value e (metrics seg1) (m_root seg1) a))"
    using metrics_inv_distinct [OF inv] a by (intro metric_ins.distinct_ins) (simp_all add: root)
  moreover have "insert a (nodes (m_root seg)) \<subseteq> slab_live e (m_slab seg1)"
    using live(2) inv by (auto simp: metrics_inv_def seg1)
  ultimately show inv': "metrics_inv e (metrics_insert e seg1 a)"
    using metrics_inv_hash [OF inv] old n root
    by (auto simp: metrics_inv_def inorder_metrics_insert [OF ok])
  show "metrics_abs (metrics_insert e seg1 a) = (metrics_abs seg)(name \<mapsto> (kind, 0))"
  proof (rule metrics_abs_eqI [OF ok inv'])
    fix b assume "b \<in> nodes (m_root (metrics_insert e seg1 a))"
    then have "b = a \<or> b \<in> nodes (m_root seg) \<and> b \<noteq> a"
      using a by (auto simp: inorder_metrics_insert [OF ok] root)
    then show "((metrics_abs seg)(name \<mapsto> (kind, 0))) (metric_name (metrics (metrics_insert e seg1 a) b)) =
        Some (metric_kind (metrics (metrics_insert e seg1 a) b), metric_value (metrics (metrics_insert e seg1 a) b))"
      using n fresh [of b] old root metrics_abs_at [OF ok inv, of b] by auto
  next
    fix k assume "((metrics_abs seg)(name \<mapsto> (kind, 0))) k \<noteq> None"
    then have "k = name \<or> metrics_abs seg k \<noteq> None" by (auto split: if_splits)
    then show "\<exists>b \<in> nodes (m_root (metrics_insert e seg1 a)). metric_name (metrics (metrics_insert e seg1 a) b) = k"
      using n(1) old root unfolding metrics_abs_None by (auto simp: inorder_metrics_insert [OF ok])
  qed
qed

section \<open>Ensuring the declared metrics\<close>

text \<open>
  \<open>reg_declared defs M\<close> is the registry \<open>M\<close> with the missing metrics of \<open>defs\<close> added at 0.
\<close>

fun reg_declared :: "metric_defs \<Rightarrow> registry \<Rightarrow> registry" where
  "reg_declared [] M = M"
| "reg_declared ((name, kind) # defs) M =
     reg_declared defs (if M name = None then M(name \<mapsto> (kind, 0)) else M)"

lemma reg_declared_le: "M \<subseteq>\<^sub>m reg_declared defs M"
proof (induction defs M rule: reg_declared.induct)
  case (2 name kind defs M)
  have "M \<subseteq>\<^sub>m (if M name = None then M(name \<mapsto> (kind, 0)) else M)" by (auto simp: map_le_def)
  from map_le_trans [OF this 2] show ?case by (simp only: reg_declared.simps)
qed simp

lemma reg_declared_dom: "dom (reg_declared defs M) = dom M \<union> fst ` set defs"
  by (induction defs M rule: reg_declared.induct) auto

lemma reg_declared_zero:
  "reg_declared defs M k = Some v \<Longrightarrow> M k = None \<Longrightarrow> snd v = 0"
proof (induction defs M rule: reg_declared.induct)
  case (2 name kind defs M)
  define M1 where "M1 = (if M name = None then M(name \<mapsto> (kind, 0)) else M)"
  have run: "reg_declared defs M1 k = Some v" using 2(2) by (simp only: reg_declared.simps M1_def)
  show ?case
  proof (cases "k = name")
    case True
    then have "M1 k = Some (kind, 0)" using 2(3) by (simp add: M1_def)
    then have "reg_declared defs M1 k = Some (kind, 0)" by (rule map_leD [OF reg_declared_le])
    with run show ?thesis by auto
  next
    case False
    then have "M1 k = None" using 2(3) by (simp add: M1_def)
    with 2(1) [folded M1_def, OF run] show ?thesis by blast
  qed
qed simp

lemma ensure_loop_spec:
  assumes ok: "nginx_core_ok e"
  shows "metrics_inv e seg \<Longrightarrow> metrics_ensure_loop e defs seg = (rc, seg') \<Longrightarrow>
    metrics_inv e seg' \<and> metrics_abs seg \<subseteq>\<^sub>m metrics_abs seg' \<and> (rc = NGX_OK \<or> rc = NGX_ERROR) \<and>
    (rc = NGX_OK \<longrightarrow> metrics_abs seg' = reg_declared defs (metrics_abs seg) \<and>
       (\<forall>d \<in> set defs. map_option fst (metrics_abs seg' (fst d)) = Some (snd d)))"
proof (induction defs arbitrary: seg)
  case Nil
  then show ?case by simp
next
  case (Cons d defs)
  obtain name kind where d: "d = (name, kind)" by fastforce
  note ab = metrics_lookup_abs [OF ok Cons.prems(1), of name]
  show ?case
  proof (cases "metrics_lookup e (metrics seg) (m_root seg) name (ngx_crc32_short e name)")
    case None
    show ?thesis
    proof (cases "metrics_alloc_node e seg name kind (ngx_crc32_short e name)")
      case None2: None
      with Cons.prems None d show ?thesis by simp
    next
      case (Some p)
      obtain a seg1 where p: "p = (a, seg1)" by fastforce
      have new: "metrics_abs seg name = None" using ab None by simp
      note cr = metrics_create [OF ok Cons.prems(1) new Some [unfolded p]]
      have run: "metrics_ensure_loop e defs (metrics_insert e seg1 a) = (rc, seg')"
        using Cons.prems(2) None Some d p by simp
      have le: "metrics_abs seg \<subseteq>\<^sub>m metrics_abs (metrics_insert e seg1 a)"
        using new by (auto simp: cr(2) map_le_def)
      note IH = Cons.IH [OF cr(1) run]
      have "metrics_abs (metrics_insert e seg1 a) name = Some (kind, 0)" by (simp add: cr(2))
      with IH have "metrics_abs seg' name = Some (kind, 0)" by (blast intro: map_leD)
      moreover have "metrics_abs seg \<subseteq>\<^sub>m metrics_abs seg'" using IH map_le_trans [OF le] by blast
      moreover have "reg_declared (d # defs) (metrics_abs seg) =
          reg_declared defs (metrics_abs (metrics_insert e seg1 a))"
        unfolding d reg_declared.simps cr(2) using new by (simp only: if_True simp_thms)
      ultimately show ?thesis using IH unfolding d set_simps ball_simps(5,7) by auto
    qed
  next
    case (Some a)
    show ?thesis
    proof (cases "metric_kind (metrics seg a) = kind")
      case True
      have run: "metrics_ensure_loop e defs seg = (rc, seg')" using Cons.prems(2) Some True d by simp
      note IH = Cons.IH [OF Cons.prems(1) run]
      have "metrics_abs seg name = Some (kind, metric_value (metrics seg a))"
        using ab Some True by simp
      moreover from this IH have "metrics_abs seg' name = metrics_abs seg name"
        using map_leD [of "metrics_abs seg" "metrics_abs seg'" name] by auto
      ultimately show ?thesis using IH d by auto
    next
      case False
      with Cons.prems Some d show ?thesis by simp
    qed
  qed
qed

section \<open>The registry as a state machine\<close>

datatype metric_op =
    CounterInc bytes u64
  | GaugeSet bytes u64
  | GaugeAdd bytes u64
  | MetricGet bytes

fun metric_op_name :: "metric_op \<Rightarrow> bytes" where
  "metric_op_name (CounterInc k _) = k"
| "metric_op_name (GaugeSet k _) = k"
| "metric_op_name (GaugeAdd k _) = k"
| "metric_op_name (MetricGet k) = k"

type_synonym metric_result = "int \<times> (nat \<times> u64) option"

definition no_out :: "int \<times> 'z \<Rightarrow> metric_result \<times> 'z" where
  "no_out p = ((fst p, None), snd p)"

fun metric_step ::
  "'s nginx_core \<Rightarrow> metric_op \<Rightarrow> 's metrics_zone option \<Rightarrow> metric_result \<times> 's metrics_zone option" where
  "metric_step e (CounterInc k d) z = no_out (metrics_counter_inc e z k d)"
| "metric_step e (GaugeSet k v) z = no_out (metrics_gauge_set e z k v)"
| "metric_step e (GaugeAdd k d) z = no_out (metrics_gauge_add e z k d)"
| "metric_step e (MetricGet k) z = (metrics_get e z k, z)"

text \<open>The registry's own operations, functions of the map.\<close>

definition reg_modify :: "registry \<Rightarrow> bytes \<Rightarrow> nat \<Rightarrow> (u64 \<Rightarrow> u64) \<Rightarrow> metric_result \<times> registry" where
  "reg_modify M k kind f =
     (case M k of
        Some (kd, v) \<Rightarrow> if kd = kind then ((NGX_HTTP_WASM_OK, None), M(k \<mapsto> (kd, f v)))
                       else ((NGX_HTTP_WASM_ERROR, None), M)
      | None \<Rightarrow> ((NGX_HTTP_WASM_ERROR, None), M))"

definition name_fits :: "bytes \<Rightarrow> bool" where
  "name_fits k \<longleftrightarrow> k \<noteq> [] \<and> length k \<le> METRIC_MAX_NAME_LEN"

fun reg_step :: "metric_op \<Rightarrow> registry \<Rightarrow> metric_result \<times> registry" where
  "reg_step (CounterInc k d) M =
     (if \<not> name_fits k \<or> d <s 0 then ((NGX_HTTP_WASM_ERROR, None), M)
      else reg_modify M k METRIC_KIND_COUNTER (counter_next d))"
| "reg_step (GaugeSet k v) M =
     (if \<not> name_fits k then ((NGX_HTTP_WASM_ERROR, None), M)
      else reg_modify M k METRIC_KIND_GAUGE (\<lambda>_. v))"
| "reg_step (GaugeAdd k d) M =
     (if \<not> name_fits k then ((NGX_HTTP_WASM_ERROR, None), M)
      else reg_modify M k METRIC_KIND_GAUGE (\<lambda>v. v + d))"
| "reg_step (MetricGet k) M =
     (if \<not> name_fits k then (NGX_HTTP_WASM_ERROR, None)
      else (case M k of None \<Rightarrow> (NGX_HTTP_WASM_NOT_FOUND, None) | Some v \<Rightarrow> (NGX_HTTP_WASM_OK, Some v)), M)"

fun metrics_zone_inv :: "'s nginx_core \<Rightarrow> 's metrics_zone option \<Rightarrow> bool" where
  "metrics_zone_inv e (Some z) =
     (m_sh_set z \<and> (case m_shpool z of Some seg \<Rightarrow> metrics_inv e seg | None \<Rightarrow> False))"
| "metrics_zone_inv e None = False"

fun metrics_zone_abs :: "'s metrics_zone option \<Rightarrow> registry" where
  "metrics_zone_abs (Some z) = (case m_shpool z of Some seg \<Rightarrow> metrics_abs seg | None \<Rightarrow> Map.empty)"
| "metrics_zone_abs None = Map.empty"

lemma metrics_args_fits:
  "metrics_zone_inv e zone \<Longrightarrow> metrics_args_ok zone k \<longleftrightarrow> name_fits k"
  by (cases zone) (auto simp: metrics_args_ok_def name_fits_def split: option.splits)

lemma zone_invE:
  assumes "metrics_zone_inv e zone"
  obtains z seg where "zone = Some z" "m_shpool z = Some seg" "m_sh_set z" "metrics_inv e seg"
  using assms by (cases zone) (auto split: option.splits)

lemma metrics_modify_spec:
  assumes ok: "nginx_core_ok e" and zi: "metrics_zone_inv e zone"
    and eq: "metrics_modify e zone k kind f = (rc, zone')"
  shows "metrics_zone_inv e zone' \<and>
    reg_modify (metrics_zone_abs zone) k kind f = ((rc, None), metrics_zone_abs zone')"
proof -
  from zi obtain z seg where z: "zone = Some z" "m_shpool z = Some seg" "m_sh_set z" "metrics_inv e seg"
    by (rule zone_invE)
  note ab = metrics_lookup_abs [OF ok z(4), of k]
  show ?thesis
  proof (cases "metrics_lookup e (metrics seg) (m_root seg) k (ngx_crc32_short e k)")
    case None
    with eq z ab show ?thesis by (auto simp: metrics_modify_def reg_modify_def)
  next
    case (Some a)
    then have a: "a \<in> nodes (m_root seg)" "metric_name (metrics seg a) = k"
      by (simp_all add: metrics_lookup_Some [OF ok z(4)])
    show ?thesis
    proof (cases "metric_kind (metrics seg a) = kind")
      case False
      with Some eq z ab show ?thesis by (auto simp: metrics_modify_def reg_modify_def Let_def)
    next
      case True
      let ?seg' = "set_metric seg a (f (metric_value (metrics seg a)))"
      have "rc = NGX_HTTP_WASM_OK" "zone' = Some (z\<lparr>m_shpool := Some ?seg'\<rparr>)"
        using True Some eq z by (auto simp: metrics_modify_def set_metric_def Let_def)
      with True Some z ab a inv_set_metric [OF z(4)] abs_set_metric [OF ok z(4) a(1)] show ?thesis
        by (simp add: reg_modify_def)
    qed
  qed
qed

lemma metric_step_refines:
  assumes ok: "nginx_core_ok e" and zi: "metrics_zone_inv e zone"
    and eq: "metric_step e op zone = (r, zone')"
  shows "metrics_zone_inv e zone' \<and> reg_step op (metrics_zone_abs zone) = (r, metrics_zone_abs zone')"
proof -
  note args = metrics_args_fits [OF zi]
  note md = metrics_modify_spec [OF ok zi prod.collapse [symmetric]]
  show ?thesis
  proof (cases op)
    case (MetricGet k)
    from zi obtain z seg where z: "zone = Some z" "m_shpool z = Some seg" "m_sh_set z" "metrics_inv e seg"
      by (rule zone_invE)
    show ?thesis using MetricGet eq zi z args [of k] metrics_lookup_abs [OF ok z(4), of k]
      by (auto simp: metrics_get_def split: option.splits)
  qed (use eq zi args md in \<open>auto simp: no_out_def metrics_counter_inc_def metrics_gauge_set_def
      metrics_gauge_add_def split: if_splits\<close>)
qed

abbreviation metrics_run ::
  "'s nginx_core \<Rightarrow> metric_op list \<Rightarrow> 's metrics_zone option \<Rightarrow> metric_result list \<times> 's metrics_zone option" where
  "metrics_run e \<equiv> run_ops (metric_step e)"

abbreviation reg_run :: "metric_op list \<Rightarrow> registry \<Rightarrow> metric_result list \<times> registry" where
  "reg_run \<equiv> run_ops reg_step"

interpretation metrics_registry: exact_refinement "metric_step e"
  "\<lambda>zone. nginx_core_ok e \<and> metrics_zone_inv e zone" metrics_zone_abs reg_step for e
proof unfold_locales
  fix s s' t r
  assume "nginx_core_ok e \<and> metrics_zone_inv e s" "metric_step e t s = (r, s')"
  with metric_step_refines [of e s t r s'] show
    "(nginx_core_ok e \<and> metrics_zone_inv e s') \<and> reg_step t (metrics_zone_abs s) = (r, metrics_zone_abs s')"
    by simp
qed

lemma metrics_run_sim:
  assumes "nginx_core_ok e" and "metrics_zone_inv e zone" and "metrics_run e ops zone = (rs, zone')"
  shows "metrics_zone_inv e zone' \<and> reg_run ops (metrics_zone_abs zone) = (rs, metrics_zone_abs zone')"
  using metrics_registry.run_exact [of e zone ops rs zone'] assms by simp

end
