(* ===== verification/Metrics_Props.thy ===== *)
theory Metrics_Props
  imports Metrics_Correct
begin

text \<open>The properties of the metrics registry, with instances on \<open>demo_core\<close>.\<close>

section \<open>Instances\<close>

definition demo_mseg :: "nat \<Rightarrow> demo_slab metrics_seg" where
  "demo_mseg n = \<lparr>m_slab = \<lparr>cells = n, in_use = []\<rparr>, m_pool_data = False, m_root = Sentinel,
     metrics = (\<lambda>_. \<lparr>metric_hash = 0, name_len = 0, metric_kind = 0, metric_value = 0, metric_data = []\<rparr>)\<rparr>"

text \<open>A counter \<open>c\<close> and a gauge \<open>g\<close>; every name has the same hash.\<close>

definition demo_defs :: metric_defs where
  "demo_defs = [([0x63], METRIC_KIND_COUNTER), ([0x67], METRIC_KIND_GAUGE)]"

definition demo_menv :: "demo_slab nginx_core" where
  "demo_menv = demo_core (\<lambda>_. 0)"

definition demo_mzone :: "demo_slab metrics_zone option" where
  "demo_mzone = Some (snd (metrics_init_zone demo_menv (Some demo_defs) (demo_mseg 3) None))"

lemma demo_menv_ok: "nginx_core_ok demo_menv"
  unfolding demo_menv_def by (rule demo_core_ok)

lemmas metrics_eval = demo_mzone_def demo_mseg_def demo_defs_def demo_menv_def metrics_init_zone_def
  metrics_ensure_definitions_def metrics_alloc_node_def metrics_insert_def metrics_insert_rc_def
  metric_name_def METRIC_KIND_COUNTER_def METRIC_KIND_GAUGE_def METRIC_MAX_NAME_LEN_def Let_def
  metrics_args_ok_def metrics_modify_def metrics_counter_inc_def metrics_gauge_set_def
  metrics_gauge_add_def metrics_get_def no_out_def wasm_codes word_sless_alt

lemma ensure_loop_idem:
  assumes ok: "nginx_core_ok e" and inv: "metrics_inv e seg"
    and all: "\<forall>d \<in> set defs. map_option fst (metrics_abs seg (fst d)) = Some (snd d)"
  shows "metrics_ensure_loop e defs seg = (NGX_OK, seg)"
  using all
proof (induction defs)
  case (Cons d defs)
  obtain name kind where d: "d = (name, kind)" by fastforce
  with Cons.prems metrics_lookup_abs [OF ok inv, of name]
  obtain a where "metrics_lookup e (metrics seg) (m_root seg) name (ngx_crc32_short e name) = Some a"
    "metric_kind (metrics seg a) = kind" by auto
  with Cons d show ?case by simp
qed simp

lemma init_zone_inv:
  assumes ok: "nginx_core_ok e" and new: "\<not> m_pool_data seg"
    and eq: "metrics_init_zone e (Some defs) seg None = (NGX_OK, z)"
  shows "metrics_zone_inv e (Some z) \<and> metrics_zone_abs (Some z) = reg_declared defs Map.empty"
proof -
  obtain a s' where al: "ngx_slab_alloc_locked e (m_slab seg) metrics_ctx_size = Some (a, s')"
    using eq new by (auto simp: metrics_init_zone_def Let_def split: option.splits)
  let ?s = "seg\<lparr>m_slab := s', m_root := Sentinel, m_pool_data := True\<rparr>"
  have inv: "metrics_inv e ?s" "metrics_abs ?s = Map.empty"
    by (simp_all add: metrics_inv_def metrics_abs_def)
  obtain rc s1 where run: "metrics_ensure_loop e defs ?s = (rc, s1)" by fastforce
  have "rc = NGX_OK" "m_shpool z = Some s1" "m_sh_set z"
    using eq new al run by (auto simp: metrics_init_zone_def metrics_ensure_definitions_def Let_def)
  with ensure_loop_spec [OF ok inv(1) run] inv(2) show ?thesis by simp
qed

lemma demo_init: "fst (metrics_init_zone demo_menv (Some demo_defs) (demo_mseg 3) None) = NGX_OK"
  by (simp add: metrics_eval)

lemma demo_mzone_inv:
  "metrics_zone_inv demo_menv demo_mzone \<and> metrics_zone_abs demo_mzone = reg_declared demo_defs Map.empty"
  unfolding demo_mzone_def
  by (rule init_zone_inv [OF demo_menv_ok, of "demo_mseg 3"])
    (use demo_init in \<open>auto simp: demo_mseg_def intro: prod_eqI\<close>)

section \<open>Arithmetic of the values\<close>

lemma sint_LLONG_MAX: "sint LLONG_MAX = 2 ^ 63 - 1"
  by (simp add: LLONG_MAX_def)

lemma sint_le_LLONG_MAX: "sint (v :: u64) \<le> 2 ^ 63 - 1" "- (2 ^ 63) \<le> sint (v :: u64)"
  using sint_lt [of v] sint_ge [of v] by simp_all

lemma sint_u64: "- (2 ^ 63) \<le> i \<Longrightarrow> i < 2 ^ 63 \<Longrightarrow> sint (word_of_int i :: u64) = i"
  by (simp add: sint_sbintrunc' signed_take_bit_int_eq_self)

lemma sint_add_u64:
  assumes "- (2 ^ 63) \<le> sint v + sint d" and "sint v + sint d < 2 ^ 63"
  shows "sint (v + d :: u64) = sint v + sint d"
proof -
  have "v + d = word_of_int (sint v + sint d)" by simp
  then show ?thesis using sint_u64 [OF assms] by (simp only:)
qed

text \<open>The saturating addition of a non-negative delta.\<close>

lemma counter_next_value:
  assumes "0 \<le> sint d"
  shows "sint (counter_next d v) = min (2 ^ 63 - 1) (sint v + sint d)"
proof -
  have "LLONG_MAX - d = word_of_int (2 ^ 63 - 1 - sint d)"
    by (simp add: LLONG_MAX_def)
  moreover have "sint (word_of_int (2 ^ 63 - 1 - sint d) :: u64) = 2 ^ 63 - 1 - sint d"
    using assms sint_le_LLONG_MAX(1) [of d] by (intro sint_u64) auto
  ultimately have guard: "LLONG_MAX - d <s v \<longleftrightarrow> 2 ^ 63 - 1 - sint d < sint v"
    by (simp only: word_sless_alt)
  show ?thesis
  proof (cases "2 ^ 63 - 1 - sint d < sint v")
    case True
    with guard show ?thesis by (simp add: counter_next_def sint_LLONG_MAX)
  next
    case False
    then have "sint (v + d) = sint v + sint d"
      using assms sint_le_LLONG_MAX(2) [of v] by (intro sint_add_u64) auto
    with False guard show ?thesis by (simp add: counter_next_def)
  qed
qed

definition metric_le :: "nat \<times> u64 \<Rightarrow> nat \<times> u64 \<Rightarrow> bool" where
  "metric_le m m' \<longleftrightarrow> fst m' = fst m \<and> (fst m = METRIC_KIND_COUNTER \<longrightarrow> sint (snd m) \<le> sint (snd m'))"

definition reg_mono :: "registry \<Rightarrow> registry \<Rightarrow> bool" where
  "reg_mono M M' \<longleftrightarrow> (\<forall>k. case M k of None \<Rightarrow> M' k = None | Some m \<Rightarrow> \<exists>m'. M' k = Some m' \<and> metric_le m m')"

lemma reg_mono_refl: "reg_mono M M"
  by (auto simp: reg_mono_def metric_le_def split: option.split)

lemma reg_mono_trans:
  assumes "reg_mono M1 M2" and "reg_mono M2 M3"
  shows "reg_mono M1 M3"
  unfolding reg_mono_def
proof
  fix k
  from assms(1) [unfolded reg_mono_def, rule_format, of k]
    assms(2) [unfolded reg_mono_def, rule_format, of k]
  show "case M1 k of None \<Rightarrow> M3 k = None | Some m \<Rightarrow> \<exists>m'. M3 k = Some m' \<and> metric_le m m'"
    by (cases "M1 k") (auto simp: metric_le_def)
qed

lemma reg_modify_mono:
  assumes "kind = METRIC_KIND_COUNTER \<Longrightarrow> (\<And>v. sint v \<le> sint (f v))"
  shows "reg_mono M (snd (reg_modify M k kind f))"
proof (cases "M k")
  case None
  then show ?thesis by (simp add: reg_modify_def reg_mono_refl)
next
  case (Some m)
  obtain kd v where m: "m = (kd, v)" by fastforce
  show ?thesis
  proof (cases "kd = kind")
    case True
    then show ?thesis using Some m assms
      by (auto simp: reg_modify_def reg_mono_def metric_le_def split: option.split)
  next
    case False
    with Some m show ?thesis by (simp add: reg_modify_def reg_mono_refl)
  qed
qed

lemma reg_step_mono: "reg_mono M (snd (reg_step op M))"
proof (cases op)
  case (CounterInc k d)
  have "\<not> d <s 0 \<Longrightarrow> sint v \<le> sint (counter_next d v)" for v
    using sint_le_LLONG_MAX(1) [of v] by (simp add: counter_next_value word_sless_alt)
  with CounterInc show ?thesis by (simp add: reg_mono_refl reg_modify_mono)
qed (auto simp: METRIC_KIND_COUNTER_def METRIC_KIND_GAUGE_def intro: reg_mono_refl reg_modify_mono)

lemma reg_run_mono: "reg_mono M (snd (reg_run ops M))"
proof (induction ops arbitrary: M)
  case Nil
  show ?case by (simp add: reg_mono_refl)
next
  case (Cons op ops)
  from reg_mono_trans [OF reg_step_mono Cons.IH] show ?case
    by (simp split: prod.split) (metis snd_conv)
qed

section \<open>Properties\<close>

text \<open>C14: the registry refines a map. On a usable zone, any sequence of counter, gauge and get calls
  returns exactly the results, and leaves exactly the map, of the abstract registry, whatever
  the hash function, and the invariant holds afterwards.\<close>

theorem metrics_registry_refinement:
  assumes "nginx_core_ok e" and "metrics_zone_inv e zone"
    and "metrics_run e ops zone = (rs, zone')"
  shows "metrics_zone_inv e zone' \<and> reg_run ops (metrics_zone_abs zone) = (rs, metrics_zone_abs zone')"
  using metrics_run_sim [OF assms] .

definition demo_mops :: "metric_op list" where
  "demo_mops = [CounterInc [0x63] 5, CounterInc [0x67] 1, GaugeAdd [0x67] (- 2),
     MetricGet [0x63], MetricGet [0x67], MetricGet [0x78]]"

lemma demo_reg_run: "fst (reg_run demo_mops (reg_declared demo_defs Map.empty)) =
    [(NGX_HTTP_WASM_OK, None), (NGX_HTTP_WASM_ERROR, None), (NGX_HTTP_WASM_OK, None),
     (NGX_HTTP_WASM_OK, Some (METRIC_KIND_COUNTER, 5)), (NGX_HTTP_WASM_OK, Some (METRIC_KIND_GAUGE, - 2)),
     (NGX_HTTP_WASM_NOT_FOUND, None)]"
  by (simp add: demo_mops_def demo_defs_def reg_modify_def name_fits_def METRIC_MAX_NAME_LEN_def
      METRIC_KIND_COUNTER_def METRIC_KIND_GAUGE_def counter_next_def LLONG_MAX_def word_sless_alt)

theorem metrics_registry_refinement_witness:
  "fst (metrics_run demo_menv demo_mops demo_mzone) =
    [(NGX_HTTP_WASM_OK, None), (NGX_HTTP_WASM_ERROR, None), (NGX_HTTP_WASM_OK, None),
     (NGX_HTTP_WASM_OK, Some (METRIC_KIND_COUNTER, 5)), (NGX_HTTP_WASM_OK, Some (METRIC_KIND_GAUGE, - 2)),
     (NGX_HTTP_WASM_NOT_FOUND, None)]"
proof -
  have "metrics_zone_inv demo_menv demo_mzone" using demo_mzone_inv by blast
  from metrics_registry_refinement [OF demo_menv_ok this prod.collapse [symmetric], of demo_mops]
  have "fst (metrics_run demo_menv demo_mops demo_mzone) =
      fst (reg_run demo_mops (reg_declared demo_defs Map.empty))"
    using demo_mzone_inv by simp
  then show ?thesis by (simp only: demo_reg_run)
qed

text \<open>C33: counters only grow, and no operation creates, removes or retypes a metric. Over any
  sequence of calls every metric keeps its kind, and a counter's value, read as a signed
  64-bit integer, never decreases.\<close>

theorem metrics_counters_monotone:
  assumes "nginx_core_ok e" and "metrics_zone_inv e zone"
    and "metrics_run e ops zone = (rs, zone')"
  shows "(metrics_zone_abs zone' k = None \<longleftrightarrow> metrics_zone_abs zone k = None) \<and>
    (\<forall>kd v. metrics_zone_abs zone k = Some (kd, v) \<longrightarrow>
       (\<exists>v'. metrics_zone_abs zone' k = Some (kd, v') \<and>
             (kd = METRIC_KIND_COUNTER \<longrightarrow> sint v \<le> sint v')))"
proof -
  have "reg_mono (metrics_zone_abs zone) (snd (reg_run ops (metrics_zone_abs zone)))"
    by (rule reg_run_mono)
  then have "reg_mono (metrics_zone_abs zone) (metrics_zone_abs zone')"
    using metrics_run_sim [OF assms] by simp
  from this [unfolded reg_mono_def, rule_format, of k] show ?thesis
    by (cases "metrics_zone_abs zone k") (auto simp: metric_le_def)
qed

theorem metrics_counters_monotone_witness:
  "\<exists>v'. metrics_zone_abs (snd (metrics_run demo_menv demo_mops demo_mzone)) [0x63] =
     Some (METRIC_KIND_COUNTER, v') \<and> 0 \<le> sint v'"
proof -
  have "metrics_zone_inv demo_menv demo_mzone" using demo_mzone_inv by blast
  moreover have "metrics_zone_abs demo_mzone [0x63] = Some (METRIC_KIND_COUNTER, 0)"
    using demo_mzone_inv by (simp add: demo_defs_def)
  ultimately show ?thesis
    using metrics_counters_monotone [OF demo_menv_ok _ prod.collapse [symmetric], of demo_mzone demo_mops "[0x63]"]
    by auto
qed

text \<open>C34: creating the declared metrics. \<open>metrics_ensure_definitions\<close> never touches an existing
  metric; when it succeeds, every declared metric exists with its declared kind, the new ones
  have the value 0, and running it again succeeds and changes nothing.\<close>

theorem metrics_ensure_definitions_spec:
  assumes "nginx_core_ok e" and "metrics_zone_inv e (Some zone)" and "definitions zone = Some defs"
    and "metrics_ensure_definitions e zone = (rc, zone')"
  shows "metrics_zone_inv e (Some zone') \<and>
    metrics_zone_abs (Some zone) \<subseteq>\<^sub>m metrics_zone_abs (Some zone') \<and>
    (rc = NGX_OK \<longrightarrow>
      (\<forall>d \<in> set defs. map_option fst (metrics_zone_abs (Some zone') (fst d)) = Some (snd d)) \<and>
      (\<forall>k v. metrics_zone_abs (Some zone') k = Some v \<longrightarrow> metrics_zone_abs (Some zone) k = None \<longrightarrow>
         k \<in> fst ` set defs \<and> snd v = 0) \<and>
      metrics_ensure_definitions e zone' = (NGX_OK, zone'))"
proof -
  from assms(2) obtain seg where z: "m_shpool zone = Some seg" "m_sh_set zone" "metrics_inv e seg"
    by (auto split: option.splits)
  obtain seg' where run: "metrics_ensure_loop e defs seg = (rc, seg')"
    and zone': "zone' = zone\<lparr>m_shpool := Some seg'\<rparr>"
    using assms(3,4) z by (auto simp: metrics_ensure_definitions_def split: prod.splits)
  note sp = ensure_loop_spec [OF assms(1) z(3) run]
  have again: "metrics_ensure_loop e defs seg' = (NGX_OK, seg')" if "rc = NGX_OK"
    using that sp by (intro ensure_loop_idem [OF assms(1)]) auto
  have "k \<in> fst ` set defs \<and> snd v = 0"
    if "rc = NGX_OK" "metrics_abs seg' k = Some v" "metrics_abs seg k = None" for k v
  proof -
    have eq: "metrics_abs seg' = reg_declared defs (metrics_abs seg)" using sp that(1) by blast
    then have "k \<in> dom (reg_declared defs (metrics_abs seg))" using that(2) by auto
    then have "k \<in> fst ` set defs" using that(3) by (auto simp: reg_declared_dom)
    with reg_declared_zero [of defs "metrics_abs seg" k v] that eq show ?thesis by simp
  qed
  note new = this
  have ab: "metrics_zone_abs (Some zone) = metrics_abs seg"
    "metrics_zone_abs (Some zone') = metrics_abs seg'" using z zone' by simp_all
  have inv': "metrics_zone_inv e (Some zone')" using sp z zone' by simp
  have idem: "metrics_ensure_definitions e zone' = (NGX_OK, zone')" if "rc = NGX_OK"
    using again [OF that] z zone' assms(3) by (simp add: metrics_ensure_definitions_def)
  note decl = sp [THEN conjunct2, THEN conjunct2, THEN conjunct2, THEN mp, THEN conjunct2]
  have "rc = NGX_OK \<longrightarrow>
      (\<forall>d \<in> set defs. map_option fst (metrics_abs seg' (fst d)) = Some (snd d)) \<and>
      (\<forall>k v. metrics_abs seg' k = Some v \<longrightarrow> metrics_abs seg k = None \<longrightarrow>
         k \<in> fst ` set defs \<and> snd v = 0) \<and>
      metrics_ensure_definitions e zone' = (NGX_OK, zone')"
    using decl new idem by blast
  with inv' sp show ?thesis unfolding ab by blast
qed

theorem metrics_ensure_definitions_spec_witness:
  "metrics_ensure_definitions demo_menv (the demo_mzone) = (NGX_OK, the demo_mzone) \<and>
   map_option fst (metrics_zone_abs demo_mzone [0x67]) = Some METRIC_KIND_GAUGE"
proof -
  let ?z = "the demo_mzone"
  have some: "Some ?z = demo_mzone" by (simp add: demo_mzone_def)
  have d: "definitions ?z = Some demo_defs" by (simp add: metrics_eval)
  have run: "metrics_ensure_definitions demo_menv ?z = (NGX_OK, ?z)" by (simp add: metrics_eval)
  have "metrics_zone_inv demo_menv (Some ?z)" using demo_mzone_inv some by simp
  from metrics_ensure_definitions_spec [OF demo_menv_ok this d run] run show ?thesis
    unfolding some by (simp add: demo_defs_def)
qed

text \<open>C35: the arithmetic of updates. Incrementing an existing counter by a non-negative delta
  succeeds and adds it, saturating at the largest \<^verbatim>\<open>int64_t\<close>; adding to an existing gauge
  succeeds and is exact as long as the sum fits an \<^verbatim>\<open>int64_t\<close>. Nothing else changes.\<close>

theorem metrics_update_arithmetic:
  assumes "nginx_core_ok e" and "metrics_zone_inv e zone" and "name_fits k"
    and "metrics_zone_abs zone k = Some (kind, v)"
  shows "(kind = METRIC_KIND_COUNTER \<and> 0 \<le> sint d \<longrightarrow>
      (\<exists>v' zone'. metrics_counter_inc e zone k d = (NGX_HTTP_WASM_OK, zone') \<and>
         metrics_zone_abs zone' = (metrics_zone_abs zone)(k \<mapsto> (kind, v')) \<and>
         sint v' = min (2 ^ 63 - 1) (sint v + sint d))) \<and>
    (kind = METRIC_KIND_GAUGE \<and> - (2 ^ 63) \<le> sint v + sint d \<and> sint v + sint d < 2 ^ 63 \<longrightarrow>
      (\<exists>v' zone'. metrics_gauge_add e zone k d = (NGX_HTTP_WASM_OK, zone') \<and>
         metrics_zone_abs zone' = (metrics_zone_abs zone)(k \<mapsto> (kind, v')) \<and>
         sint v' = sint v + sint d))"
proof -
  obtain r1 z1 where c: "metrics_counter_inc e zone k d = (r1, z1)" by fastforce
  obtain r2 z2 where g: "metrics_gauge_add e zone k d = (r2, z2)" by fastforce
  have "metric_step e (CounterInc k d) zone = ((r1, None), z1)" using c by (simp add: no_out_def)
  from metric_step_refines [OF assms(1,2) this]
  have C: "reg_step (CounterInc k d) (metrics_zone_abs zone) = ((r1, None), metrics_zone_abs z1)" by blast
  have "metric_step e (GaugeAdd k d) zone = ((r2, None), z2)" using g by (simp add: no_out_def)
  from metric_step_refines [OF assms(1,2) this]
  have G: "reg_step (GaugeAdd k d) (metrics_zone_abs zone) = ((r2, None), metrics_zone_abs z2)" by blast
  have "\<exists>v' zone'. metrics_counter_inc e zone k d = (NGX_HTTP_WASM_OK, zone') \<and>
      metrics_zone_abs zone' = (metrics_zone_abs zone)(k \<mapsto> (kind, v')) \<and>
      sint v' = min (2 ^ 63 - 1) (sint v + sint d)"
    if "kind = METRIC_KIND_COUNTER" "0 \<le> sint d"
    using C assms(3,4) that c counter_next_value [of d v]
    by (intro exI [of _ "counter_next d v"] exI [of _ z1]) (auto simp: reg_modify_def word_sless_alt)
  moreover have "\<exists>v' zone'. metrics_gauge_add e zone k d = (NGX_HTTP_WASM_OK, zone') \<and>
      metrics_zone_abs zone' = (metrics_zone_abs zone)(k \<mapsto> (kind, v')) \<and> sint v' = sint v + sint d"
    if "kind = METRIC_KIND_GAUGE" "- (2 ^ 63) \<le> sint v + sint d" "sint v + sint d < 2 ^ 63"
    using G assms(3,4) that g sint_add_u64 [of v d]
    by (intro exI [of _ "v + d"] exI [of _ z2]) (auto simp: reg_modify_def)
  ultimately show ?thesis by blast
qed

theorem metrics_update_arithmetic_witness:
  "\<exists>v' zone'. metrics_counter_inc demo_menv demo_mzone [0x63] LLONG_MAX = (NGX_HTTP_WASM_OK, zone') \<and>
     metrics_zone_abs zone' [0x63] = Some (METRIC_KIND_COUNTER, v') \<and> sint v' = 2 ^ 63 - 1"
proof -
  have "metrics_zone_inv demo_menv demo_mzone" using demo_mzone_inv by blast
  moreover have "metrics_zone_abs demo_mzone [0x63] = Some (METRIC_KIND_COUNTER, 0)"
    using demo_mzone_inv by (simp add: demo_defs_def)
  moreover have "name_fits [0x63]" by (simp add: name_fits_def METRIC_MAX_NAME_LEN_def)
  ultimately show ?thesis
    using metrics_update_arithmetic [OF demo_menv_ok, of demo_mzone "[0x63]" METRIC_KIND_COUNTER 0 LLONG_MAX]
    by (auto simp: sint_LLONG_MAX)
qed

lemma render_bounds:
  assumes "\<forall>v. length (fmt v) \<le> NGX_INT64_LEN" and "nginx_core_ok e" and "metrics_zone_inv e zone"
    and "\<forall>d \<in> set ds. name_fits (fst d) \<and> metrics_zone_abs zone (fst d) \<noteq> None"
  shows "\<exists>body. metrics_render e fmt zone ds = Some body \<and> length body \<le> metrics_buffer_size ds"
  using assms(4)
proof (induction ds)
  case Nil
  then show ?case by simp
next
  case (Cons d ds)
  obtain name dk where d: "d = (name, dk)" by fastforce
  obtain kind v where m: "metrics_zone_abs zone name = Some (kind, v)" and fits: "name_fits name"
    using Cons.prems d by (cases "metrics_zone_abs zone name") auto
  have "metric_step e (MetricGet name) zone = (metrics_get e zone name, zone)" by simp
  from metric_step_refines [OF assms(2,3) this] m fits
  have get: "metrics_get e zone name = (NGX_HTTP_WASM_OK, Some (kind, v))" by simp
  from Cons obtain body where body: "metrics_render e fmt zone ds = Some body"
    "length body \<le> metrics_buffer_size ds" by auto
  have "length (metric_line fmt name kind v) \<le> 7 + length name + 9 + length name + NGX_INT64_LEN + 2"
    using assms(1) [rule_format, of v] by (simp add: metric_line_def)
  with body get d show ?case by (simp add: metrics_buffer_size_def)
qed

text \<open>C38: the exposition handler never overruns its buffer. When the registry holds the declared
  metrics, whatever their values, the handler renders all of them into a text no longer than
  the buffer it sized from the definitions, given that \<^verbatim>\<open>%L\<close> prints at most
  \<^verbatim>\<open>NGX_INT64_LEN\<close> bytes, and, unless nginx refuses memory or the header, sends that text.\<close>

theorem metrics_handler_bounds:
  assumes "\<forall>v. length (fmt v) \<le> NGX_INT64_LEN" and "nginx_core_ok e" and "metrics_zone_inv e zone"
    and "\<forall>d \<in> set ds. name_fits (fst d) \<and> metrics_zone_abs zone (fst d) \<noteq> None"
  shows "\<exists>body. length body \<le> metrics_buffer_size ds \<and>
    metrics_render e fmt zone ds = Some body \<and>
    metrics_handler e fmt (\<lambda>_. True) (\<lambda>_. NGX_OK) False True output zone (Some ds) = (output body, Some body)"
proof -
  from render_bounds [OF assms] obtain body where
    "metrics_render e fmt zone ds = Some body" "length body \<le> metrics_buffer_size ds" by blast
  moreover obtain z where "zone = Some z" using assms(3) by (rule zone_invE)
  ultimately show ?thesis by (simp add: metrics_handler_def Let_def)
qed

theorem metrics_handler_bounds_witness:
  "\<exists>body. length body \<le> metrics_buffer_size demo_defs \<and>
    metrics_handler demo_menv (\<lambda>_. [0x30]) (\<lambda>_. True) (\<lambda>_. NGX_OK) False True (\<lambda>_. NGX_OK)
      demo_mzone (Some demo_defs) = (NGX_OK, Some body)"
  using metrics_handler_bounds [of "\<lambda>_. [0x30]" demo_menv demo_mzone demo_defs "\<lambda>_. NGX_OK"]
    demo_menv_ok demo_mzone_inv
  by (auto simp: NGX_INT64_LEN_def demo_defs_def name_fits_def METRIC_MAX_NAME_LEN_def)

end
