(* ===== verification/Request.thy ===== *)
theory Request
  imports Prelude
begin

text \<open>
  The parts of an nginx request the guest ABI works on, and the header-table helpers of
  \<^verbatim>\<open>src/ngx_http_wasm_abi.c\<close>: search in the header lists, the fixed response-header slots,
  and the header setters and getters. nginx's own functions are the fields of a record that
  the operations take as an argument; \<open>nginx_http_ok\<close> states what the proofs use of them.
\<close>

section \<open>Requests\<close>

text \<open>
  \<^verbatim>\<open>ngx_table_elt_t\<close>. A header list is a list of elements in the order of its parts; the
  pointers to elements that nginx keeps in the response-header slots are indices into it, so
  that writing through a slot and through the list is the same element.
\<close>

record table_elt =
  h_hash :: nat
  h_key :: bytes
  h_value :: bytes
  h_lowcase :: "bytes option"

definition zero_elt :: table_elt where
  "zero_elt = \<lparr>h_hash = 0, h_key = [], h_value = [], h_lowcase = None\<rparr>"

datatype resp_slot =
    SlotDate | SlotEtag | SlotLink | SlotServer | SlotExpires | SlotRefresh | SlotLocation
  | SlotCacheControl | SlotContentLength | SlotContentRange | SlotLastModified
  | SlotAcceptRanges | SlotContentEncoding | SlotWwwAuthenticate | SlotProxyAuthenticate

record headers_out =
  status :: int
  content_type :: bytes
  content_type_len :: nat
  content_type_lowcase :: "bytes option"
  content_type_hash :: nat
  content_length_n :: int
  date_time :: int
  last_modified_time :: int
  out_headers :: "table_elt list"
  out_slots :: "resp_slot \<Rightarrow> nat option"

record var_value =
  vv_data :: bytes
  vv_valid :: bool
  vv_no_cacheable :: bool
  vv_not_found :: bool

text \<open>\<open>out_buf\<close> is the first buffer of \<^verbatim>\<open>r->out\<close>, \<open>has_upstream\<close> whether \<^verbatim>\<open>r->upstream\<close> is set.\<close>

record 'p http_request =
  pool :: 'p
  headers_in :: "table_elt list"
  headers_out :: headers_out
  req_method :: nat
  method_name :: bytes
  header_only :: bool
  is_main :: bool
  has_upstream :: bool
  variables :: "nat \<Rightarrow> var_value"
  out_buf :: "bytes option"

record 'p http_variable =
  var_name :: bytes
  var_changeable :: bool
  var_indexed :: bool
  var_index :: nat
  var_set_handler :: "('p http_request \<Rightarrow> var_value \<Rightarrow> 'p http_request) option"

section \<open>nginx's HTTP functions\<close>

text \<open>
  Allocation from a pool may fail; pools are opaque. \<open>ngx_list_push\<close> and the array push are
  allocations of one element. \<open>ngx_http_subrequest\<close> creates a subrequest for a URI, query
  arguments and the in-memory flag.
\<close>

record 'p nginx_http =
  ngx_palloc :: "'p \<Rightarrow> nat \<Rightarrow> 'p option"
  ngx_list_push :: "'p \<Rightarrow> 'p option"
  ngx_strncasecmp :: "bytes \<Rightarrow> bytes \<Rightarrow> nat \<Rightarrow> int"
  ngx_hash_strlow :: "bytes \<Rightarrow> bytes \<times> nat"
  ngx_atoof :: "bytes \<Rightarrow> int"
  ngx_parse_http_time :: "bytes \<Rightarrow> int"
  variables_hash :: "nat \<Rightarrow> bytes \<Rightarrow> 'p http_variable option"
  prefix_variables :: "'p http_variable list"
  ngx_http_get_variable :: "'p http_request \<Rightarrow> bytes \<Rightarrow> nat \<Rightarrow> var_value option"
  ngx_http_send_header :: "'p http_request \<Rightarrow> int"
  ngx_http_output_filter :: "'p http_request \<Rightarrow> bytes \<Rightarrow> int"
  ngx_http_send_special :: "'p http_request \<Rightarrow> int"
  ngx_http_subrequest :: "'p http_request \<Rightarrow> bytes \<Rightarrow> bytes option \<Rightarrow> bool \<Rightarrow> 'p http_request option"

text \<open>
  \<^verbatim>\<open>ngx_strncasecmp\<close> compares C strings, at most \<open>n\<close> bytes of them, up to ASCII case;
  \<^verbatim>\<open>ngx_hash_strlow\<close> copies a string in lower case.
\<close>

definition to_lower :: "byte \<Rightarrow> byte" where
  "to_lower c = (if 0x41 \<le> c \<and> c \<le> 0x5A then c OR 0x20 else c)"

definition c_prefix :: "nat \<Rightarrow> bytes \<Rightarrow> bytes" where
  "c_prefix n s = takeWhile (\<lambda>b. b \<noteq> 0) (take n s)"

definition nginx_http_ok :: "'p nginx_http \<Rightarrow> bool" where
  "nginx_http_ok e \<longleftrightarrow>
     (\<forall>x y n. ngx_strncasecmp e x y n = 0 \<longleftrightarrow>
        map to_lower (c_prefix n x) = map to_lower (c_prefix n y)) \<and>
     (\<forall>x. fst (ngx_hash_strlow e x) = map to_lower x)"

section \<open>Searching\<close>

fun find_index :: "('a \<Rightarrow> bool) \<Rightarrow> 'a list \<Rightarrow> nat option" where
  "find_index P [] = None"
| "find_index P (x # xs) = (if P x then Some 0 else map_option Suc (find_index P xs))"

definition find_header :: "'p nginx_http \<Rightarrow> 'p http_request \<Rightarrow> bytes \<Rightarrow> nat option" where
  "find_header e r name =
     find_index (\<lambda>h. length (h_key h) = length name \<and>
                     ngx_strncasecmp e (h_key h) name (length name) = 0) (headers_in r)"

definition find_resp_header :: "'p nginx_http \<Rightarrow> 'p http_request \<Rightarrow> bytes \<Rightarrow> nat option" where
  "find_resp_header e r name =
     find_index (\<lambda>h. h_hash h \<noteq> 0 \<and> length (h_key h) = length name \<and>
                     ngx_strncasecmp e (h_key h) name (length name) = 0)
       (out_headers (headers_out r))"

definition header_eq :: "'p nginx_http \<Rightarrow> bytes \<Rightarrow> string \<Rightarrow> bool" where
  "header_eq e name literal \<longleftrightarrow>
     length name = length literal \<and>
     ngx_strncasecmp e name (str literal) (length literal) = 0"

definition resp_header_slot :: "'p nginx_http \<Rightarrow> bytes \<Rightarrow> resp_slot option" where
  "resp_header_slot e name =
     (let n = length name; eq = header_eq e name
      in if n = 4 then
           (if eq ''date'' then Some SlotDate
            else if eq ''etag'' then Some SlotEtag
            else if eq ''link'' then Some SlotLink
            else None)
         else if n = 6 then (if eq ''server'' then Some SlotServer else None)
         else if n = 7 then
           (if eq ''expires'' then Some SlotExpires
            else if eq ''refresh'' then Some SlotRefresh
            else None)
         else if n = 8 then (if eq ''location'' then Some SlotLocation else None)
         else if n = 13 then (if eq ''cache-control'' then Some SlotCacheControl else None)
         else if n = 14 then
           (if eq ''content-length'' then Some SlotContentLength
            else if eq ''content-range'' then Some SlotContentRange
            else if eq ''last-modified'' then Some SlotLastModified
            else None)
         else if n = 15 then (if eq ''accept-ranges'' then Some SlotAcceptRanges else None)
         else if n = 16 then (if eq ''content-encoding'' then Some SlotContentEncoding else None)
         else if n = 17 then (if eq ''www-authenticate'' then Some SlotWwwAuthenticate else None)
         else if n = 18 then (if eq ''proxy-authenticate'' then Some SlotProxyAuthenticate else None)
         else None)"

section \<open>Writing headers\<close>

text \<open>\<open>copy_bytes\<close> takes \<open>length data\<close> bytes from the pool; the copy itself is the list.\<close>

definition copy_bytes :: "'p nginx_http \<Rightarrow> 'p http_request \<Rightarrow> bytes \<Rightarrow> 'p http_request option" where
  "copy_bytes e r d = map_option (\<lambda>p. r\<lparr>pool := p\<rparr>) (ngx_palloc e (pool r) (length d))"

definition push_elt :: "'p nginx_http \<Rightarrow> 'p http_request \<Rightarrow> 'p http_request option" where
  "push_elt e r = map_option (\<lambda>p. r\<lparr>pool := p\<rparr>) (ngx_list_push e (pool r))"

definition upd_in :: "nat \<Rightarrow> (table_elt \<Rightarrow> table_elt) \<Rightarrow> 'p http_request \<Rightarrow> 'p http_request" where
  "upd_in i f r = r\<lparr>headers_in := (headers_in r)[i := f (headers_in r ! i)]\<rparr>"

definition upd_out :: "nat \<Rightarrow> (table_elt \<Rightarrow> table_elt) \<Rightarrow> 'p http_request \<Rightarrow> 'p http_request" where
  "upd_out i f r =
     r\<lparr>headers_out := (headers_out r)\<lparr>out_headers :=
         (out_headers (headers_out r))[i := f (out_headers (headers_out r) ! i)]\<rparr>\<rparr>"

text \<open>
  A new element of the request's headers: pushed and zeroed, then filled field by field; a
  failing allocation leaves the element as far as it was filled.
\<close>

definition new_header_in ::
  "'p nginx_http \<Rightarrow> 'p http_request \<Rightarrow> bytes \<Rightarrow> nat option \<times> 'p http_request" where
  "new_header_in e r name =
     (case push_elt e r of
        None \<Rightarrow> (None, r)
      | Some r \<Rightarrow>
          (let i = length (headers_in r); r = r\<lparr>headers_in := headers_in r @ [zero_elt]\<rparr>
           in case copy_bytes e r name of
                None \<Rightarrow> (None, r)
              | Some r \<Rightarrow>
                  (let r = upd_in i (\<lambda>h. h\<lparr>h_key := name\<rparr>) r
                   in case ngx_palloc e (pool r) (length name) of
                        None \<Rightarrow> (None, r)
                      | Some p \<Rightarrow>
                          (case ngx_hash_strlow e name of
                             (low, hash) \<Rightarrow>
                               (Some i, upd_in i (\<lambda>h. h\<lparr>h_hash := hash, h_lowcase := Some low\<rparr>)
                                          (r\<lparr>pool := p\<rparr>))))))"

text \<open>
  Setting a request header: \<^verbatim>\<open>ngx_http_wasm_abi_subrequest_set_runtime_header\<close>, and the body of
  \<^verbatim>\<open>ngx_http_wasm_abi_req_set_header\<close> behind its checks.
\<close>

definition set_runtime_header ::
  "'p nginx_http \<Rightarrow> 'p http_request \<Rightarrow> bytes \<Rightarrow> bytes \<Rightarrow> int \<times> 'p http_request" where
  "set_runtime_header e r name v =
     (case (case find_header e r name of
              Some i \<Rightarrow> (Some i, r)
            | None \<Rightarrow> new_header_in e r name) of
        (None, r) \<Rightarrow> (NGX_HTTP_WASM_ERROR, r)
      | (Some i, r) \<Rightarrow>
          (case copy_bytes e r v of
             None \<Rightarrow> (NGX_HTTP_WASM_ERROR, r)
           | Some r \<Rightarrow> (NGX_HTTP_WASM_OK, upd_in i (\<lambda>h. h\<lparr>h_value := v\<rparr>) r)))"

text \<open>
  Copying all headers of a request into the fresh list of another one; an allocation failure
  stops the loop.
\<close>

fun clone_header_loop ::
  "'p nginx_http \<Rightarrow> table_elt list \<Rightarrow> 'p http_request \<Rightarrow> int \<times> 'p http_request" where
  "clone_header_loop e [] dst = (NGX_HTTP_WASM_OK, dst)"
| "clone_header_loop e (h # hs) dst =
     (case push_elt e dst of
        None \<Rightarrow> (NGX_HTTP_WASM_ERROR, dst)
      | Some dst \<Rightarrow>
          (let i = length (headers_in dst);
               dst = dst\<lparr>headers_in := headers_in dst @ [zero_elt\<lparr>h_hash := h_hash h\<rparr>]\<rparr>
           in case copy_bytes e dst (h_key h) of
                None \<Rightarrow> (NGX_HTTP_WASM_ERROR, dst)
              | Some dst \<Rightarrow>
                  (let dst = upd_in i (\<lambda>c. c\<lparr>h_key := h_key h\<rparr>) dst
                   in case copy_bytes e dst (h_value h) of
                        None \<Rightarrow> (NGX_HTTP_WASM_ERROR, dst)
                      | Some dst \<Rightarrow>
                          (let dst = upd_in i (\<lambda>c. c\<lparr>h_value := h_value h\<rparr>) dst
                           in case h_lowcase h of
                                None \<Rightarrow> clone_header_loop e hs dst
                              | Some low \<Rightarrow>
                                  (case ngx_palloc e (pool dst) (length (h_key h)) of
                                     None \<Rightarrow> (NGX_HTTP_WASM_ERROR, dst)
                                   | Some p \<Rightarrow> clone_header_loop e hs
                                       (upd_in i (\<lambda>c. c\<lparr>h_lowcase := Some low\<rparr>) (dst\<lparr>pool := p\<rparr>)))))))"

definition subrequest_clone_headers ::
  "'p nginx_http \<Rightarrow> 'p http_request \<Rightarrow> 'p http_request \<Rightarrow> int \<times> 'p http_request" where
  "subrequest_clone_headers e dst src =
     (case ngx_palloc e (pool dst) 8 of
        None \<Rightarrow> (NGX_HTTP_WASM_ERROR, dst)
      | Some p \<Rightarrow> clone_header_loop e (headers_in src) (dst\<lparr>pool := p, headers_in := []\<rparr>))"

section \<open>Response headers\<close>

text \<open>
  The headers nginx caches outside the list: \<^verbatim>\<open>Content-Type\<close>, and the slots, whose element is
  in the list as well and whose parsed value nginx keeps for three of them.
\<close>

definition slot_elt ::
  "'p nginx_http \<Rightarrow> 'p http_request \<Rightarrow> resp_slot \<Rightarrow> bytes \<Rightarrow> nat option \<times> 'p http_request" where
  "slot_elt e r slot name =
     (case out_slots (headers_out r) slot of
        Some i \<Rightarrow> (Some i, r)
      | None \<Rightarrow>
          (case push_elt e r of
             None \<Rightarrow> (None, r)
           | Some r \<Rightarrow>
               (let i = length (out_headers (headers_out r));
                    r = r\<lparr>headers_out := (headers_out r)\<lparr>out_headers :=
                            out_headers (headers_out r) @ [zero_elt]\<rparr>\<rparr>
                in case copy_bytes e r name of
                     None \<Rightarrow> (None, r)
                   | Some r \<Rightarrow>
                       (let r = upd_out i (\<lambda>h. h\<lparr>h_key := name\<rparr>) r
                        in (Some i, r\<lparr>headers_out := (headers_out r)\<lparr>out_slots :=
                                       (out_slots (headers_out r))(slot := Some i)\<rparr>\<rparr>)))))"

definition slot_parsed :: "'p nginx_http \<Rightarrow> resp_slot \<Rightarrow> bytes \<Rightarrow> headers_out \<Rightarrow> headers_out" where
  "slot_parsed e slot v out =
     (if slot = SlotContentLength then out\<lparr>content_length_n := if v \<noteq> [] then ngx_atoof e v else -1\<rparr>
      else if slot = SlotDate then out\<lparr>date_time := if v \<noteq> [] then ngx_parse_http_time e v else -1\<rparr>
      else if slot = SlotLastModified
        then out\<lparr>last_modified_time := if v \<noteq> [] then ngx_parse_http_time e v else -1\<rparr>
      else out)"

definition resp_set_cached_header ::
  "'p nginx_http \<Rightarrow> 'p http_request \<Rightarrow> bytes \<Rightarrow> bytes \<Rightarrow> int \<times> 'p http_request" where
  "resp_set_cached_header e r name v =
     (if header_eq e name ''content-type''
      then (case copy_bytes e r v of
              None \<Rightarrow> (NGX_HTTP_WASM_ERROR, r)
            | Some r \<Rightarrow> (NGX_HTTP_WASM_OK, r\<lparr>headers_out := (headers_out r)
                \<lparr>content_type := v, content_type_len := length v, content_type_lowcase := None,
                 content_type_hash := 0\<rparr>\<rparr>))
      else (case resp_header_slot e name of
              None \<Rightarrow> (NGX_HTTP_WASM_ERROR, r)
            | Some slot \<Rightarrow>
                (case slot_elt e r slot name of
                   (None, r) \<Rightarrow> (NGX_HTTP_WASM_ERROR, r)
                 | (Some i, r) \<Rightarrow>
                     (let r = upd_out i (\<lambda>h. h\<lparr>h_hash := 1\<rparr>) r
                      in case copy_bytes e r v of
                           None \<Rightarrow> (NGX_HTTP_WASM_ERROR, r)
                         | Some r \<Rightarrow>
                             (let r = upd_out i (\<lambda>h. h\<lparr>h_value := v\<rparr>) r
                              in (NGX_HTTP_WASM_OK,
                                  r\<lparr>headers_out := slot_parsed e slot v (headers_out r)\<rparr>))))))"

definition resp_get_cached_header ::
  "'p nginx_http \<Rightarrow> 'p http_request \<Rightarrow> bytes \<Rightarrow> bytes \<Rightarrow> int \<times> bytes" where
  "resp_get_cached_header e r name buf =
     (let out = headers_out r;
          v = (if header_eq e name ''content-type''
               then (if content_type out = [] then None else Some (content_type out))
               else (case resp_header_slot e name of
                       None \<Rightarrow> None
                     | Some slot \<Rightarrow>
                         map_option (\<lambda>i. h_value (out_headers out ! i)) (out_slots out slot)))
      in case v of
           None \<Rightarrow> (NGX_HTTP_WASM_NOT_FOUND, buf)
         | Some v \<Rightarrow> (int (length v), copy_out v buf))"

text \<open>The setter of a response header, behind the checks of the ABI entry point.\<close>

definition set_resp_header ::
  "'p nginx_http \<Rightarrow> 'p http_request \<Rightarrow> bytes \<Rightarrow> bytes \<Rightarrow> int \<times> 'p http_request" where
  "set_resp_header e r name v =
     (if header_eq e name ''content-type'' \<or> resp_header_slot e name \<noteq> None
      then resp_set_cached_header e r name v
      else (case (case find_resp_header e r name of
                    Some i \<Rightarrow> (Some i, r)
                  | None \<Rightarrow>
                      (case push_elt e r of
                         None \<Rightarrow> (None, r)
                       | Some r \<Rightarrow>
                           (let i = length (out_headers (headers_out r));
                                r = r\<lparr>headers_out := (headers_out r)\<lparr>out_headers :=
                                        out_headers (headers_out r) @ [zero_elt]\<rparr>\<rparr>
                            in case copy_bytes e r name of
                                 None \<Rightarrow> (None, r)
                               | Some r \<Rightarrow>
                                   (Some i, upd_out i (\<lambda>h. h\<lparr>h_key := name, h_hash := 1\<rparr>) r)))) of
              (None, r) \<Rightarrow> (NGX_HTTP_WASM_ERROR, r)
            | (Some i, r) \<Rightarrow>
                (case copy_bytes e r v of
                   None \<Rightarrow> (NGX_HTTP_WASM_ERROR, r)
                 | Some r \<Rightarrow> (NGX_HTTP_WASM_OK, upd_out i (\<lambda>h. h\<lparr>h_value := v\<rparr>) r))))"

definition get_resp_header ::
  "'p nginx_http \<Rightarrow> 'p http_request \<Rightarrow> bytes \<Rightarrow> bytes \<Rightarrow> int \<times> bytes" where
  "get_resp_header e r name buf =
     (if header_eq e name ''content-type'' \<or> resp_header_slot e name \<noteq> None
      then resp_get_cached_header e r name buf
      else (case find_resp_header e r name of
              None \<Rightarrow> (NGX_HTTP_WASM_NOT_FOUND, buf)
            | Some i \<Rightarrow>
                (let v = h_value (out_headers (headers_out r) ! i)
                 in (int (length v), copy_out v buf))))"

end
