(* ===== verification/Headers.thy ===== *)
theory Headers
  imports Request
begin

text \<open>
  The contract of a header table and its two providers. A table is written by a setter that can
  fail and read by name; names are compared up to ASCII case, and \<open>storable\<close> are the values
  that read back. The locale states what a client
  may rely on, and proves that a sequence of writes leaves the last value of every name. It is
  interpreted on the request's headers and on the response's headers, where the second keeps
  some values outside the list.
\<close>

section \<open>The contract\<close>

fun put_all ::
  "('st \<Rightarrow> bytes \<Rightarrow> bytes \<Rightarrow> int \<times> 'st) \<Rightarrow> (bytes \<times> bytes) list \<Rightarrow> 'st \<Rightarrow> int \<times> 'st" where
  "put_all put [] st = (NGX_HTTP_WASM_OK, st)"
| "put_all put ((name, v) # hs) st =
     (case put st name v of
        (rc, st) \<Rightarrow> if rc \<noteq> NGX_HTTP_WASM_OK then (NGX_HTTP_WASM_ERROR, st) else put_all put hs st)"

locale header_table =
  fixes put :: "'st \<Rightarrow> bytes \<Rightarrow> bytes \<Rightarrow> int \<times> 'st"
    and get :: "'st \<Rightarrow> bytes \<Rightarrow> bytes option"
    and same :: "bytes \<Rightarrow> bytes \<Rightarrow> bool"
    and valid :: "'st \<Rightarrow> bool"
    and storable :: "bytes \<Rightarrow> bool"
  assumes put_valid: "valid st \<Longrightarrow> k \<noteq> [] \<Longrightarrow> put st k v = (rc, st') \<Longrightarrow> valid st'"
    and get_put: "valid st \<Longrightarrow> k \<noteq> [] \<Longrightarrow> storable v \<Longrightarrow> put st k v = (NGX_HTTP_WASM_OK, st') \<Longrightarrow>
      get st' k' = (if same k k' then Some v else get st k')"
    and get_put_other: "valid st \<Longrightarrow> k \<noteq> [] \<Longrightarrow> put st k v = (rc, st') \<Longrightarrow> k' \<noteq> [] \<Longrightarrow> \<not> same k k' \<Longrightarrow>
      get st' k' = get st k'"
begin

text \<open>After a sequence of successful writes a name has the last value written to it.\<close>

lemma get_put_all:
  assumes "valid st" and "\<forall>h \<in> set hs. fst h \<noteq> [] \<and> storable (snd h)" and "put_all put hs st = (NGX_HTTP_WASM_OK, st')"
  shows "valid st'" and "get st' k' =
    (case find (\<lambda>h. same (fst h) k') (rev hs) of Some h \<Rightarrow> Some (snd h) | None \<Rightarrow> get st k')"
proof -
  have "valid st' \<and> get st' k' =
    (case find (\<lambda>h. same (fst h) k') (rev hs) of Some h \<Rightarrow> Some (snd h) | None \<Rightarrow> get st k')"
    using assms
  proof (induction hs arbitrary: st)
    case Nil
    then show ?case by simp
  next
    case (Cons h hs)
    obtain name v where h: "h = (name, v)" by fastforce
    obtain st1 where st1: "put st name v = (NGX_HTTP_WASM_OK, st1)" "put_all put hs st1 = (NGX_HTTP_WASM_OK, st')"
      using Cons.prems(3) h by (auto split: prod.splits if_splits)
    have "name \<noteq> []" "storable v" using Cons.prems(2) h by simp_all
    with Cons.prems(1) st1(1) have "valid st1" "get st1 k' = (if same name k' then Some v else get st k')"
      by (blast intro: put_valid, blast intro: get_put)
    with Cons.IH [OF _ _ st1(2)] Cons.prems(2) h show ?case
      by (auto simp: find_append split: option.split)
  qed
  then show "valid st'" "get st' k' =
    (case find (\<lambda>h. same (fst h) k') (rev hs) of Some h \<Rightarrow> Some (snd h) | None \<Rightarrow> get st k')" by auto
qed

end

section \<open>Index search\<close>

lemma find_index_SomeD: "find_index P xs = Some i \<Longrightarrow> i < length xs \<and> P (xs ! i)"
  by (induction xs arbitrary: i) (auto split: if_splits)

lemma find_index_None: "find_index P xs = None \<longleftrightarrow> (\<forall>x \<in> set xs. \<not> P x)"
  by (induction xs) auto

lemma find_index_append:
  "find_index P (xs @ [y]) =
     (case find_index P xs of Some i \<Rightarrow> Some i | None \<Rightarrow> if P y then Some (length xs) else None)"
  by (induction xs) (auto split: option.split)

lemma find_index_update:
  "i < length xs \<Longrightarrow> P y = P (xs ! i) \<Longrightarrow> find_index P (xs[i := y]) = find_index P xs"
proof (induction xs arbitrary: i)
  case (Cons x xs)
  then show ?case by (cases i) auto
qed simp

section \<open>Names\<close>

definition same_name :: "'p nginx_http \<Rightarrow> bytes \<Rightarrow> bytes \<Rightarrow> bool" where
  "same_name e a b \<longleftrightarrow> length a = length b \<and> ngx_strncasecmp e a b (length b) = 0"

lemma same_name_lower:
  assumes "nginx_http_ok e"
  shows "same_name e a b \<longleftrightarrow>
    length a = length b \<and> map to_lower (c_prefix (length a) a) = map to_lower (c_prefix (length b) b)"
  using assms by (auto simp: same_name_def nginx_http_ok_def)

lemma same_name_refl: "nginx_http_ok e \<Longrightarrow> same_name e a a"
  by (simp add: same_name_lower)

lemma same_name_cong:
  assumes "nginx_http_ok e" and "same_name e a b"
  shows "same_name e x a = same_name e x b"
  using assms by (auto simp: same_name_lower)

lemma same_name_join:
  assumes "nginx_http_ok e" and "same_name e x a" and "same_name e x b"
  shows "same_name e a b"
  using assms by (auto simp: same_name_lower)

lemma header_eq_same: "header_eq e name lit \<longleftrightarrow> same_name e name (str lit)"
  by (simp add: header_eq_def same_name_def)

lemma header_eq_cong:
  assumes "nginx_http_ok e" and "same_name e a b"
  shows "header_eq e a lit = header_eq e b lit"
  using assms by (auto simp: header_eq_same same_name_lower)

lemma resp_header_slot_cong:
  assumes "nginx_http_ok e" and "same_name e a b"
  shows "resp_header_slot e a = resp_header_slot e b"
proof -
  have "length a = length b" using assms(2) by (simp add: same_name_def)
  then show ?thesis
    unfolding resp_header_slot_def header_eq_cong [OF assms] by (simp only:)
qed

section \<open>Request headers\<close>

definition req_header :: "'p nginx_http \<Rightarrow> 'p http_request \<Rightarrow> bytes \<Rightarrow> bytes option" where
  "req_header e r name = map_option (\<lambda>i. h_value (headers_in r ! i)) (find_header e r name)"

lemma find_header_same:
  "find_header e r name = find_index (\<lambda>h. same_name e (h_key h) name) (headers_in r)"
  by (simp add: find_header_def same_name_def)

lemma copy_bytes_SomeD: "copy_bytes e r d = Some r' \<Longrightarrow> \<exists>p. r' = r\<lparr>pool := p\<rparr>"
  by (auto simp: copy_bytes_def)

lemma push_elt_SomeD: "push_elt e r = Some r' \<Longrightarrow> \<exists>p. r' = r\<lparr>pool := p\<rparr>"
  by (auto simp: push_elt_def)

text \<open>
  What \<open>new_header_in\<close> leaves: on success a new last element with the name; on failure the list
  as it was, or with an element that is empty or has the name and no value.
\<close>

lemma new_header_in_cases:
  assumes "new_header_in e r name = (oi, r')"
  obtains h where "oi = Some (length (headers_in r))" "h_key h = name"
      "headers_in r' = headers_in r @ [h]" "headers_out r' = headers_out r"
    | h where "oi = None" "h_key h = [] \<or> h_key h = name"
      "headers_in r' = headers_in r \<or> headers_in r' = headers_in r @ [h]"
      "headers_out r' = headers_out r"
proof (cases "push_elt e r")
  case None
  with assms that(2) [of zero_elt] show ?thesis by (auto simp: new_header_in_def zero_elt_def)
next
  case (Some r1)
  then obtain p where r1: "r1 = r\<lparr>pool := p\<rparr>" using push_elt_SomeD by blast
  let ?r2 = "r1\<lparr>headers_in := headers_in r @ [zero_elt]\<rparr>"
  show ?thesis
  proof (cases "copy_bytes e ?r2 name")
    case None
    with assms Some that(2) [of zero_elt] r1 show ?thesis
      by (auto simp: new_header_in_def zero_elt_def Let_def)
  next
    case (Some r3)
    then obtain q where r3: "r3 = ?r2\<lparr>pool := q\<rparr>" using copy_bytes_SomeD by blast
    obtain low hash where lh: "ngx_hash_strlow e name = (low, hash)" by fastforce
    show ?thesis
      using assms \<open>push_elt e r = Some r1\<close> Some r1 r3 lh
        that(1) [of "zero_elt\<lparr>h_key := name, h_hash := hash, h_lowcase := Some low\<rparr>"]
        that(2) [of "zero_elt\<lparr>h_key := name\<rparr>"]
      by (cases "ngx_palloc e q (length name)")
        (auto simp: new_header_in_def upd_in_def Let_def)
  qed
qed

lemma req_header_append:
  assumes "headers_in r' = headers_in r @ [h]"
  shows "req_header e r' k = (case req_header e r k of Some v \<Rightarrow> Some v
           | None \<Rightarrow> if same_name e (h_key h) k then Some (h_value h) else None)"
  using assms find_index_SomeD [of "\<lambda>h. same_name e (h_key h) k" "headers_in r"]
  by (auto simp: req_header_def find_header_same find_index_append nth_append split: option.split)

lemma req_header_upd:
  assumes ok: "nginx_http_ok e" and i: "i < length (headers_in r)"
    and r': "headers_in r' = (headers_in r)[i := (headers_in r ! i)\<lparr>h_value := v\<rparr>]"
    and first: "find_header e r k = Some i"
  shows "req_header e r' k' = (if same_name e k k' then Some v else req_header e r k')"
proof -
  have find: "find_header e r' k' = find_header e r k'"
    unfolding find_header_same r' using i by (intro find_index_update) auto
  have "find_header e r k' = Some i \<longleftrightarrow> same_name e k k'"
  proof
    assume "find_header e r k' = Some i"
    with first show "same_name e k k'"
      using find_index_SomeD [of _ "headers_in r" i] same_name_join [OF ok] by (metis find_header_same)
  next
    assume "same_name e k k'"
    then show "find_header e r k' = Some i"
      using first by (simp add: find_header_same same_name_cong [OF ok \<open>same_name e k k'\<close>, symmetric])
  qed
  moreover have "find_header e r k' = Some j \<Longrightarrow> j < length (headers_in r)" for j
    using find_index_SomeD by (auto simp: find_header_same)
  ultimately show ?thesis
    using find i by (cases "find_header e r k'") (auto simp: req_header_def r' nth_list_update)
qed

lemma set_runtime_header_cases:
  assumes "set_runtime_header e r k v = (rc, r')"
  obtains i where "rc = NGX_HTTP_WASM_OK" "find_header e r k = Some i" "headers_out r' = headers_out r"
      "headers_in r' = (headers_in r)[i := (headers_in r ! i)\<lparr>h_value := v\<rparr>]"
    | h where "rc = NGX_HTTP_WASM_OK" "find_header e r k = None" "headers_out r' = headers_out r"
      "headers_in r' = headers_in r @ [h]" "h_key h = k" "h_value h = v"
    | "rc = NGX_HTTP_WASM_ERROR" "headers_in r' = headers_in r" "headers_out r' = headers_out r"
    | h where "rc = NGX_HTTP_WASM_ERROR" "find_header e r k = None" "headers_out r' = headers_out r"
      "headers_in r' = headers_in r @ [h]" "h_key h = [] \<or> h_key h = k"
proof (cases "find_header e r k")
  case (Some i)
  show ?thesis
  proof (cases "copy_bytes e r v")
    case None
    with Some assms that(3) show ?thesis by (auto simp: set_runtime_header_def)
  next
    case copied: (Some r1)
    then obtain p where "r1 = r\<lparr>pool := p\<rparr>" using copy_bytes_SomeD by blast
    with copied Some assms that(1) show ?thesis
      by (auto simp: set_runtime_header_def upd_in_def)
  qed
next
  case None
  obtain oi r1 where new: "new_header_in e r k = (oi, r1)" by fastforce
  then show ?thesis
  proof (cases rule: new_header_in_cases)
    case (1 h)
    show ?thesis
    proof (cases "copy_bytes e r1 v")
      case fail: None
      with None assms new 1 that(4) [of h] show ?thesis
        by (auto simp: set_runtime_header_def)
    next
      case (Some r2)
      then obtain p where "r2 = r1\<lparr>pool := p\<rparr>" using copy_bytes_SomeD by blast
      with Some None assms new 1 that(2) [of "h\<lparr>h_value := v\<rparr>"] show ?thesis
        by (auto simp: set_runtime_header_def upd_in_def)
    qed
  next
    case (2 h)
    then have "rc = NGX_HTTP_WASM_ERROR" "r' = r1"
      using None assms new by (auto simp: set_runtime_header_def)
    with 2 None that(3,4) show ?thesis by blast
  qed
qed

lemma req_header_none: "find_header e r k = None \<Longrightarrow> same_name e k k' \<Longrightarrow> nginx_http_ok e \<Longrightarrow> req_header e r k' = None"
  using same_name_cong [of e k k'] by (auto simp: req_header_def find_header_same find_index_None)

interpretation req_headers: header_table
  "set_runtime_header e" "req_header e" "same_name e" "\<lambda>_. nginx_http_ok e" "\<lambda>_. True" for e
proof
  fix r r' :: "'a http_request" and k v k' :: bytes and rc :: int
  assume ok: "nginx_http_ok e" and k: "k \<noteq> []"
  show "nginx_http_ok e" by (rule ok)
  {
    assume "set_runtime_header e r k v = (NGX_HTTP_WASM_OK, r')"
    then show "req_header e r' k' = (if same_name e k k' then Some v else req_header e r k')"
    proof (cases rule: set_runtime_header_cases)
      case (1 i)
      then show ?thesis
        using find_index_SomeD [of _ "headers_in r" i]
        by (intro req_header_upd [OF ok]) (auto simp: find_header_same)
    next
      case (2 h)
      then show ?thesis
        using req_header_none [OF 2(2) _ ok] by (auto simp: req_header_append split: option.split)
    qed auto
  next
    assume k': "k' \<noteq> []" and other: "\<not> same_name e k k'" and "set_runtime_header e r k v = (rc, r')"
    from this(3) show "req_header e r' k' = req_header e r k'"
    proof (cases rule: set_runtime_header_cases)
      case (1 i)
      then show ?thesis
        using other find_index_SomeD [of _ "headers_in r" i]
        by (subst req_header_upd [OF ok, where r = r and i = i and v = v and k = k]) (auto simp: find_header_same)
    next
      case 3
      then show ?thesis by (simp add: req_header_def find_header_def)
    next
      case (2 h)
      then show ?thesis using other by (simp add: req_header_append split: option.split)
    next
      case (4 h)
      then have "\<not> same_name e (h_key h) k'" using other k' by (auto simp: same_name_def)
      then show ?thesis using 4 by (simp add: req_header_append split: option.split)
    qed
  }
qed

section \<open>Response headers\<close>

text \<open>
  The name of each slot, and the slots that the lookup can return: four names are listed under
  a length they do not have.
\<close>

fun slot_literal :: "resp_slot \<Rightarrow> string" where
  "slot_literal SlotDate = ''date''"
| "slot_literal SlotEtag = ''etag''"
| "slot_literal SlotLink = ''link''"
| "slot_literal SlotServer = ''server''"
| "slot_literal SlotExpires = ''expires''"
| "slot_literal SlotRefresh = ''refresh''"
| "slot_literal SlotLocation = ''location''"
| "slot_literal SlotCacheControl = ''cache-control''"
| "slot_literal SlotContentLength = ''content-length''"
| "slot_literal SlotContentRange = ''content-range''"
| "slot_literal SlotLastModified = ''last-modified''"
| "slot_literal SlotAcceptRanges = ''accept-ranges''"
| "slot_literal SlotContentEncoding = ''content-encoding''"
| "slot_literal SlotWwwAuthenticate = ''www-authenticate''"
| "slot_literal SlotProxyAuthenticate = ''proxy-authenticate''"

definition settable :: "resp_slot \<Rightarrow> bool" where
  "settable s \<longleftrightarrow> s \<notin> {SlotContentRange, SlotLastModified, SlotAcceptRanges, SlotWwwAuthenticate}"

lemma same_name_length: "same_name e a b \<Longrightarrow> length a = length b"
  by (simp add: same_name_def)

lemma slot_SomeD:
  "resp_header_slot e name = Some s \<Longrightarrow> settable s \<and> same_name e name (str (slot_literal s))"
  unfolding resp_header_slot_def Let_def
  by (simp split: if_split_asm) (auto simp: settable_def header_eq_same dest: same_name_length)

lemma slot_inj:
  assumes ok: "nginx_http_ok e" and "resp_header_slot e a = Some s" and "resp_header_slot e b = Some s"
  shows "same_name e a b"
  using slot_SomeD [OF assms(2)] slot_SomeD [OF assms(3)] by (auto simp: same_name_lower [OF ok])

abbreviation "ctype r \<equiv> content_type (headers_out r)"
abbreviation "slots r \<equiv> out_slots (headers_out r)"
abbreviation "hlist r \<equiv> out_headers (headers_out r)"

definition plain_header :: "'p nginx_http \<Rightarrow> table_elt list \<Rightarrow> bytes \<Rightarrow> bytes option" where
  "plain_header e hs name =
     map_option (\<lambda>i. h_value (hs ! i)) (find_index (\<lambda>h. h_hash h \<noteq> 0 \<and> same_name e (h_key h) name) hs)"

definition resp_header :: "'p nginx_http \<Rightarrow> 'p http_request \<Rightarrow> bytes \<Rightarrow> bytes option" where
  "resp_header e r name =
     (if header_eq e name ''content-type'' then (if ctype r = [] then None else Some (ctype r))
      else (case resp_header_slot e name of
              Some s \<Rightarrow> map_option (\<lambda>i. h_value (hlist r ! i)) (slots r s)
            | None \<Rightarrow> plain_header e (hlist r) name))"

lemma find_resp_header_same:
  "find_resp_header e r name = find_index (\<lambda>h. h_hash h \<noteq> 0 \<and> same_name e (h_key h) name) (hlist r)"
  by (simp add: find_resp_header_def same_name_def)

text \<open>The getter returns this value.\<close>

lemma get_resp_header_value:
  "get_resp_header e r name buf =
     (case resp_header e r name of
        None \<Rightarrow> (NGX_HTTP_WASM_NOT_FOUND, buf)
      | Some v \<Rightarrow> (int (length v), copy_out v buf))"
  by (auto simp: get_resp_header_def resp_get_cached_header_def resp_header_def plain_header_def
      find_resp_header_same Let_def split: option.split)

text \<open>A slot points to an element of the list that has the slot's name.\<close>

definition slots_ok :: "'p nginx_http \<Rightarrow> 'p http_request \<Rightarrow> bool" where
  "slots_ok e r \<longleftrightarrow> nginx_http_ok e \<and>
     (\<forall>s i. slots r s = Some i \<longrightarrow> settable s \<longrightarrow>
        i < length (hlist r) \<and> resp_header_slot e (h_key (hlist r ! i)) = Some s)"

text \<open>What a write can do to the response: the three stores, and what may happen on failure.\<close>

lemma slot_elt_cases:
  assumes "slot_elt e r s name = (oi, r')"
  obtains i where "oi = Some i" "slots r s = Some i" "r' = r"
    | h where "oi = Some (length (hlist r))" "slots r s = None" "hlist r' = hlist r @ [h]"
      "h_key h = name" "slots r' = (slots r)(s := Some (length (hlist r)))" "ctype r' = ctype r"
    | hs where "oi = None" "slots r' = slots r" "ctype r' = ctype r" "hlist r' = hlist r @ hs"
      "hs = [] \<or> hs = [zero_elt]"
proof (cases "slots r s")
  case (Some i)
  with assms have "oi = Some i" "r' = r" by (simp_all add: slot_elt_def)
  with Some that(1) show ?thesis by blast
next
  case none: None
  show ?thesis
  proof (cases "push_elt e r")
    case None
    with none assms have "oi = None" "r' = r" by (simp_all add: slot_elt_def)
    with that(3) [of "[]"] show ?thesis by simp
  next
    case (Some r1)
    then obtain p where r1: "r1 = r\<lparr>pool := p\<rparr>" using push_elt_SomeD by blast
    have l: "hlist r1 = hlist r" by (simp add: r1)
    define r2 where "r2 = r1\<lparr>headers_out := (headers_out r1)\<lparr>out_headers := hlist r @ [zero_elt]\<rparr>\<rparr>"
    have r2: "hlist r2 = hlist r @ [zero_elt]" "slots r2 = slots r" "ctype r2 = ctype r"
      by (simp_all add: r2_def r1)
    show ?thesis
    proof (cases "copy_bytes e r2 name")
      case None
      with none Some assms have "oi = None" "r' = r2"
        by (simp_all add: slot_elt_def Let_def l flip: r2_def)
      with r2 that(3) [of "[zero_elt]"] show ?thesis by simp
    next
      case copied: (Some r3)
      then obtain q where r3: "r3 = r2\<lparr>pool := q\<rparr>" using copy_bytes_SomeD by blast
      let ?i = "length (hlist r)"
      let ?r4 = "upd_out ?i (\<lambda>h. h\<lparr>h_key := name\<rparr>) r3"
      have "oi = Some ?i" "r' = ?r4\<lparr>headers_out := (headers_out ?r4)\<lparr>out_slots := (slots ?r4)(s := Some ?i)\<rparr>\<rparr>"
        using none Some copied assms by (auto simp: slot_elt_def Let_def l simp flip: r2_def)
      then show ?thesis
        using none r2 r3 that(2) [of "zero_elt\<lparr>h_key := name\<rparr>"] by (simp add: upd_out_def)
    qed
  qed
qed

lemma slot_parsed_sel [simp]:
  "content_type (slot_parsed e s v out) = content_type out"
  "out_slots (slot_parsed e s v out) = out_slots out"
  "out_headers (slot_parsed e s v out) = out_headers out"
  by (simp_all add: slot_parsed_def)

lemma upd_out_sel [simp]:
  "ctype (upd_out i f r) = ctype r" "slots (upd_out i f r) = slots r"
  "hlist (upd_out i f r) = (hlist r)[i := f (hlist r ! i)]"
  by (simp_all add: upd_out_def)

text \<open>The effect of a write on the three stores of the response.\<close>

datatype resp_kind = TargetType | TargetSlot resp_slot | TargetPlain

definition resp_target :: "'p nginx_http \<Rightarrow> bytes \<Rightarrow> resp_kind" where
  "resp_target e name =
     (if header_eq e name ''content-type'' then TargetType
      else case resp_header_slot e name of Some s \<Rightarrow> TargetSlot s | None \<Rightarrow> TargetPlain)"

lemma resp_target_cong:
  "nginx_http_ok e \<Longrightarrow> same_name e a b \<Longrightarrow> resp_target e a = resp_target e b"
  by (simp add: resp_target_def header_eq_cong resp_header_slot_cong)

lemma resp_target_inj:
  assumes ok: "nginx_http_ok e" and "resp_target e a = resp_target e b" and "resp_target e a \<noteq> TargetPlain"
  shows "same_name e a b"
proof (cases "resp_target e a")
  case TargetType
  then have "header_eq e a ''content-type''" "header_eq e b ''content-type''"
    using assms(2) by (auto simp: resp_target_def split: if_splits option.splits)
  then show ?thesis by (auto simp: header_eq_same same_name_lower [OF ok])
next
  case (TargetSlot s)
  then have "resp_header_slot e a = Some s" "resp_header_slot e b = Some s"
    using assms(2) by (auto simp: resp_target_def split: if_splits option.splits)
  then show ?thesis by (rule slot_inj [OF ok])
next
  case TargetPlain
  with assms(3) show ?thesis by simp
qed

lemma resp_header_target:
  "resp_header e r name =
     (case resp_target e name of
        TargetType \<Rightarrow> (if ctype r = [] then None else Some (ctype r))
      | TargetSlot s \<Rightarrow> map_option (\<lambda>i. h_value (hlist r ! i)) (slots r s)
      | TargetPlain \<Rightarrow> plain_header e (hlist r) name)"
  by (simp add: resp_header_def resp_target_def split: option.split)

lemma set_type_cases:
  assumes "set_resp_header e r k v = (rc, r')" and "resp_target e k = TargetType"
  shows "slots r' = slots r \<and> hlist r' = hlist r \<and>
    (rc = NGX_HTTP_WASM_OK \<and> ctype r' = v \<or> rc = NGX_HTTP_WASM_ERROR \<and> ctype r' = ctype r)"
proof -
  have "header_eq e k ''content-type''"
    using assms(2) by (auto simp: resp_target_def split: if_splits option.splits)
  then show ?thesis
    using assms(1) copy_bytes_SomeD [of e r v]
    by (cases "copy_bytes e r v") (auto simp: set_resp_header_def resp_set_cached_header_def)
qed

lemma set_slot_cases:
  assumes "set_resp_header e r k v = (rc, r')" and "resp_target e k = TargetSlot s"
  obtains i y where "slots r s = Some i" "slots r' = slots r" "ctype r' = ctype r"
      "hlist r' = (hlist r)[i := y]" "h_key y = h_key (hlist r ! i)"
      "rc = NGX_HTTP_WASM_OK \<Longrightarrow> h_value y = v"
    | y where "slots r s = None" "slots r' = (slots r)(s := Some (length (hlist r)))" "ctype r' = ctype r"
      "hlist r' = hlist r @ [y]" "h_key y = k" "rc = NGX_HTTP_WASM_OK \<Longrightarrow> h_value y = v"
    | hs where "rc = NGX_HTTP_WASM_ERROR" "slots r' = slots r" "ctype r' = ctype r"
      "hlist r' = hlist r @ hs" "hs = [] \<or> hs = [zero_elt]"
proof -
  have ct: "\<not> header_eq e k ''content-type''" and sl: "resp_header_slot e k = Some s"
    using assms(2) by (auto simp: resp_target_def split: if_splits option.splits)
  obtain oi r1 where el: "slot_elt e r s k = (oi, r1)" by fastforce
  have wr: "hlist r' = (hlist r1)[i := (hlist r1 ! i)\<lparr>h_hash := 1, h_value := w\<rparr>] \<and>
      slots r' = slots r1 \<and> ctype r' = ctype r1 \<and> (rc = NGX_HTTP_WASM_OK \<longrightarrow> w = v)"
    if "oi = Some i" "i < length (hlist r1)"
      "w = (if rc = NGX_HTTP_WASM_OK then v else h_value (hlist r1 ! i))" for i w
  proof -
    let ?r2 = "upd_out i (\<lambda>h. h\<lparr>h_hash := 1\<rparr>) r1"
    show ?thesis
    proof (cases "copy_bytes e ?r2 v")
      case None
      then have "rc = NGX_HTTP_WASM_ERROR" "r' = ?r2"
        using assms(1) ct sl el that(1) by (auto simp: set_resp_header_def resp_set_cached_header_def Let_def)
      with that show ?thesis by simp
    next
      case (Some r3)
      then obtain p where r3: "r3 = ?r2\<lparr>pool := p\<rparr>" using copy_bytes_SomeD by blast
      let ?r4 = "upd_out i (\<lambda>h. h\<lparr>h_value := v\<rparr>) r3"
      have "rc = NGX_HTTP_WASM_OK" "r' = ?r4\<lparr>headers_out := slot_parsed e s v (headers_out ?r4)\<rparr>"
        using Some assms(1) ct sl el that(1)
        by (auto simp: set_resp_header_def resp_set_cached_header_def Let_def)
      with that r3 show ?thesis by simp
    qed
  qed
  from el show ?thesis
  proof (cases rule: slot_elt_cases)
    case (1 i)
    show ?thesis
    proof (cases "i < length (hlist r)")
      case True
      with wr [OF 1(1) _ refl] 1 that(1) show ?thesis by simp
    next
      case False
      obtain y :: table_elt where y: "h_key y = h_key (hlist r ! i)" "h_value y = v"
        by (metis table_elt.select_convs(2,3))
      have "hlist r' = hlist r \<and> slots r' = slots r \<and> ctype r' = ctype r"
        using assms(1) ct sl el 1 False copy_bytes_SomeD [of e "upd_out i (\<lambda>h. h\<lparr>h_hash := 1\<rparr>) r" v]
        by (cases "copy_bytes e (upd_out i (\<lambda>h. h\<lparr>h_hash := 1\<rparr>) r) v")
          (auto simp: set_resp_header_def resp_set_cached_header_def Let_def list_update_beyond)
      with that(1) [of i y] 1 y False show ?thesis by (simp add: list_update_beyond)
    qed
  next
    case (2 h)
    have "length (hlist r) < length (hlist r1)" using 2 by simp
    from wr [OF 2(1) this refl] 2 that(2) show ?thesis by simp
  next
    case (3 hs)
    then have "rc = NGX_HTTP_WASM_ERROR" "r' = r1"
      using assms(1) ct sl el by (auto simp: set_resp_header_def resp_set_cached_header_def)
    with 3 that(3) show ?thesis by blast
  qed
qed

lemma set_plain_cases:
  assumes "set_resp_header e r k v = (rc, r')" and "resp_target e k = TargetPlain"
  obtains i y where "find_index (\<lambda>h. h_hash h \<noteq> 0 \<and> same_name e (h_key h) k) (hlist r) = Some i"
      "slots r' = slots r" "ctype r' = ctype r"
      "hlist r' = (hlist r)[i := y]" "h_key y = h_key (hlist r ! i)" "h_hash y = h_hash (hlist r ! i)"
      "rc = NGX_HTTP_WASM_OK \<Longrightarrow> h_value y = v"
    | y where "find_index (\<lambda>h. h_hash h \<noteq> 0 \<and> same_name e (h_key h) k) (hlist r) = None"
      "slots r' = slots r" "ctype r' = ctype r" "hlist r' = hlist r @ [y]" "h_hash y = 0 \<or> h_key y = k"
      "rc = NGX_HTTP_WASM_OK \<Longrightarrow> h_value y = v \<and> h_hash y \<noteq> 0 \<and> h_key y = k"
    | "rc = NGX_HTTP_WASM_ERROR" "slots r' = slots r" "ctype r' = ctype r" "hlist r' = hlist r"
proof -
  have plain: "\<not> (header_eq e k ''content-type'' \<or> resp_header_slot e k \<noteq> None)"
    using assms(2) by (auto simp: resp_target_def split: if_splits option.splits)
  note set = assms(1) [unfolded set_resp_header_def if_not_P [OF plain]]
  show ?thesis
  proof (cases "find_resp_header e r k")
    case (Some i)
    then have i: "find_index (\<lambda>h. h_hash h \<noteq> 0 \<and> same_name e (h_key h) k) (hlist r) = Some i"
      by (simp only: find_resp_header_same)
    show ?thesis
    proof (cases "copy_bytes e r v")
      case None
      with set Some have "rc = NGX_HTTP_WASM_ERROR" "r' = r" by simp_all
      with that(3) show ?thesis by simp
    next
      case copied: (Some r1)
      then obtain p where "r1 = r\<lparr>pool := p\<rparr>" using copy_bytes_SomeD by blast
      moreover have "r' = upd_out i (\<lambda>h. h\<lparr>h_value := v\<rparr>) r1" using set Some copied by simp
      ultimately show ?thesis using that(1) [OF i] by simp
    qed
  next
    case none: None
    then have i: "find_index (\<lambda>h. h_hash h \<noteq> 0 \<and> same_name e (h_key h) k) (hlist r) = None"
      by (simp only: find_resp_header_same)
    show ?thesis
    proof (cases "push_elt e r")
      case None
      with set none have "rc = NGX_HTTP_WASM_ERROR" "r' = r" by simp_all
      with that(3) show ?thesis by simp
    next
      case (Some r1)
      then obtain p where r1: "r1 = r\<lparr>pool := p\<rparr>" using push_elt_SomeD by blast
      have l: "hlist r1 = hlist r" by (simp add: r1)
      define r2 where "r2 = r1\<lparr>headers_out := (headers_out r1)\<lparr>out_headers := hlist r @ [zero_elt]\<rparr>\<rparr>"
      have r2: "hlist r2 = hlist r @ [zero_elt]" "slots r2 = slots r" "ctype r2 = ctype r"
        by (simp_all add: r2_def r1)
      show ?thesis
      proof (cases "copy_bytes e r2 k")
        case None
        with set none Some have "rc = NGX_HTTP_WASM_ERROR" "r' = r2"
          by (simp_all add: Let_def l flip: r2_def)
        with r2 that(2) [OF i, of zero_elt] show ?thesis by (simp add: zero_elt_def)
      next
        case copied: (Some r3)
        then obtain q where r3: "r3 = r2\<lparr>pool := q\<rparr>" using copy_bytes_SomeD by blast
        define r4 where "r4 = upd_out (length (hlist r)) (\<lambda>h. h\<lparr>h_key := k, h_hash := Suc 0\<rparr>) r3"
        let ?y = "zero_elt\<lparr>h_key := k, h_hash := Suc 0\<rparr>"
        have r4: "hlist r4 = hlist r @ [?y]" "slots r4 = slots r" "ctype r4 = ctype r"
          using r2 by (simp_all add: r4_def r3)
        show ?thesis
        proof (cases "copy_bytes e r4 v")
          case None
          with set none Some copied have "rc = NGX_HTTP_WASM_ERROR" "r' = r4"
            by (simp_all add: Let_def l flip: r2_def r4_def)
          with r4 that(2) [OF i, of ?y] show ?thesis by simp
        next
          case last: (Some r5)
          then obtain u where "r5 = r4\<lparr>pool := u\<rparr>" using copy_bytes_SomeD by blast
          moreover have "r' = upd_out (length (hlist r)) (\<lambda>h. h\<lparr>h_value := v\<rparr>) r5"
            using set none Some copied last by (simp add: Let_def l flip: r2_def r4_def)
          ultimately show ?thesis
            using r4 that(2) [OF i, of "?y\<lparr>h_value := v\<rparr>"] by simp
        qed
      qed
    qed
  qed
qed

text \<open>How the three stores read after an update or an append.\<close>

lemma plain_upd_other:
  assumes "\<not> same_name e (h_key (hs ! i)) k'" and "h_key y = h_key (hs ! i)"
  shows "plain_header e (hs[i := y]) k' = plain_header e hs k'"
proof (cases "i < length hs")
  case True
  let ?P = "\<lambda>h. h_hash h \<noteq> 0 \<and> same_name e (h_key h) k'"
  have "find_index ?P (hs[i := y]) = find_index ?P hs" using True assms by (intro find_index_update) auto
  moreover have "find_index ?P hs \<noteq> Some i" using find_index_SomeD [of ?P hs i] assms by auto
  ultimately show ?thesis by (cases "find_index ?P hs") (auto simp: plain_header_def)
next
  case False
  then show ?thesis by (simp add: list_update_beyond)
qed

lemma plain_cong: "nginx_http_ok e \<Longrightarrow> same_name e k k' \<Longrightarrow> plain_header e hs k = plain_header e hs k'"
  by (simp only: plain_header_def same_name_cong)

lemma plain_upd_same:
  assumes ok: "nginx_http_ok e"
    and i: "find_index (\<lambda>h. h_hash h \<noteq> 0 \<and> same_name e (h_key h) k) hs = Some i"
    and y: "h_key y = h_key (hs ! i)" "h_hash y = h_hash (hs ! i)"
  shows "plain_header e (hs[i := y]) k' = (if same_name e k k' then Some (h_value y) else plain_header e hs k')"
proof (cases "same_name e k k'")
  case True
  have "find_index (\<lambda>h. h_hash h \<noteq> 0 \<and> same_name e (h_key h) k) (hs[i := y]) = Some i"
    using i y find_index_SomeD [OF i] by (subst find_index_update) auto
  then have "plain_header e (hs[i := y]) k = Some (h_value y)"
    using find_index_SomeD [OF i] by (simp add: plain_header_def)
  with True show ?thesis by (simp add: plain_cong [OF ok True])
next
  case False
  have "\<not> same_name e (h_key (hs ! i)) k'"
    using False find_index_SomeD [OF i] same_name_join [OF ok] by blast
  with False y show ?thesis by (simp add: plain_upd_other)
qed

lemma plain_append:
  "plain_header e (hs @ [y]) k' =
     (case plain_header e hs k' of Some v \<Rightarrow> Some v
      | None \<Rightarrow> if h_hash y \<noteq> 0 \<and> same_name e (h_key y) k' then Some (h_value y) else None)"
  using find_index_SomeD [of "\<lambda>h. h_hash h \<noteq> 0 \<and> same_name e (h_key h) k'" hs]
  by (auto simp: plain_header_def find_index_append nth_append split: option.split)

lemma slots_okD:
  assumes "slots_ok e r" and "resp_target e k = TargetSlot s" and "slots r s = Some i"
  shows "i < length (hlist r)" and "resp_header_slot e (h_key (hlist r ! i)) = Some s"
proof -
  have "resp_header_slot e k = Some s"
    using assms(2) by (auto simp: resp_target_def split: if_splits option.splits)
  then have "settable s" using slot_SomeD by blast
  with assms(1,3) show "i < length (hlist r)" "resp_header_slot e (h_key (hlist r ! i)) = Some s"
    by (auto simp: slots_ok_def)
qed

lemma target_slotD: "resp_target e k = TargetSlot s \<Longrightarrow> resp_header_slot e k = Some s"
  by (auto simp: resp_target_def split: if_splits option.splits)

lemma target_plainD: "resp_target e k = TargetPlain \<Longrightarrow> resp_header_slot e k = None"
  by (auto simp: resp_target_def split: if_splits option.splits)

lemma resp_put_valid:
  assumes "slots_ok e r" and "set_resp_header e r k v = (rc, r')"
  shows "slots_ok e r'"
proof (cases "resp_target e k")
  case TargetType
  from set_type_cases [OF assms(2) this] assms(1) show ?thesis by (simp add: slots_ok_def)
next
  case (TargetSlot s)
  note sl = target_slotD [OF TargetSlot]
  from assms(2) TargetSlot show ?thesis
  proof (cases rule: set_slot_cases)
    case (1 i y)
    with assms(1) show ?thesis
      by (cases "i < length (hlist r)") (auto simp: slots_ok_def nth_list_update list_update_beyond)
  next
    case (2 y)
    with assms(1) sl show ?thesis by (auto simp: slots_ok_def nth_append less_Suc_eq)
  next
    case (3 hs)
    with assms(1) show ?thesis by (auto simp: slots_ok_def nth_append less_Suc_eq)
  qed
next
  case TargetPlain
  from assms(2) this show ?thesis
  proof (cases rule: set_plain_cases)
    case (1 i y)
    with assms(1) show ?thesis
      by (cases "i < length (hlist r)") (auto simp: slots_ok_def nth_list_update list_update_beyond)
  next
    case (2 y)
    with assms(1) show ?thesis by (auto simp: slots_ok_def nth_append less_Suc_eq)
  next
    case 3
    with assms(1) show ?thesis by (simp add: slots_ok_def)
  qed
qed

text \<open>Reading a name with another target is not affected by a write.\<close>

lemma resp_get_other_target:
  assumes ok: "nginx_http_ok e" and sok: "slots_ok e r" and put: "set_resp_header e r k v = (rc, r')"
    and other: "\<not> same_name e k k'"
  shows "resp_header e r' k' = resp_header e r k'"
proof (cases "resp_target e k")
  case TargetType
  have "resp_target e k' \<noteq> TargetType" using other resp_target_inj [OF ok] TargetType by force
  with set_type_cases [OF put TargetType] show ?thesis
    by (auto simp: resp_header_target split: resp_kind.split)
next
  case (TargetSlot s)
  have ns: "resp_target e k' \<noteq> TargetSlot s" using other resp_target_inj [OF ok] TargetSlot by force
  from put TargetSlot show ?thesis
  proof (cases rule: set_slot_cases)
    case (1 i y)
    note D = slots_okD [OF sok TargetSlot 1(1)]
    have "\<not> same_name e (h_key (hlist r ! i)) k'" if "resp_target e k' = TargetPlain"
      using D(2) target_plainD [OF that] resp_header_slot_cong [OF ok] by force
    moreover have "slots r s' \<noteq> Some i" if "resp_target e k' = TargetSlot s'" for s'
      using slots_okD(2) [OF sok that] D(2) that ns by force
    ultimately show ?thesis using 1(2-5)
      by (cases "resp_target e k'") (auto simp: resp_header_target plain_upd_other nth_list_update
          intro!: option.map_cong0)
  next
    case (2 y)
    have "\<not> same_name e (h_key y) k'" using 2(5) other by simp
    moreover have "map_option (\<lambda>i. h_value ((hlist r @ [y]) ! i)) (slots r s') =
        map_option (\<lambda>i. h_value (hlist r ! i)) (slots r s')" if "resp_target e k' = TargetSlot s'" for s'
      using slots_okD(1) [OF sok that] by (cases "slots r s'") (auto simp: nth_append)
    ultimately show ?thesis using 2(2-4) ns
      by (cases "resp_target e k'") (auto simp: resp_header_target plain_append split: option.split)
  next
    case (3 hs)
    have "map_option (\<lambda>i. h_value ((hlist r @ hs) ! i)) (slots r s') =
        map_option (\<lambda>i. h_value (hlist r ! i)) (slots r s')" if "resp_target e k' = TargetSlot s'" for s'
      using slots_okD(1) [OF sok that] by (cases "slots r s'") (auto simp: nth_append)
    moreover have "plain_header e (hlist r @ hs) k' = plain_header e (hlist r) k'"
      using 3(5) by (auto simp: plain_append zero_elt_def split: option.split)
    ultimately show ?thesis using 3(2-4)
      by (cases "resp_target e k'") (simp_all add: resp_header_target)
  qed
next
  case TargetPlain
  from put TargetPlain show ?thesis
  proof (cases rule: set_plain_cases)
    case (1 i y)
    have i: "same_name e (h_key (hlist r ! i)) k" using find_index_SomeD [OF 1(1)] by blast
    then have slot: "resp_header_slot e (h_key (hlist r ! i)) = None"
      using resp_header_slot_cong [OF ok i] target_plainD [OF TargetPlain] by simp
    have "slots r s' \<noteq> Some i" if "resp_target e k' = TargetSlot s'" for s'
      using slots_okD(2) [OF sok that] slot by force
    with 1 other show ?thesis
      by (cases "resp_target e k'") (auto simp: resp_header_target plain_upd_same [OF ok 1(1)]
          nth_list_update intro!: option.map_cong0)
  next
    case (2 y)
    have "map_option (\<lambda>i. h_value ((hlist r @ [y]) ! i)) (slots r s') =
        map_option (\<lambda>i. h_value (hlist r ! i)) (slots r s')" if "resp_target e k' = TargetSlot s'" for s'
      using slots_okD(1) [OF sok that] by (cases "slots r s'") (auto simp: nth_append)
    with 2(2-5) other show ?thesis
      by (cases "resp_target e k'") (auto simp: resp_header_target plain_append split: option.split)
  next
    case 3
    then show ?thesis by (simp add: resp_header_target split: resp_kind.split)
  qed
qed

lemma resp_get_same:
  assumes ok: "nginx_http_ok e" and sok: "slots_ok e r" and "v \<noteq> []"
    and put: "set_resp_header e r k v = (NGX_HTTP_WASM_OK, r')"
    and same: "same_name e k k'"
  shows "resp_header e r' k' = Some v"
proof -
  note t = resp_target_cong [OF ok same, symmetric]
  show ?thesis
  proof (cases "resp_target e k")
    case TargetType
    with set_type_cases [OF put TargetType] t assms(3) show ?thesis by (simp add: resp_header_target)
  next
    case (TargetSlot s)
    from put TargetSlot show ?thesis
    proof (cases rule: set_slot_cases)
      case (1 i y)
      with slots_okD(1) [OF sok TargetSlot 1(1)] t TargetSlot show ?thesis
        by (simp add: resp_header_target)
    next
      case (2 y)
      with t TargetSlot show ?thesis by (simp add: resp_header_target)
    next
      case (3 hs)
      then show ?thesis by simp
    qed
  next
    case TargetPlain
    from put TargetPlain show ?thesis
    proof (cases rule: set_plain_cases)
      case (1 i y)
      with t TargetPlain same show ?thesis by (simp add: resp_header_target plain_upd_same [OF ok 1(1)])
    next
      case (2 y)
      then have "plain_header e (hlist r) k = None" by (simp add: plain_header_def)
      then have "plain_header e (hlist r) k' = None" by (simp only: plain_cong [OF ok same])
      with 2 t TargetPlain same show ?thesis by (simp add: resp_header_target plain_append)
    next
      case 3
      then show ?thesis by simp
    qed
  qed
qed

interpretation resp_headers: header_table
  "set_resp_header e" "resp_header e" "same_name e" "slots_ok e" "\<lambda>v. v \<noteq> []" for e
proof
  fix r r' :: "'a http_request" and k v k' :: bytes and rc :: int
  assume sok: "slots_ok e r"
  then have ok: "nginx_http_ok e" by (simp add: slots_ok_def)
  show "slots_ok e r'" if "set_resp_header e r k v = (rc, r')"
    by (rule resp_put_valid [OF sok that])
  show "resp_header e r' k' = (if same_name e k k' then Some v else resp_header e r k')"
    if "v \<noteq> []" "set_resp_header e r k v = (NGX_HTTP_WASM_OK, r')"
    using resp_get_same [OF ok sok that] resp_get_other_target [OF ok sok that(2)] by simp
  show "resp_header e r' k' = resp_header e r k'"
    if "set_resp_header e r k v = (rc, r')" "\<not> same_name e k k'"
    by (rule resp_get_other_target [OF ok sok that])
qed

end
