(* ===== verification/Abi.thy ===== *)
theory Abi
  imports Request Shm Metrics
begin

text \<open>
  The guest ABI, \<^verbatim>\<open>src/ngx_http_wasm_abi.c\<close>: the per-execution context and the operations the
  host functions call, in the order of the source. Every operation first requires a
  capability. Values come from guest memory as byte lists; a getter takes the caller's buffer
  and returns its new contents.
\<close>

section \<open>Capabilities\<close>

definition CAP_REQ_HEADERS_RW :: u64 where "CAP_REQ_HEADERS_RW = 0x0001"
definition CAP_REQ_HEADERS_RO :: u64 where "CAP_REQ_HEADERS_RO = 0x0002"
definition CAP_REQ_BODY_GET :: u64 where "CAP_REQ_BODY_GET = 0x0004"
definition CAP_RESP_STATUS_SET :: u64 where "CAP_RESP_STATUS_SET = 0x0008"
definition CAP_RESP_HEADERS_RW :: u64 where "CAP_RESP_HEADERS_RW = 0x0010"
definition CAP_RESP_BODY_WRITE :: u64 where "CAP_RESP_BODY_WRITE = 0x0020"
definition CAP_YIELD :: u64 where "CAP_YIELD = 0x0040"
definition CAP_RESP_BODY_CHUNK_READ :: u64 where "CAP_RESP_BODY_CHUNK_READ = 0x0080"
definition CAP_RESP_BODY_CHUNK_WRITE :: u64 where "CAP_RESP_BODY_CHUNK_WRITE = 0x0100"
definition CAP_RESP_STATUS_GET :: u64 where "CAP_RESP_STATUS_GET = 0x0200"
definition CAP_SSL_SERVER_NAME_GET :: u64 where "CAP_SSL_SERVER_NAME_GET = 0x0400"
definition CAP_SSL_HANDSHAKE_REJECT :: u64 where "CAP_SSL_HANDSHAKE_REJECT = 0x0800"
definition CAP_SSL_CERTIFICATE_SET :: u64 where "CAP_SSL_CERTIFICATE_SET = 0x1000"
definition CAP_SHARED_KV :: u64 where "CAP_SHARED_KV = 0x2000"
definition CAP_METRICS :: u64 where "CAP_METRICS = 0x4000"
definition CAP_SUBREQUEST :: u64 where "CAP_SUBREQUEST = 0x8000"
definition CAP_BALANCER :: u64 where "CAP_BALANCER = 0x10000"
definition CAP_VAR_GET :: u64 where "CAP_VAR_GET = 0x20000"
definition CAP_VAR_SET :: u64 where "CAP_VAR_SET = 0x40000"
definition CAP_TIME :: u64 where "CAP_TIME = 0x80000"

lemmas caps = CAP_REQ_HEADERS_RW_def CAP_REQ_HEADERS_RO_def CAP_REQ_BODY_GET_def
  CAP_RESP_STATUS_SET_def CAP_RESP_HEADERS_RW_def CAP_RESP_BODY_WRITE_def CAP_YIELD_def
  CAP_RESP_BODY_CHUNK_READ_def CAP_RESP_BODY_CHUNK_WRITE_def CAP_RESP_STATUS_GET_def
  CAP_SSL_SERVER_NAME_GET_def CAP_SSL_HANDSHAKE_REJECT_def CAP_SSL_CERTIFICATE_SET_def
  CAP_SHARED_KV_def CAP_METRICS_def CAP_SUBREQUEST_def CAP_BALANCER_def CAP_VAR_GET_def
  CAP_VAR_SET_def CAP_TIME_def

definition LOG_MAX_MESSAGE_LEN :: nat where "LOG_MAX_MESSAGE_LEN = 1024"
definition NGX_LOG_DEBUG :: nat where "NGX_LOG_DEBUG = 8"
definition SSL_AD_HANDSHAKE_FAILURE :: int where "SSL_AD_HANDSHAKE_FAILURE = 40"

section \<open>The context\<close>

text \<open>
  The state of a subrequest, part of the request's module context. The subrequest itself is
  the request nginx made for it.
\<close>

record 'p subreq_state =
  subrequest :: "'p http_request option"
  pending_headers :: "(bytes \<times> bytes) list option"
  capture_body :: bool
  active :: bool
  sub_done :: bool
  sub_rc :: int
  body_limit :: nat

text \<open>
  \<^verbatim>\<open>ngx_http_wasm_abi_ctx_t\<close>. The request and the shared zones are reached by pointers in the
  source; here they are part of the state that is passed. \<open>wctx\<close> is the subrequest state of
  the request's module context, when the request has one. \<open>logged\<close> collects the messages the
  guest logs.
\<close>

record ('p, 's, 'c) abi_ctx =
  request :: "'p http_request option"
  ssl_conn :: "'c option"
  shm_zone :: "'s shm_zone option"
  metrics_zone :: "'s metrics_zone option"
  wctx :: "'p subreq_state option"
  logged :: "(nat \<times> bytes) list"
  status_set :: bool
  body_set :: bool
  body_is_borrowed :: bool
  content_type_set :: bool
  response_sent :: bool
  request_body_set :: bool
  resp_body_chunk_set :: bool
  resp_body_chunk_output_set :: bool
  resp_body_chunk_eof :: bool
  ssl_handshake_rejected :: bool
  balancer_peer_set :: bool
  balancer_peer_index :: nat
  abi_version :: nat
  capabilities :: u64
  abi_status :: int
  ssl_handshake_alert :: int
  abi_body :: bytes
  abi_content_type :: bytes
  request_body :: bytes
  resp_body_chunk :: bytes
  resp_body_chunk_output :: bytes

definition abi_init ::
  "'p http_request option \<Rightarrow> 'c option \<Rightarrow> 's shm_zone option \<Rightarrow> 's metrics_zone option
     \<Rightarrow> 'p subreq_state option \<Rightarrow> u64 \<Rightarrow> ('p, 's, 'c) abi_ctx" where
  "abi_init r ssl shm mz w caps =
     \<lparr>request = r, ssl_conn = ssl, shm_zone = shm, metrics_zone = mz, wctx = w, logged = [],
      status_set = False, body_set = False, body_is_borrowed = False, content_type_set = False,
      response_sent = False, request_body_set = False, resp_body_chunk_set = False,
      resp_body_chunk_output_set = False, resp_body_chunk_eof = False,
      ssl_handshake_rejected = False, balancer_peer_set = False, balancer_peer_index = 0,
      abi_version = 1, capabilities = caps, abi_status = 200,
      ssl_handshake_alert = SSL_AD_HANDSHAKE_FAILURE, abi_body = [], abi_content_type = [],
      request_body = [], resp_body_chunk = [], resp_body_chunk_output = []\<rparr>"

definition abi_require :: "('p, 's, 'c) abi_ctx \<Rightarrow> u64 \<Rightarrow> bool" where
  "abi_require ctx capability \<longleftrightarrow> capabilities ctx AND capability \<noteq> 0"

text \<open>
  Most operations are a capability check before a body; without the capability they return
  the error code and change nothing. The same for an operation that works on the request.
\<close>

definition requiring :: "u64 \<Rightarrow> (('p, 's, 'c) abi_ctx \<Rightarrow> int \<times> ('p, 's, 'c) abi_ctx)
    \<Rightarrow> ('p, 's, 'c) abi_ctx \<Rightarrow> int \<times> ('p, 's, 'c) abi_ctx" where
  "requiring cap body ctx = (if \<not> abi_require ctx cap then (NGX_HTTP_WASM_ERROR, ctx) else body ctx)"

definition requiring_get :: "u64 \<Rightarrow> (('p, 's, 'c) abi_ctx \<Rightarrow> (int \<times> bytes))
    \<Rightarrow> bytes \<Rightarrow> ('p, 's, 'c) abi_ctx \<Rightarrow> int \<times> bytes" where
  "requiring_get cap body buf ctx =
     (if \<not> abi_require ctx cap then (NGX_HTTP_WASM_ERROR, buf) else body ctx)"

text \<open>
  Operations that read or write the request go through \<^verbatim>\<open>ctx->request\<close> without a check:
  \<open>the\<close> leaves the read through a NULL pointer unspecified. \<open>Host_Correct\<close> (\<open>null_safe\<close>) shows that no
  context grants such a capability without a request.
\<close>

text \<open>Allocating from the request's pool: what \<open>set_str\<close> with \<open>copy\<close> and \<open>copy_bytes\<close> do.\<close>

definition abi_set_str ::
  "'p nginx_http \<Rightarrow> ('p, 's, 'c) abi_ctx \<Rightarrow> bytes \<Rightarrow> bool \<Rightarrow> (bytes \<times> ('p, 's, 'c) abi_ctx) option" where
  "abi_set_str e ctx d copy =
     (if copy
      then map_option (\<lambda>r. (d, ctx\<lparr>request := Some r\<rparr>)) (copy_bytes e (the (request ctx)) d)
      else Some (d, ctx))"

definition write_u64_le :: "u64 \<Rightarrow> bytes" where
  "write_u64_le v =
     [ucast (v AND 0xff), ucast (drop_bit 8 v AND 0xff), ucast (drop_bit 16 v AND 0xff),
      ucast (drop_bit 24 v AND 0xff), ucast (drop_bit 32 v AND 0xff),
      ucast (drop_bit 40 v AND 0xff), ucast (drop_bit 48 v AND 0xff),
      ucast (drop_bit 56 v AND 0xff)]"

section \<open>Logging, status\<close>

definition abi_log :: "nat \<Rightarrow> bytes \<Rightarrow> ('p, 's, 'c) abi_ctx \<Rightarrow> int \<times> ('p, 's, 'c) abi_ctx" where
  "abi_log level d ctx =
     (if level > NGX_LOG_DEBUG then (NGX_HTTP_WASM_ERROR, ctx)
      else (NGX_HTTP_WASM_OK,
            ctx\<lparr>logged := logged ctx @ [(level, take (min (length d) LOG_MAX_MESSAGE_LEN) d)]\<rparr>))"

definition abi_resp_set_status :: "int \<Rightarrow> ('p, 's, 'c) abi_ctx \<Rightarrow> int \<times> ('p, 's, 'c) abi_ctx" where
  "abi_resp_set_status st =
     requiring CAP_RESP_STATUS_SET (\<lambda>ctx. (NGX_HTTP_WASM_OK, ctx\<lparr>abi_status := st, status_set := True\<rparr>))"

definition abi_resp_get_status :: "('p, 's, 'c) abi_ctx \<Rightarrow> int" where
  "abi_resp_get_status ctx =
     (if \<not> abi_require ctx CAP_RESP_STATUS_GET then NGX_HTTP_WASM_ERROR
      else status (headers_out (the (request ctx))))"

section \<open>Shared state\<close>

definition abi_shm_get ::
  "'s nginx_core \<Rightarrow> u64 \<Rightarrow> bytes \<Rightarrow> bytes \<Rightarrow> ('p, 's, 'c) abi_ctx
     \<Rightarrow> (int \<times> bytes) \<times> ('p, 's, 'c) abi_ctx" where
  "abi_shm_get c now key buf ctx =
     (if \<not> abi_require ctx CAP_SHARED_KV then ((NGX_HTTP_WASM_ERROR, buf), ctx)
      else (case shm_get c now (shm_zone ctx) key buf of (r, z) \<Rightarrow> (r, ctx\<lparr>shm_zone := z\<rparr>)))"

text \<open>The other key-value operations and the metric updates pass their result through.\<close>

definition on_shm ::
  "('s shm_zone option \<Rightarrow> int \<times> 's shm_zone option) \<Rightarrow> ('p, 's, 'c) abi_ctx
     \<Rightarrow> int \<times> ('p, 's, 'c) abi_ctx" where
  "on_shm f = requiring CAP_SHARED_KV
     (\<lambda>ctx. case f (shm_zone ctx) of (rc, z) \<Rightarrow> (rc, ctx\<lparr>shm_zone := z\<rparr>))"

definition abi_shm_exists where
  "abi_shm_exists c now key = on_shm (\<lambda>z. shm_exists c now z key)"

definition abi_shm_incr where
  "abi_shm_incr c now key delta = on_shm (\<lambda>z. shm_incr c now z key delta)"

definition abi_shm_set where
  "abi_shm_set c now key v = on_shm (\<lambda>z. shm_set c now z key v)"

definition abi_shm_set_ex where
  "abi_shm_set_ex c now key v ttl = on_shm (\<lambda>z. shm_set_ex c now z key v ttl)"

definition abi_shm_add where
  "abi_shm_add c now key v = on_shm (\<lambda>z. shm_add c now z key v)"

definition abi_shm_replace where
  "abi_shm_replace c now key v = on_shm (\<lambda>z. shm_replace c now z key v)"

definition abi_shm_delete where
  "abi_shm_delete c key = on_shm (\<lambda>z. shm_delete c z key)"

definition on_metrics ::
  "('s metrics_zone option \<Rightarrow> int \<times> 's metrics_zone option) \<Rightarrow> ('p, 's, 'c) abi_ctx
     \<Rightarrow> int \<times> ('p, 's, 'c) abi_ctx" where
  "on_metrics f = requiring CAP_METRICS
     (\<lambda>ctx. case f (metrics_zone ctx) of (rc, z) \<Rightarrow> (rc, ctx\<lparr>metrics_zone := z\<rparr>))"

definition abi_metric_counter_inc where
  "abi_metric_counter_inc c name delta = on_metrics (\<lambda>z. metrics_counter_inc c z name delta)"

definition abi_metric_gauge_set where
  "abi_metric_gauge_set c name v = on_metrics (\<lambda>z. metrics_gauge_set c z name v)"

definition abi_metric_gauge_add where
  "abi_metric_gauge_add c name delta = on_metrics (\<lambda>z. metrics_gauge_add c z name delta)"

section \<open>Balancer and TLS\<close>

definition abi_balancer_set_peer :: "nat \<Rightarrow> ('p, 's, 'c) abi_ctx \<Rightarrow> int \<times> ('p, 's, 'c) abi_ctx" where
  "abi_balancer_set_peer peer_index =
     requiring CAP_BALANCER
       (\<lambda>ctx. case request ctx of
          None \<Rightarrow> (NGX_HTTP_WASM_ERROR, ctx)
        | Some r \<Rightarrow>
            if \<not> has_upstream r then (NGX_HTTP_WASM_ERROR, ctx)
            else (NGX_HTTP_WASM_OK, ctx\<lparr>balancer_peer_set := True, balancer_peer_index := peer_index\<rparr>))"

text \<open>
  OpenSSL: the server name of a connection, the parsers of the PEM certificate and key, and the
  calls that install them, each of which may fail.
\<close>

record ('c, 'x, 'k) openssl =
  SSL_get_servername :: "'c \<Rightarrow> bytes option"
  PEM_read_bio_X509_AUX :: "bytes \<Rightarrow> 'x option"
  PEM_read_bio_PrivateKey :: "bytes \<Rightarrow> 'k option"
  SSL_use_certificate :: "'c \<Rightarrow> 'x \<Rightarrow> 'c option"
  SSL_use_PrivateKey :: "'c \<Rightarrow> 'k \<Rightarrow> 'c option"
  SSL_check_private_key :: "'c \<Rightarrow> bool"

definition abi_ssl_get_server_name ::
  "('c, 'x, 'k) openssl \<Rightarrow> bytes \<Rightarrow> ('p, 's, 'c) abi_ctx \<Rightarrow> int \<times> bytes" where
  "abi_ssl_get_server_name ssl buf =
     requiring_get CAP_SSL_SERVER_NAME_GET
       (\<lambda>ctx. case Option.bind (ssl_conn ctx) (SSL_get_servername ssl) of
          None \<Rightarrow> (NGX_HTTP_WASM_NOT_FOUND, buf)
        | Some name \<Rightarrow> (int (length name), copy_out name buf)) buf"

definition abi_ssl_reject_handshake :: "int \<Rightarrow> ('p, 's, 'c) abi_ctx \<Rightarrow> int \<times> ('p, 's, 'c) abi_ctx" where
  "abi_ssl_reject_handshake alert =
     requiring CAP_SSL_HANDSHAKE_REJECT
       (\<lambda>ctx. (NGX_HTTP_WASM_OK, ctx\<lparr>ssl_handshake_rejected := True, ssl_handshake_alert := alert\<rparr>))"

text \<open>A failing step returns with the certificate or key of the steps before it installed.\<close>

definition abi_ssl_set_certificate ::
  "('c, 'x, 'k) openssl \<Rightarrow> bytes \<Rightarrow> bytes \<Rightarrow> ('p, 's, 'c) abi_ctx \<Rightarrow> int \<times> ('p, 's, 'c) abi_ctx" where
  "abi_ssl_set_certificate ssl cert key =
     requiring CAP_SSL_CERTIFICATE_SET
       (\<lambda>ctx. case ssl_conn ctx of
          None \<Rightarrow> (NGX_HTTP_WASM_ERROR, ctx)
        | Some c \<Rightarrow>
            if cert = [] \<or> key = [] then (NGX_HTTP_WASM_ERROR, ctx)
            else (case PEM_read_bio_X509_AUX ssl cert of
                None \<Rightarrow> (NGX_HTTP_WASM_ERROR, ctx)
              | Some x \<Rightarrow>
                  (case SSL_use_certificate ssl c x of
                     None \<Rightarrow> (NGX_HTTP_WASM_ERROR, ctx)
                   | Some c1 \<Rightarrow>
                       (case PEM_read_bio_PrivateKey ssl key of
                          None \<Rightarrow> (NGX_HTTP_WASM_ERROR, ctx\<lparr>ssl_conn := Some c1\<rparr>)
                        | Some k \<Rightarrow>
                            (case SSL_use_PrivateKey ssl c1 k of
                               None \<Rightarrow> (NGX_HTTP_WASM_ERROR, ctx\<lparr>ssl_conn := Some c1\<rparr>)
                             | Some c2 \<Rightarrow>
                                 (if \<not> SSL_check_private_key ssl c2
                                  then (NGX_HTTP_WASM_ERROR, ctx\<lparr>ssl_conn := Some c2\<rparr>)
                                  else (NGX_HTTP_WASM_OK, ctx\<lparr>ssl_conn := Some c2\<rparr>)))))))"

section \<open>Request headers, body and variables\<close>

definition on_request ::
  "('p http_request \<Rightarrow> int \<times> 'p http_request) \<Rightarrow> ('p, 's, 'c) abi_ctx
     \<Rightarrow> int \<times> ('p, 's, 'c) abi_ctx" where
  "on_request f ctx = (case f (the (request ctx)) of (rc, r) \<Rightarrow> (rc, ctx\<lparr>request := Some r\<rparr>))"

definition abi_req_set_header ::
  "'p nginx_http \<Rightarrow> bytes \<Rightarrow> bytes \<Rightarrow> ('p, 's, 'c) abi_ctx \<Rightarrow> int \<times> ('p, 's, 'c) abi_ctx" where
  "abi_req_set_header e name v =
     requiring CAP_REQ_HEADERS_RW
       (\<lambda>ctx. if name = [] then (NGX_HTTP_WASM_ERROR, ctx)
              else on_request (\<lambda>r. set_runtime_header e r name v) ctx)"

definition abi_req_get_header ::
  "'p nginx_http \<Rightarrow> bytes \<Rightarrow> bytes \<Rightarrow> ('p, 's, 'c) abi_ctx \<Rightarrow> int \<times> bytes" where
  "abi_req_get_header e name buf =
     requiring_get CAP_REQ_HEADERS_RO
       (\<lambda>ctx. if name = [] then (NGX_HTTP_WASM_ERROR, buf)
              else (let r = the (request ctx)
                    in case find_header e r name of
                         None \<Rightarrow> (NGX_HTTP_WASM_NOT_FOUND, buf)
                       | Some i \<Rightarrow> (let v = h_value (headers_in r ! i)
                                   in (int (length v), copy_out v buf)))) buf"

definition abi_req_set_body ::
  "'p nginx_http \<Rightarrow> bytes \<Rightarrow> ('p, 's, 'c) abi_ctx \<Rightarrow> int \<times> ('p, 's, 'c) abi_ctx" where
  "abi_req_set_body e d ctx =
     (case abi_set_str e ctx d True of
        None \<Rightarrow> (NGX_HTTP_WASM_ERROR, ctx)
      | Some (d, ctx) \<Rightarrow> (NGX_HTTP_WASM_OK, ctx\<lparr>request_body := d, request_body_set := True\<rparr>))"

definition abi_req_get_body :: "bytes \<Rightarrow> ('p, 's, 'c) abi_ctx \<Rightarrow> int \<times> bytes" where
  "abi_req_get_body buf =
     requiring_get CAP_REQ_BODY_GET
       (\<lambda>ctx. if \<not> request_body_set ctx then (NGX_HTTP_WASM_NOT_FOUND, buf)
              else (int (length (request_body ctx)), copy_out (request_body ctx) buf)) buf"

definition abi_var_get ::
  "'p nginx_http \<Rightarrow> bytes \<Rightarrow> bytes \<Rightarrow> ('p, 's, 'c) abi_ctx
     \<Rightarrow> (int \<times> bytes) \<times> ('p, 's, 'c) abi_ctx" where
  "abi_var_get e name buf ctx =
     (if \<not> abi_require ctx CAP_VAR_GET then ((NGX_HTTP_WASM_ERROR, buf), ctx)
      else (case request ctx of
          None \<Rightarrow> ((NGX_HTTP_WASM_ERROR, buf), ctx)
        | Some r \<Rightarrow>
            if name = [] then ((NGX_HTTP_WASM_ERROR, buf), ctx)
            else (case ngx_palloc e (pool r) (length name) of
                None \<Rightarrow> ((NGX_HTTP_WASM_ERROR, buf), ctx)
              | Some p \<Rightarrow>
                  (let r = r\<lparr>pool := p\<rparr>; ctx = ctx\<lparr>request := Some r\<rparr>
                   in case ngx_hash_strlow e name of
                        (low, hash) \<Rightarrow>
                          (case ngx_http_get_variable e r low hash of
                             None \<Rightarrow> ((NGX_HTTP_WASM_ERROR, buf), ctx)
                           | Some vv \<Rightarrow>
                               if vv_not_found vv then ((NGX_HTTP_WASM_NOT_FOUND, buf), ctx)
                               else ((int (length (vv_data vv)), copy_out (vv_data vv) buf), ctx))))))"

text \<open>
  \<^verbatim>\<open>ngx_http_wasm_abi_find_variable\<close>: the hash of declared variables, then the prefix
  variables by their full name.
\<close>

definition find_variable ::
  "'p nginx_http \<Rightarrow> 'p http_request \<Rightarrow> bytes \<Rightarrow> 'p http_variable option \<times> 'p http_request" where
  "find_variable e r name =
     (case ngx_palloc e (pool r) (length name) of
        None \<Rightarrow> (None, r)
      | Some p \<Rightarrow>
          (case ngx_hash_strlow e name of
             (low, hash) \<Rightarrow>
               (case variables_hash e hash low of
                  Some v \<Rightarrow> (Some v, r\<lparr>pool := p\<rparr>)
                | None \<Rightarrow> (find (\<lambda>v. length (var_name v) = length name \<and> strn_eq (var_name v) low)
                             (prefix_variables e), r\<lparr>pool := p\<rparr>))))"

definition abi_var_set ::
  "'p nginx_http \<Rightarrow> bytes \<Rightarrow> bytes \<Rightarrow> ('p, 's, 'c) abi_ctx \<Rightarrow> int \<times> ('p, 's, 'c) abi_ctx" where
  "abi_var_set e name v =
     requiring CAP_VAR_SET
       (\<lambda>ctx. case request ctx of
          None \<Rightarrow> (NGX_HTTP_WASM_ERROR, ctx)
        | Some r \<Rightarrow>
            if name = [] then (NGX_HTTP_WASM_ERROR, ctx)
            else on_request (\<lambda>r.
              case find_variable e r name of
                (None, r) \<Rightarrow> (NGX_HTTP_WASM_NOT_FOUND, r)
              | (Some var, r) \<Rightarrow>
                  if \<not> var_changeable var then (NGX_HTTP_WASM_ERROR, r)
                  else (case copy_bytes e r v of
                      None \<Rightarrow> (NGX_HTTP_WASM_ERROR, r)
                    | Some r \<Rightarrow>
                        (let vv = \<lparr>vv_data = v, vv_valid = True, vv_no_cacheable = False, vv_not_found = False\<rparr>
                         in case var_set_handler var of
                              Some h \<Rightarrow> (NGX_HTTP_WASM_OK, h r vv)
                            | None \<Rightarrow>
                                if \<not> var_indexed var then (NGX_HTTP_WASM_ERROR, r)
                                else (NGX_HTTP_WASM_OK,
                                      r\<lparr>variables := (variables r)(var_index var := vv)\<rparr>)))) ctx)"

section \<open>Time\<close>

definition write_time :: "u64 \<Rightarrow> bytes \<Rightarrow> ('p, 's, 'c) abi_ctx \<Rightarrow> int \<times> bytes" where
  "write_time v buf =
     requiring_get CAP_TIME
       (\<lambda>ctx. if length buf < 8 then (NGX_HTTP_WASM_ERROR, buf)
              else (NGX_HTTP_WASM_OK, copy_out (write_u64_le v) buf)) buf"

definition abi_time_unix_ms :: "u64 \<times> u64 \<Rightarrow> bytes \<Rightarrow> ('p, 's, 'c) abi_ctx \<Rightarrow> int \<times> bytes" where
  "abi_time_unix_ms tp = write_time (fst tp * 1000 + snd tp)"

definition abi_time_monotonic_ms :: "u64 \<Rightarrow> bytes \<Rightarrow> ('p, 's, 'c) abi_ctx \<Rightarrow> int \<times> bytes" where
  "abi_time_monotonic_ms now = write_time now"

section \<open>Response\<close>

definition abi_resp_set_body_chunk_input ::
  "bytes \<Rightarrow> bool \<Rightarrow> ('p, 's, 'c) abi_ctx \<Rightarrow> int \<times> ('p, 's, 'c) abi_ctx" where
  "abi_resp_set_body_chunk_input d eof ctx =
     (NGX_HTTP_WASM_OK, ctx\<lparr>resp_body_chunk := d, resp_body_chunk_set := True,
        resp_body_chunk_eof := eof, resp_body_chunk_output_set := False, resp_body_chunk_output := []\<rparr>)"

definition abi_resp_set_header ::
  "'p nginx_http \<Rightarrow> bytes \<Rightarrow> bytes \<Rightarrow> ('p, 's, 'c) abi_ctx \<Rightarrow> int \<times> ('p, 's, 'c) abi_ctx" where
  "abi_resp_set_header e name v =
     requiring CAP_RESP_HEADERS_RW
       (\<lambda>ctx. if name = [] then (NGX_HTTP_WASM_ERROR, ctx)
              else on_request (\<lambda>r. set_resp_header e r name v) ctx)"

definition abi_resp_get_header ::
  "'p nginx_http \<Rightarrow> bytes \<Rightarrow> bytes \<Rightarrow> ('p, 's, 'c) abi_ctx \<Rightarrow> int \<times> bytes" where
  "abi_resp_get_header e name buf =
     requiring_get CAP_RESP_HEADERS_RW
       (\<lambda>ctx. if name = [] then (NGX_HTTP_WASM_ERROR, buf)
              else get_resp_header e (the (request ctx)) name buf) buf"

definition abi_resp_set_content_type ::
  "'p nginx_http \<Rightarrow> bytes \<Rightarrow> bool \<Rightarrow> ('p, 's, 'c) abi_ctx \<Rightarrow> int \<times> ('p, 's, 'c) abi_ctx" where
  "abi_resp_set_content_type e d copy ctx =
     (case abi_set_str e ctx d copy of
        None \<Rightarrow> (NGX_HTTP_WASM_ERROR, ctx)
      | Some (d, ctx) \<Rightarrow> (NGX_HTTP_WASM_OK, ctx\<lparr>abi_content_type := d, content_type_set := True\<rparr>))"

definition abi_resp_get_body_chunk :: "bytes \<Rightarrow> ('p, 's, 'c) abi_ctx \<Rightarrow> int \<times> bytes" where
  "abi_resp_get_body_chunk buf =
     requiring_get CAP_RESP_BODY_CHUNK_READ
       (\<lambda>ctx. if \<not> resp_body_chunk_set ctx then (NGX_HTTP_WASM_NOT_FOUND, buf)
              else (int (length (resp_body_chunk ctx)), copy_out (resp_body_chunk ctx) buf)) buf"

definition abi_resp_get_body_chunk_eof :: "('p, 's, 'c) abi_ctx \<Rightarrow> int" where
  "abi_resp_get_body_chunk_eof ctx =
     (if \<not> abi_require ctx CAP_RESP_BODY_CHUNK_READ then NGX_HTTP_WASM_ERROR
      else if \<not> resp_body_chunk_set ctx then NGX_HTTP_WASM_NOT_FOUND
      else if resp_body_chunk_eof ctx then 1 else 0)"

definition abi_resp_set_body_chunk ::
  "'p nginx_http \<Rightarrow> bytes \<Rightarrow> ('p, 's, 'c) abi_ctx \<Rightarrow> int \<times> ('p, 's, 'c) abi_ctx" where
  "abi_resp_set_body_chunk e d =
     requiring CAP_RESP_BODY_CHUNK_WRITE
       (\<lambda>ctx. case abi_set_str e ctx d True of
          None \<Rightarrow> (NGX_HTTP_WASM_ERROR, ctx)
        | Some (d, ctx) \<Rightarrow>
            (NGX_HTTP_WASM_OK, ctx\<lparr>resp_body_chunk_output := d, resp_body_chunk_output_set := True\<rparr>))"

definition abi_resp_write ::
  "'p nginx_http \<Rightarrow> bytes \<Rightarrow> bool \<Rightarrow> ('p, 's, 'c) abi_ctx \<Rightarrow> int \<times> ('p, 's, 'c) abi_ctx" where
  "abi_resp_write e d copy =
     requiring CAP_RESP_BODY_WRITE
       (\<lambda>ctx. case abi_set_str e ctx d copy of
          None \<Rightarrow> (NGX_HTTP_WASM_ERROR, ctx)
        | Some (d, ctx) \<Rightarrow>
            (NGX_HTTP_WASM_OK, ctx\<lparr>abi_body := d, body_set := True, body_is_borrowed := \<not> copy\<rparr>))"

text \<open>
  Sending the collected response. The result is the code for nginx, the context, and the body
  buffer that was handed to the output filter with its \<^verbatim>\<open>last_buf\<close> flag, if one was.
\<close>

definition abi_send_response ::
  "'p nginx_http \<Rightarrow> bool \<Rightarrow> ('p, 's, 'c) abi_ctx
     \<Rightarrow> int \<times> ('p, 's, 'c) abi_ctx \<times> (bytes \<times> bool) option" where
  "abi_send_response e buf_ok ctx =
     (if response_sent ctx then (500, ctx, None)
      else (let r = the (request ctx);
                r = r\<lparr>headers_out := (headers_out r)
                   \<lparr>status := abi_status ctx,
                    content_length_n := (if body_set ctx then int (length (abi_body ctx)) else 0),
                    content_type := (if content_type_set ctx then abi_content_type ctx
                                     else str ''text/plain'')\<rparr>\<rparr>;
                ctx = ctx\<lparr>request := Some r\<rparr>;
                rc = ngx_http_send_header e r
            in if rc = NGX_ERROR \<or> rc > NGX_OK \<or> header_only r then (rc, ctx, None)
               else if \<not> body_set ctx \<or> abi_body ctx = []
               then (ngx_http_send_special e r, ctx\<lparr>response_sent := True\<rparr>, None)
               else if \<not> buf_ok then (500, ctx, None)
               else (ngx_http_output_filter e r (abi_body ctx), ctx\<lparr>response_sent := True\<rparr>,
                     Some (abi_body ctx, is_main r))))"

end
