(* ===== verification/Subrequest.thy ===== *)
theory Subrequest
  imports Abi
begin

text \<open>
  Subrequests, the part of \<^verbatim>\<open>src/ngx_http_wasm_abi.c\<close> that starts one, is notified of its end,
  and reads its result. The state is in the module context of the request, one subrequest at
  a time.
\<close>

section \<open>Starting a subrequest\<close>

definition subrequest_method_name :: "int \<Rightarrow> bytes option" where
  "subrequest_method_name method =
     (if method = 0x2 then Some (str ''GET'')
      else if method = 0x4 then Some (str ''HEAD'')
      else if method = 0x8 then Some (str ''POST'')
      else if method = 0x10 then Some (str ''PUT'')
      else if method = 0x20 then Some (str ''DELETE'')
      else if method = 0x4000 then Some (str ''PATCH'')
      else if method = 0x200 then Some (str ''OPTIONS'')
      else None)"

text \<open>
  \<open>on_subrequest\<close> is the common start of the operations: the capability, and the subrequest
  state of the module context, which a request without one does not have.
\<close>

definition on_subrequest ::
  "('p subreq_state \<Rightarrow> 'p http_request \<Rightarrow> int \<times> 'p subreq_state \<times> 'p http_request)
     \<Rightarrow> ('p, 's, 'c) abi_ctx \<Rightarrow> int \<times> ('p, 's, 'c) abi_ctx" where
  "on_subrequest f =
     requiring CAP_SUBREQUEST
       (\<lambda>ctx. case (request ctx, wctx ctx) of
          (Some r, Some st) \<Rightarrow>
            (case f st r of (rc, st, r) \<Rightarrow> (rc, ctx\<lparr>request := Some r, wctx := Some st\<rparr>))
        | _ \<Rightarrow> (NGX_HTTP_WASM_ERROR, ctx))"

text \<open>
  Adding a header for the next subrequest: the array is created on first use, and an element
  is pushed before its name and value are copied.
\<close>

definition add_pending_header ::
  "'p nginx_http \<Rightarrow> bytes \<Rightarrow> bytes \<Rightarrow> 'p subreq_state \<Rightarrow> 'p http_request
     \<Rightarrow> int \<times> 'p subreq_state \<times> 'p http_request" where
  "add_pending_header e name v st r =
     (if active st then (NGX_HTTP_WASM_ERROR, st, r)
      else (case (case pending_headers st of
                    Some hs \<Rightarrow> Some (hs, r)
                  | None \<Rightarrow> map_option (\<lambda>p. ([], r\<lparr>pool := p\<rparr>)) (ngx_palloc e (pool r) 2)) of
              None \<Rightarrow> (NGX_HTTP_WASM_ERROR, st, r)
            | Some (hs, r) \<Rightarrow>
                (case push_elt e r of
                   None \<Rightarrow> (NGX_HTTP_WASM_ERROR, st\<lparr>pending_headers := Some hs\<rparr>, r)
                 | Some r \<Rightarrow>
                     (case copy_bytes e r name of
                        None \<Rightarrow> (NGX_HTTP_WASM_ERROR, st\<lparr>pending_headers := Some (hs @ [([], [])])\<rparr>, r)
                      | Some r \<Rightarrow>
                          (case copy_bytes e r v of
                             None \<Rightarrow> (NGX_HTTP_WASM_ERROR, st\<lparr>pending_headers := Some (hs @ [(name, [])])\<rparr>, r)
                           | Some r \<Rightarrow>
                               (NGX_HTTP_WASM_OK, st\<lparr>pending_headers := Some (hs @ [(name, v)])\<rparr>, r))))))"

definition abi_subrequest_set_header ::
  "'p nginx_http \<Rightarrow> bytes \<Rightarrow> bytes \<Rightarrow> ('p, 's, 'c) abi_ctx \<Rightarrow> int \<times> ('p, 's, 'c) abi_ctx" where
  "abi_subrequest_set_header e name v ctx =
     (if abi_require ctx CAP_SUBREQUEST \<and> name = [] then (NGX_HTTP_WASM_ERROR, ctx)
      else on_subrequest (add_pending_header e name v) ctx)"

text \<open>Applying the pending headers to the subrequest; a failure stops the loop.\<close>

fun set_runtime_headers ::
  "'p nginx_http \<Rightarrow> (bytes \<times> bytes) list \<Rightarrow> 'p http_request \<Rightarrow> int \<times> 'p http_request" where
  "set_runtime_headers e [] sr = (NGX_HTTP_WASM_OK, sr)"
| "set_runtime_headers e ((name, v) # hs) sr =
     (case set_runtime_header e sr name v of
        (rc, sr) \<Rightarrow> if rc \<noteq> NGX_HTTP_WASM_OK then (NGX_HTTP_WASM_ERROR, sr)
                   else set_runtime_headers e hs sr)"

text \<open>
  Starting the subrequest, behind the checks of the entry point. \<open>buffer_size\<close> is the
  location's \<^verbatim>\<open>wasm_subrequest_buffer_size\<close>, \<open>None\<close> without a location configuration.
\<close>

definition start_subrequest ::
  "'p nginx_http \<Rightarrow> nat option \<Rightarrow> bytes \<Rightarrow> bytes \<Rightarrow> int \<Rightarrow> bool \<Rightarrow> 'p subreq_state \<Rightarrow> 'p http_request
     \<Rightarrow> int \<times> 'p subreq_state \<times> 'p http_request" where
  "start_subrequest e buffer_size uri args method capture st r =
     (if active st then (NGX_HTTP_WASM_ERROR, st, r)
      else case buffer_size of
        None \<Rightarrow> (NGX_HTTP_WASM_ERROR, st, r)
      | Some limit \<Rightarrow>
          (case copy_bytes e r uri of
             None \<Rightarrow> (NGX_HTTP_WASM_ERROR, st, r)
           | Some r \<Rightarrow>
               (case (if args \<noteq> [] then copy_bytes e r args else Some r) of
                  None \<Rightarrow> (NGX_HTTP_WASM_ERROR, st, r)
                | Some r \<Rightarrow>
                    (let method = (if method = 0 then 0x2 else method)
                     in case subrequest_method_name method of
                          None \<Rightarrow> (NGX_HTTP_WASM_ERROR, st, r)
                        | Some mname \<Rightarrow>
                            (case ngx_palloc e (pool r) 16 of
                               None \<Rightarrow> (NGX_HTTP_WASM_ERROR, st, r)
                             | Some p \<Rightarrow>
                                 (let r = r\<lparr>pool := p\<rparr>;
                                      st = st\<lparr>capture_body := capture, sub_done := False, active := True,
                                              sub_rc := NGX_OK, subrequest := None, body_limit := limit\<rparr>
                                  in case ngx_http_subrequest e r uri
                                            (if args \<noteq> [] then Some args else None) capture of
                                       None \<Rightarrow> (NGX_HTTP_WASM_ERROR, st\<lparr>active := False\<rparr>, r)
                                     | Some sr \<Rightarrow>
                                         (let sr = sr\<lparr>req_method := nat method, method_name := mname,
                                                      header_only := (if \<not> capture then True else header_only sr)\<rparr>;
                                              hs = (case pending_headers st of None \<Rightarrow> [] | Some hs \<Rightarrow> hs)
                                          in if hs = [] then (NGX_HTTP_WASM_OK, st\<lparr>subrequest := Some sr\<rparr>, r)
                                             else (case subrequest_clone_headers e sr r of
                                                 (rc, sr) \<Rightarrow>
                                                   if rc \<noteq> NGX_HTTP_WASM_OK
                                                   then (NGX_HTTP_WASM_ERROR,
                                                         st\<lparr>subrequest := Some sr, active := False\<rparr>, r)
                                                   else (case set_runtime_headers e hs sr of
                                                       (rc, sr) \<Rightarrow>
                                                         if rc \<noteq> NGX_HTTP_WASM_OK
                                                         then (NGX_HTTP_WASM_ERROR,
                                                               st\<lparr>subrequest := Some sr, active := False\<rparr>, r)
                                                         else (NGX_HTTP_WASM_OK,
                                                               st\<lparr>subrequest := Some sr,
                                                                  pending_headers := Some []\<rparr>, r))))))))))"

definition SUBREQ_CAPTURE_BODY :: u32 where "SUBREQ_CAPTURE_BODY = 1"

definition abi_subrequest ::
  "'p nginx_http \<Rightarrow> nat option \<Rightarrow> bytes \<Rightarrow> bytes \<Rightarrow> int \<Rightarrow> u32 \<Rightarrow> ('p, 's, 'c) abi_ctx
     \<Rightarrow> int \<times> ('p, 's, 'c) abi_ctx" where
  "abi_subrequest e buffer_size uri args method options ctx =
     (if abi_require ctx CAP_SUBREQUEST \<and> uri = [] then (NGX_HTTP_WASM_ERROR, ctx)
      else on_subrequest
             (start_subrequest e buffer_size uri args method (options AND SUBREQ_CAPTURE_BODY \<noteq> 0)) ctx)"

section \<open>The end of a subrequest\<close>

text \<open>
  The post-subrequest handler, called by nginx with the finished subrequest and its return
  code. A captured body beyond the limit turns the result into an error.
\<close>

definition abi_subrequest_done ::
  "'p http_request \<Rightarrow> int \<Rightarrow> 'p subreq_state option \<Rightarrow> int \<times> 'p subreq_state option" where
  "abi_subrequest_done sr rc state =
     (case state of
        None \<Rightarrow> (rc, None)
      | Some st \<Rightarrow>
          (let st = st\<lparr>subrequest := Some sr, sub_rc := rc, sub_done := True, active := False\<rparr>
           in if \<not> capture_body st \<or> body_limit st = 0 then (rc, Some st)
              else (case out_buf sr of
                      None \<Rightarrow> (rc, Some st)
                    | Some b \<Rightarrow>
                        (rc, Some (if length b > body_limit st then st\<lparr>sub_rc := NGX_ERROR\<rparr> else st)))))"

section \<open>Reading the result\<close>

text \<open>The finished subrequest, if the last one succeeded.\<close>

definition finished_subrequest :: "('p, 's, 'c) abi_ctx \<Rightarrow> ('p subreq_state \<times> 'p http_request) option" where
  "finished_subrequest ctx =
     (case (request ctx, wctx ctx) of
        (Some _, Some st) \<Rightarrow>
          (case subrequest st of
             Some sr \<Rightarrow> if sub_done st \<and> sub_rc st = NGX_OK then Some (st, sr) else None
           | None \<Rightarrow> None)
      | _ \<Rightarrow> None)"

definition abi_subrequest_get_status :: "('p, 's, 'c) abi_ctx \<Rightarrow> int" where
  "abi_subrequest_get_status ctx =
     (if \<not> abi_require ctx CAP_SUBREQUEST then NGX_HTTP_WASM_ERROR
      else (case finished_subrequest ctx of
              None \<Rightarrow> NGX_HTTP_WASM_ERROR
            | Some (_, sr) \<Rightarrow> status (headers_out sr)))"

definition abi_subrequest_get_header ::
  "'p nginx_http \<Rightarrow> bytes \<Rightarrow> bytes \<Rightarrow> ('p, 's, 'c) abi_ctx \<Rightarrow> int \<times> bytes" where
  "abi_subrequest_get_header e name buf =
     requiring_get CAP_SUBREQUEST
       (\<lambda>ctx. if name = [] then (NGX_HTTP_WASM_ERROR, buf)
        else (case finished_subrequest ctx of
            None \<Rightarrow> (NGX_HTTP_WASM_ERROR, buf)
          | Some (_, r) \<Rightarrow>
              (let out = headers_out r
               in if header_eq e name ''content-type''
                  then (if content_type out = [] then (NGX_HTTP_WASM_NOT_FOUND, buf)
                        else (int (length (content_type out)), copy_out (content_type out) buf))
                  else (case (case Option.bind (resp_header_slot e name) (out_slots out) of
                                Some i \<Rightarrow> Some i
                              | None \<Rightarrow> find_resp_header e r name) of
                      None \<Rightarrow> (NGX_HTTP_WASM_NOT_FOUND, buf)
                    | Some i \<Rightarrow>
                        (let v = h_value (out_headers out ! i)
                         in (int (length v), copy_out v buf)))))) buf"

definition abi_subrequest_get_body :: "bytes \<Rightarrow> ('p, 's, 'c) abi_ctx \<Rightarrow> int \<times> bytes" where
  "abi_subrequest_get_body buf =
     requiring_get CAP_SUBREQUEST
       (\<lambda>ctx. case finished_subrequest ctx of
          None \<Rightarrow> (NGX_HTTP_WASM_ERROR, buf)
        | Some (st, sr) \<Rightarrow>
            if \<not> capture_body st then (NGX_HTTP_WASM_ERROR, buf)
            else (case out_buf sr of
                    None \<Rightarrow> (0, buf)
                  | Some b \<Rightarrow> (int (length b), copy_out b buf))) buf"

definition abi_subrequest_get_body_len :: "('p, 's, 'c) abi_ctx \<Rightarrow> int" where
  "abi_subrequest_get_body_len ctx =
     (if \<not> abi_require ctx CAP_SUBREQUEST then NGX_HTTP_WASM_ERROR
      else (case finished_subrequest ctx of
              None \<Rightarrow> NGX_HTTP_WASM_ERROR
            | Some (st, sr) \<Rightarrow>
                if \<not> capture_body st then NGX_HTTP_WASM_ERROR
                else (case out_buf sr of None \<Rightarrow> 0 | Some b \<Rightarrow> int (length b))))"

end
