(* ===== verification/Abi_Props.thy ===== *)
theory Abi_Props
  imports Headers Subrequest
begin

text \<open>The properties of the guest ABI, with an executable instance of nginx's functions.\<close>

section \<open>Instance\<close>

text \<open>A pool is the number of allocations left; strings are compared and lowered as documented.\<close>

definition demo_http :: "nat nginx_http" where
  "demo_http = \<lparr>ngx_palloc = (\<lambda>p _. if 0 < p then Some (p - 1) else None),
     ngx_list_push = (\<lambda>p. if 0 < p then Some (p - 1) else None),
     ngx_strncasecmp = (\<lambda>x y n. if map to_lower (c_prefix n x) = map to_lower (c_prefix n y) then 0 else 1),
     ngx_hash_strlow = (\<lambda>x. (map to_lower x, length x)),
     ngx_atoof = (\<lambda>x. int (length x)), ngx_parse_http_time = (\<lambda>_. 0),
     variables_hash = (\<lambda>_ _. None), prefix_variables = [],
     ngx_http_get_variable = (\<lambda>_ _ _. None), ngx_http_send_header = (\<lambda>_. NGX_OK),
     ngx_http_output_filter = (\<lambda>_ _. NGX_OK), ngx_http_send_special = (\<lambda>_. NGX_OK),
     ngx_http_subrequest = (\<lambda>r _ _ _. Some r)\<rparr>"

lemma demo_http_ok: "nginx_http_ok demo_http"
  by (simp add: nginx_http_ok_def demo_http_def)

lemma demo_http_sel [simp]:
  "ngx_palloc demo_http p n = (if 0 < p then Some (p - 1) else None)"
  "ngx_list_push demo_http p = (if 0 < p then Some (p - 1) else None)"
  "ngx_strncasecmp demo_http x y n = (if map to_lower (c_prefix n x) = map to_lower (c_prefix n y) then 0 else 1)"
  "ngx_hash_strlow demo_http x = (map to_lower x, length x)"
  "ngx_http_subrequest demo_http r u a m = Some r"
  "ngx_http_send_header demo_http r = NGX_OK" "ngx_http_output_filter demo_http r b = NGX_OK"
  "ngx_http_send_special demo_http r = NGX_OK"
  by (simp_all add: demo_http_def)

definition demo_headers_out :: headers_out where
  "demo_headers_out = \<lparr>status = 200, content_type = [], content_type_len = 0, content_type_lowcase = None,
     content_type_hash = 0, content_length_n = -1, date_time = -1, last_modified_time = -1,
     out_headers = [], out_slots = (\<lambda>_. None)\<rparr>"

definition demo_request :: "nat http_request" where
  "demo_request = \<lparr>pool = 100, headers_in = [\<lparr>h_hash = 1, h_key = str ''X'', h_value = [1], h_lowcase = None\<rparr>],
     headers_out = demo_headers_out, req_method = 2, method_name = str ''GET'', header_only = False,
     is_main = True, has_upstream = False,
     variables = (\<lambda>_. \<lparr>vv_data = [], vv_valid = False, vv_no_cacheable = False, vv_not_found = True\<rparr>),
     out_buf = None\<rparr>"

definition demo_subreq :: "nat subreq_state" where
  "demo_subreq = \<lparr>subrequest = None, pending_headers = Some [(str ''x'', [2]), (str ''Y'', [3])],
     capture_body = False, active = False, sub_done = False, sub_rc = 0, body_limit = 0\<rparr>"

definition demo_ctx :: "u64 \<Rightarrow> (nat, unit, unit) abi_ctx" where
  "demo_ctx caps = abi_init (Some demo_request) None None None (Some demo_subreq) caps"

lemma demo_ctx_sel [simp]:
  "request (demo_ctx caps) = Some demo_request" "wctx (demo_ctx caps) = Some demo_subreq"
  "capabilities (demo_ctx caps) = caps" "response_sent (demo_ctx caps) = False"
  "abi_require (demo_ctx caps) c \<longleftrightarrow> caps AND c \<noteq> 0"
  by (simp_all add: demo_ctx_def abi_init_def abi_require_def)

lemma demo_slots_ok: "slots_ok demo_http demo_request"
  by (simp add: slots_ok_def demo_http_ok demo_request_def demo_headers_out_def)

section \<open>Cloning headers\<close>

text \<open>A successful clone is an exact copy of the header list.\<close>

lemma clone_header_loop_copy:
  "clone_header_loop e hs dst = (NGX_HTTP_WASM_OK, dst') \<Longrightarrow> headers_in dst' = headers_in dst @ hs"
proof (induction hs arbitrary: dst)
  case Nil
  then show ?case by simp
next
  case (Cons h hs)
  let ?i = "length (headers_in dst)"
  from Cons.prems obtain d1 where d1: "push_elt e dst = Some d1"
    by (auto split: option.splits)
  then obtain p1 where p1: "d1 = dst\<lparr>pool := p1\<rparr>" using push_elt_SomeD by blast
  let ?d2 = "d1\<lparr>headers_in := headers_in d1 @ [zero_elt\<lparr>h_hash := h_hash h\<rparr>]\<rparr>"
  from Cons.prems d1 obtain d3 where d3: "copy_bytes e ?d2 (h_key h) = Some d3"
    by (auto simp: Let_def split: option.splits)
  then obtain p3 where p3: "d3 = ?d2\<lparr>pool := p3\<rparr>" using copy_bytes_SomeD by blast
  let ?d4 = "upd_in (length (headers_in d1)) (\<lambda>c. c\<lparr>h_key := h_key h\<rparr>) d3"
  from Cons.prems d1 d3 obtain d5 where d5: "copy_bytes e ?d4 (h_value h) = Some d5"
    by (auto simp: Let_def split: option.splits)
  then obtain p5 where p5: "d5 = ?d4\<lparr>pool := p5\<rparr>" using copy_bytes_SomeD by blast
  let ?d6 = "upd_in (length (headers_in d1)) (\<lambda>c. c\<lparr>h_value := h_value h\<rparr>) d5"
  define d6 where "d6 = ?d6"
  have hs6: "headers_in d6 = headers_in dst @ [h\<lparr>h_lowcase := None\<rparr>]"
    unfolding d6_def using p1 p3 p5 by (simp add: upd_in_def zero_elt_def nth_append)
  show ?case
  proof (cases "h_lowcase h")
    case None
    then have "clone_header_loop e hs ?d6 = (NGX_HTTP_WASM_OK, dst')"
      using Cons.prems d1 d3 d5 by (simp add: Let_def)
    from Cons.IH [OF this [folded d6_def]] hs6 None show ?thesis by (cases h) simp
  next
    case (Some low)
    then obtain p where "clone_header_loop e hs
        (upd_in (length (headers_in d1)) (\<lambda>c. c\<lparr>h_lowcase := Some low\<rparr>) (?d6\<lparr>pool := p\<rparr>)) = (NGX_HTTP_WASM_OK, dst')"
      using Cons.prems d1 d3 d5 by (auto simp: Let_def split: option.splits)
    from Cons.IH [OF this [folded d6_def]] hs6 Some p1 show ?thesis
      by (cases h) (simp add: upd_in_def nth_append)
  qed
qed

lemma clone_headers_copy:
  "subrequest_clone_headers e dst src = (NGX_HTTP_WASM_OK, dst') \<Longrightarrow> headers_in dst' = headers_in src"
  using clone_header_loop_copy by (fastforce simp: subrequest_clone_headers_def split: option.splits)

lemma set_runtime_headers_put_all: "set_runtime_headers e hs sr = put_all (set_runtime_header e) hs sr"
  by (induction hs arbitrary: sr) (auto split: prod.split)

text \<open>The steps of a successful start with pending headers.\<close>

lemma start_subrequest_steps:
  assumes start: "start_subrequest e limit uri args method capture st r = (NGX_HTTP_WASM_OK, st', r')"
    and hs: "pending_headers st = Some hs" "hs \<noteq> []"
  obtains r1 sr0 sr1 sr where "headers_in r1 = headers_in r"
    "subrequest_clone_headers e sr0 r1 = (NGX_HTTP_WASM_OK, sr1)"
    "set_runtime_headers e hs sr1 = (NGX_HTTP_WASM_OK, sr)"
    "subrequest st' = Some sr" "pending_headers st' = Some []" "active st'"
proof -
  obtain lim where lim: "limit = Some lim" "\<not> active st"
    using start by (cases limit) (auto simp: start_subrequest_def split: if_splits)
  obtain r1 where r1: "copy_bytes e r uri = Some r1"
    using start lim by (cases "copy_bytes e r uri") (auto simp: start_subrequest_def)
  obtain r2 where r2: "(if args \<noteq> [] then copy_bytes e r1 args else Some r1) = Some r2"
    using start lim r1
    by (cases "if args \<noteq> [] then copy_bytes e r1 args else Some r1") (simp_all add: start_subrequest_def)
  let ?m = "if method = 0 then 0x2 else method"
  obtain mname where m: "subrequest_method_name ?m = Some mname"
    using start lim r1 r2
    by (cases "subrequest_method_name ?m") (simp_all add: start_subrequest_def Let_def)
  obtain p where p: "ngx_palloc e (pool r2) 16 = Some p"
    using start lim r1 r2 m
    by (cases "ngx_palloc e (pool r2) 16") (simp_all add: start_subrequest_def Let_def)
  let ?r3 = "r2\<lparr>pool := p\<rparr>"
  obtain sr where sr: "ngx_http_subrequest e ?r3 uri (if args \<noteq> [] then Some args else None) capture = Some sr"
    using start lim r1 r2 m p
    by (cases "ngx_http_subrequest e ?r3 uri (if args \<noteq> [] then Some args else None) capture")
      (simp_all add: start_subrequest_def Let_def)
  let ?sr0 = "sr\<lparr>req_method := nat ?m, method_name := mname,
      header_only := (if \<not> capture then True else header_only sr)\<rparr>"
  obtain c1 sr1 where clone: "subrequest_clone_headers e ?sr0 ?r3 = (c1, sr1)" by fastforce
  obtain c2 sr2 where put: "set_runtime_headers e hs sr1 = (c2, sr2)" by fastforce
  have codes: "c1 = NGX_HTTP_WASM_OK \<and> c2 = NGX_HTTP_WASM_OK \<and>
      subrequest st' = Some sr2 \<and> pending_headers st' = Some [] \<and> active st'"
    using start lim r1 r2 m p sr hs clone put
    by (auto simp: start_subrequest_def Let_def split: if_splits)
  have "headers_in r1 = headers_in r" using copy_bytes_SomeD [OF r1] by auto
  moreover have "headers_in r2 = headers_in r1"
    using r2 copy_bytes_SomeD [of e r1 args] by (auto split: if_splits)
  ultimately have "headers_in ?r3 = headers_in r" by simp
  with codes clone put that show ?thesis by blast
qed

section \<open>Properties\<close>

text \<open>C23: request headers. A successful set of a request header makes every later get of that
  name, in any case, return the value (its length, and as much of it as the buffer holds), and
  leaves what a get of any other name returns unchanged.\<close>

theorem abi_req_header_roundtrip:
  assumes "nginx_http_ok e" and "abi_require ctx CAP_REQ_HEADERS_RO"
    and "abi_req_set_header e k v ctx = (NGX_HTTP_WASM_OK, ctx')" and "k' \<noteq> []"
  shows "abi_req_get_header e k' buf ctx' =
    (if same_name e k k' then (int (length v), copy_out v buf) else abi_req_get_header e k' buf ctx)"
proof -
  have k: "k \<noteq> []" and put: "set_runtime_header e (the (request ctx)) k v = (NGX_HTTP_WASM_OK, the (request ctx'))"
    and caps: "capabilities ctx' = capabilities ctx"
    using assms(3) by (auto simp: abi_req_set_header_def requiring_def on_request_def split: if_splits prod.splits)
  have get: "abi_req_get_header e k' buf c =
      (case req_header e (the (request c)) k' of
         None \<Rightarrow> (NGX_HTTP_WASM_NOT_FOUND, buf) | Some w \<Rightarrow> (int (length w), copy_out w buf))"
    if "abi_require c CAP_REQ_HEADERS_RO" for c :: "('a, 'b, 'c) abi_ctx"
    using that assms(4)
    by (auto simp: abi_req_get_header_def requiring_get_def req_header_def Let_def split: option.split)
  have "abi_require ctx' CAP_REQ_HEADERS_RO" using assms(2) caps by (simp add: abi_require_def)
  with get [OF assms(2)] get req_headers.get_put [OF assms(1) k TrueI put, of k'] show ?thesis by simp
qed

theorem abi_req_header_roundtrip_witness:
  "\<exists>ctx'. abi_req_set_header demo_http (str ''x'') [7, 8] (demo_ctx 3) = (NGX_HTTP_WASM_OK, ctx') \<and>
     abi_req_get_header demo_http (str ''X'') [0] ctx' = (2, [7])"
proof -
  obtain ctx' where c: "abi_req_set_header demo_http (str ''x'') [7, 8] (demo_ctx 3) = (NGX_HTTP_WASM_OK, ctx')"
    by (cases "abi_req_set_header demo_http (str ''x'') [7, 8] (demo_ctx 3)")
      (simp add: abi_req_set_header_def requiring_def caps on_request_def set_runtime_header_def
        find_header_def demo_request_def str_def c_prefix_def to_lower_def copy_bytes_def)
  have "same_name demo_http (str ''x'') (str ''X'')"
    by (simp add: same_name_def str_def c_prefix_def to_lower_def)
  with abi_req_header_roundtrip [OF demo_http_ok _ c, of "str ''X''" "[0]"] c show ?thesis
    by (simp add: caps str_def copy_out_def)
qed

text \<open>C22: response headers. With the response's slots in order, a successful set of a non-empty
  response header makes every later get of that name, in any case, return the value, and
  leaves the other names unchanged, whichever store the names live in; the slots stay in order.\<close>

theorem abi_resp_header_roundtrip:
  assumes "slots_ok e (the (request ctx))" and "v \<noteq> []"
    and "abi_resp_set_header e k v ctx = (NGX_HTTP_WASM_OK, ctx')" and "k' \<noteq> []"
  shows "abi_resp_get_header e k' buf ctx' =
    (if same_name e k k' then (int (length v), copy_out v buf) else abi_resp_get_header e k' buf ctx) \<and>
    slots_ok e (the (request ctx'))"
proof -
  have k: "k \<noteq> []" and put: "set_resp_header e (the (request ctx)) k v = (NGX_HTTP_WASM_OK, the (request ctx'))"
    and req: "abi_require ctx CAP_RESP_HEADERS_RW" and caps: "capabilities ctx' = capabilities ctx"
    using assms(3) by (auto simp: abi_resp_set_header_def requiring_def on_request_def split: if_splits prod.splits)
  have get: "abi_resp_get_header e k' buf c =
      (case resp_header e (the (request c)) k' of
         None \<Rightarrow> (NGX_HTTP_WASM_NOT_FOUND, buf) | Some w \<Rightarrow> (int (length w), copy_out w buf))"
    if "abi_require c CAP_RESP_HEADERS_RW" for c :: "('a, 'b, 'c) abi_ctx"
    using that assms(4) by (simp add: abi_resp_get_header_def requiring_get_def get_resp_header_value)
  have "abi_require ctx' CAP_RESP_HEADERS_RW" using req caps by (simp add: abi_require_def)
  with get [OF req] get resp_headers.get_put [OF assms(1) k assms(2) put, of k']
    resp_headers.put_valid [OF assms(1) k put] show ?thesis by simp
qed

theorem abi_resp_header_roundtrip_witness:
  "\<exists>ctx'. abi_resp_set_header demo_http (str ''ETag'') [7, 8] (demo_ctx 0x10) = (NGX_HTTP_WASM_OK, ctx') \<and>
     abi_resp_get_header demo_http (str ''etag'') [0, 0, 0] ctx' = (2, [7, 8, 0])"
proof -
  obtain ctx' where c: "abi_resp_set_header demo_http (str ''ETag'') [7, 8] (demo_ctx 0x10) = (NGX_HTTP_WASM_OK, ctx')"
    by (cases "abi_resp_set_header demo_http (str ''ETag'') [7, 8] (demo_ctx 0x10)")
      (simp add: abi_resp_set_header_def requiring_def caps on_request_def set_resp_header_def
        resp_set_cached_header_def slot_elt_def push_elt_def Let_def resp_header_slot_def header_eq_def
        demo_request_def demo_headers_out_def str_def c_prefix_def to_lower_def copy_bytes_def upd_out_def)
  have "same_name demo_http (str ''ETag'') (str ''etag'')"
    by (simp add: same_name_def str_def c_prefix_def to_lower_def)
  moreover have "slots_ok demo_http (the (request (demo_ctx 0x10)))" using demo_slots_ok by simp
  ultimately show ?thesis
    using abi_resp_header_roundtrip [OF _ _ c, of "str ''etag''" "[0, 0, 0]"] c
    by (simp add: caps str_def copy_out_def)
qed

text \<open>The headers of a subrequest. When a subrequest is started, its request headers are those
  of the parent, overridden by the headers the guest set for it, the last value of a name
  winning; and the pending headers are used up.\<close>

theorem abi_subrequest_headers:
  assumes "nginx_http_ok e" and "request ctx = Some r" and "wctx ctx = Some st"
    and "pending_headers st = Some hs" and "hs \<noteq> []" and "\<forall>h \<in> set hs. fst h \<noteq> []"
    and "abi_subrequest e limit uri args method options ctx = (NGX_HTTP_WASM_OK, ctx')"
  shows "\<exists>st' sr. wctx ctx' = Some st' \<and> subrequest st' = Some sr \<and> pending_headers st' = Some [] \<and>
    active st' \<and>
    req_header e sr k =
      (case find (\<lambda>h. same_name e (fst h) k) (rev hs) of Some h \<Rightarrow> Some (snd h) | None \<Rightarrow> req_header e r k)"
proof -
  obtain r' st' where start: "start_subrequest e limit uri args method (options AND SUBREQ_CAPTURE_BODY \<noteq> 0) st r =
      (NGX_HTTP_WASM_OK, st', r')" "wctx ctx' = Some st'"
    using assms(2,3,7) by (auto simp: abi_subrequest_def on_subrequest_def requiring_def split: if_splits prod.splits)
  obtain r1 sr0 sr1 sr where chain: "headers_in r1 = headers_in r"
    "subrequest_clone_headers e sr0 r1 = (NGX_HTTP_WASM_OK, sr1)"
    "set_runtime_headers e hs sr1 = (NGX_HTTP_WASM_OK, sr)"
    "subrequest st' = Some sr" "pending_headers st' = Some []" "active st'"
    using start(1) assms(4,5) by (rule start_subrequest_steps)
  have "req_header e sr k =
    (case find (\<lambda>h. same_name e (fst h) k) (rev hs) of Some h \<Rightarrow> Some (snd h) | None \<Rightarrow> req_header e sr1 k)"
    using chain(3) assms(6)
    by (intro req_headers.get_put_all(2) [OF assms(1)]) (auto simp: set_runtime_headers_put_all)
  moreover have "req_header e sr1 k = req_header e r k"
    using clone_headers_copy [OF chain(2)] chain(1) by (simp add: req_header_def find_header_def)
  ultimately show ?thesis using start(2) chain(4-6) by (simp split: option.split)
qed

theorem abi_subrequest_headers_witness:
  "\<exists>ctx' st' sr. abi_subrequest demo_http (Some 0) [0x2F] [] 0 0 (demo_ctx 0x8000) = (NGX_HTTP_WASM_OK, ctx') \<and>
     wctx ctx' = Some st' \<and> subrequest st' = Some sr \<and> req_header demo_http sr (str ''x'') = Some [2]"
proof -
  obtain ctx' where c: "abi_subrequest demo_http (Some 0) [0x2F] [] 0 0 (demo_ctx 0x8000) = (NGX_HTTP_WASM_OK, ctx')"
    by (cases "abi_subrequest demo_http (Some 0) [0x2F] [] 0 0 (demo_ctx 0x8000)")
      (simp add: abi_subrequest_def on_subrequest_def requiring_def caps start_subrequest_def Let_def
        demo_subreq_def demo_request_def copy_bytes_def subrequest_method_name_def
        subrequest_clone_headers_def push_elt_def upd_in_def zero_elt_def set_runtime_header_def
        find_header_def new_header_in_def str_def c_prefix_def to_lower_def)
  have find: "find (\<lambda>h. same_name demo_http (fst h) (str ''x'')) (rev [(str ''x'', [2]), (str ''Y'', [3])]) =
      Some (str ''x'', [2])"
    by (simp add: same_name_def str_def c_prefix_def to_lower_def)
  show ?thesis
    using abi_subrequest_headers [OF demo_http_ok _ _ _ _ _ c, where k = "str ''x''" and r = demo_request
        and st = demo_subreq and hs = "[(str ''x'', [2]), (str ''Y'', [3])]"] c find
    by (auto simp: demo_subreq_def str_def)
qed






text \<open>Capabilities. Without the capability an operation asks for, it reports an error and
  changes nothing: neither the context, nor the shared zones, nor the request, nor the
  caller's buffer.\<close>

theorem abi_capability_gate:
  assumes "capabilities ctx AND cap = 0"
  shows "(cap = CAP_SHARED_KV \<longrightarrow>
      abi_shm_get c now k buf ctx = ((NGX_HTTP_WASM_ERROR, buf), ctx) \<and>
      abi_shm_set c now k v ctx = (NGX_HTTP_WASM_ERROR, ctx) \<and>
      abi_shm_incr c now k d ctx = (NGX_HTTP_WASM_ERROR, ctx) \<and>
      abi_shm_delete c k ctx = (NGX_HTTP_WASM_ERROR, ctx)) \<and>
    (cap = CAP_METRICS \<longrightarrow> abi_metric_counter_inc c k x ctx = (NGX_HTTP_WASM_ERROR, ctx) \<and>
      abi_metric_gauge_set c k x ctx = (NGX_HTTP_WASM_ERROR, ctx) \<and>
      abi_metric_gauge_add c k x ctx = (NGX_HTTP_WASM_ERROR, ctx)) \<and>
    (cap = CAP_REQ_HEADERS_RW \<longrightarrow> abi_req_set_header e k v ctx = (NGX_HTTP_WASM_ERROR, ctx)) \<and>
    (cap = CAP_REQ_HEADERS_RO \<longrightarrow> abi_req_get_header e k buf ctx = (NGX_HTTP_WASM_ERROR, buf)) \<and>
    (cap = CAP_RESP_HEADERS_RW \<longrightarrow> abi_resp_set_header e k v ctx = (NGX_HTTP_WASM_ERROR, ctx) \<and>
      abi_resp_get_header e k buf ctx = (NGX_HTTP_WASM_ERROR, buf)) \<and>
    (cap = CAP_RESP_STATUS_SET \<longrightarrow> abi_resp_set_status st ctx = (NGX_HTTP_WASM_ERROR, ctx)) \<and>
    (cap = CAP_RESP_BODY_WRITE \<longrightarrow> abi_resp_write e v copy ctx = (NGX_HTTP_WASM_ERROR, ctx)) \<and>
    (cap = CAP_RESP_BODY_CHUNK_WRITE \<longrightarrow> abi_resp_set_body_chunk e v ctx = (NGX_HTTP_WASM_ERROR, ctx)) \<and>
    (cap = CAP_VAR_SET \<longrightarrow> abi_var_set e k v ctx = (NGX_HTTP_WASM_ERROR, ctx)) \<and>
    (cap = CAP_SUBREQUEST \<longrightarrow> abi_subrequest e limit k v st options ctx = (NGX_HTTP_WASM_ERROR, ctx) \<and>
      abi_subrequest_set_header e k v ctx = (NGX_HTTP_WASM_ERROR, ctx)) \<and>
    (cap = CAP_BALANCER \<longrightarrow> abi_balancer_set_peer n ctx = (NGX_HTTP_WASM_ERROR, ctx)) \<and>
    (cap = CAP_SSL_CERTIFICATE_SET \<longrightarrow> abi_ssl_set_certificate ssl k v ctx = (NGX_HTTP_WASM_ERROR, ctx)) \<and>
    (cap = CAP_SSL_HANDSHAKE_REJECT \<longrightarrow> abi_ssl_reject_handshake st ctx = (NGX_HTTP_WASM_ERROR, ctx)) \<and>
    (cap = CAP_TIME \<longrightarrow> abi_time_monotonic_ms now buf ctx = (NGX_HTTP_WASM_ERROR, buf))"
proof -
  have req: "abi_require ctx cap = False" using assms by (simp add: abi_require_def)
  show ?thesis
    by (intro conjI impI; use req in \<open>simp add: abi_shm_get_def abi_shm_set_def abi_shm_incr_def
      abi_shm_delete_def on_shm_def on_metrics_def requiring_def requiring_get_def abi_metric_counter_inc_def
      abi_metric_gauge_set_def abi_metric_gauge_add_def abi_req_set_header_def abi_req_get_header_def
      abi_resp_set_header_def abi_resp_get_header_def abi_resp_set_status_def abi_resp_write_def
      abi_resp_set_body_chunk_def abi_var_set_def abi_subrequest_def abi_subrequest_set_header_def
      on_subrequest_def abi_balancer_set_peer_def abi_ssl_set_certificate_def abi_ssl_reject_handshake_def
      abi_time_monotonic_ms_def write_time_def\<close>)
qed

theorem abi_capability_gate_witness:
  "abi_resp_write demo_http [1] True (demo_ctx 0x8000) = (NGX_HTTP_WASM_ERROR, demo_ctx 0x8000)"
  using abi_capability_gate [of "demo_ctx 0x8000" CAP_RESP_BODY_WRITE] by (simp add: caps)

section \<open>The response\<close>

text \<open>The \<^verbatim>\<open>Content-Type\<close> a guest sets is lost. The setter of response headers stores the
  type and a read returns it, but no operation a guest can reach sets
  \<^verbatim>\<open>content_type_set\<close>, so sending the response replaces the type by \<^verbatim>\<open>text/plain\<close>.\<close>

theorem abi_content_type_overwritten:
  assumes "nginx_http_ok e" and "request ctx = Some r" and "\<not> content_type_set ctx" and "\<not> response_sent ctx"
    and "v \<noteq> []"
    and set: "abi_resp_set_header e (str ''Content-Type'') v ctx = (NGX_HTTP_WASM_OK, ctx1)"
    and send: "abi_send_response e buf_ok ctx1 = (rc, ctx2, out)"
  shows "abi_resp_get_header e (str ''content-type'') [] ctx1 = (int (length v), []) \<and>
    (\<exists>r2. request ctx2 = Some r2 \<and> content_type (headers_out r2) = str ''text/plain'')"
proof -
  have low: "same_name e (str ''Content-Type'') (str ''content-type'')"
    using assms(1) by (simp add: same_name_lower str_def to_lower_def c_prefix_def)
  then have ct: "header_eq e (str ''Content-Type'') ''content-type''" by (simp add: header_eq_same)
  have ct': "header_eq e (str ''content-type'') ''content-type''"
    by (simp add: header_eq_same same_name_refl [OF assms(1)])
  from set have cap: "abi_require ctx CAP_RESP_HEADERS_RW"
    by (simp add: abi_resp_set_header_def requiring_def split: if_splits)
  from set cap obtain r1 where r1: "set_resp_header e r (str ''Content-Type'') v = (NGX_HTTP_WASM_OK, r1)"
      "ctx1 = ctx\<lparr>request := Some r1\<rparr>"
    by (auto simp: abi_resp_set_header_def requiring_def on_request_def assms(2) str_def
        split: prod.splits if_splits)
  from r1(1) ct have tv: "content_type (headers_out r1) = v"
    by (auto simp: set_resp_header_def resp_set_cached_header_def copy_bytes_def split: option.splits)
  have "abi_resp_get_header e (str ''content-type'') [] ctx1 = (int (length v), [])"
    using cap ct' tv assms(5)
    by (simp add: abi_resp_get_header_def requiring_get_def r1(2) abi_require_def get_resp_header_def
        resp_get_cached_header_def Let_def copy_out_def str_def)
  moreover have "\<exists>r2. request ctx2 = Some r2 \<and> content_type (headers_out r2) = str ''text/plain''"
    using send assms(3,4) by (auto simp: abi_send_response_def Let_def r1(2) split: if_splits)
  ultimately show ?thesis ..
qed

theorem abi_content_type_overwritten_witness:
  "\<exists>ctx1 ctx2 rc out. abi_resp_set_header demo_http (str ''Content-Type'') [7] (demo_ctx 0x10) = (NGX_HTTP_WASM_OK, ctx1) \<and>
     abi_send_response demo_http True ctx1 = (rc, ctx2, out) \<and>
     content_type (headers_out (the (request ctx2))) = str ''text/plain''"
proof -
  obtain ctx1 where c: "abi_resp_set_header demo_http (str ''Content-Type'') [7] (demo_ctx 0x10) = (NGX_HTTP_WASM_OK, ctx1)"
    by (cases "abi_resp_set_header demo_http (str ''Content-Type'') [7] (demo_ctx 0x10)")
      (simp add: abi_resp_set_header_def requiring_def caps on_request_def set_resp_header_def
        resp_set_cached_header_def copy_bytes_def demo_request_def header_eq_def str_def c_prefix_def to_lower_def)
  obtain rc ctx2 out where s: "abi_send_response demo_http True ctx1 = (rc, ctx2, out)"
    by (cases "abi_send_response demo_http True ctx1")
  have "\<not> content_type_set (demo_ctx 0x10)" by (simp add: demo_ctx_def abi_init_def)
  from abi_content_type_overwritten [OF demo_http_ok _ this _ _ c s] c s show ?thesis by fastforce
qed

text \<open>Sending. A response is sent at most once, with the status, the length and the body the
  guest collected; the context of a response already sent is not touched.\<close>

theorem abi_send_response_once:
  "(response_sent ctx \<longrightarrow> abi_send_response e ok ctx = (500, ctx, None)) \<and>
   (case abi_send_response e ok ctx of (rc, ctx', out) \<Rightarrow>
      (out \<noteq> None \<longrightarrow> response_sent ctx' \<and> body_set ctx \<and> fst (the out) = abi_body ctx \<and> abi_body ctx \<noteq> []) \<and>
      (\<not> response_sent ctx \<and> response_sent ctx' \<longrightarrow>
         (\<exists>r. request ctx' = Some r \<and> status (headers_out r) = abi_status ctx \<and>
            content_length_n (headers_out r) = (if body_set ctx then int (length (abi_body ctx)) else 0) \<and>
            (body_set ctx \<and> abi_body ctx \<noteq> [] \<longrightarrow> out = Some (abi_body ctx, is_main r)))))"
  by (auto simp: abi_send_response_def Let_def)

theorem abi_send_response_once_witness:
  "\<exists>ctx'. abi_send_response demo_http True ((demo_ctx 0)\<lparr>abi_body := [1, 2], body_set := True\<rparr>) =
     (NGX_OK, ctx', Some ([1, 2], True)) \<and> abi_send_response demo_http True ctx' = (500, ctx', None)"
proof -
  let ?c = "(demo_ctx 0)\<lparr>abi_body := [1, 2], body_set := True\<rparr>"
  obtain ctx' where s: "abi_send_response demo_http True ?c = (NGX_OK, ctx', Some ([1, 2], True))"
    by (cases "abi_send_response demo_http True ?c")
      (auto simp: abi_send_response_def Let_def demo_request_def)
  from abi_send_response_once [of ?c demo_http True] s have "response_sent ctx'" by auto
  with abi_send_response_once [of ctx' demo_http True] s show ?thesis by blast
qed

definition read_u64_le :: "bytes \<Rightarrow> u64" where
  "read_u64_le bs = foldr (\<lambda>b acc. ucast b OR push_bit 8 acc) bs 0"

lemma bit_read_u64_le:
  "n < 64 \<Longrightarrow> bit (read_u64_le bs) n \<longleftrightarrow> n div 8 < length bs \<and> bit (bs ! (n div 8)) (n mod 8)"
proof (induction bs arbitrary: n)
  case Nil
  then show ?case by (simp add: read_u64_le_def)
next
  case (Cons b bs)
  have step: "bit (read_u64_le (b # bs)) n \<longleftrightarrow> bit b n \<or> 8 \<le> n \<and> bit (read_u64_le bs) (n - 8)"
    using Cons.prems by (simp add: read_u64_le_def bit_or_iff bit_ucast_iff bit_push_bit_iff del: push_bit_numeral_minus_1)
  show ?case
  proof (cases "n < 8")
    case True
    with step show ?thesis by simp
  next
    case False
    then have "\<not> bit b n" using bit_imp_le_length [of b n] by auto
    with False step Cons.IH [of "n - 8"] Cons.prems show ?thesis
      by (simp add: le_div_geq le_mod_geq)
  qed
qed

lemma read_write_u64_le: "read_u64_le (write_u64_le v) = v"
proof (rule bit_eqI)
  fix n assume "possible_bit TYPE(64 word) n"
  then have n: "n < 64" by simp
  have m: "(0xff :: u64) = mask 8" by (simp add: mask_eq_exp_minus_1)
  have byte: "bit (write_u64_le v ! k) j = bit v (8 * k + j)" if "k < 8" "j < 8" for k j
  proof -
    from that(1) consider "k = 0" | "k = 1" | "k = 2" | "k = 3" | "k = 4" | "k = 5" | "k = 6" | "k = 7"
      by linarith
    then show ?thesis using that(2) by cases (auto simp: write_u64_le_def m bit_simps)
  qed
  have "length (write_u64_le v) = 8" by (simp add: write_u64_le_def)
  moreover have "n div 8 < 8" using n by (simp add: less_mult_imp_div_less)
  ultimately show "bit (read_u64_le (write_u64_le v)) n = bit v n"
    using n byte [of "n div 8" "n mod 8"] by (simp add: bit_read_u64_le)
qed

text \<open>The clocks write eight bytes, least significant first, whose value is the time; a
  shorter buffer is refused and keeps its contents.\<close>

theorem abi_time_little_endian:
  assumes "abi_require ctx CAP_TIME"
  shows "(length buf < 8 \<longrightarrow> abi_time_unix_ms tp buf ctx = (NGX_HTTP_WASM_ERROR, buf)) \<and>
    (8 \<le> length buf \<longrightarrow> (\<exists>buf'. abi_time_unix_ms tp buf ctx = (NGX_HTTP_WASM_OK, buf') \<and>
       length buf' = length buf \<and> drop 8 buf' = drop 8 buf \<and>
       read_u64_le (take 8 buf') = fst tp * 1000 + snd tp))"
proof -
  have len: "length (write_u64_le v) = 8" for v by (simp add: write_u64_le_def)
  show ?thesis
    using assms copy_out_fits [of "write_u64_le (fst tp * 1000 + snd tp)" buf]
    by (auto simp: abi_time_unix_ms_def write_time_def requiring_get_def len drop_copy_out read_write_u64_le)
qed

theorem abi_time_little_endian_witness:
  "\<exists>buf'. abi_time_unix_ms (1, 24) (replicate 9 0) (demo_ctx 0x80000) = (NGX_HTTP_WASM_OK, buf') \<and>
     read_u64_le (take 8 buf') = 1024"
  using abi_time_little_endian [of "demo_ctx 0x80000" "replicate 9 0" "(1, 24)"] by (auto simp: caps)

end
