(* ===== verification/Exec.thy ===== *)
theory Exec
  imports Subrequest
begin

text \<open>
  The execution context, \<^verbatim>\<open>include/ngx_http_wasm_runtime.h\<close> and the two initialisers of
  \<^verbatim>\<open>src/ngx_http_wasm_runtime.c\<close>: the phases, the state of an execution, and the capabilities
  each phase grants to the guest.
\<close>

section \<open>Data\<close>

datatype exec_state = EXEC_READY | EXEC_RUNNING | EXEC_SUSPENDED | EXEC_DONE | EXEC_ERROR

datatype suspend_kind = SUSPEND_NONE | SUSPEND_RESCHEDULE | SUSPEND_WAIT_IO

datatype phase =
    PHASE_CONTENT
  | PHASE_REWRITE
  | PHASE_SERVER_REWRITE
  | PHASE_BALANCER
  | PHASE_HEADER_FILTER
  | PHASE_BODY_FILTER
  | PHASE_LOG
  | PHASE_SSL_CLIENT_HELLO
  | PHASE_SSL_CERTIFICATE

text \<open>A statement about all phases is a finite conjunction.\<close>

instantiation phase :: enum
begin

definition "enum_phase = [PHASE_CONTENT, PHASE_REWRITE, PHASE_SERVER_REWRITE, PHASE_BALANCER,
  PHASE_HEADER_FILTER, PHASE_BODY_FILTER, PHASE_LOG, PHASE_SSL_CLIENT_HELLO, PHASE_SSL_CERTIFICATE]"

definition "enum_all_phase P \<longleftrightarrow> list_all P (enum_class.enum :: phase list)"

definition "enum_ex_phase P \<longleftrightarrow> list_ex P (enum_class.enum :: phase list)"

instance
proof
  show univ: "(UNIV :: phase set) = set enum_class.enum"
    unfolding enum_phase_def by (auto intro: phase.exhaust)
  show "distinct (enum_class.enum :: phase list)" by (simp add: enum_phase_def)
  show "enum_class.enum_all P \<longleftrightarrow> Ball UNIV P" for P :: "phase \<Rightarrow> bool"
    unfolding univ by (simp add: enum_all_phase_def list_all_iff)
  show "enum_class.enum_ex P \<longleftrightarrow> Bex UNIV P" for P :: "phase \<Rightarrow> bool"
    unfolding univ by (simp add: enum_ex_phase_def list_ex_iff)
qed

end

text \<open>
  A module of the cache: the compiled code is a NULL pointer until compilation succeeded. The
  configuration of a phase points to the module it runs. \<open>phase_set\<close> is \<open>None\<close> while it is
  \<^verbatim>\<open>NGX_CONF_UNSET\<close>, the strings are \<open>None\<close> while their data is NULL.
\<close>

record 'm cached_module =
  module_path :: bytes
  compiled :: "'m option"

record 'm phase_conf =
  phase_set :: "bool option"
  phase_module :: "'m cached_module option"
  phase_module_path :: "bytes option"
  phase_export :: "bytes option"

text \<open>
  \<^verbatim>\<open>ngx_http_wasm_exec_ctx_t\<close>, without the pointers to the request and the connection, which
  are those of \<open>exec_abi\<close>, and without \<^verbatim>\<open>resume_state\<close>, which the runtime passes beside it.
  \<open>runtime_ready\<close> says that the runtime has an engine and a linker.
\<close>

record ('p, 's, 'c, 'm) exec_ctx =
  exec_conf :: "'m phase_conf"
  runtime_ready :: bool
  exec_abi :: "('p, 's, 'c) abi_ctx"
  fuel_limit :: u64
  timeslice_fuel :: u64
  fuel_remaining :: u64
  exec_state :: exec_state
  suspend_kind :: suspend_kind
  phase_kind :: phase
  yielded :: bool

section \<open>Capabilities of the phases\<close>

definition request_capabilities :: u64 where
  "request_capabilities =
     CAP_REQ_HEADERS_RO OR CAP_REQ_HEADERS_RW OR CAP_VAR_GET OR CAP_VAR_SET OR CAP_TIME OR
     CAP_REQ_BODY_GET OR CAP_RESP_STATUS_SET OR CAP_RESP_STATUS_GET OR CAP_RESP_HEADERS_RW OR
     CAP_RESP_BODY_WRITE OR CAP_YIELD OR CAP_SHARED_KV OR CAP_METRICS OR CAP_SUBREQUEST"

definition phase_capabilities :: "phase \<Rightarrow> u64" where
  "phase_capabilities phase =
     (if phase = PHASE_HEADER_FILTER
      then CAP_REQ_HEADERS_RO OR CAP_VAR_GET OR CAP_TIME OR CAP_RESP_STATUS_SET OR
           CAP_RESP_HEADERS_RW OR CAP_SHARED_KV OR CAP_METRICS
      else if phase = PHASE_BALANCER
      then CAP_REQ_HEADERS_RO OR CAP_VAR_GET OR CAP_VAR_SET OR CAP_TIME OR CAP_SHARED_KV OR
           CAP_METRICS OR CAP_BALANCER
      else if phase = PHASE_BODY_FILTER
      then CAP_REQ_HEADERS_RO OR CAP_VAR_GET OR CAP_TIME OR CAP_RESP_HEADERS_RW OR
           CAP_RESP_BODY_CHUNK_READ OR CAP_RESP_BODY_CHUNK_WRITE OR CAP_SHARED_KV OR CAP_METRICS
      else if phase = PHASE_LOG
      then CAP_REQ_HEADERS_RO OR CAP_VAR_GET OR CAP_TIME OR CAP_RESP_STATUS_GET OR
           CAP_SHARED_KV OR CAP_METRICS
      else if phase = PHASE_SSL_CLIENT_HELLO
      then CAP_SSL_SERVER_NAME_GET OR CAP_SSL_HANDSHAKE_REJECT OR CAP_TIME
      else if phase = PHASE_SSL_CERTIFICATE
      then CAP_SSL_SERVER_NAME_GET OR CAP_SSL_HANDSHAKE_REJECT OR CAP_SSL_CERTIFICATE_SET OR CAP_TIME
      else request_capabilities)"

definition ssl_capabilities :: "phase \<Rightarrow> u64" where
  "ssl_capabilities phase =
     (if phase = PHASE_SSL_CLIENT_HELLO
      then CAP_SSL_SERVER_NAME_GET OR CAP_SSL_HANDSHAKE_REJECT OR CAP_TIME
      else if phase = PHASE_SSL_CERTIFICATE
      then CAP_SSL_SERVER_NAME_GET OR CAP_SSL_HANDSHAKE_REJECT OR CAP_SSL_CERTIFICATE_SET OR CAP_TIME
      else CAP_SSL_SERVER_NAME_GET OR CAP_TIME)"

section \<open>Initialisation\<close>

text \<open>
  The context of a phase that has a request, and that of a TLS handshake, which has a
  connection only. \<open>w\<close> is the subrequest state of the request's module context.
\<close>

definition init_exec_ctx ::
  "'p http_request \<Rightarrow> 's shm_zone option \<Rightarrow> 's metrics_zone option \<Rightarrow> 'p subreq_state option
     \<Rightarrow> 'm phase_conf \<Rightarrow> phase \<Rightarrow> bool \<Rightarrow> ('p, 's, 'c, 'm) exec_ctx" where
  "init_exec_ctx r shm mz w conf phase runtime =
     \<lparr>exec_conf = conf, runtime_ready = runtime,
      exec_abi = abi_init (Some r) None shm mz w (phase_capabilities phase),
      fuel_limit = 0, timeslice_fuel = 0, fuel_remaining = 0, exec_state = EXEC_READY,
      suspend_kind = SUSPEND_NONE, phase_kind = phase, yielded = False\<rparr>"

definition init_ssl_exec_ctx ::
  "'c \<Rightarrow> 'm phase_conf \<Rightarrow> phase \<Rightarrow> bool \<Rightarrow> ('p, 's, 'c, 'm) exec_ctx" where
  "init_ssl_exec_ctx ssl conf phase runtime =
     \<lparr>exec_conf = conf, runtime_ready = runtime,
      exec_abi = abi_init None (Some ssl) None None None (ssl_capabilities phase),
      fuel_limit = 0, timeslice_fuel = 0, fuel_remaining = 0, exec_state = EXEC_READY,
      suspend_kind = SUSPEND_NONE, phase_kind = phase, yielded = False\<rparr>"

lemma init_exec_ctx_sel [simp]:
  "exec_abi (init_exec_ctx r shm mz w conf phase rt) = abi_init (Some r) None shm mz w (phase_capabilities phase)"
  "exec_abi (init_ssl_exec_ctx ssl conf phase rt) = abi_init None (Some ssl) None None None (ssl_capabilities phase)"
  "phase_kind (init_exec_ctx r shm mz w conf phase rt) = phase"
  "exec_state (init_exec_ctx r shm mz w conf phase rt) = EXEC_READY"
  "yielded (init_exec_ctx r shm mz w conf phase rt) = False"
  "suspend_kind (init_exec_ctx r shm mz w conf phase rt) = SUSPEND_NONE"
  by (simp_all add: init_exec_ctx_def init_ssl_exec_ctx_def)

lemma abi_init_sel [simp]:
  "request (abi_init r ssl shm mz w cs) = r" "ssl_conn (abi_init r ssl shm mz w cs) = ssl"
  "capabilities (abi_init r ssl shm mz w cs) = cs" "wctx (abi_init r ssl shm mz w cs) = w"
  "shm_zone (abi_init r ssl shm mz w cs) = shm" "metrics_zone (abi_init r ssl shm mz w cs) = mz"
  "response_sent (abi_init r ssl shm mz w cs) = False" "content_type_set (abi_init r ssl shm mz w cs) = False"
  by (simp_all add: abi_init_def)

end
