(* ===== verification/Host.thy ===== *)
theory Host
  imports Exec
begin

text \<open>
  The host functions, \<^verbatim>\<open>src/ngx_http_wasm_runtime.c\<close>: what a guest import does before and
  after the operation of the guest ABI it stands for. The arguments are checked, the spans of
  guest memory are bounds-checked and read, the phase's capability is required, and the result
  and the caller's buffer are written back.
\<close>

section \<open>Values, memory, results\<close>

datatype wasm_val = I32 u32 | I64 u64 | F32 u32 | F64 u64 | V128 "128 word" | Ref "nat option"

fun is_i32 :: "wasm_val \<Rightarrow> bool" where
  "is_i32 (I32 _) = True"
| "is_i32 _ = False"

fun i32_of :: "wasm_val \<Rightarrow> u32" where
  "i32_of (I32 w) = w"
| "i32_of _ = 0"

text \<open>
  The caller is the guest's exported memory, \<open>None\<close> when there is no export of that name that
  is a memory, and the execution context behind the store. A host function traps, or returns
  a 32-bit value and the caller's new state. \<open>Wild\<close> is the remaining case: a length that is
  negative as a signed number went through the unsigned bounds check and is sign-extended to
  \<^verbatim>\<open>size_t\<close>, so the span it describes is no span of the guest's memory; what the operation
  does with it is not modelled. A host function without the check for negative arguments has
  this outcome, in memories of at least two gigabytes only.
\<close>

type_synonym ('p, 's, 'c, 'm) caller = "bytes option \<times> ('p, 's, 'c, 'm) exec_ctx"

datatype 'x host_result = Trap string | Wild | Ret u32 'x

type_synonym ('p, 's, 'c, 'm) host_fn =
  "wasm_val list \<Rightarrow> nat \<Rightarrow> ('p, 's, 'c, 'm) caller \<Rightarrow> ('p, 's, 'c, 'm) caller host_result"

text \<open>What the operations use of nginx and OpenSSL, and the clocks they read.\<close>

record ('p, 's, 'c, 'x, 'k) host_env =
  http :: "'p nginx_http"
  core :: "'s nginx_core"
  ossl :: "('c, 'x, 'k) openssl"
  current_msec :: u64
  timeofday :: "u64 \<times> u64"
  subrequest_buffer :: "nat option"

definition bad_signature :: "string \<Rightarrow> 'x host_result" where
  "bad_signature name = Trap (''bad '' @ name @ '' signature'')"

definition phase_forbidden :: "string \<Rightarrow> 'x host_result" where
  "phase_forbidden name = Trap (name @ '' not allowed in this phase'')"

definition get_memory :: "bytes option \<Rightarrow> u32 \<Rightarrow> u32 \<Rightarrow> string + bytes" where
  "get_memory mem ptr len =
     (case mem of
        None \<Rightarrow> Inl ''guest memory export not found''
      | Some m \<Rightarrow>
          if unat ptr + unat len > length m then Inl ''guest memory access out of bounds''
          else Inr (take (unat len) (drop (unat ptr) m)))"

definition put_memory :: "bytes option \<Rightarrow> u32 \<Rightarrow> bytes \<Rightarrow> bytes option" where
  "put_memory mem ptr d = map_option (\<lambda>m. mem_write m (unat ptr) d) mem"

section \<open>The steps of a host function\<close>

definition sig_ok :: "nat \<Rightarrow> wasm_val list \<Rightarrow> nat \<Rightarrow> bool" where
  "sig_ok n args nresults \<longleftrightarrow> length args = n \<and> nresults = 1 \<and> list_all is_i32 args"

definition with_sig :: "string \<Rightarrow> nat \<Rightarrow> wasm_val list \<Rightarrow> nat \<Rightarrow> (u32 list \<Rightarrow> 'x host_result) \<Rightarrow> 'x host_result" where
  "with_sig name n args nresults k =
     (if \<not> sig_ok n args nresults then bad_signature name else k (map i32_of args))"

definition nonneg :: "u32 list \<Rightarrow> 'x \<Rightarrow> 'x host_result \<Rightarrow> 'x host_result" where
  "nonneg as x k = (if \<exists>a \<in> set as. a <s 0 then Ret (word_of_int NGX_HTTP_WASM_ERROR) x else k)"

definition reading ::
  "('p, 's, 'c, 'm) caller \<Rightarrow> u32 \<Rightarrow> u32 \<Rightarrow> (bytes \<Rightarrow> 'x host_result) \<Rightarrow> 'x host_result" where
  "reading x ptr len k = (case get_memory (fst x) ptr len of Inl t \<Rightarrow> Trap t | Inr d \<Rightarrow> k d)"

definition allowed ::
  "u64 \<Rightarrow> string \<Rightarrow> ('p, 's, 'c, 'm) caller \<Rightarrow> 'x host_result \<Rightarrow> 'x host_result" where
  "allowed cap name x k =
     (if capabilities (exec_abi (snd x)) AND cap = 0 then phase_forbidden name else k)"

definition sized :: "u32 list \<Rightarrow> 'x host_result \<Rightarrow> 'x host_result" where
  "sized lens k = (if \<exists>l \<in> set lens. l <s 0 then Wild else k)"

text \<open>Returning: a value only, a value and a new context, a value and the contents of the buffer.\<close>

definition ret_value :: "('p, 's, 'c, 'm) caller \<Rightarrow> int \<Rightarrow> ('p, 's, 'c, 'm) caller host_result" where
  "ret_value x rc = Ret (word_of_int rc) x"

definition ret_ctx ::
  "('p, 's, 'c, 'm) caller \<Rightarrow> int \<times> ('p, 's, 'c) abi_ctx \<Rightarrow> ('p, 's, 'c, 'm) caller host_result" where
  "ret_ctx x r = Ret (word_of_int (fst r)) (fst x, (snd x)\<lparr>exec_abi := snd r\<rparr>)"

definition ret_buf ::
  "('p, 's, 'c, 'm) caller \<Rightarrow> u32 \<Rightarrow> int \<times> bytes \<Rightarrow> ('p, 's, 'c, 'm) caller host_result" where
  "ret_buf x ptr r = Ret (word_of_int (fst r)) (put_memory (fst x) ptr (snd r), snd x)"

definition ret_buf_ctx ::
  "('p, 's, 'c, 'm) caller \<Rightarrow> u32 \<Rightarrow> (int \<times> bytes) \<times> ('p, 's, 'c) abi_ctx
     \<Rightarrow> ('p, 's, 'c, 'm) caller host_result" where
  "ret_buf_ctx x ptr r =
     Ret (word_of_int (fst (fst r)))
       (put_memory (fst x) ptr (snd (fst r)), (snd x)\<lparr>exec_abi := snd r\<rparr>)"

abbreviation (input) abi_of :: "('p, 's, 'c, 'm) caller \<Rightarrow> ('p, 's, 'c) abi_ctx" where
  "abi_of x \<equiv> exec_abi (snd x)"

lemmas host_defs = bad_signature_def phase_forbidden_def with_sig_def nonneg_def reading_def
  allowed_def sized_def ret_value_def ret_ctx_def ret_buf_def ret_buf_ctx_def

section \<open>Logging and status\<close>

text \<open>The logger reads at most 1024 bytes, so a length that is negative is as good as a large one.\<close>

definition host_log :: "('p, 's, 'c, 'm) host_fn" where
  "host_log args nresults x =
     with_sig ''ngx_wasm_log'' 3 args nresults (\<lambda>a.
       reading x (a ! 1) (a ! 2) (\<lambda>d.
       ret_ctx x (abi_log (unat (scast (a ! 0) :: u64)) d (abi_of x))))"

definition host_resp_set_status :: "('p, 's, 'c, 'm) host_fn" where
  "host_resp_set_status args nresults x =
     with_sig ''ngx_wasm_resp_set_status'' 1 args nresults (\<lambda>a.
       allowed CAP_RESP_STATUS_SET ''ngx_wasm_resp_set_status'' x (
       ret_ctx x (abi_resp_set_status (sint (a ! 0)) (abi_of x))))"

definition host_resp_get_status :: "('p, 's, 'c, 'm) host_fn" where
  "host_resp_get_status args nresults x =
     with_sig ''ngx_wasm_resp_get_status'' 0 args nresults (\<lambda>_.
       allowed CAP_RESP_STATUS_GET ''ngx_wasm_resp_get_status'' x (
       ret_value x (abi_resp_get_status (abi_of x))))"

section \<open>Metrics\<close>

definition host_metric_counter_inc :: "('p, 's, 'c, 'x, 'k) host_env \<Rightarrow> ('p, 's, 'c, 'm) host_fn" where
  "host_metric_counter_inc h args nresults x =
     with_sig ''ngx_wasm_metric_counter_inc'' 3 args nresults (\<lambda>a.
       nonneg [a ! 0, a ! 1] x (
       reading x (a ! 0) (a ! 1) (\<lambda>name.
       allowed CAP_METRICS ''ngx_wasm_metric_counter_inc'' x (
       ret_ctx x (abi_metric_counter_inc (core h) name (scast (a ! 2)) (abi_of x))))))"

definition host_metric_gauge_set :: "('p, 's, 'c, 'x, 'k) host_env \<Rightarrow> ('p, 's, 'c, 'm) host_fn" where
  "host_metric_gauge_set h args nresults x =
     with_sig ''ngx_wasm_metric_gauge_set'' 3 args nresults (\<lambda>a.
       nonneg [a ! 0, a ! 1] x (
       reading x (a ! 0) (a ! 1) (\<lambda>name.
       allowed CAP_METRICS ''ngx_wasm_metric_gauge_set'' x (
       ret_ctx x (abi_metric_gauge_set (core h) name (scast (a ! 2)) (abi_of x))))))"

definition host_metric_gauge_add :: "('p, 's, 'c, 'x, 'k) host_env \<Rightarrow> ('p, 's, 'c, 'm) host_fn" where
  "host_metric_gauge_add h args nresults x =
     with_sig ''ngx_wasm_metric_gauge_add'' 3 args nresults (\<lambda>a.
       nonneg [a ! 0, a ! 1] x (
       reading x (a ! 0) (a ! 1) (\<lambda>name.
       allowed CAP_METRICS ''ngx_wasm_metric_gauge_add'' x (
       ret_ctx x (abi_metric_gauge_add (core h) name (scast (a ! 2)) (abi_of x))))))"

section \<open>Balancer and TLS\<close>

definition host_balancer_set_peer :: "('p, 's, 'c, 'm) host_fn" where
  "host_balancer_set_peer args nresults x =
     with_sig ''ngx_wasm_balancer_set_peer'' 1 args nresults (\<lambda>a.
       nonneg a x (
       allowed CAP_BALANCER ''ngx_wasm_balancer_set_peer'' x (
       ret_ctx x (abi_balancer_set_peer (unat (a ! 0)) (abi_of x)))))"

definition host_ssl_get_server_name :: "('p, 's, 'c, 'x, 'k) host_env \<Rightarrow> ('p, 's, 'c, 'm) host_fn" where
  "host_ssl_get_server_name h args nresults x =
     with_sig ''ngx_wasm_ssl_get_server_name'' 2 args nresults (\<lambda>a.
       reading x (a ! 0) (a ! 1) (\<lambda>buf.
       sized [a ! 1] (
       ret_buf x (a ! 0) (abi_ssl_get_server_name (ossl h) buf (abi_of x)))))"

definition host_ssl_reject_handshake :: "('p, 's, 'c, 'm) host_fn" where
  "host_ssl_reject_handshake args nresults x =
     with_sig ''ngx_wasm_ssl_reject_handshake'' 1 args nresults (\<lambda>a.
       ret_ctx x (abi_ssl_reject_handshake (sint (a ! 0)) (abi_of x)))"

definition host_ssl_set_certificate :: "('p, 's, 'c, 'x, 'k) host_env \<Rightarrow> ('p, 's, 'c, 'm) host_fn" where
  "host_ssl_set_certificate h args nresults x =
     with_sig ''ngx_wasm_ssl_set_certificate'' 4 args nresults (\<lambda>a.
       reading x (a ! 0) (a ! 1) (\<lambda>cert.
       reading x (a ! 2) (a ! 3) (\<lambda>key.
       sized [a ! 1, a ! 3] (
       ret_ctx x (abi_ssl_set_certificate (ossl h) cert key (abi_of x))))))"

section \<open>Shared key-value store\<close>

definition host_shm_get :: "('p, 's, 'c, 'x, 'k) host_env \<Rightarrow> ('p, 's, 'c, 'm) host_fn" where
  "host_shm_get h args nresults x =
     with_sig ''ngx_wasm_shm_get'' 4 args nresults (\<lambda>a.
       nonneg a x (
       reading x (a ! 0) (a ! 1) (\<lambda>key.
       reading x (a ! 2) (a ! 3) (\<lambda>buf.
       allowed CAP_SHARED_KV ''ngx_wasm_shm_get'' x (
       ret_buf_ctx x (a ! 2) (abi_shm_get (core h) (current_msec h) key buf (abi_of x)))))))"

definition host_shm_exists :: "('p, 's, 'c, 'x, 'k) host_env \<Rightarrow> ('p, 's, 'c, 'm) host_fn" where
  "host_shm_exists h args nresults x =
     with_sig ''ngx_wasm_shm_exists'' 2 args nresults (\<lambda>a.
       nonneg a x (
       reading x (a ! 0) (a ! 1) (\<lambda>key.
       allowed CAP_SHARED_KV ''ngx_wasm_shm_exists'' x (
       ret_ctx x (abi_shm_exists (core h) (current_msec h) key (abi_of x))))))"

definition host_shm_incr :: "('p, 's, 'c, 'x, 'k) host_env \<Rightarrow> ('p, 's, 'c, 'm) host_fn" where
  "host_shm_incr h args nresults x =
     with_sig ''ngx_wasm_shm_incr'' 3 args nresults (\<lambda>a.
       nonneg [a ! 0, a ! 1] x (
       reading x (a ! 0) (a ! 1) (\<lambda>key.
       allowed CAP_SHARED_KV ''ngx_wasm_shm_incr'' x (
       ret_ctx x (abi_shm_incr (core h) (current_msec h) key (sint (a ! 2)) (abi_of x))))))"

definition host_shm_set :: "('p, 's, 'c, 'x, 'k) host_env \<Rightarrow> ('p, 's, 'c, 'm) host_fn" where
  "host_shm_set h args nresults x =
     with_sig ''ngx_wasm_shm_set'' 4 args nresults (\<lambda>a.
       nonneg a x (
       reading x (a ! 0) (a ! 1) (\<lambda>key.
       reading x (a ! 2) (a ! 3) (\<lambda>v.
       allowed CAP_SHARED_KV ''ngx_wasm_shm_set'' x (
       ret_ctx x (abi_shm_set (core h) (current_msec h) key v (abi_of x)))))))"

definition host_shm_set_ex :: "('p, 's, 'c, 'x, 'k) host_env \<Rightarrow> ('p, 's, 'c, 'm) host_fn" where
  "host_shm_set_ex h args nresults x =
     with_sig ''ngx_wasm_shm_set_ex'' 5 args nresults (\<lambda>a.
       nonneg a x (
       reading x (a ! 0) (a ! 1) (\<lambda>key.
       reading x (a ! 2) (a ! 3) (\<lambda>v.
       allowed CAP_SHARED_KV ''ngx_wasm_shm_set_ex'' x (
       ret_ctx x (abi_shm_set_ex (core h) (current_msec h) key v (scast (a ! 4)) (abi_of x)))))))"

definition host_shm_add :: "('p, 's, 'c, 'x, 'k) host_env \<Rightarrow> ('p, 's, 'c, 'm) host_fn" where
  "host_shm_add h args nresults x =
     with_sig ''ngx_wasm_shm_add'' 4 args nresults (\<lambda>a.
       nonneg a x (
       reading x (a ! 0) (a ! 1) (\<lambda>key.
       reading x (a ! 2) (a ! 3) (\<lambda>v.
       allowed CAP_SHARED_KV ''ngx_wasm_shm_add'' x (
       ret_ctx x (abi_shm_add (core h) (current_msec h) key v (abi_of x)))))))"

definition host_shm_replace :: "('p, 's, 'c, 'x, 'k) host_env \<Rightarrow> ('p, 's, 'c, 'm) host_fn" where
  "host_shm_replace h args nresults x =
     with_sig ''ngx_wasm_shm_replace'' 4 args nresults (\<lambda>a.
       nonneg a x (
       reading x (a ! 0) (a ! 1) (\<lambda>key.
       reading x (a ! 2) (a ! 3) (\<lambda>v.
       allowed CAP_SHARED_KV ''ngx_wasm_shm_replace'' x (
       ret_ctx x (abi_shm_replace (core h) (current_msec h) key v (abi_of x)))))))"

definition host_shm_delete :: "('p, 's, 'c, 'x, 'k) host_env \<Rightarrow> ('p, 's, 'c, 'm) host_fn" where
  "host_shm_delete h args nresults x =
     with_sig ''ngx_wasm_shm_delete'' 2 args nresults (\<lambda>a.
       nonneg a x (
       reading x (a ! 0) (a ! 1) (\<lambda>key.
       allowed CAP_SHARED_KV ''ngx_wasm_shm_delete'' x (
       ret_ctx x (abi_shm_delete (core h) key (abi_of x))))))"

section \<open>Request\<close>

definition host_req_set_header :: "('p, 's, 'c, 'x, 'k) host_env \<Rightarrow> ('p, 's, 'c, 'm) host_fn" where
  "host_req_set_header h args nresults x =
     with_sig ''ngx_wasm_req_set_header'' 4 args nresults (\<lambda>a.
       reading x (a ! 0) (a ! 1) (\<lambda>name.
       reading x (a ! 2) (a ! 3) (\<lambda>v.
       allowed CAP_REQ_HEADERS_RW ''ngx_wasm_req_set_header'' x (
       sized [a ! 1, a ! 3] (
       ret_ctx x (abi_req_set_header (http h) name v (abi_of x)))))))"

definition host_req_get_header :: "('p, 's, 'c, 'x, 'k) host_env \<Rightarrow> ('p, 's, 'c, 'm) host_fn" where
  "host_req_get_header h args nresults x =
     with_sig ''ngx_wasm_req_get_header'' 4 args nresults (\<lambda>a.
       nonneg a x (
       reading x (a ! 0) (a ! 1) (\<lambda>name.
       reading x (a ! 2) (a ! 3) (\<lambda>buf.
       ret_buf x (a ! 2) (abi_req_get_header (http h) name buf (abi_of x))))))"

definition host_var_get :: "('p, 's, 'c, 'x, 'k) host_env \<Rightarrow> ('p, 's, 'c, 'm) host_fn" where
  "host_var_get h args nresults x =
     with_sig ''ngx_wasm_var_get'' 4 args nresults (\<lambda>a.
       nonneg a x (
       reading x (a ! 0) (a ! 1) (\<lambda>name.
       reading x (a ! 2) (a ! 3) (\<lambda>buf.
       allowed CAP_VAR_GET ''ngx_wasm_var_get'' x (
       ret_buf_ctx x (a ! 2) (abi_var_get (http h) name buf (abi_of x)))))))"

definition host_var_set :: "('p, 's, 'c, 'x, 'k) host_env \<Rightarrow> ('p, 's, 'c, 'm) host_fn" where
  "host_var_set h args nresults x =
     with_sig ''ngx_wasm_var_set'' 4 args nresults (\<lambda>a.
       nonneg a x (
       reading x (a ! 0) (a ! 1) (\<lambda>name.
       reading x (a ! 2) (a ! 3) (\<lambda>v.
       allowed CAP_VAR_SET ''ngx_wasm_var_set'' x (
       ret_ctx x (abi_var_set (http h) name v (abi_of x)))))))"

definition host_time_unix_ms :: "('p, 's, 'c, 'x, 'k) host_env \<Rightarrow> ('p, 's, 'c, 'm) host_fn" where
  "host_time_unix_ms h args nresults x =
     with_sig ''ngx_wasm_time_unix_ms'' 2 args nresults (\<lambda>a.
       nonneg a x (
       reading x (a ! 0) (a ! 1) (\<lambda>buf.
       allowed CAP_TIME ''ngx_wasm_time_unix_ms'' x (
       ret_buf x (a ! 0) (abi_time_unix_ms (timeofday h) buf (abi_of x))))))"

definition host_time_monotonic_ms :: "('p, 's, 'c, 'x, 'k) host_env \<Rightarrow> ('p, 's, 'c, 'm) host_fn" where
  "host_time_monotonic_ms h args nresults x =
     with_sig ''ngx_wasm_time_monotonic_ms'' 2 args nresults (\<lambda>a.
       nonneg a x (
       reading x (a ! 0) (a ! 1) (\<lambda>buf.
       allowed CAP_TIME ''ngx_wasm_time_monotonic_ms'' x (
       ret_buf x (a ! 0) (abi_time_monotonic_ms (current_msec h) buf (abi_of x))))))"

definition host_req_get_body :: "('p, 's, 'c, 'm) host_fn" where
  "host_req_get_body args nresults x =
     with_sig ''ngx_wasm_req_get_body'' 2 args nresults (\<lambda>a.
       nonneg a x (
       reading x (a ! 0) (a ! 1) (\<lambda>buf.
       allowed CAP_REQ_BODY_GET ''ngx_wasm_req_get_body'' x (
       ret_buf x (a ! 0) (abi_req_get_body buf (abi_of x))))))"

section \<open>Subrequests\<close>

definition host_subreq_set_header :: "('p, 's, 'c, 'x, 'k) host_env \<Rightarrow> ('p, 's, 'c, 'm) host_fn" where
  "host_subreq_set_header h args nresults x =
     with_sig ''ngx_wasm_subreq_set_header'' 4 args nresults (\<lambda>a.
       reading x (a ! 0) (a ! 1) (\<lambda>name.
       reading x (a ! 2) (a ! 3) (\<lambda>v.
       allowed CAP_SUBREQUEST ''ngx_wasm_subreq_set_header'' x (
       sized [a ! 1, a ! 3] (
       ret_ctx x (abi_subrequest_set_header (http h) name v (abi_of x)))))))"

text \<open>A subrequest that was started suspends the guest until it has ended.\<close>

definition host_subreq :: "('p, 's, 'c, 'x, 'k) host_env \<Rightarrow> ('p, 's, 'c, 'm) host_fn" where
  "host_subreq h args nresults x =
     with_sig ''ngx_wasm_subreq'' 6 args nresults (\<lambda>a.
       reading x (a ! 0) (a ! 1) (\<lambda>uri.
       reading x (a ! 2) (a ! 3) (\<lambda>query.
       allowed CAP_SUBREQUEST ''ngx_wasm_subreq'' x (
       sized [a ! 1, a ! 3] (
       case abi_subrequest (http h) (subrequest_buffer h) uri query (sint (a ! 4)) (a ! 5) (abi_of x) of
         (rc, ctx) \<Rightarrow>
           Ret (word_of_int rc)
             (fst x, if rc = NGX_HTTP_WASM_OK
                     then (snd x)\<lparr>exec_abi := ctx, yielded := True, suspend_kind := SUSPEND_WAIT_IO\<rparr>
                     else (snd x)\<lparr>exec_abi := ctx\<rparr>))))))"

definition host_subreq_get_status :: "('p, 's, 'c, 'm) host_fn" where
  "host_subreq_get_status args nresults x =
     with_sig ''ngx_wasm_subreq_get_status'' 0 args nresults (\<lambda>_.
       allowed CAP_SUBREQUEST ''ngx_wasm_subreq_get_status'' x (
       ret_value x (abi_subrequest_get_status (abi_of x))))"

definition host_subreq_get_header :: "('p, 's, 'c, 'x, 'k) host_env \<Rightarrow> ('p, 's, 'c, 'm) host_fn" where
  "host_subreq_get_header h args nresults x =
     with_sig ''ngx_wasm_subreq_get_header'' 4 args nresults (\<lambda>a.
       reading x (a ! 0) (a ! 1) (\<lambda>name.
       reading x (a ! 2) (a ! 3) (\<lambda>buf.
       allowed CAP_SUBREQUEST ''ngx_wasm_subreq_get_header'' x (
       sized [a ! 1, a ! 3] (
       ret_buf x (a ! 2) (abi_subrequest_get_header (http h) name buf (abi_of x)))))))"

definition host_subreq_get_body :: "('p, 's, 'c, 'm) host_fn" where
  "host_subreq_get_body args nresults x =
     with_sig ''ngx_wasm_subreq_get_body'' 2 args nresults (\<lambda>a.
       reading x (a ! 0) (a ! 1) (\<lambda>buf.
       allowed CAP_SUBREQUEST ''ngx_wasm_subreq_get_body'' x (
       sized [a ! 1] (
       ret_buf x (a ! 0) (abi_subrequest_get_body buf (abi_of x))))))"

definition host_subreq_get_body_len :: "('p, 's, 'c, 'm) host_fn" where
  "host_subreq_get_body_len args nresults x =
     with_sig ''ngx_wasm_subreq_get_body_len'' 0 args nresults (\<lambda>_.
       allowed CAP_SUBREQUEST ''ngx_wasm_subreq_get_body_len'' x (
       ret_value x (abi_subrequest_get_body_len (abi_of x))))"

section \<open>Response\<close>

definition host_resp_set_header :: "('p, 's, 'c, 'x, 'k) host_env \<Rightarrow> ('p, 's, 'c, 'm) host_fn" where
  "host_resp_set_header h args nresults x =
     with_sig ''ngx_wasm_resp_set_header'' 4 args nresults (\<lambda>a.
       reading x (a ! 0) (a ! 1) (\<lambda>name.
       reading x (a ! 2) (a ! 3) (\<lambda>v.
       allowed CAP_RESP_HEADERS_RW ''ngx_wasm_resp_set_header'' x (
       sized [a ! 1, a ! 3] (
       ret_ctx x (abi_resp_set_header (http h) name v (abi_of x)))))))"

definition host_resp_get_header :: "('p, 's, 'c, 'x, 'k) host_env \<Rightarrow> ('p, 's, 'c, 'm) host_fn" where
  "host_resp_get_header h args nresults x =
     with_sig ''ngx_wasm_resp_get_header'' 4 args nresults (\<lambda>a.
       nonneg [a ! 2, a ! 3] x (
       reading x (a ! 0) (a ! 1) (\<lambda>name.
       reading x (a ! 2) (a ! 3) (\<lambda>buf.
       allowed CAP_RESP_HEADERS_RW ''ngx_wasm_resp_get_header'' x (
       sized [a ! 1] (
       ret_buf x (a ! 2) (abi_resp_get_header (http h) name buf (abi_of x))))))))"

definition host_resp_get_body_chunk :: "('p, 's, 'c, 'm) host_fn" where
  "host_resp_get_body_chunk args nresults x =
     with_sig ''ngx_wasm_resp_get_body_chunk'' 2 args nresults (\<lambda>a.
       nonneg a x (
       reading x (a ! 0) (a ! 1) (\<lambda>buf.
       allowed CAP_RESP_BODY_CHUNK_READ ''ngx_wasm_resp_get_body_chunk'' x (
       ret_buf x (a ! 0) (abi_resp_get_body_chunk buf (abi_of x))))))"

definition host_resp_get_body_chunk_eof :: "('p, 's, 'c, 'm) host_fn" where
  "host_resp_get_body_chunk_eof args nresults x =
     with_sig ''ngx_wasm_resp_get_body_chunk_eof'' 0 args nresults (\<lambda>_.
       allowed CAP_RESP_BODY_CHUNK_READ ''ngx_wasm_resp_get_body_chunk_eof'' x (
       ret_value x (abi_resp_get_body_chunk_eof (abi_of x))))"

definition host_resp_set_body_chunk :: "('p, 's, 'c, 'x, 'k) host_env \<Rightarrow> ('p, 's, 'c, 'm) host_fn" where
  "host_resp_set_body_chunk h args nresults x =
     with_sig ''ngx_wasm_resp_set_body_chunk'' 2 args nresults (\<lambda>a.
       reading x (a ! 0) (a ! 1) (\<lambda>d.
       allowed CAP_RESP_BODY_CHUNK_WRITE ''ngx_wasm_resp_set_body_chunk'' x (
       sized [a ! 1] (
       ret_ctx x (abi_resp_set_body_chunk (http h) d (abi_of x))))))"

definition host_resp_write :: "('p, 's, 'c, 'x, 'k) host_env \<Rightarrow> ('p, 's, 'c, 'm) host_fn" where
  "host_resp_write h args nresults x =
     with_sig ''ngx_wasm_resp_write'' 2 args nresults (\<lambda>a.
       reading x (a ! 0) (a ! 1) (\<lambda>d.
       allowed CAP_RESP_BODY_WRITE ''ngx_wasm_resp_write'' x (
       sized [a ! 1] (
       ret_ctx x (abi_resp_write (http h) d True (abi_of x))))))"

definition host_yield :: "('p, 's, 'c, 'm) host_fn" where
  "host_yield args nresults x =
     with_sig ''ngx_wasm_yield'' 0 args nresults (\<lambda>_.
       allowed CAP_YIELD ''ngx_wasm_yield'' x (
       Ret (word_of_int NGX_HTTP_WASM_OK) (fst x, (snd x)\<lparr>yielded := True\<rparr>)))"

section \<open>The linker\<close>

text \<open>
  The imports of the module \<^verbatim>\<open>env\<close>, in the order they are defined: name, number of
  parameters, all of type \<^verbatim>\<open>i32\<close> like the result, and callback.
\<close>

definition host_funcs ::
  "('p, 's, 'c, 'x, 'k) host_env \<Rightarrow> (string \<times> nat \<times> ('p, 's, 'c, 'm) host_fn) list" where
  "host_funcs h =
     [(''ngx_wasm_log'', 3, host_log),
      (''ngx_wasm_resp_set_status'', 1, host_resp_set_status),
      (''ngx_wasm_resp_get_status'', 0, host_resp_get_status),
      (''ngx_wasm_metric_counter_inc'', 3, host_metric_counter_inc h),
      (''ngx_wasm_metric_gauge_set'', 3, host_metric_gauge_set h),
      (''ngx_wasm_metric_gauge_add'', 3, host_metric_gauge_add h),
      (''ngx_wasm_balancer_set_peer'', 1, host_balancer_set_peer),
      (''ngx_wasm_shm_get'', 4, host_shm_get h),
      (''ngx_wasm_shm_exists'', 2, host_shm_exists h),
      (''ngx_wasm_shm_incr'', 3, host_shm_incr h),
      (''ngx_wasm_shm_set'', 4, host_shm_set h),
      (''ngx_wasm_shm_set_ex'', 5, host_shm_set_ex h),
      (''ngx_wasm_shm_add'', 4, host_shm_add h),
      (''ngx_wasm_shm_replace'', 4, host_shm_replace h),
      (''ngx_wasm_shm_delete'', 2, host_shm_delete h),
      (''ngx_wasm_ssl_get_server_name'', 2, host_ssl_get_server_name h),
      (''ngx_wasm_ssl_reject_handshake'', 1, host_ssl_reject_handshake),
      (''ngx_wasm_ssl_set_certificate'', 4, host_ssl_set_certificate h),
      (''ngx_wasm_req_set_header'', 4, host_req_set_header h),
      (''ngx_wasm_req_get_header'', 4, host_req_get_header h),
      (''ngx_wasm_var_get'', 4, host_var_get h),
      (''ngx_wasm_var_set'', 4, host_var_set h),
      (''ngx_wasm_time_unix_ms'', 2, host_time_unix_ms h),
      (''ngx_wasm_time_monotonic_ms'', 2, host_time_monotonic_ms h),
      (''ngx_wasm_subreq_set_header'', 4, host_subreq_set_header h),
      (''ngx_wasm_subreq'', 6, host_subreq h),
      (''ngx_wasm_subreq_get_status'', 0, host_subreq_get_status),
      (''ngx_wasm_subreq_get_header'', 4, host_subreq_get_header h),
      (''ngx_wasm_subreq_get_body'', 2, host_subreq_get_body),
      (''ngx_wasm_subreq_get_body_len'', 0, host_subreq_get_body_len),
      (''ngx_wasm_resp_set_header'', 4, host_resp_set_header h),
      (''ngx_wasm_resp_get_header'', 4, host_resp_get_header h),
      (''ngx_wasm_resp_get_body_chunk'', 2, host_resp_get_body_chunk),
      (''ngx_wasm_resp_get_body_chunk_eof'', 0, host_resp_get_body_chunk_eof),
      (''ngx_wasm_resp_set_body_chunk'', 2, host_resp_set_body_chunk h),
      (''ngx_wasm_req_get_body'', 2, host_req_get_body),
      (''ngx_wasm_resp_write'', 2, host_resp_write h),
      (''ngx_wasm_yield'', 0, host_yield)]"

lemmas host_fn_defs = host_log_def host_resp_set_status_def host_resp_get_status_def host_metric_counter_inc_def
  host_metric_gauge_set_def host_metric_gauge_add_def host_balancer_set_peer_def host_shm_get_def
  host_shm_exists_def host_shm_incr_def host_shm_set_def host_shm_set_ex_def
  host_shm_add_def host_shm_replace_def host_shm_delete_def host_ssl_get_server_name_def
  host_ssl_reject_handshake_def host_ssl_set_certificate_def host_req_set_header_def host_req_get_header_def
  host_var_get_def host_var_set_def host_time_unix_ms_def host_time_monotonic_ms_def
  host_subreq_set_header_def host_subreq_def host_subreq_get_status_def host_subreq_get_header_def
  host_subreq_get_body_def host_subreq_get_body_len_def host_resp_set_header_def host_resp_get_header_def
  host_resp_get_body_chunk_def host_resp_get_body_chunk_eof_def host_resp_set_body_chunk_def host_req_get_body_def
  host_resp_write_def host_yield_def

end
