(* ===== verification/Host_Correct.thy ===== *)
theory Host_Correct
  imports Host
begin

text \<open>
  What a host call can change. Every field of the contexts is tied to the capability that
  allows to write it; the relation is reflexive and transitive, so it holds for any sequence of
  calls a guest makes.
\<close>

section \<open>Frames of the ABI\<close>

text \<open>
  Operations behind these capabilities read \<^verbatim>\<open>ctx->request\<close> without checking it.
\<close>

definition request_reading :: u64 where
  "request_reading = CAP_REQ_HEADERS_RW OR CAP_REQ_HEADERS_RO OR CAP_RESP_HEADERS_RW OR
     CAP_RESP_BODY_WRITE OR CAP_RESP_BODY_CHUNK_WRITE OR CAP_RESP_STATUS_GET"

definition null_safe :: "('p, 's, 'c) abi_ctx \<Rightarrow> bool" where
  "null_safe a \<longleftrightarrow> request a \<noteq> None \<or> \<not> abi_require a request_reading"

definition abi_frame :: "('p, 's, 'c) abi_ctx \<Rightarrow> ('p, 's, 'c) abi_ctx \<Rightarrow> bool" where
  "abi_frame a b \<longleftrightarrow>
     capabilities b = capabilities a \<and> (request b = None \<longleftrightarrow> request a = None) \<and>
     (\<not> abi_require a (CAP_REQ_HEADERS_RW OR CAP_VAR_SET) \<longrightarrow>
        map_option headers_in (request b) = map_option headers_in (request a)) \<and>
     (\<not> abi_require a (CAP_RESP_HEADERS_RW OR CAP_VAR_SET) \<longrightarrow>
        map_option headers_out (request b) = map_option headers_out (request a)) \<and>
     (\<not> abi_require a CAP_VAR_SET \<longrightarrow>
        map_option variables (request b) = map_option variables (request a)) \<and>
     (\<not> abi_require a CAP_RESP_STATUS_SET \<longrightarrow>
        abi_status b = abi_status a \<and> status_set b = status_set a) \<and>
     (\<not> abi_require a CAP_RESP_BODY_WRITE \<longrightarrow> abi_body b = abi_body a \<and> body_set b = body_set a) \<and>
     (\<not> abi_require a CAP_RESP_BODY_CHUNK_WRITE \<longrightarrow>
        resp_body_chunk_output b = resp_body_chunk_output a \<and>
        resp_body_chunk_output_set b = resp_body_chunk_output_set a) \<and>
     (\<not> abi_require a CAP_SUBREQUEST \<longrightarrow> wctx b = wctx a) \<and>
     (\<not> abi_require a CAP_SHARED_KV \<longrightarrow> shm_zone b = shm_zone a) \<and>
     (\<not> abi_require a CAP_METRICS \<longrightarrow> metrics_zone b = metrics_zone a) \<and>
     (\<not> abi_require a CAP_BALANCER \<longrightarrow>
        balancer_peer_set b = balancer_peer_set a \<and> balancer_peer_index b = balancer_peer_index a) \<and>
     (\<not> abi_require a CAP_SSL_CERTIFICATE_SET \<longrightarrow> ssl_conn b = ssl_conn a) \<and>
     (\<not> abi_require a CAP_SSL_HANDSHAKE_REJECT \<longrightarrow>
        ssl_handshake_rejected b = ssl_handshake_rejected a \<and> ssl_handshake_alert b = ssl_handshake_alert a) \<and>
     request_body b = request_body a \<and> request_body_set b = request_body_set a \<and>
     resp_body_chunk b = resp_body_chunk a \<and> resp_body_chunk_set b = resp_body_chunk_set a \<and>
     resp_body_chunk_eof b = resp_body_chunk_eof a \<and> response_sent b = response_sent a \<and>
     content_type_set b = content_type_set a \<and> abi_content_type b = abi_content_type a"

lemma abi_frame_refl [simp, intro]: "abi_frame a a"
  by (simp add: abi_frame_def)

lemma abi_frame_trans: "abi_frame a b \<Longrightarrow> abi_frame b c \<Longrightarrow> abi_frame a c"
  by (auto simp: abi_frame_def abi_require_def)

lemma abi_require_frame: "abi_frame a b \<Longrightarrow> abi_require b cap = abi_require a cap"
  by (simp add: abi_frame_def abi_require_def)

lemma null_safe_frame: "abi_frame a b \<Longrightarrow> null_safe b = null_safe a"
  by (simp add: abi_frame_def null_safe_def abi_require_def)

lemma abi_require_or:
  "abi_require a (c OR d) \<longleftrightarrow> abi_require a c \<or> abi_require a d"
  by (simp add: abi_require_def bit.conj_disj_distrib or_eq_0_iff)

lemma null_safeD:
  assumes "null_safe a"
  shows "abi_require a CAP_REQ_HEADERS_RW \<Longrightarrow> request a \<noteq> None"
    and "abi_require a CAP_REQ_HEADERS_RO \<Longrightarrow> request a \<noteq> None"
    and "abi_require a CAP_RESP_HEADERS_RW \<Longrightarrow> request a \<noteq> None"
    and "abi_require a CAP_RESP_BODY_WRITE \<Longrightarrow> request a \<noteq> None"
    and "abi_require a CAP_RESP_BODY_CHUNK_WRITE \<Longrightarrow> request a \<noteq> None"
    and "abi_require a CAP_RESP_STATUS_GET \<Longrightarrow> request a \<noteq> None"
  using assms by (auto simp: null_safe_def request_reading_def abi_require_or)

section \<open>Frames of the request's operations\<close>

lemma set_runtime_header_frame:
  "set_runtime_header e r name v = (rc, r') \<Longrightarrow>
     headers_out r' = headers_out r \<and> variables r' = variables r"
  by (auto simp: set_runtime_header_def new_header_in_def push_elt_def copy_bytes_def upd_in_def Let_def
      split: option.splits prod.splits)

lemma set_resp_header_frame:
  "set_resp_header e r name v = (rc, r') \<Longrightarrow>
     headers_in r' = headers_in r \<and> variables r' = variables r"
  by (auto simp: set_resp_header_def resp_set_cached_header_def slot_elt_def push_elt_def copy_bytes_def
      upd_out_def Let_def split: option.splits prod.splits if_splits)

text \<open>The subrequest operations and the copies take memory of the request's pool only.\<close>

definition pool_only :: "'p http_request \<Rightarrow> 'p http_request \<Rightarrow> bool" where
  "pool_only r r' \<longleftrightarrow> r\<lparr>pool := pool r'\<rparr> = r'"

lemma pool_only_simps [simp]:
  "pool_only r r" "pool_only r (r\<lparr>pool := p\<rparr>)"
  by (simp_all add: pool_only_def)

lemma pool_only_fields:
  assumes "pool_only r r'"
  shows "headers_in r' = headers_in r" "headers_out r' = headers_out r" "variables r' = variables r"
  using assms [unfolded pool_only_def] by (auto dest: arg_cong [of _ _ headers_in]
      arg_cong [of _ _ headers_out] arg_cong [of _ _ variables])

lemma add_pending_header_frame:
  "add_pending_header e name v st r = (rc, st', r') \<Longrightarrow> pool_only r r'"
  by (auto simp: add_pending_header_def push_elt_def copy_bytes_def split: option.splits if_splits)

lemma start_subrequest_frame:
  "start_subrequest e lim uri args m cap st r = (rc, st', r') \<Longrightarrow> pool_only r r'"
  by (auto simp: start_subrequest_def copy_bytes_def Let_def split: option.splits if_splits prod.splits)

lemma abi_set_str_frame:
  "abi_set_str e a d copy = Some (d', b) \<Longrightarrow> request a \<noteq> None \<Longrightarrow>
     \<exists>p r. request a = Some r \<and> (b = a \<or> b = a\<lparr>request := Some (r\<lparr>pool := p\<rparr>)\<rparr>)"
  by (auto simp: abi_set_str_def copy_bytes_def split: if_splits)

section \<open>Frames of the operations\<close>

text \<open>Every operation of the ABI that returns a context stays in the frame.\<close>

named_theorems abi_frames

lemma abi_log_frame [abi_frames]: "abi_frame a (snd (abi_log l d a))"
  by (simp add: abi_log_def abi_frame_def)

lemma abi_resp_set_status_frame [abi_frames]: "abi_frame a (snd (abi_resp_set_status st a))"
  by (auto simp: abi_resp_set_status_def requiring_def abi_frame_def)

lemma on_shm_frame: "abi_frame a (snd (on_shm f a))"
  by (auto simp: on_shm_def requiring_def abi_frame_def split: prod.split)

lemma abi_shm_frames [abi_frames]:
  "abi_frame a (snd (abi_shm_exists c now k a))" "abi_frame a (snd (abi_shm_incr c now k d a))"
  "abi_frame a (snd (abi_shm_set c now k v a))" "abi_frame a (snd (abi_shm_set_ex c now k v ttl a))"
  "abi_frame a (snd (abi_shm_add c now k v a))" "abi_frame a (snd (abi_shm_replace c now k v a))"
  "abi_frame a (snd (abi_shm_delete c k a))"
  by (simp_all add: on_shm_frame abi_shm_exists_def abi_shm_incr_def abi_shm_set_def abi_shm_set_ex_def
      abi_shm_add_def abi_shm_replace_def abi_shm_delete_def)

lemma abi_shm_get_frame [abi_frames]: "abi_frame a (snd (abi_shm_get c now k buf a))"
  by (auto simp: abi_shm_get_def abi_frame_def split: prod.split)

lemma on_metrics_frame: "abi_frame a (snd (on_metrics f a))"
  by (auto simp: on_metrics_def requiring_def abi_frame_def split: prod.split)

lemma abi_metric_frames [abi_frames]:
  "abi_frame a (snd (abi_metric_counter_inc c n d a))" "abi_frame a (snd (abi_metric_gauge_set c n v a))"
  "abi_frame a (snd (abi_metric_gauge_add c n d a))"
  by (simp_all add: on_metrics_frame abi_metric_counter_inc_def abi_metric_gauge_set_def abi_metric_gauge_add_def)

lemma abi_balancer_frame [abi_frames]: "abi_frame a (snd (abi_balancer_set_peer n a))"
  by (auto simp: abi_balancer_set_peer_def requiring_def abi_frame_def split: option.split)

lemma abi_ssl_reject_frame [abi_frames]: "abi_frame a (snd (abi_ssl_reject_handshake al a))"
  by (auto simp: abi_ssl_reject_handshake_def requiring_def abi_frame_def)

lemma abi_ssl_set_certificate_frame [abi_frames]: "abi_frame a (snd (abi_ssl_set_certificate ssl cert key a))"
  by (auto simp: abi_ssl_set_certificate_def requiring_def abi_frame_def split: option.split)

lemma abi_req_set_header_frame [abi_frames]:
  "null_safe a \<Longrightarrow> abi_frame a (snd (abi_req_set_header e n v a))"
  using null_safeD(1) [of a]
  by (auto simp: abi_req_set_header_def requiring_def abi_frame_def on_request_def abi_require_or
      split: prod.split dest!: set_runtime_header_frame)

lemma abi_resp_set_header_frame [abi_frames]:
  "null_safe a \<Longrightarrow> abi_frame a (snd (abi_resp_set_header e n v a))"
  using null_safeD(3) [of a]
  by (auto simp: abi_resp_set_header_def requiring_def abi_frame_def on_request_def abi_require_or
      split: prod.split dest!: set_resp_header_frame)

lemma abi_resp_write_frame [abi_frames]:
  "null_safe a \<Longrightarrow> abi_frame a (snd (abi_resp_write e d copy a))"
  using null_safeD(4) [of a]
  by (auto simp: abi_resp_write_def requiring_def abi_frame_def split: option.split dest!: abi_set_str_frame)

lemma abi_resp_set_body_chunk_frame [abi_frames]:
  "null_safe a \<Longrightarrow> abi_frame a (snd (abi_resp_set_body_chunk e d a))"
  using null_safeD(5) [of a]
  by (auto simp: abi_resp_set_body_chunk_def requiring_def abi_frame_def split: option.split dest!: abi_set_str_frame)

lemma abi_var_get_frame [abi_frames]: "abi_frame a (snd (abi_var_get e n buf a))"
  by (auto simp: abi_var_get_def abi_frame_def Let_def split: option.split prod.split)

lemma abi_var_set_frame [abi_frames]: "abi_frame a (snd (abi_var_set e n v a))"
  by (auto simp: abi_var_set_def requiring_def abi_frame_def on_request_def abi_require_or
      split: option.split prod.split)

lemma on_subrequest_frame:
  assumes "\<And>st r rc st' r'. f st r = (rc, st', r') \<Longrightarrow> pool_only r r'"
  shows "abi_frame a (snd (on_subrequest f a))"
  by (auto simp: on_subrequest_def requiring_def abi_frame_def split: option.split prod.split
      dest!: assms dest: pool_only_fields)

lemma abi_subrequest_frames [abi_frames]:
  "abi_frame a (snd (abi_subrequest_set_header e n v a))"
  "abi_frame a (snd (abi_subrequest e lim uri args m opts a))"
  by (auto simp: abi_subrequest_set_header_def abi_subrequest_def
      intro!: on_subrequest_frame elim: add_pending_header_frame start_subrequest_frame)

section \<open>Frames of the host functions\<close>

definition exec_frame :: "('p, 's, 'c, 'm) exec_ctx \<Rightarrow> ('p, 's, 'c, 'm) exec_ctx \<Rightarrow> bool" where
  "exec_frame x y \<longleftrightarrow>
     abi_frame (exec_abi x) (exec_abi y) \<and>
     exec_conf y = exec_conf x \<and> runtime_ready y = runtime_ready x \<and> fuel_limit y = fuel_limit x \<and>
     timeslice_fuel y = timeslice_fuel x \<and> fuel_remaining y = fuel_remaining x \<and>
     exec_state y = exec_state x \<and> phase_kind y = phase_kind x \<and>
     (yielded x \<longrightarrow> yielded y) \<and> (suspend_kind y = suspend_kind x \<or> suspend_kind y = SUSPEND_WAIT_IO \<and> yielded y) \<and>
     (\<not> abi_require (exec_abi x) (CAP_YIELD OR CAP_SUBREQUEST) \<longrightarrow> yielded y = yielded x) \<and>
     (\<not> abi_require (exec_abi x) CAP_SUBREQUEST \<longrightarrow> suspend_kind y = suspend_kind x)"

lemma exec_frame_refl [simp, intro]: "exec_frame x x"
  by (simp add: exec_frame_def)

lemma exec_frame_trans:
  assumes xy: "exec_frame x y" and yz: "exec_frame y z"
  shows "exec_frame x z"
proof -
  have A: "abi_frame (exec_abi x) (exec_abi z)"
    using xy yz unfolding exec_frame_def by (blast intro: abi_frame_trans)
  have R: "abi_require (exec_abi y) cap = abi_require (exec_abi x) cap" for cap
    using xy abi_require_frame [of "exec_abi x" "exec_abi y"] by (simp add: exec_frame_def)
  have S: "suspend_kind z = suspend_kind x \<or> suspend_kind z = SUSPEND_WAIT_IO \<and> yielded z"
    using xy yz unfolding exec_frame_def by metis
  note rest = xy [unfolded exec_frame_def] yz [unfolded exec_frame_def R]
  show ?thesis
    unfolding exec_frame_def by (intro conjI A S impI; use rest in simp)
qed

lemma exec_frame_abi: "abi_frame (exec_abi x) b \<Longrightarrow> exec_frame x (x\<lparr>exec_abi := b\<rparr>)"
  by (simp add: exec_frame_def)

lemma exec_frame_abi_snd: "abi_frame (exec_abi x) (snd q) \<Longrightarrow> exec_frame x (x\<lparr>exec_abi := snd q\<rparr>)"
  by (rule exec_frame_abi)

text \<open>
  A host function is a chain of steps around one operation. \<open>ensures W Q\<close> says that a result
  that returns satisfies \<open>Q\<close>, and that only under \<open>W\<close> the result is \<open>Wild\<close>; the rules follow
  the steps.
\<close>

definition ensures :: "bool \<Rightarrow> (u32 \<Rightarrow> 'x \<Rightarrow> bool) \<Rightarrow> 'x host_result \<Rightarrow> bool" where
  "ensures W Q r \<longleftrightarrow> (case r of Trap _ \<Rightarrow> True | Wild \<Rightarrow> W | Ret rc y \<Rightarrow> Q rc y)"

lemma ensures_simps [simp]:
  "ensures W Q (Trap t)" "ensures W Q Wild \<longleftrightarrow> W" "ensures W Q (Ret rc y) \<longleftrightarrow> Q rc y"
  by (simp_all add: ensures_def)

lemma ensures_with_sig [intro]:
  "(sig_ok n args nresults \<Longrightarrow> ensures W Q (k (map i32_of args))) \<Longrightarrow>
     ensures W Q (with_sig name n args nresults k)"
  by (simp add: with_sig_def bad_signature_def)

lemma ensures_nonneg [intro]:
  "Q (word_of_int NGX_HTTP_WASM_ERROR) x \<Longrightarrow> ensures W Q k \<Longrightarrow> ensures W Q (nonneg as x k)"
  by (simp add: nonneg_def)

lemma ensures_reading [intro]:
  "(\<And>d. get_memory (fst x) ptr len = Inr d \<Longrightarrow> ensures W Q (k d)) \<Longrightarrow> ensures W Q (reading x ptr len k)"
  by (simp add: reading_def split: sum.split)

lemma ensures_allowed [intro]:
  "(abi_require (exec_abi (snd x)) cap \<Longrightarrow> ensures W Q k) \<Longrightarrow> ensures W Q (allowed cap name x k)"
  by (simp add: allowed_def phase_forbidden_def abi_require_def)

lemma ensures_sized [intro]:
  "(\<exists>l \<in> set lens. l <s 0 \<Longrightarrow> W) \<Longrightarrow> (\<forall>l \<in> set lens. \<not> l <s 0 \<Longrightarrow> ensures W Q k) \<Longrightarrow>
     ensures W Q (sized lens k)"
  by (auto simp: sized_def)

lemma host_funcs_exec_frame:
  assumes "null_safe (exec_abi (snd x))"
  shows "\<forall>(n, k, f) \<in> set (host_funcs h). \<forall>args nres.
           ensures True (\<lambda>rc y. exec_frame (snd x) (snd y)) (f args nres x)"
proof -
  note ns = assms
  have ctx: "exec_frame (snd x) ((snd x)\<lparr>exec_abi := snd q\<rparr>)" if "abi_frame (exec_abi (snd x)) (snd q)" for q
    using that by (rule exec_frame_abi)
  have R: "ensures True (\<lambda>rc y. exec_frame (snd x) (snd y)) (ret_value x rc)"
    "ensures True (\<lambda>rc y. exec_frame (snd x) (snd y)) (ret_buf x p b)" for rc p b
    by (simp_all add: ret_value_def ret_buf_def)
  have C: "ensures True (\<lambda>rc y. exec_frame (snd x) (snd y)) (ret_ctx x q)"
    if "abi_frame (exec_abi (snd x)) (snd q)" for q
    using that by (simp add: ret_ctx_def ctx)
  have B: "ensures True (\<lambda>rc y. exec_frame (snd x) (snd y)) (ret_buf_ctx x p q)"
    if "abi_frame (exec_abi (snd x)) (snd q)" for p q
    using that by (simp add: ret_buf_ctx_def ctx)
  have S: "ensures True (\<lambda>rc y. exec_frame (snd x) (snd y))
      (case abi_subrequest e lim uri q m opts (exec_abi (snd x)) of
         (rc, ctx) \<Rightarrow>
           Ret (word_of_int rc)
             (fst x, if rc = NGX_HTTP_WASM_OK
                     then (snd x)\<lparr>exec_abi := ctx, yielded := True, suspend_kind := SUSPEND_WAIT_IO\<rparr>
                     else (snd x)\<lparr>exec_abi := ctx\<rparr>))"
    if "abi_require (exec_abi (snd x)) CAP_SUBREQUEST" for e lim uri q m opts
    using abi_subrequest_frames(2) [of "exec_abi (snd x)" e lim uri q m opts] that
    by (auto simp: exec_frame_def abi_require_or split: prod.split)
  have Y: "ensures True (\<lambda>rc y. exec_frame (snd x) (snd y)) (Ret rc (fst x, (snd x)\<lparr>yielded := True\<rparr>))"
    if "abi_require (exec_abi (snd x)) CAP_YIELD" for rc
    using that by (simp add: exec_frame_def abi_require_or)
  show ?thesis
    unfolding host_funcs_def list.set(1,2) ball_simps(5,7) prod.case
    by (intro conjI allI TrueI; unfold host_fn_defs;
        (intro ensures_with_sig ensures_nonneg ensures_reading ensures_allowed ensures_sized R C B S Y
           exec_frame_refl TrueI abi_frames ns)?; assumption?)
qed

section \<open>Guest memory\<close>

text \<open>
  The parameter of a host function that points to the caller's buffer, from the declarations
  of \<^verbatim>\<open>include/ngx_wasm_guest_abi.h\<close> (the parameters of type \<^verbatim>\<open>void *\<close>); its length is the
  next parameter.
\<close>

definition buffer_param :: "string \<Rightarrow> nat option" where
  "buffer_param = map_of
     [(''ngx_wasm_shm_get'', 2), (''ngx_wasm_req_get_header'', 2), (''ngx_wasm_var_get'', 2),
      (''ngx_wasm_subreq_get_header'', 2), (''ngx_wasm_resp_get_header'', 2),
      (''ngx_wasm_ssl_get_server_name'', 0), (''ngx_wasm_time_unix_ms'', 0),
      (''ngx_wasm_time_monotonic_ms'', 0), (''ngx_wasm_req_get_body'', 0),
      (''ngx_wasm_subreq_get_body'', 0), (''ngx_wasm_resp_get_body_chunk'', 0)]"

definition in_buffer :: "string \<Rightarrow> wasm_val list \<Rightarrow> nat \<Rightarrow> bool" where
  "in_buffer name args i \<longleftrightarrow>
     (case buffer_param name of
        None \<Rightarrow> False
      | Some p \<Rightarrow> (let ptr = unat (i32_of (args ! p))
                   in ptr \<le> i \<and> i < ptr + unat (i32_of (args ! (p + 1)))))"

text \<open>A call writes to the buffer only, and never changes the size of the memory.\<close>

definition mem_frame :: "(nat \<Rightarrow> bool) \<Rightarrow> bytes option \<Rightarrow> bytes option \<Rightarrow> bool" where
  "mem_frame B m m' \<longleftrightarrow>
     map_option length m' = map_option length m \<and>
     (\<forall>i < length (the m). \<not> B i \<longrightarrow> the m' ! i = the m ! i)"

definition huge :: "bytes option \<Rightarrow> bool" where
  "huge m \<longleftrightarrow> (\<exists>b. m = Some b \<and> 2 ^ 31 \<le> length b)"

lemma mem_frame_refl [simp, intro]: "mem_frame B m m"
  by (simp add: mem_frame_def)

lemma get_memory_InrD:
  "get_memory m p l = Inr d \<Longrightarrow>
     \<exists>b. m = Some b \<and> unat p + unat l \<le> length b \<and> d = take (unat l) (drop (unat p) b) \<and> length d = unat l"
  by (auto simp: get_memory_def split: option.splits if_splits)

lemma get_memory_huge:
  assumes "get_memory m p l = Inr d" and "l <s 0"
  shows "huge m"
proof -
  have "bit (unat l) 31"
    using assms(2) bit_last_iff [of l] by (simp add: word_sless_alt bit_unsigned_iff)
  then have "2 ^ 31 \<le> unat l" by (rule contrapos_pp) (simp add: bit_iff_odd)
  with get_memory_InrD [OF assms(1)] show ?thesis by (auto simp: huge_def)
qed

lemma put_memory_frame:
  assumes "get_memory m p l = Inr d" and "length d' = length d"
    and "\<And>i. unat p \<le> i \<Longrightarrow> i < unat p + unat l \<Longrightarrow> B i"
  shows "mem_frame B m (put_memory m p d')"
proof -
  from get_memory_InrD [OF assms(1)] obtain b
    where b: "m = Some b" "unat p + unat l \<le> length b" "length d = unat l" by blast
  have "mem_write b (unat p) d' ! i = b ! i" if "i < length b" "\<not> B i" for i
    using that assms(2,3) b by (auto simp: mem_write_def nth_append not_less)
  moreover have "length (mem_write b (unat p) d') = length b"
    using assms(2) b by (simp add: mem_write_def)
  ultimately show ?thesis by (simp add: mem_frame_def put_memory_def b)
qed

text \<open>Getters keep the length of the buffer.\<close>

named_theorems buffer_lengths

lemma getter_lengths [buffer_lengths]:
  "length (snd (abi_ssl_get_server_name ssl buf a)) = length buf"
  "length (snd (abi_req_get_header e name buf a)) = length buf"
  "length (snd (abi_time_unix_ms tp buf a)) = length buf"
  "length (snd (abi_time_monotonic_ms now buf a)) = length buf"
  "length (snd (abi_req_get_body buf a)) = length buf"
  "length (snd (abi_subrequest_get_header e name buf a)) = length buf"
  "length (snd (abi_subrequest_get_body buf a)) = length buf"
  "length (snd (abi_resp_get_header e name buf a)) = length buf"
  "length (snd (abi_resp_get_body_chunk buf a)) = length buf"
  by (auto simp: abi_ssl_get_server_name_def abi_req_get_header_def abi_time_unix_ms_def
      abi_time_monotonic_ms_def write_time_def abi_req_get_body_def abi_subrequest_get_header_def
      abi_subrequest_get_body_def abi_resp_get_header_def get_resp_header_def resp_get_cached_header_def
      abi_resp_get_body_chunk_def requiring_get_def Let_def split: option.split)

lemma ctx_getter_lengths [buffer_lengths]:
  "length (snd (fst (abi_var_get e name buf a))) = length buf"
  "length (snd (fst (abi_shm_get c now key buf a))) = length buf"
  by (auto simp: abi_var_get_def abi_shm_get_def shm_get_def shm_section_def shm_get_locked_def Let_def
      split: option.split prod.split)

lemma ensures_ret_buf:
  assumes "get_memory (fst x) (map i32_of args ! i) (map i32_of args ! j) = Inr buf"
    "buffer_param n = Some i" "j = Suc i \<and> j < length args" "length (snd q) = length buf"
  shows "ensures W (\<lambda>rc y. mem_frame (in_buffer n args) (fst x) (fst y)) (ret_buf x (map i32_of args ! i) q)"
  unfolding ret_buf_def ensures_simps fst_conv
  by (rule put_memory_frame [OF assms(1,4)]) (use assms(2,3) in \<open>simp add: in_buffer_def Let_def\<close>)

lemma ensures_ret_buf_ctx:
  assumes "get_memory (fst x) (map i32_of args ! i) (map i32_of args ! j) = Inr buf"
    "buffer_param n = Some i" "j = Suc i \<and> j < length args" "length (snd (fst q)) = length buf"
  shows "ensures W (\<lambda>rc y. mem_frame (in_buffer n args) (fst x) (fst y)) (ret_buf_ctx x (map i32_of args ! i) q)"
  unfolding ret_buf_ctx_def ensures_simps fst_conv
  by (rule put_memory_frame [OF assms(1,4)]) (use assms(2,3) in \<open>simp add: in_buffer_def Let_def\<close>)

lemma host_funcs_mem_frame:
  "\<forall>(n, k, f) \<in> set (host_funcs h). \<forall>args nres.
     ensures (huge (fst x)) (\<lambda>rc y. mem_frame (in_buffer n args) (fst x) (fst y)) (f args nres x)"
proof -
  let ?E = "\<lambda>n args. ensures (huge (fst x)) (\<lambda>rc y. mem_frame (in_buffer n args) (fst x) (fst y))"
  have R: "?E n args (ret_value x rc)" "?E n args (ret_ctx x q)" "?E n args (Ret rc' (fst x, c))" for n args rc rc' q c
    by (simp_all add: ret_value_def ret_ctx_def)
  have S: "?E n args
      (case abi_subrequest e lim uri q m opts (exec_abi (snd x)) of
         (rc, ctx) \<Rightarrow>
           Ret (word_of_int rc)
             (fst x, if rc = NGX_HTTP_WASM_OK
                     then (snd x)\<lparr>exec_abi := ctx, yielded := True, suspend_kind := SUSPEND_WAIT_IO\<rparr>
                     else (snd x)\<lparr>exec_abi := ctx\<rparr>))"
    for n args e lim uri q m opts
    by (simp split: prod.split)
  show ?thesis
    unfolding host_funcs_def list.set(1,2) ball_simps(5,7) prod.case
    by (intro conjI allI TrueI; unfold host_fn_defs;
        (intro ensures_with_sig ensures_nonneg ensures_reading ensures_allowed ensures_sized R S
           mem_frame_refl TrueI)?;
        (rule ensures_ret_buf ensures_ret_buf_ctx, assumption, simp add: buffer_param_def,
           simp add: sig_ok_def, rule buffer_lengths)?;
        (auto dest: get_memory_huge)?)
qed

section \<open>Signatures\<close>

text \<open>Behind the signature check no trap says that the signature is bad.\<close>

definition no_bad_sig :: "'x host_result \<Rightarrow> bool" where
  "no_bad_sig r \<longleftrightarrow> (\<forall>name. r \<noteq> bad_signature name)"

lemma no_bad_sig_ret [simp]:
  "no_bad_sig (Ret rc y)" "no_bad_sig (ret_value x i)" "no_bad_sig (ret_ctx x q)"
  "no_bad_sig (ret_buf x p b)" "no_bad_sig (ret_buf_ctx x p qb)"
  by (simp_all add: no_bad_sig_def bad_signature_def ret_value_def ret_ctx_def ret_buf_def ret_buf_ctx_def)

lemma no_bad_sig_nonneg: "no_bad_sig k \<Longrightarrow> no_bad_sig (nonneg as x k)"
  by (simp add: nonneg_def)

lemma no_bad_sig_reading: "(\<And>d. no_bad_sig (k d)) \<Longrightarrow> no_bad_sig (reading x p l k)"
  by (auto simp: reading_def get_memory_def no_bad_sig_def bad_signature_def split: option.split)

lemma no_bad_sig_allowed: "no_bad_sig k \<Longrightarrow> no_bad_sig (allowed cap (CHR ''n'' # name) x k)"
  by (simp add: allowed_def phase_forbidden_def no_bad_sig_def bad_signature_def)

lemma no_bad_sig_sized: "no_bad_sig k \<Longrightarrow> no_bad_sig (sized ls k)"
  by (simp add: sized_def no_bad_sig_def bad_signature_def)

lemma no_bad_sig_case: "no_bad_sig (case q of (a, b) \<Rightarrow> Ret (f a b) (g a b))"
  by (simp split: prod.split)

lemma with_sig_bad:
  "no_bad_sig (k (map i32_of args)) \<Longrightarrow>
     with_sig name n args nresults k = bad_signature name \<longleftrightarrow> \<not> sig_ok n args nresults"
  by (simp add: with_sig_def no_bad_sig_def)

lemmas no_bad_sig_steps = no_bad_sig_nonneg no_bad_sig_reading no_bad_sig_allowed no_bad_sig_sized
  no_bad_sig_ret no_bad_sig_case

section \<open>The calls of a guest\<close>

text \<open>
  What a guest does to its execution context while it runs: any number of calls of imported
  functions, with any arguments. Between two calls it can rewrite and grow its memory.
\<close>

inductive guest_run ::
  "('p, 's, 'c, 'x, 'k) host_env \<Rightarrow> ('p, 's, 'c, 'm) exec_ctx \<Rightarrow> ('p, 's, 'c, 'm) exec_ctx \<Rightarrow> bool"
  for h where
  start: "guest_run h x x"
| call: "guest_run h x y \<Longrightarrow> (name, n, f) \<in> set (host_funcs h) \<Longrightarrow>
     f args nresults (mem, y) = Ret rc (mem', z) \<Longrightarrow> guest_run h x z"

lemma host_func_frame:
  assumes "(name, n, f) \<in> set (host_funcs h)" and "null_safe (exec_abi x)"
    and "f args nresults (mem, x) = Ret rc (mem', y)"
  shows "exec_frame x y"
proof -
  from assms(2) have "null_safe (exec_abi (snd (mem, x)))" by simp
  from bspec [OF host_funcs_exec_frame [OF this] assms(1)]
  have "ensures True (\<lambda>rc z. exec_frame x (snd z)) (f args nresults (mem, x))" by simp
  then show ?thesis unfolding assms(3) by simp
qed

lemma guest_run_frame: "guest_run h x y \<Longrightarrow> null_safe (exec_abi x) \<Longrightarrow> exec_frame x y"
proof (induction rule: guest_run.induct)
  case (start x)
  show ?case ..
next
  case (call x y name n f args nresults mem rc mem' z)
  then have xy: "exec_frame x y" by blast
  then have "null_safe (exec_abi y)"
    using call.prems null_safe_frame [of "exec_abi x" "exec_abi y"] by (simp add: exec_frame_def)
  with call.hyps have "exec_frame y z" by (blast intro: host_func_frame)
  with xy show ?case by (rule exec_frame_trans)
qed

lemma null_safe_init:
  "null_safe (exec_abi (init_exec_ctx r shm mz w conf phase rt))"
  "null_safe (exec_abi (init_ssl_exec_ctx ssl conf phase rt))"
  by (simp_all add: null_safe_def abi_require_def request_reading_def ssl_capabilities_def caps)

end
