(* ===== verification/Host_Props.thy ===== *)
theory Host_Props
  imports Host_Correct Abi_Props
begin

text \<open>
  The properties of the host functions: registration, guest memory, and what a guest can
  change in each phase, over every sequence of calls it can make.
\<close>

section \<open>Instance\<close>

definition demo_ssl :: "(nat, nat, nat) openssl" where
  "demo_ssl = \<lparr>SSL_get_servername = (\<lambda>c. if c = 0 then None else Some [1]),
     PEM_read_bio_X509_AUX = (\<lambda>d. Some (length d)), PEM_read_bio_PrivateKey = (\<lambda>d. Some (length d)),
     SSL_use_certificate = (\<lambda>c x. Some (c + x)), SSL_use_PrivateKey = (\<lambda>c k. Some (c + k)),
     SSL_check_private_key = (\<lambda>_. True)\<rparr>"

definition demo_host_env :: "(nat, demo_slab, nat, nat, nat) host_env" where
  "demo_host_env = \<lparr>http = demo_http, core = demo_core (\<lambda>_. 0), ossl = demo_ssl, current_msec = 7,
     timeofday = (1, 24), subrequest_buffer = Some 3\<rparr>"

definition demo_exec :: "phase \<Rightarrow> (nat, demo_slab, nat, unit) exec_ctx" where
  "demo_exec phase = init_exec_ctx demo_request None None (Some demo_subreq)
     \<lparr>phase_set = Some True, phase_module = None, phase_module_path = None, phase_export = None\<rparr> phase True"

section \<open>Properties\<close>

text \<open>Registration. A registered host function refuses exactly the calls that do not have
  the registered number of parameters, all of type \<^verbatim>\<open>i32\<close>, and one result.\<close>

theorem host_funcs_signature:
  "\<forall>(name, n, f) \<in> set (host_funcs h). \<forall>args nresults x.
     f args nresults x = bad_signature name \<longleftrightarrow> \<not> sig_ok n args nresults"
  unfolding host_funcs_def list.set(1,2) ball_simps(5,7) prod.case
  by (intro conjI allI TrueI; unfold host_fn_defs; (rule with_sig_bad), (intro no_bad_sig_steps)?)

theorem host_funcs_signature_witness:
  "host_log [I64 0] 1 (None, demo_exec PHASE_LOG) = bad_signature ''ngx_wasm_log''"
proof -
  have "(''ngx_wasm_log'', 3, host_log) \<in>
      set (host_funcs demo_host_env :: (string \<times> nat \<times> (nat, demo_slab, nat, unit) host_fn) list)"
    unfolding host_funcs_def by simp
  from bspec [OF host_funcs_signature this]
  have "host_log args nresults x = bad_signature ''ngx_wasm_log'' \<longleftrightarrow> \<not> sig_ok 3 args nresults"
    for args nresults and x :: "(nat, demo_slab, nat, unit) caller"
    by (cases x) simp
  then show ?thesis by (simp add: sig_ok_def)
qed

text \<open>C3: guest memory. A host call leaves the size of the guest's memory and every byte
  outside the buffer it is given as it was, and its outcome is defined as long as the memory
  has less than two gigabytes.\<close>

theorem host_funcs_memory_safe:
  assumes "(name, n, f) \<in> set (host_funcs h)"
  shows "(\<forall>rc mem' y. f args nresults (mem, x) = Ret rc (mem', y) \<longrightarrow>
        map_option length mem' = map_option length mem \<and>
        (\<forall>i < length (the mem). \<not> in_buffer name args i \<longrightarrow> the mem' ! i = the mem ! i)) \<and>
    (length (the mem) < 2 ^ 31 \<longrightarrow> f args nresults (mem, x) \<noteq> Wild)"
proof -
  have E: "ensures (huge mem) (\<lambda>rc y. mem_frame (in_buffer name args) mem (fst y)) (f args nresults (mem, x))"
    using bspec [OF host_funcs_mem_frame [of h "(mem, x)"] assms] by simp
  have "map_option length mem' = map_option length mem \<and>
      (\<forall>i < length (the mem). \<not> in_buffer name args i \<longrightarrow> the mem' ! i = the mem ! i)"
    if "f args nresults (mem, x) = Ret rc (mem', y)" for rc mem' y
    using E unfolding that by (simp add: mem_frame_def)
  moreover have "f args nresults (mem, x) \<noteq> Wild" if "length (the mem) < 2 ^ 31"
    using E that by (auto simp: huge_def)
  ultimately show ?thesis by blast
qed

theorem host_funcs_memory_safe_witness:
  "\<exists>mem'. host_time_monotonic_ms demo_host_env [I32 1, I32 8] 1 (Some (replicate 10 5), demo_exec PHASE_LOG) =
      Ret 0 (Some mem', demo_exec PHASE_LOG) \<and> length mem' = 10 \<and> mem' ! 0 = 5 \<and> mem' ! 9 = 5"
proof -
  let ?m = "replicate 10 5 :: bytes"
  have h: "(''ngx_wasm_time_monotonic_ms'', 2, host_time_monotonic_ms demo_host_env) \<in> set (host_funcs demo_host_env)"
    unfolding host_funcs_def by simp
  obtain mem' where c: "host_time_monotonic_ms demo_host_env [I32 1, I32 8] 1 (Some ?m, demo_exec PHASE_LOG) =
      Ret 0 (Some mem', demo_exec PHASE_LOG)"
    by (simp add: host_time_monotonic_ms_def host_defs sig_ok_def get_memory_def put_memory_def demo_exec_def
        phase_capabilities_def caps abi_time_monotonic_ms_def write_time_def requiring_get_def abi_require_def
        wasm_codes word_sless_alt)
  from host_funcs_memory_safe [OF h, of "[I32 1, I32 8]" 1 "Some ?m" "demo_exec PHASE_LOG"] c
  show ?thesis by (auto simp: in_buffer_def buffer_param_def)
qed

section \<open>Phases\<close>

lemma require_phase:
  "abi_require (exec_abi (init_exec_ctx r shm mz w conf phase rt)) cap \<longleftrightarrow> phase_capabilities phase AND cap \<noteq> 0"
  "abi_require (exec_abi (init_ssl_exec_ctx ssl conf phase rt)) cap \<longleftrightarrow> ssl_capabilities phase AND cap \<noteq> 0"
  by (simp_all add: abi_require_def)

text \<open>C4: phases. Whatever a guest calls, it changes only what its phase allows: the log phase
  and the TLS phases leave the request alone; the filters, the balancer and the log phase never
  suspend and start no subrequest; only the body filter replaces a chunk, only the balancer
  picks a peer, only a TLS phase rejects a handshake; the request is never lost.\<close>

theorem phase_confinement:
  assumes "guest_run h (init_exec_ctx r shm mz w conf phase rt) y"
  shows "phase_kind y = phase \<and> capabilities (exec_abi y) = phase_capabilities phase \<and>
    request (exec_abi y) \<noteq> None \<and>
    (phase \<in> {PHASE_LOG, PHASE_SSL_CLIENT_HELLO, PHASE_SSL_CERTIFICATE} \<longrightarrow>
       map_option headers_out (request (exec_abi y)) = Some (headers_out r) \<and>
       map_option variables (request (exec_abi y)) = Some (variables r)) \<and>
    (phase \<notin> {PHASE_CONTENT, PHASE_REWRITE, PHASE_SERVER_REWRITE, PHASE_BALANCER} \<longrightarrow>
       map_option headers_in (request (exec_abi y)) = Some (headers_in r)) \<and>
    (phase \<notin> {PHASE_CONTENT, PHASE_REWRITE, PHASE_SERVER_REWRITE} \<longrightarrow>
       \<not> yielded y \<and> suspend_kind y = SUSPEND_NONE \<and> wctx (exec_abi y) = w \<and> \<not> body_set (exec_abi y)) \<and>
    (phase \<noteq> PHASE_BODY_FILTER \<longrightarrow> \<not> resp_body_chunk_output_set (exec_abi y)) \<and>
    (phase \<noteq> PHASE_BALANCER \<longrightarrow> \<not> balancer_peer_set (exec_abi y)) \<and>
    (phase \<notin> {PHASE_SSL_CLIENT_HELLO, PHASE_SSL_CERTIFICATE} \<longrightarrow> \<not> ssl_handshake_rejected (exec_abi y))"
proof -
  let ?x = "init_exec_ctx r shm mz w conf phase rt"
  have E: "exec_frame ?x y" using guest_run_frame [OF assms null_safe_init(1)] .
  then have A: "abi_frame (exec_abi ?x) (exec_abi y)" by (simp add: exec_frame_def)
  have I: "\<not> body_set (exec_abi ?x)" "\<not> resp_body_chunk_output_set (exec_abi ?x)"
    "\<not> balancer_peer_set (exec_abi ?x)" "\<not> ssl_handshake_rejected (exec_abi ?x)"
    by (simp_all add: abi_init_def)
  note D = E [unfolded exec_frame_def require_phase] A [unfolded abi_frame_def require_phase] I
  show ?thesis
    using D by (cases phase) (simp_all add: phase_capabilities_def request_capabilities_def caps)
qed

theorem phase_confinement_witness:
  "\<exists>y. guest_run demo_host_env (demo_exec PHASE_HEADER_FILTER) y \<and> abi_status (exec_abi y) = 404 \<and>
     map_option headers_in (request (exec_abi y)) = Some (headers_in demo_request) \<and> \<not> yielded y"
proof -
  let ?x = "demo_exec PHASE_HEADER_FILTER"
  have h: "(''ngx_wasm_resp_set_status'', 1, host_resp_set_status) \<in> set (host_funcs demo_host_env)"
    unfolding host_funcs_def by simp
  obtain y where c: "host_resp_set_status [I32 404] 1 (None, ?x) = Ret 0 (None, y)"
      and st: "abi_status (exec_abi y) = 404"
    by (simp add: host_resp_set_status_def host_defs sig_ok_def demo_exec_def phase_capabilities_def caps
        abi_resp_set_status_def requiring_def abi_require_def wasm_codes)
  have g: "guest_run demo_host_env ?x y" by (rule guest_run.call [OF guest_run.start h c])
  from phase_confinement [OF g [unfolded demo_exec_def]] g st show ?thesis by blast
qed

text \<open>Handshakes. A guest that runs in a TLS handshake, without a request, never gets one:
  no operation it can call reads a request that is not there, none reaches the shared zones,
  and the connection's certificate changes in the certificate phase only.\<close>

theorem handshake_confinement:
  assumes "guest_run h (init_ssl_exec_ctx ssl conf phase rt) y"
  shows "request (exec_abi y) = None \<and> null_safe (exec_abi y) \<and>
    shm_zone (exec_abi y) = None \<and> metrics_zone (exec_abi y) = None \<and> wctx (exec_abi y) = None \<and>
    \<not> yielded y \<and> (phase \<noteq> PHASE_SSL_CERTIFICATE \<longrightarrow> ssl_conn (exec_abi y) = Some ssl) \<and>
    (phase \<notin> {PHASE_SSL_CLIENT_HELLO, PHASE_SSL_CERTIFICATE} \<longrightarrow> \<not> ssl_handshake_rejected (exec_abi y))"
proof -
  let ?x = "init_ssl_exec_ctx ssl conf phase rt"
  have E: "exec_frame ?x y" using guest_run_frame [OF assms null_safe_init(2)] .
  then have A: "abi_frame (exec_abi ?x) (exec_abi y)" by (simp add: exec_frame_def)
  have I: "\<not> ssl_handshake_rejected (exec_abi ?x)" "\<not> yielded ?x"
    by (simp_all add: abi_init_def init_ssl_exec_ctx_def)
  have N: "null_safe (exec_abi y)" unfolding null_safe_frame [OF A] by (rule null_safe_init(2))
  note D = E [unfolded exec_frame_def require_phase] A [unfolded abi_frame_def require_phase] I N
  show ?thesis
    using D by (cases phase) (simp_all add: ssl_capabilities_def caps)
qed

theorem handshake_confinement_witness:
  "\<exists>y. guest_run demo_host_env
       (init_ssl_exec_ctx 5 \<lparr>phase_set = Some True, phase_module = None, phase_module_path = None, phase_export = None\<rparr>
          PHASE_SSL_CLIENT_HELLO True :: (nat, demo_slab, nat, unit) exec_ctx) y \<and>
     ssl_handshake_rejected (exec_abi y) \<and> ssl_conn (exec_abi y) = Some 5"
proof -
  let ?x = "init_ssl_exec_ctx 5 \<lparr>phase_set = Some True, phase_module = None, phase_module_path = None, phase_export = None\<rparr>
          PHASE_SSL_CLIENT_HELLO True :: (nat, demo_slab, nat, unit) exec_ctx"
  have h: "(''ngx_wasm_ssl_reject_handshake'', 1, host_ssl_reject_handshake) \<in> set (host_funcs demo_host_env)"
    unfolding host_funcs_def by simp
  obtain y where c: "host_ssl_reject_handshake [I32 40] 1 (None, ?x) = Ret 0 (None, y)"
      and st: "ssl_handshake_rejected (exec_abi y)"
    by (simp add: host_ssl_reject_handshake_def host_defs sig_ok_def ssl_capabilities_def caps
        abi_ssl_reject_handshake_def requiring_def abi_require_def wasm_codes)
  have g: "guest_run demo_host_env ?x y" by (rule guest_run.call [OF guest_run.start h c])
  from handshake_confinement [OF g] g st show ?thesis by auto
qed

end
