(* ===== verification/Runtime.thy ===== *)
theory Runtime
  imports Host_Correct
begin

text \<open>
  Running a guest, \<^verbatim>\<open>src/ngx_http_wasm_runtime.c\<close>: the state that survives a suspension, the
  steps around Wasmtime's asynchronous calls, and \<^verbatim>\<open>ngx_http_wasm_runtime_run\<close>, which starts or
  resumes an execution and tells nginx whether it is done, suspended or failed; and the cache
  of compiled modules.
\<close>

section \<open>Wasmtime\<close>

text \<open>
  A trap carries a code or none. A future that completes has written an error, a trap, and the
  result of the export. Starting one gives a future, or none with the error or trap it wrote.
\<close>

type_synonym wasm_trap = "nat option"

record outputs =
  out_error :: bool
  out_trap :: "wasm_trap option"
  out_result :: wasm_val

datatype poll = Pending | Complete outputs

datatype extern_kind = ExternFunc | ExternOther

text \<open>
  The functions of Wasmtime's C API that are used, on a store of type \<open>'w\<close>: the store holds the
  instance, the guest's memory, the fuel and the future. Polling runs the guest, whose calls of
  host functions act on the execution context. A NULL error is success.
\<close>

record ('w, 'm, 'x) wasmtime =
  store_new :: "'w option"
  set_fuel :: "u64 \<Rightarrow> 'w \<Rightarrow> 'w option"
  get_fuel :: "'w \<Rightarrow> u64 option"
  fuel_async_yield_interval :: "u64 \<Rightarrow> 'w \<Rightarrow> 'w option"
  linker_instantiate_async :: "'m \<Rightarrow> 'w \<Rightarrow> 'w \<times> (bool \<times> wasm_trap option) option"
  instance_export_get :: "'w \<Rightarrow> bytes \<Rightarrow> extern_kind option"
  func_call_async :: "'w \<Rightarrow> 'w \<times> (bool \<times> wasm_trap option) option"
  call_future_poll :: "'w \<Rightarrow> 'x \<Rightarrow> poll \<times> 'w \<times> 'x"

section \<open>State kept across suspensions\<close>

datatype future_kind = FUTURE_NONE | FUTURE_INSTANTIATE | FUTURE_CALL

text \<open>
  \<^verbatim>\<open>ngx_http_wasm_resume_state_t\<close>. The future lives in the store; \<open>future\<close> says whether the
  pointer is set. The instance and function handles point into the store.
\<close>

record 'w resume_state =
  future_kind :: future_kind
  store :: "'w option"
  future :: bool
  results :: wasm_val
  trap :: "wasm_trap option"
  error :: bool
  instance_ready :: bool
  func_ready :: bool

definition resume_zero :: "'w resume_state" where
  "resume_zero = \<lparr>future_kind = FUTURE_NONE, store = None, future = False, results = I32 0,
     trap = None, error = False, instance_ready = False, func_ready = False\<rparr>"

definition clear_async_future :: "'w resume_state \<Rightarrow> 'w resume_state" where
  "clear_async_future rs = rs\<lparr>future := False, future_kind := FUTURE_NONE\<rparr>"

definition clear_async_outputs :: "'w resume_state \<Rightarrow> 'w resume_state" where
  "clear_async_outputs rs = rs\<lparr>trap := None, error := False, results := I32 0\<rparr>"

definition reset_resume_state :: "'w resume_state \<Rightarrow> 'w resume_state" where
  "reset_resume_state rs =
     (clear_async_outputs (clear_async_future rs))
       \<lparr>store := None, instance_ready := False, func_ready := False\<rparr>"

text \<open>
  \<^verbatim>\<open>ngx_http_wasm_runtime_cleanup_exec_ctx\<close>: what is left of the state in the pool, and the new
  value of \<^verbatim>\<open>ctx->resume_state\<close>.
\<close>

definition cleanup_exec_ctx ::
  "'w resume_state option \<Rightarrow> 'w resume_state option \<times> 'w resume_state option" where
  "cleanup_exec_ctx rs =
     (case rs of None \<Rightarrow> (None, None) | Some rs \<Rightarrow> (Some (reset_resume_state rs), None))"

text \<open>What a finished future wrote is stored beside it.\<close>

definition put_outputs :: "outputs \<Rightarrow> 'w resume_state \<Rightarrow> 'w resume_state" where
  "put_outputs out rs = rs\<lparr>error := out_error out, trap := out_trap out, results := out_result out\<rparr>"

section \<open>Steps of a run\<close>

definition begin_run :: "('p, 's, 'c, 'm) exec_ctx \<Rightarrow> ('p, 's, 'c, 'm) exec_ctx" where
  "begin_run ctx = ctx\<lparr>exec_state := EXEC_RUNNING, suspend_kind := SUSPEND_NONE, yielded := False\<rparr>"

definition suspend ::
  "suspend_kind \<Rightarrow> ('p, 's, 'c, 'm) exec_ctx \<Rightarrow> int \<times> ('p, 's, 'c, 'm) exec_ctx" where
  "suspend kind ctx = (NGX_AGAIN, ctx\<lparr>exec_state := EXEC_SUSPENDED, suspend_kind := kind\<rparr>)"

definition failed :: "('p, 's, 'c, 'm) exec_ctx \<Rightarrow> ('p, 's, 'c, 'm) exec_ctx" where
  "failed ctx = ctx\<lparr>exec_state := EXEC_ERROR\<rparr>"

definition update_fuel ::
  "('w, 'm, 'x) wasmtime \<Rightarrow> 'w \<Rightarrow> ('p, 's, 'c, 'm) exec_ctx \<Rightarrow> ('p, 's, 'c, 'm) exec_ctx option" where
  "update_fuel wt w ctx = map_option (\<lambda>fuel. ctx\<lparr>fuel_remaining := fuel\<rparr>) (get_fuel wt w)"

definition prepare_async_op ::
  "future_kind \<Rightarrow> 'w resume_state \<Rightarrow> 'w resume_state option" where
  "prepare_async_op kind rs =
     (if (\<not> future rs) \<noteq> (future_kind rs = FUTURE_NONE) then None
      else if future rs then None
      else Some ((clear_async_outputs rs)\<lparr>future_kind := kind\<rparr>))"

definition yield_interval :: "('p, 's, 'c, 'm) exec_ctx \<Rightarrow> u64" where
  "yield_interval ctx =
     (if timeslice_fuel ctx > 0 \<and> timeslice_fuel ctx < fuel_remaining ctx
      then timeslice_fuel ctx else fuel_remaining ctx)"

definition prepare_async_yield ::
  "('w, 'm, 'x) wasmtime \<Rightarrow> ('p, 's, 'c, 'm) exec_ctx \<Rightarrow> 'w \<Rightarrow> 'w option" where
  "prepare_async_yield wt ctx w =
     (if fuel_remaining ctx = 0 then None
      else fuel_async_yield_interval wt (yield_interval ctx) w)"

section \<open>A run\<close>

text \<open>
  A step returns from the run (\<open>Inl\<close>, with nginx's code) or goes on (\<open>Inr\<close>). The start of a
  future and the wait for it are the same for the instantiation and for the call; a failure to
  start drops the error or else the trap it reports.
\<close>

type_synonym ('p, 's, 'c, 'm, 'w) run_state = "('p, 's, 'c, 'm) exec_ctx \<times> 'w resume_state"

type_synonym ('p, 's, 'c, 'm, 'w) run_step =
  "int \<times> ('p, 's, 'c, 'm, 'w) run_state + ('p, 's, 'c, 'm, 'w) run_state"

definition andthen :: "'e + 'a \<Rightarrow> ('a \<Rightarrow> 'e + 'b) \<Rightarrow> 'e + 'b" where
  "andthen r f = (case r of Inl e \<Rightarrow> Inl e | Inr a \<Rightarrow> f a)"

definition start_future ::
  "('w, 'm, 'x) wasmtime \<Rightarrow> future_kind \<Rightarrow> ('w \<Rightarrow> 'w \<times> (bool \<times> wasm_trap option) option)
     \<Rightarrow> ('p, 's, 'c, 'm, 'w) run_state \<Rightarrow> ('p, 's, 'c, 'm, 'w) run_step" where
  "start_future wt kind start = (\<lambda>(ctx, rs).
     if future rs then Inr (ctx, rs)
     else (case prepare_async_yield wt ctx (the (store rs)) of
        None \<Rightarrow> Inl (NGX_ERROR, failed ctx, rs)
      | Some w \<Rightarrow>
          (case prepare_async_op kind (rs\<lparr>store := Some w\<rparr>) of
             None \<Rightarrow> Inl (NGX_ERROR, failed ctx, rs\<lparr>store := Some w\<rparr>)
           | Some rs \<Rightarrow>
               (case start w of
                  (w, None) \<Rightarrow> Inr (ctx, rs\<lparr>store := Some w, future := True\<rparr>)
                | (w, Some (err, tr)) \<Rightarrow>
                    Inl (NGX_ERROR, failed ctx,
                         clear_async_future
                           (rs\<lparr>store := Some w, error := False,
                               trap := (if err then tr else None)\<rparr>))))))"

definition await_future ::
  "('w, 'm, ('p, 's, 'c, 'm) exec_ctx) wasmtime
     \<Rightarrow> ('p, 's, 'c, 'm, 'w) run_state \<Rightarrow> ('p, 's, 'c, 'm, 'w) run_step" where
  "await_future wt = (\<lambda>(ctx, rs).
     case call_future_poll wt (the (store rs)) ctx of
       (Pending, w, ctx) \<Rightarrow>
         (case update_fuel wt w ctx of
            None \<Rightarrow> Inl (NGX_ERROR, failed ctx, rs\<lparr>store := Some w\<rparr>)
          | Some ctx \<Rightarrow>
              if fuel_remaining ctx = 0 then Inl (NGX_ERROR, failed ctx, rs\<lparr>store := Some w\<rparr>)
              else (case suspend SUSPEND_RESCHEDULE ctx of
                      (rc, ctx) \<Rightarrow> Inl (rc, ctx, rs\<lparr>store := Some w\<rparr>)))
     | (Complete out, w, ctx) \<Rightarrow>
         (let rs = clear_async_future (put_outputs out (rs\<lparr>store := Some w\<rparr>))
          in case update_fuel wt w ctx of
               None \<Rightarrow> Inl (NGX_ERROR, failed ctx, rs)
             | Some ctx \<Rightarrow>
                 if error rs then Inl (NGX_ERROR, failed ctx, rs\<lparr>error := False\<rparr>)
                 else Inr (ctx, rs)))"

definition run_instantiate ::
  "('w, 'm, ('p, 's, 'c, 'm) exec_ctx) wasmtime \<Rightarrow> 'm
     \<Rightarrow> ('p, 's, 'c, 'm, 'w) run_state \<Rightarrow> ('p, 's, 'c, 'm, 'w) run_step" where
  "run_instantiate wt m = (\<lambda>(ctx, rs).
     if instance_ready rs then Inr (ctx, rs)
     else andthen (andthen (start_future wt FUTURE_INSTANTIATE (linker_instantiate_async wt m) (ctx, rs))
                     (await_future wt))
       (\<lambda>(ctx, rs).
          if trap rs \<noteq> None then Inl (NGX_ERROR, failed ctx, rs\<lparr>trap := None\<rparr>)
          else Inr (ctx, rs\<lparr>instance_ready := True\<rparr>)))"

definition run_lookup ::
  "('w, 'm, ('p, 's, 'c, 'm) exec_ctx) wasmtime
     \<Rightarrow> ('p, 's, 'c, 'm, 'w) run_state \<Rightarrow> ('p, 's, 'c, 'm, 'w) run_step" where
  "run_lookup wt = (\<lambda>(ctx, rs).
     if func_ready rs then Inr (ctx, rs)
     else if instance_export_get wt (the (store rs))
               (case phase_export (exec_conf ctx) of None \<Rightarrow> [] | Some name \<Rightarrow> name) \<noteq> Some ExternFunc
     then Inl (NGX_ERROR, failed ctx, rs)
     else Inr (ctx, rs\<lparr>func_ready := True\<rparr>))"

text \<open>
  After the call: a yield comes first, then a trap, then the value of the export. A trap by lack
  of fuel is logged in another way than others; the outcome is the same.
\<close>

definition run_result ::
  "('p, 's, 'c, 'm, 'w) run_state \<Rightarrow> int \<times> ('p, 's, 'c, 'm, 'w) run_state" where
  "run_result = (\<lambda>(ctx, rs).
     if yielded ctx
     then (case suspend (if suspend_kind ctx = SUSPEND_NONE then SUSPEND_RESCHEDULE
                         else suspend_kind ctx) ctx of
             (rc, ctx) \<Rightarrow> (rc, ctx, rs))
     else if trap rs \<noteq> None then (NGX_ERROR, failed ctx, rs\<lparr>trap := None\<rparr>)
     else if results rs \<noteq> I32 0 then (NGX_ERROR, failed ctx, rs)
     else (NGX_OK, ctx\<lparr>exec_state := EXEC_DONE\<rparr>, rs))"

definition run_guest ::
  "('w, 'm, ('p, 's, 'c, 'm) exec_ctx) wasmtime \<Rightarrow> 'm
     \<Rightarrow> ('p, 's, 'c, 'm, 'w) run_state \<Rightarrow> int \<times> ('p, 's, 'c, 'm, 'w) run_state" where
  "run_guest wt m x =
     (case andthen (andthen (andthen (run_instantiate wt m x) (run_lookup wt))
             (start_future wt FUTURE_CALL (func_call_async wt))) (await_future wt) of
        Inl r \<Rightarrow> r
      | Inr x \<Rightarrow> run_result x)"

definition runtime_run ::
  "('w, 'm, ('p, 's, 'c, 'm) exec_ctx) wasmtime \<Rightarrow> bool \<Rightarrow> ('p, 's, 'c, 'm) exec_ctx
     \<Rightarrow> 'w resume_state option
     \<Rightarrow> int \<times> ('p, 's, 'c, 'm) exec_ctx \<times> 'w resume_state option" where
  "runtime_run wt pcalloc ctx resume =
     (if \<not> runtime_ready ctx then (NGX_ERROR, failed ctx, resume)
      else (case Option.bind (phase_module (exec_conf ctx)) compiled of
         None \<Rightarrow> (NGX_ERROR, failed ctx, resume)
       | Some m \<Rightarrow>
           (case (case resume of Some rs \<Rightarrow> Some rs
                  | None \<Rightarrow> if pcalloc then Some resume_zero else None) of
              None \<Rightarrow> (NGX_ERROR, failed ctx, None)
            | Some rs \<Rightarrow>
                (let fresh = (store rs = None);
                     rs = (if fresh then rs\<lparr>store := store_new wt\<rparr> else rs)
                 in case store rs of
                      None \<Rightarrow> (NGX_ERROR, failed ctx, Some rs)
                    | Some w \<Rightarrow>
                        (case (if fresh \<and> fuel_limit ctx > 0 then set_fuel wt (fuel_limit ctx) w
                               else Some w) of
                           None \<Rightarrow> (NGX_ERROR, failed ctx, Some rs)
                         | Some w \<Rightarrow>
                             (case run_guest wt m (begin_run ctx, rs\<lparr>store := Some w\<rparr>) of
                                (rc, ctx, rs) \<Rightarrow> (rc, ctx, Some rs)))))))"

section \<open>The module cache\<close>

definition find_module :: "'m cached_module list \<Rightarrow> bytes \<Rightarrow> 'm cached_module option" where
  "find_module modules path =
     find (\<lambda>m. length (module_path m) = length path \<and> strn_eq (module_path m) path) modules"

definition wasm_magic :: bytes where
  "wasm_magic = [0x00, 0x61, 0x73, 0x6d]"

definition compile_module ::
  "(bytes \<Rightarrow> 'm option) \<Rightarrow> (bytes \<Rightarrow> bytes option) \<Rightarrow> bytes \<Rightarrow> 'm option" where
  "compile_module module_new wat2wasm d =
     (if length d \<ge> length wasm_magic \<and> take (length wasm_magic) d = wasm_magic then module_new d
      else (case wat2wasm d of None \<Rightarrow> None | Some binary \<Rightarrow> module_new binary))"

text \<open>
  Reading the module file: opening, its size, the buffer, one read. The path is a C string.
\<close>

record 'f files =
  open_file :: "bytes \<Rightarrow> 'f option"
  file_size :: "'f \<Rightarrow> int option"
  read_fd :: "'f \<Rightarrow> nat \<Rightarrow> int \<times> bytes"

definition read_file :: "'f files \<Rightarrow> bool \<Rightarrow> bytes \<Rightarrow> bytes option" where
  "read_file fs pnalloc path =
     (case open_file fs (takeWhile (\<lambda>b. b \<noteq> 0) path) of
        None \<Rightarrow> None
      | Some fd \<Rightarrow>
          (case file_size fs fd of
             None \<Rightarrow> None
           | Some sz \<Rightarrow>
               if sz < 0 then None
               else if \<not> pnalloc then None
               else (case read_fd fs fd (nat sz) of
                       (n, d) \<Rightarrow> if n = NGX_ERROR \<or> n \<noteq> sz then None else Some (take (nat sz) d))))"

text \<open>
  \<open>allocs\<close> tells which of the allocations succeed: the entry, the copy of the path, the file's
  buffer, the slot of the array. The result is the entry and the array.
\<close>

definition get_or_load ::
  "'f files \<Rightarrow> (bytes \<Rightarrow> 'm option) \<Rightarrow> (bytes \<Rightarrow> bytes option) \<Rightarrow> bool \<times> bool \<times> bool \<times> bool
     \<Rightarrow> 'm cached_module list \<Rightarrow> bytes \<Rightarrow> 'm cached_module option \<times> 'm cached_module list" where
  "get_or_load fs module_new wat2wasm allocs modules path =
     (case allocs of (a_entry, a_path, a_file, a_slot) \<Rightarrow>
        (case find_module modules path of
           Some entry \<Rightarrow> (Some entry, modules)
         | None \<Rightarrow>
             if \<not> a_entry then (None, modules)
             else if \<not> a_path then (None, modules)
             else (case read_file fs a_file path of
                     None \<Rightarrow> (None, modules)
                   | Some d \<Rightarrow>
                       (case compile_module module_new wat2wasm d of
                          None \<Rightarrow> (None, modules)
                        | Some m \<Rightarrow>
                            if \<not> a_slot then (None, modules)
                            else (let entry = \<lparr>module_path = path, compiled = Some m\<rparr>
                                  in (Some entry, modules @ [entry]))))))"

end
