(* ===== verification/Conf.thy ===== *)
theory Conf
  imports Runtime
begin

text \<open>
  The configuration of the module, \<^verbatim>\<open>src/ngx_http_wasm_module.c\<close>: the record of a server or
  location, its directives, the merge of an inner block with the outer one, the main record,
  and the installation of the handlers. A field that is \<^verbatim>\<open>NGX_CONF_UNSET\<close> is \<open>None\<close>; a
  callback returns \<open>conf_rv\<close> and the records it has written, also when it fails.
\<close>

section \<open>Records\<close>

definition DEFAULT_FUEL_LIMIT :: u64 where "DEFAULT_FUEL_LIMIT = 1000000"
definition DEFAULT_TIMESLICE_FUEL :: u64 where "DEFAULT_TIMESLICE_FUEL = 10000"
definition DEFAULT_REQUEST_BODY_BUFFER_SIZE :: nat where "DEFAULT_REQUEST_BODY_BUFFER_SIZE = 0"
definition DEFAULT_BODY_FILTER_FILE_CHUNK_SIZE :: nat where "DEFAULT_BODY_FILTER_FILE_CHUNK_SIZE = 16384"
definition DEFAULT_SUBREQUEST_BUFFER_SIZE :: nat where "DEFAULT_SUBREQUEST_BUFFER_SIZE = 65536"

text \<open>
  Upstream callbacks are known by name: the module's own, or the one of some other module.
\<close>

datatype upstream_cb = WasmCb | OtherCb nat

record upstream_srv_conf =
  us_init_upstream :: "upstream_cb option"
  us_init_peer :: "upstream_cb option"

record 'm wasm_conf =
  conf_fuel_limit :: "u64 option"
  conf_timeslice_fuel :: "u64 option"
  request_body_buffer_size :: "nat option"
  body_filter_file_chunk_size :: "nat option"
  subrequest_buffer_size :: "nat option"
  content_conf :: "'m phase_conf"
  rewrite_conf :: "'m phase_conf"
  server_rewrite_conf :: "'m phase_conf"
  balancer_conf :: "'m phase_conf"
  header_filter_conf :: "'m phase_conf"
  body_filter_conf :: "'m phase_conf"
  log_conf :: "'m phase_conf"
  ssl_client_hello_conf :: "'m phase_conf"
  ssl_certificate_conf :: "'m phase_conf"
  original_init_upstream :: "upstream_cb option"
  original_init_peer :: "upstream_cb option"
  metrics_endpoint :: "bool option"

text \<open>\<^verbatim>\<open>&wcf->content\<close> and so on: the phase's part of the record.\<close>

fun phase_of :: "phase \<Rightarrow> 'm wasm_conf \<Rightarrow> 'm phase_conf" where
  "phase_of PHASE_CONTENT c = content_conf c"
| "phase_of PHASE_REWRITE c = rewrite_conf c"
| "phase_of PHASE_SERVER_REWRITE c = server_rewrite_conf c"
| "phase_of PHASE_BALANCER c = balancer_conf c"
| "phase_of PHASE_HEADER_FILTER c = header_filter_conf c"
| "phase_of PHASE_BODY_FILTER c = body_filter_conf c"
| "phase_of PHASE_LOG c = log_conf c"
| "phase_of PHASE_SSL_CLIENT_HELLO c = ssl_client_hello_conf c"
| "phase_of PHASE_SSL_CERTIFICATE c = ssl_certificate_conf c"

definition unset_phase :: "'m phase_conf" where
  "unset_phase = \<lparr>phase_set = None, phase_module = None, phase_module_path = None, phase_export = None\<rparr>"

definition create_conf :: "bool \<Rightarrow> 'm wasm_conf option" where
  "create_conf pcalloc =
     (if \<not> pcalloc then None
      else Some \<lparr>conf_fuel_limit = None, conf_timeslice_fuel = None, request_body_buffer_size = None,
             body_filter_file_chunk_size = None, subrequest_buffer_size = None,
             content_conf = unset_phase, rewrite_conf = unset_phase,
             server_rewrite_conf = unset_phase, balancer_conf = unset_phase,
             header_filter_conf = unset_phase, body_filter_conf = unset_phase,
             log_conf = unset_phase, ssl_client_hello_conf = unset_phase,
             ssl_certificate_conf = unset_phase,
             original_init_upstream = None, original_init_peer = None, metrics_endpoint = None\<rparr>)"

text \<open>
  Unset numbers are the largest ones of their type, for the code that reads a record that has
  not been merged.
\<close>

definition conf_uint :: "u64 option \<Rightarrow> u64" where
  "conf_uint v = (case v of None \<Rightarrow> -1 | Some x \<Rightarrow> x)"

definition conf_size :: "nat option \<Rightarrow> nat" where
  "conf_size v = (case v of None \<Rightarrow> 2 ^ 64 - 1 | Some n \<Rightarrow> n)"

section \<open>Merge\<close>

text \<open>\<^verbatim>\<open>ngx_conf_merge_value\<close> and its siblings: the inner value, else the outer one, else a default.\<close>

definition conf_merge :: "'a option \<Rightarrow> 'a option \<Rightarrow> 'a \<Rightarrow> 'a option" where
  "conf_merge c p d =
     (case c of Some _ \<Rightarrow> c | None \<Rightarrow> (case p of Some _ \<Rightarrow> p | None \<Rightarrow> Some d))"

definition inherit :: "'a option \<Rightarrow> 'a option \<Rightarrow> 'a option" where
  "inherit p c = (if c = None \<and> p \<noteq> None then p else c)"

definition merge_phase_conf :: "'m phase_conf \<Rightarrow> 'm phase_conf \<Rightarrow> 'm phase_conf" where
  "merge_phase_conf p c =
     \<lparr>phase_set = conf_merge (phase_set c) (phase_set p) False,
      phase_module = (if phase_module c = None \<and> phase_module p \<noteq> None then phase_module p
                      else phase_module c),
      phase_module_path = inherit (phase_module_path p) (phase_module_path c),
      phase_export = inherit (phase_export p) (phase_export c)\<rparr>"

definition merge_conf :: "'m wasm_conf \<Rightarrow> 'm wasm_conf \<Rightarrow> conf_rv \<times> 'm wasm_conf" where
  "merge_conf p c =
     (ConfOk, c
       \<lparr>conf_fuel_limit := conf_merge (conf_fuel_limit c) (conf_fuel_limit p) DEFAULT_FUEL_LIMIT,
        conf_timeslice_fuel :=
          conf_merge (conf_timeslice_fuel c) (conf_timeslice_fuel p) DEFAULT_TIMESLICE_FUEL,
        request_body_buffer_size :=
          conf_merge (request_body_buffer_size c) (request_body_buffer_size p)
            DEFAULT_REQUEST_BODY_BUFFER_SIZE,
        body_filter_file_chunk_size :=
          conf_merge (body_filter_file_chunk_size c) (body_filter_file_chunk_size p)
            DEFAULT_BODY_FILTER_FILE_CHUNK_SIZE,
        subrequest_buffer_size :=
          conf_merge (subrequest_buffer_size c) (subrequest_buffer_size p)
            DEFAULT_SUBREQUEST_BUFFER_SIZE,
        metrics_endpoint := conf_merge (metrics_endpoint c) (metrics_endpoint p) False,
        content_conf := merge_phase_conf (content_conf p) (content_conf c),
        rewrite_conf := merge_phase_conf (rewrite_conf p) (rewrite_conf c),
        server_rewrite_conf := merge_phase_conf (server_rewrite_conf p) (server_rewrite_conf c),
        balancer_conf := merge_phase_conf (balancer_conf p) (balancer_conf c),
        header_filter_conf := merge_phase_conf (header_filter_conf p) (header_filter_conf c),
        body_filter_conf := merge_phase_conf (body_filter_conf p) (body_filter_conf c),
        log_conf := merge_phase_conf (log_conf p) (log_conf c),
        ssl_client_hello_conf := merge_phase_conf (ssl_client_hello_conf p) (ssl_client_hello_conf c),
        ssl_certificate_conf := merge_phase_conf (ssl_certificate_conf p) (ssl_certificate_conf c)\<rparr>)"

text \<open>A location's content handler is \<^verbatim>\<open>clcf->handler\<close>; the later installation wins.\<close>

datatype content_cb = ContentHandler | MetricsHandler | OtherHandler nat

definition merge_loc_conf ::
  "'m wasm_conf \<Rightarrow> 'm wasm_conf \<Rightarrow> content_cb option \<Rightarrow> conf_rv \<times> 'm wasm_conf \<times> content_cb option" where
  "merge_loc_conf p c handler =
     (case merge_conf p c of
        (rc, c) \<Rightarrow>
          if rc \<noteq> ConfOk then (rc, c, handler)
          else if phase_set (content_conf c) = Some True \<and> metrics_endpoint c = Some True
          then (ConfError, c, handler)
          else (let handler = (if phase_set (content_conf c) = Some True then Some ContentHandler else handler);
                    handler = (if metrics_endpoint c = Some True then Some MetricsHandler else handler)
                in (ConfOk, c, handler)))"

section \<open>The commands\<close>

text \<open>
  The table of directives: the blocks a directive may stand in, its number of arguments, and the
  record it writes, that of the main block, of the server or of the location.
\<close>

datatype conf_block = HttpBlock | ServerBlock | LocationBlock | UpstreamBlock

datatype conf_level = MainConf | SrvConf | LocConf

definition commands :: "(string \<times> conf_block list \<times> nat \<times> conf_level) list" where
  "commands = [
     (''content_by_wasm'', [HttpBlock, ServerBlock, LocationBlock], 2, LocConf),
     (''rewrite_by_wasm'', [HttpBlock, ServerBlock, LocationBlock], 2, LocConf),
     (''server_rewrite_by_wasm'', [HttpBlock, ServerBlock], 2, SrvConf),
     (''balancer_by_wasm'', [UpstreamBlock], 2, SrvConf),
     (''header_filter_by_wasm'', [HttpBlock, ServerBlock, LocationBlock], 2, LocConf),
     (''body_filter_by_wasm'', [HttpBlock, ServerBlock, LocationBlock], 2, LocConf),
     (''log_by_wasm'', [HttpBlock, ServerBlock, LocationBlock], 2, LocConf),
     (''ssl_client_hello_by_wasm'', [HttpBlock, ServerBlock], 2, SrvConf),
     (''ssl_certificate_by_wasm'', [HttpBlock, ServerBlock], 2, SrvConf),
     (''wasm_fuel_limit'', [HttpBlock, ServerBlock, LocationBlock], 1, LocConf),
     (''wasm_shm_zone'', [HttpBlock], 2, MainConf),
     (''wasm_metrics_zone'', [HttpBlock], 2, MainConf),
     (''wasm_counter'', [HttpBlock], 1, MainConf),
     (''wasm_gauge'', [HttpBlock], 1, MainConf),
     (''wasm_metrics'', [LocationBlock], 0, LocConf),
     (''wasm_request_body_buffer_size'', [HttpBlock, ServerBlock, LocationBlock], 1, LocConf),
     (''wasm_body_filter_file_chunk_size'', [HttpBlock, ServerBlock, LocationBlock], 1, LocConf),
     (''wasm_subrequest_buffer_size'', [HttpBlock, ServerBlock, LocationBlock], 1, LocConf),
     (''wasm_timeslice_fuel'', [HttpBlock, ServerBlock, LocationBlock], 1, LocConf)]"

definition command_conf :: "string \<Rightarrow> conf_level option" where
  "command_conf name = map_option (\<lambda>(blocks, args, level). level) (map_of commands name)"

section \<open>Directives\<close>

text \<open>
  What the directives call outside the module: \<^verbatim>\<open>ngx_conf_full_name\<close>, the number parsers, the
  page size, and what the module cache needs of files, Wasmtime and the pool.
\<close>

record ('m, 'f) conf_env =
  ngx_conf_full_name :: "bytes \<Rightarrow> bytes option"
  ngx_parse_size :: "bytes \<Rightarrow> int"
  ngx_atoi :: "bytes \<Rightarrow> int"
  ngx_pagesize :: int
  cf_files :: "'f files"
  cf_module_new :: "bytes \<Rightarrow> 'm option"
  cf_wat2wasm :: "bytes \<Rightarrow> bytes option"
  cf_allocs :: "bool \<times> bool \<times> bool \<times> bool"

definition configure_phase ::
  "('m, 'f) conf_env \<Rightarrow> bytes \<Rightarrow> bytes \<Rightarrow> 'm cached_module list option \<Rightarrow> 'm phase_conf
     \<Rightarrow> int \<times> 'm phase_conf \<times> 'm cached_module list option" where
  "configure_phase e path name modules dst =
     (if phase_set dst = Some True then (NGX_DECLINED, dst, modules)
      else (let dst = dst\<lparr>phase_module_path := Some path, phase_export := Some name, phase_set := Some True\<rparr>
            in case ngx_conf_full_name e path of
                 None \<Rightarrow> (NGX_ERROR, dst, modules)
               | Some full \<Rightarrow>
                   (let dst = dst\<lparr>phase_module_path := Some full\<rparr>
                    in case modules of
                         None \<Rightarrow> (NGX_ERROR, dst, modules)
                       | Some ms \<Rightarrow>
                           (case get_or_load (cf_files e) (cf_module_new e) (cf_wat2wasm e) (cf_allocs e) ms full of
                              (m, ms) \<Rightarrow>
                                (if m = None then NGX_ERROR else NGX_OK, dst\<lparr>phase_module := m\<rparr>, Some ms)))))"

text \<open>The end of each directive that names a guest.\<close>

definition phase_directive :: "int \<Rightarrow> conf_rv" where
  "phase_directive rc =
     (if rc = NGX_OK then ConfOk else if rc = NGX_DECLINED then ConfMessage ''is duplicate'' else ConfError)"

definition content_by ::
  "('m, 'f) conf_env \<Rightarrow> bytes \<Rightarrow> bytes \<Rightarrow> 'm cached_module list option \<Rightarrow> 'm wasm_conf
     \<Rightarrow> conf_rv \<times> 'm wasm_conf \<times> 'm cached_module list option" where
  "content_by e path name ms c =
     (case configure_phase e path name ms (content_conf c) of
        (rc, p, ms) \<Rightarrow> (phase_directive rc, c\<lparr>content_conf := p\<rparr>, ms))"

definition rewrite_by ::
  "('m, 'f) conf_env \<Rightarrow> bytes \<Rightarrow> bytes \<Rightarrow> 'm cached_module list option \<Rightarrow> 'm wasm_conf
     \<Rightarrow> conf_rv \<times> 'm wasm_conf \<times> 'm cached_module list option" where
  "rewrite_by e path name ms c =
     (case configure_phase e path name ms (rewrite_conf c) of
        (rc, p, ms) \<Rightarrow> (phase_directive rc, c\<lparr>rewrite_conf := p\<rparr>, ms))"

definition server_rewrite_by ::
  "('m, 'f) conf_env \<Rightarrow> bytes \<Rightarrow> bytes \<Rightarrow> 'm cached_module list option \<Rightarrow> 'm wasm_conf
     \<Rightarrow> conf_rv \<times> 'm wasm_conf \<times> 'm cached_module list option" where
  "server_rewrite_by e path name ms c =
     (case configure_phase e path name ms (server_rewrite_conf c) of
        (rc, p, ms) \<Rightarrow> (phase_directive rc, c\<lparr>server_rewrite_conf := p\<rparr>, ms))"

definition header_filter_by ::
  "('m, 'f) conf_env \<Rightarrow> bytes \<Rightarrow> bytes \<Rightarrow> 'm cached_module list option \<Rightarrow> 'm wasm_conf
     \<Rightarrow> conf_rv \<times> 'm wasm_conf \<times> 'm cached_module list option" where
  "header_filter_by e path name ms c =
     (case configure_phase e path name ms (header_filter_conf c) of
        (rc, p, ms) \<Rightarrow> (phase_directive rc, c\<lparr>header_filter_conf := p\<rparr>, ms))"

definition body_filter_by ::
  "('m, 'f) conf_env \<Rightarrow> bytes \<Rightarrow> bytes \<Rightarrow> 'm cached_module list option \<Rightarrow> 'm wasm_conf
     \<Rightarrow> conf_rv \<times> 'm wasm_conf \<times> 'm cached_module list option" where
  "body_filter_by e path name ms c =
     (case configure_phase e path name ms (body_filter_conf c) of
        (rc, p, ms) \<Rightarrow> (phase_directive rc, c\<lparr>body_filter_conf := p\<rparr>, ms))"

definition log_by ::
  "('m, 'f) conf_env \<Rightarrow> bytes \<Rightarrow> bytes \<Rightarrow> 'm cached_module list option \<Rightarrow> 'm wasm_conf
     \<Rightarrow> conf_rv \<times> 'm wasm_conf \<times> 'm cached_module list option" where
  "log_by e path name ms c =
     (case configure_phase e path name ms (log_conf c) of
        (rc, p, ms) \<Rightarrow> (phase_directive rc, c\<lparr>log_conf := p\<rparr>, ms))"

definition ssl_client_hello_by ::
  "('m, 'f) conf_env \<Rightarrow> bytes \<Rightarrow> bytes \<Rightarrow> 'm cached_module list option \<Rightarrow> 'm wasm_conf
     \<Rightarrow> conf_rv \<times> 'm wasm_conf \<times> 'm cached_module list option" where
  "ssl_client_hello_by e path name ms c =
     (case configure_phase e path name ms (ssl_client_hello_conf c) of
        (rc, p, ms) \<Rightarrow> (phase_directive rc, c\<lparr>ssl_client_hello_conf := p\<rparr>, ms))"

definition ssl_certificate_by ::
  "('m, 'f) conf_env \<Rightarrow> bytes \<Rightarrow> bytes \<Rightarrow> 'm cached_module list option \<Rightarrow> 'm wasm_conf
     \<Rightarrow> conf_rv \<times> 'm wasm_conf \<times> 'm cached_module list option" where
  "ssl_certificate_by e path name ms c =
     (case configure_phase e path name ms (ssl_certificate_conf c) of
        (rc, p, ms) \<Rightarrow> (phase_directive rc, c\<lparr>ssl_certificate_conf := p\<rparr>, ms))"

text \<open>\<open>uscf\<close> is the upstream's server record, \<open>None\<close> when the block has none.\<close>

definition balancer_by ::
  "('m, 'f) conf_env \<Rightarrow> bytes \<Rightarrow> bytes \<Rightarrow> upstream_srv_conf option \<Rightarrow> 'm cached_module list option \<Rightarrow> 'm wasm_conf
     \<Rightarrow> conf_rv \<times> 'm wasm_conf \<times> 'm cached_module list option \<times> upstream_srv_conf option" where
  "balancer_by e path name uscf ms c =
     (case configure_phase e path name ms (balancer_conf c) of
        (rc, p, ms) \<Rightarrow>
          (let c = c\<lparr>balancer_conf := p\<rparr>
           in if rc \<noteq> NGX_OK then (phase_directive rc, c, ms, uscf)
              else (case uscf of
                      None \<Rightarrow> (ConfError, c, ms, uscf)
                    | Some us \<Rightarrow>
                        (ConfOk, c\<lparr>original_init_upstream := us_init_upstream us\<rparr>, ms,
                         Some (us\<lparr>us_init_upstream := Some WasmCb\<rparr>)))))"

definition metrics_directive :: "'m wasm_conf \<Rightarrow> conf_rv \<times> 'm wasm_conf" where
  "metrics_directive c =
     (if metrics_endpoint c = Some True then (ConfMessage ''is duplicate'', c)
      else (ConfOk, c\<lparr>metrics_endpoint := Some True\<rparr>))"

definition set_request_body_buffer_size ::
  "('m, 'f) conf_env \<Rightarrow> bytes \<Rightarrow> 'm wasm_conf \<Rightarrow> conf_rv \<times> 'm wasm_conf" where
  "set_request_body_buffer_size e v c =
     (let n = ngx_parse_size e v
      in if n = NGX_ERROR \<or> n < 0 then (ConfError, c)
         else (ConfOk, c\<lparr>request_body_buffer_size := Some (nat n)\<rparr>))"

definition set_body_filter_file_chunk_size ::
  "('m, 'f) conf_env \<Rightarrow> bytes \<Rightarrow> 'm wasm_conf \<Rightarrow> conf_rv \<times> 'm wasm_conf" where
  "set_body_filter_file_chunk_size e v c =
     (let n = ngx_parse_size e v
      in if n = NGX_ERROR \<or> n < 0 then (ConfError, c)
         else (ConfOk, c\<lparr>body_filter_file_chunk_size := Some (nat n)\<rparr>))"

definition set_subrequest_buffer_size ::
  "('m, 'f) conf_env \<Rightarrow> bytes \<Rightarrow> 'm wasm_conf \<Rightarrow> conf_rv \<times> 'm wasm_conf" where
  "set_subrequest_buffer_size e v c =
     (let n = ngx_parse_size e v
      in if n = NGX_ERROR \<or> n < 0 then (ConfError, c)
         else (ConfOk, c\<lparr>subrequest_buffer_size := Some (nat n)\<rparr>))"

definition set_fuel_limit ::
  "('m, 'f) conf_env \<Rightarrow> bytes \<Rightarrow> 'm wasm_conf \<Rightarrow> conf_rv \<times> 'm wasm_conf" where
  "set_fuel_limit e v c =
     (let n = ngx_atoi e v
      in if n = NGX_ERROR \<or> n < 0 then (ConfError, c)
         else (ConfOk, c\<lparr>conf_fuel_limit := Some (of_int n)\<rparr>))"

definition set_timeslice_fuel ::
  "('m, 'f) conf_env \<Rightarrow> bytes \<Rightarrow> 'm wasm_conf \<Rightarrow> conf_rv \<times> 'm wasm_conf" where
  "set_timeslice_fuel e v c =
     (let n = ngx_atoi e v
      in if n = NGX_ERROR \<or> n \<le> 0 then (ConfError, c)
         else (ConfOk, c\<lparr>conf_timeslice_fuel := Some (of_int n)\<rparr>))"

section \<open>The main record\<close>

text \<open>\<open>mc_runtime\<close> says whether the runtime exists; the zones are those the directives declared.\<close>

record 'm main_conf =
  mc_modules :: "'m cached_module list option"
  mc_runtime :: bool
  mc_shm_zone :: "unit zone_conf option"
  mc_metrics_zone :: "metric_defs zone_conf option"
  mc_definitions :: "metric_defs option"

text \<open>
  The arguments say which steps succeed: the allocation of the record and of its two arrays,
  the start of the runtime, the cleanup handler.
\<close>

definition create_main_conf :: "bool \<Rightarrow> bool \<Rightarrow> bool \<Rightarrow> bool \<Rightarrow> bool \<Rightarrow> 'm main_conf option" where
  "create_main_conf a_conf a_modules a_defs runtime_init a_cln =
     (if \<not> a_conf then None
      else if \<not> a_modules then None
      else if \<not> a_defs then None
      else if \<not> runtime_init then None
      else if \<not> a_cln then None
      else Some \<lparr>mc_modules = Some [], mc_runtime = True, mc_shm_zone = None, mc_metrics_zone = None,
                 mc_definitions = Some []\<rparr>)"

definition init_main_conf :: "'m main_conf \<Rightarrow> conf_rv" where
  "init_main_conf c =
     (if mc_modules c = None \<or> \<not> mc_runtime c \<or> mc_definitions c = None then ConfError
      else if the (mc_definitions c) \<noteq> [] \<and> mc_metrics_zone c = None then ConfError
      else ConfOk)"

text \<open>\<open>pcalloc\<close> and \<open>add\<close> are those of \<open>shm_add_zone\<close> and \<open>metrics_add_zone\<close>.\<close>

definition shm_zone_directive ::
  "('m, 'f) conf_env \<Rightarrow> bool \<Rightarrow> (bytes \<Rightarrow> nat \<Rightarrow> bool option) \<Rightarrow> bytes \<Rightarrow> bytes \<Rightarrow> 'm main_conf
     \<Rightarrow> conf_rv \<times> 'm main_conf" where
  "shm_zone_directive e pcalloc add name v c =
     (let n = ngx_parse_size e v
      in if n = NGX_ERROR \<or> n < 8 * ngx_pagesize e then (ConfError, c)
         else (case shm_add_zone (mc_shm_zone c) pcalloc add name (nat n) of
                 (rv, z) \<Rightarrow> (rv, c\<lparr>mc_shm_zone := z\<rparr>)))"

definition metrics_zone_directive ::
  "('m, 'f) conf_env \<Rightarrow> bool \<Rightarrow> (bytes \<Rightarrow> nat \<Rightarrow> bool option) \<Rightarrow> bytes \<Rightarrow> bytes \<Rightarrow> 'm main_conf
     \<Rightarrow> conf_rv \<times> 'm main_conf" where
  "metrics_zone_directive e pcalloc add name v c =
     (let n = ngx_parse_size e v
      in if n = NGX_ERROR \<or> n < 8 * ngx_pagesize e then (ConfError, c)
         else (case metrics_add_zone (mc_metrics_zone c) pcalloc add (the (mc_definitions c)) name (nat n) of
                 (rv, z) \<Rightarrow> (rv, c\<lparr>mc_metrics_zone := z\<rparr>)))"

definition counter_directive :: "bool \<Rightarrow> bytes \<Rightarrow> 'm main_conf \<Rightarrow> conf_rv \<times> 'm main_conf" where
  "counter_directive push name c =
     (case metrics_declare (mc_definitions c) push name METRIC_KIND_COUNTER of
        (rv, ds) \<Rightarrow> (rv, c\<lparr>mc_definitions := ds\<rparr>))"

definition gauge_directive :: "bool \<Rightarrow> bytes \<Rightarrow> 'm main_conf \<Rightarrow> conf_rv \<times> 'm main_conf" where
  "gauge_directive push name c =
     (case metrics_declare (mc_definitions c) push name METRIC_KIND_GAUGE of
        (rv, ds) \<Rightarrow> (rv, c\<lparr>mc_definitions := ds\<rparr>))"

section \<open>Installing the handlers\<close>

datatype phase_cb = ServerRewriteHandler | RewriteHandler | LogHandler | OtherPhaseHandler nat

text \<open>
  What TLS keeps of a server: whether it has an OpenSSL context, and which of its callbacks are
  the module's.
\<close>

record ssl_srv =
  ssl_has_ctx :: bool
  ssl_client_hello_cb :: bool
  ssl_servername_cb :: bool
  ssl_cert_cb :: bool

text \<open>
  The loop over the servers; a failure returns at once. \<open>set_hello\<close> and \<open>set_sni\<close> are the
  results of \<^verbatim>\<open>ngx_ssl_set_client_hello_callback\<close> and of setting the servername callback,
  \<open>has_cert_cb\<close> says whether OpenSSL has certificate callbacks.
\<close>

fun ssl_init ::
  "(ssl_srv \<Rightarrow> bool) \<Rightarrow> (ssl_srv \<Rightarrow> bool) \<Rightarrow> bool \<Rightarrow> ('m wasm_conf option \<times> ssl_srv option) list
     \<Rightarrow> int \<times> ('m wasm_conf option \<times> ssl_srv option) list" where
  "ssl_init set_hello set_sni has_cert_cb [] = (NGX_OK, [])"
| "ssl_init set_hello set_sni has_cert_cb ((wcf, sscf) # srvs) =
     (let next = (\<lambda>x. case ssl_init set_hello set_sni has_cert_cb srvs of (rc, ys) \<Rightarrow> (rc, x # ys))
      in case (wcf, sscf) of
           (Some c, Some ssl) \<Rightarrow>
             if \<not> ssl_has_ctx ssl then next (wcf, sscf)
             else if phase_set (ssl_client_hello_conf c) = Some True \<and> \<not> set_hello ssl
             then (NGX_ERROR, (wcf, sscf) # srvs)
             else (let ssl = (if phase_set (ssl_client_hello_conf c) = Some True
                              then ssl\<lparr>ssl_client_hello_cb := True, ssl_servername_cb := ssl_servername_cb ssl \<or> set_sni ssl\<rparr>
                              else ssl)
                   in if phase_set (ssl_certificate_conf c) \<noteq> Some True then next (wcf, Some ssl)
                      else if has_cert_cb then next (wcf, Some (ssl\<lparr>ssl_cert_cb := True\<rparr>))
                      else (NGX_ERROR, (wcf, Some ssl) # srvs))
         | _ \<Rightarrow> next (wcf, sscf))"

record 'm core_main_conf =
  server_rewrite_handlers :: "phase_cb list"
  rewrite_handlers :: "phase_cb list"
  log_handlers :: "phase_cb list"
  core_servers :: "('m wasm_conf option \<times> ssl_srv option) list"

text \<open>The three pushes may find no room.\<close>

definition postconfiguration ::
  "bool \<times> bool \<times> bool \<Rightarrow> (ssl_srv \<Rightarrow> bool) \<Rightarrow> (ssl_srv \<Rightarrow> bool) \<Rightarrow> bool \<Rightarrow> 'm core_main_conf
     \<Rightarrow> int \<times> 'm core_main_conf" where
  "postconfiguration pushes set_hello set_sni has_cert_cb c =
     (case pushes of (p1, p2, p3) \<Rightarrow>
        if \<not> p1 then (NGX_ERROR, c)
        else (let c = c\<lparr>server_rewrite_handlers := server_rewrite_handlers c @ [ServerRewriteHandler]\<rparr>
              in if \<not> p2 then (NGX_ERROR, c)
                 else (let c = c\<lparr>rewrite_handlers := rewrite_handlers c @ [RewriteHandler]\<rparr>
                       in if \<not> p3 then (NGX_ERROR, c)
                          else (let c = c\<lparr>log_handlers := log_handlers c @ [LogHandler]\<rparr>
                                in case ssl_init set_hello set_sni has_cert_cb (core_servers c) of
                                     (rc, srvs) \<Rightarrow>
                                       (if rc \<noteq> NGX_OK then NGX_ERROR else NGX_OK, c\<lparr>core_servers := srvs\<rparr>)))))"

text \<open>
  The upstream's initialisation, through the saved callback or nginx's round robin; \<open>run\<close> is
  what that callback does.
\<close>

definition upstream_init ::
  "(upstream_cb option \<Rightarrow> upstream_srv_conf \<Rightarrow> int \<times> upstream_srv_conf) \<Rightarrow> 'm wasm_conf option \<Rightarrow> upstream_srv_conf
     \<Rightarrow> int \<times> 'm wasm_conf option \<times> upstream_srv_conf" where
  "upstream_init run wcf us =
     (case wcf of
        None \<Rightarrow> (NGX_ERROR, wcf, us)
      | Some c \<Rightarrow>
          if phase_set (balancer_conf c) \<noteq> Some True then (NGX_ERROR, wcf, us)
          else (case run (original_init_upstream c) us of
                  (rc, us) \<Rightarrow>
                    if rc \<noteq> NGX_OK then (rc, wcf, us)
                    else (NGX_OK, Some (c\<lparr>original_init_peer := us_init_peer us\<rparr>),
                          us\<lparr>us_init_peer := Some WasmCb\<rparr>)))"

end
