(* ===== verification/Setup.thy ===== *)
theory Setup
  imports Conf Host "HOL-Library.Multiset"
begin

text \<open>
  The life of the runtime: \<^verbatim>\<open>ngx_http_wasm_runtime_init\<close> and \<^verbatim>\<open>ngx_http_wasm_runtime_destroy\<close> of
  \<^verbatim>\<open>src/ngx_http_wasm_runtime.c\<close>, the creation of the main record that calls them, the two
  handlers that destroy the runtime, and the filters' places in nginx's chains. Wasmtime's objects
  are numbers; the model keeps those that are alive, and notes the deletion of one that is not.
\<close>

section \<open>Wasmtime's objects\<close>

datatype handle = ConfigH nat | EngineH nat | LinkerH nat | FunctypeH nat | ModuleH nat

record objects =
  fresh :: nat
  live :: "handle list"
  linker_funcs :: "(nat \<times> string \<times> nat) list"
  bad_delete :: bool

definition acquire :: "bool \<Rightarrow> (nat \<Rightarrow> handle) \<Rightarrow> objects \<Rightarrow> nat option \<times> objects" where
  "acquire ok mk s =
     (if ok then (Some (fresh s), s\<lparr>fresh := fresh s + 1, live := mk (fresh s) # live s\<rparr>) else (None, s))"

definition release :: "handle \<Rightarrow> objects \<Rightarrow> objects" where
  "release x s = s\<lparr>live := remove1 x (live s), bad_delete := bad_delete s \<or> x \<notin> set (live s)\<rparr>"

text \<open>
  What Wasmtime answers: whether a configuration, an engine, a linker can be made, and whether a
  linker that has some names accepts another one.
\<close>

record setup_env =
  config_new_ok :: bool
  engine_new_ok :: bool
  linker_new_ok :: bool
  linker_accepts :: "string list \<Rightarrow> string \<Rightarrow> bool"

section \<open>The linker\<close>

text \<open>
  \<^verbatim>\<open>wasm_functype_new_<n>_1\<close> and the module's own versions for 4 to 6 parameters make a type of
  \<open>k\<close> parameters; the linker copies it.
\<close>

definition functype_new :: "objects \<Rightarrow> nat \<times> objects" where
  "functype_new s = (case acquire True FunctypeH s of (ty, s) \<Rightarrow> (the ty, s))"

definition define_func :: "setup_env \<Rightarrow> nat \<Rightarrow> string \<Rightarrow> nat \<Rightarrow> nat \<Rightarrow> objects \<Rightarrow> int \<times> objects" where
  "define_func e linker name k ty s =
     (let ok = linker_accepts e (map (fst \<circ> snd) (filter (\<lambda>f. fst f = linker) (linker_funcs s))) name;
          s = (if ok then s\<lparr>linker_funcs := linker_funcs s @ [(linker, name, k)]\<rparr> else s);
          s = release (FunctypeH ty) s
      in (if ok then NGX_OK else NGX_ERROR, s))"

fun define_funcs :: "setup_env \<Rightarrow> nat \<Rightarrow> (string \<times> nat) list \<Rightarrow> objects \<Rightarrow> int \<times> objects" where
  "define_funcs e linker [] s = (NGX_OK, s)"
| "define_funcs e linker ((name, k) # fs) s =
     (case functype_new s of
        (ty, s) \<Rightarrow>
          (case define_func e linker name k ty s of
             (rc, s) \<Rightarrow> if rc \<noteq> NGX_OK then (NGX_ERROR, s) else define_funcs e linker fs s))"

definition host_imports :: "('p, 's, 'c, 'x, 'k) host_env \<Rightarrow> (string \<times> nat) list" where
  "host_imports h = map (\<lambda>(name, k, f). (name, k)) (host_funcs h :: (string \<times> nat \<times> ('p, 's, 'c, unit) host_fn) list)"

section \<open>The runtime\<close>

text \<open>
  The main record, and what its pointer \<^verbatim>\<open>runtime\<close> leads to once it is set. A module is the number
  of its object.
\<close>

record process =
  main :: "nat main_conf"
  rt_engine :: "nat option"
  rt_linker :: "nat option"
  objs :: objects

fun delete_modules :: "nat cached_module list \<Rightarrow> objects \<Rightarrow> nat cached_module list \<times> objects" where
  "delete_modules [] s = ([], s)"
| "delete_modules (m # ms) s =
     (case compiled m of
        None \<Rightarrow> (case delete_modules ms s of (ms, s) \<Rightarrow> (m # ms, s))
      | Some i \<Rightarrow> (case delete_modules ms (release (ModuleH i) s) of
                     (ms, s) \<Rightarrow> (m\<lparr>compiled := None\<rparr> # ms, s)))"

definition runtime_destroy :: "process \<Rightarrow> process" where
  "runtime_destroy p =
     (if \<not> mc_runtime (main p) then p
      else (let p = (case mc_modules (main p) of
                       None \<Rightarrow> p
                     | Some ms \<Rightarrow>
                         (case delete_modules ms (objs p) of
                            (ms, s) \<Rightarrow> p\<lparr>main := (main p)\<lparr>mc_modules := Some ms\<rparr>, objs := s\<rparr>));
                p = (case rt_linker p of None \<Rightarrow> p
                     | Some i \<Rightarrow> p\<lparr>objs := release (LinkerH i) (objs p), rt_linker := None\<rparr>)
            in (case rt_engine p of None \<Rightarrow> p
                | Some i \<Rightarrow> p\<lparr>objs := release (EngineH i) (objs p), rt_engine := None\<rparr>)))"

abbreviation set_runtime :: "bool \<Rightarrow> process \<Rightarrow> process" where
  "set_runtime b p \<equiv> p\<lparr>main := (main p)\<lparr>mc_runtime := b\<rparr>\<rparr>"

text \<open>
  \<open>a_rt\<close> says whether the record can be allocated; it is zeroed. The engine takes the
  configuration over.
\<close>

definition runtime_init :: "setup_env \<Rightarrow> bool \<Rightarrow> (string \<times> nat) list \<Rightarrow> process \<Rightarrow> int \<times> process" where
  "runtime_init e a_rt fs p =
     (if mc_runtime (main p) then (NGX_OK, p)
      else if \<not> a_rt then (NGX_ERROR, p)
      else (let p = (set_runtime True p)\<lparr>rt_engine := None, rt_linker := None\<rparr>
            in case acquire (config_new_ok e) ConfigH (objs p) of
                 (None, s) \<Rightarrow> (NGX_ERROR, p\<lparr>objs := s\<rparr>)
               | (Some config, s) \<Rightarrow>
                   (case acquire (engine_new_ok e) EngineH (release (ConfigH config) s) of
                      (None, s) \<Rightarrow> (NGX_ERROR, set_runtime False (p\<lparr>objs := s\<rparr>))
                    | (Some engine, s) \<Rightarrow>
                        (case acquire (linker_new_ok e) LinkerH s of
                           (None, s) \<Rightarrow>
                             (NGX_ERROR, set_runtime False (runtime_destroy (p\<lparr>rt_engine := Some engine, objs := s\<rparr>)))
                         | (Some linker, s) \<Rightarrow>
                             (case define_funcs e linker fs s of
                                (rc, s) \<Rightarrow>
                                  (let p = p\<lparr>rt_engine := Some engine, rt_linker := Some linker, objs := s\<rparr>
                                   in if rc \<noteq> NGX_OK then (NGX_ERROR, set_runtime False (runtime_destroy p))
                                      else (NGX_OK, p)))))))"

section \<open>The main record\<close>

text \<open>
  \<^verbatim>\<open>ngx_http_wasm_create_main_conf\<close> with the runtime in it: which allocations succeed (the record,
  its two arrays, the runtime, the cleanup), the imports, the objects so far. The result is
  whether there is a record, and the process.
\<close>

definition zero_main :: "nat main_conf" where
  "zero_main = \<lparr>mc_modules = None, mc_runtime = False, mc_shm_zone = None, mc_metrics_zone = None, mc_definitions = None\<rparr>"

definition create_main ::
  "setup_env \<Rightarrow> bool \<times> bool \<times> bool \<times> bool \<times> bool \<Rightarrow> (string \<times> nat) list \<Rightarrow> objects \<Rightarrow> bool \<times> process" where
  "create_main e allocs fs s =
     (case allocs of (a_conf, a_modules, a_defs, a_rt, a_cln) \<Rightarrow>
        (let p = \<lparr>main = zero_main, rt_engine = None, rt_linker = None, objs = s\<rparr>
         in if \<not> a_conf \<or> \<not> a_modules then (False, p)
            else (let p = p\<lparr>main := (main p)\<lparr>mc_modules := Some []\<rparr>\<rparr>
                  in if \<not> a_defs then (False, p)
                     else (let p = p\<lparr>main := (main p)\<lparr>mc_definitions := Some []\<rparr>\<rparr>
                           in case runtime_init e a_rt fs p of
                                (rc, p) \<Rightarrow>
                                  if rc \<noteq> NGX_OK then (False, p)
                                  else if \<not> a_cln then (False, runtime_destroy p)
                                  else (True, p)))))"

text \<open>The cleanup of the configuration's pool, and the end of a process (\<open>found\<close>: it has the record).\<close>

definition cleanup_main_conf :: "process \<Rightarrow> process" where
  "cleanup_main_conf p = runtime_destroy p"

definition exit_process :: "bool \<Rightarrow> process \<Rightarrow> process" where
  "exit_process found p = (if \<not> found then p else runtime_destroy p)"

text \<open>
  \<open>get_or_load\<close> with the objects: \<open>compiles\<close> says what Wasmtime can compile. A module that finds
  no room in the array is deleted at once, so a module is alive exactly if the array has grown.
\<close>

definition load_module ::
  "'f files \<Rightarrow> (bytes \<Rightarrow> bool) \<Rightarrow> (bytes \<Rightarrow> bytes option) \<Rightarrow> bool \<times> bool \<times> bool \<times> bool \<Rightarrow> bytes
     \<Rightarrow> process \<Rightarrow> nat cached_module option \<times> process" where
  "load_module fs compiles wat2wasm allocs path p =
     (let ms = the (mc_modules (main p)); n = fresh (objs p)
      in case get_or_load fs (\<lambda>d. if compiles d then Some n else None) wat2wasm allocs ms path of
           (m, ms') \<Rightarrow>
             (m, p\<lparr>main := (main p)\<lparr>mc_modules := Some ms'\<rparr>,
                    objs := (if length ms' = length ms then objs p else snd (acquire True ModuleH (objs p)))\<rparr>))"

text \<open>
  The life of a process: modules are loaded while the configuration is read, that is as long as
  the engine is there; the exit handler and the pool's cleanup come in any order and number.
\<close>

inductive life :: "'f itself \<Rightarrow> process \<Rightarrow> process \<Rightarrow> bool" where
  start: "life t p p"
| load: "life t p p' \<Longrightarrow> rt_engine p' \<noteq> None \<Longrightarrow>
    load_module (fs :: 'f files) compiles wat2wasm allocs path p' = (m, p'') \<Longrightarrow> life t p p''"
| exit: "life t p p' \<Longrightarrow> life t p (exit_process found p')"
| cleanup: "life t p p' \<Longrightarrow> life t p (cleanup_main_conf p')"

section \<open>The filters\<close>

datatype filter_cb = WasmFilter | OtherFilter nat

record filters =
  top_header_filter :: filter_cb
  next_header_filter :: "filter_cb option"
  top_body_filter :: filter_cb
  next_body_filter_cb :: "filter_cb option"

definition header_filter_init_process :: "filters \<Rightarrow> int \<times> filters" where
  "header_filter_init_process f =
     (NGX_OK, f\<lparr>next_header_filter := Some (top_header_filter f), top_header_filter := WasmFilter\<rparr>)"

definition body_filter_init_process :: "filters \<Rightarrow> int \<times> filters" where
  "body_filter_init_process f =
     (NGX_OK, f\<lparr>next_body_filter_cb := Some (top_body_filter f), top_body_filter := WasmFilter\<rparr>)"

definition init_process :: "filters \<Rightarrow> int \<times> filters" where
  "init_process f =
     (case header_filter_init_process f of
        (rc, f) \<Rightarrow> if rc \<noteq> NGX_OK then (rc, f) else body_filter_init_process f)"

end
