(* ===== verification/Setup_Props.thy ===== *)
theory Setup_Props
  imports Setup Host_Props
begin

text \<open>
  The objects of Wasmtime over the life of a process: what is alive is what the main record
  leads to, so nothing is lost and nothing deleted twice.
\<close>

section \<open>Ownership\<close>

definition owned :: "process \<Rightarrow> handle list" where
  "owned p = (case rt_engine p of None \<Rightarrow> [] | Some i \<Rightarrow> [EngineH i]) @
     (case rt_linker p of None \<Rightarrow> [] | Some i \<Rightarrow> [LinkerH i]) @
     (case mc_modules (main p) of None \<Rightarrow> [] | Some ms \<Rightarrow> map ModuleH (List.map_filter compiled ms))"

definition accounted :: "process \<Rightarrow> bool" where
  "accounted p \<longleftrightarrow> mc_runtime (main p) \<and> mc_modules (main p) \<noteq> None \<and> \<not> bad_delete (objs p) \<and>
     mset (live (objs p)) = mset (owned p)"

text \<open>What a deletion needs and leaves, for a multiset of the other objects.\<close>

lemma release_one:
  assumes "mset (live s) = add_mset x X"
  shows "mset (live (release x s)) = X \<and> bad_delete (release x s) = bad_delete s \<and>
    linker_funcs (release x s) = linker_funcs s"
proof -
  have "x \<in> set (live s)" using assms by (metis set_mset_mset union_single_eq_member)
  then show ?thesis by (simp add: release_def assms)
qed

text \<open>Deleting an object that may not be there.\<close>

lemma release_opt:
  assumes "mset (live s) = mset (case r of None \<Rightarrow> [] | Some i \<Rightarrow> [mk i]) + X"
  shows "mset (live (case r of None \<Rightarrow> s | Some i \<Rightarrow> release (mk i) s)) = X \<and>
    bad_delete (case r of None \<Rightarrow> s | Some i \<Rightarrow> release (mk i) s) = bad_delete s"
  using assms by (cases r) (simp_all add: release_one)

lemma delete_modules_spec:
  assumes "mset (live s) = mset (map ModuleH (List.map_filter compiled ms)) + X" and "delete_modules ms s = (ms', s')"
  shows "ms' = map (compiled_update (\<lambda>_. None)) ms \<and> mset (live s') = X \<and> bad_delete s' = bad_delete s \<and>
    linker_funcs s' = linker_funcs s"
  using assms
proof (induction ms arbitrary: s ms' s')
  case (Cons m ms)
  show ?case
  proof (cases "compiled m")
    case None
    obtain ms1 s1 where d: "delete_modules ms s = (ms1, s1)" by fastforce
    have "ms' = m # ms1" "s' = s1" "m\<lparr>compiled := None\<rparr> = m" using Cons.prems(2) None d by simp_all
    moreover have "mset (live s) = mset (map ModuleH (List.map_filter compiled ms)) + X"
      using Cons.prems(1) None by (simp add: map_filter_simps)
    ultimately show ?thesis using Cons.IH [OF _ d] by simp
  next
    case (Some i)
    then have "mset (live s) = add_mset (ModuleH i) (mset (map ModuleH (List.map_filter compiled ms)) + X)"
      using Cons.prems(1) by (simp add: map_filter_simps)
    note r = release_one [OF this]
    obtain ms1 s1 where d: "delete_modules ms (release (ModuleH i) s) = (ms1, s1)" by fastforce
    have "ms' = m\<lparr>compiled := None\<rparr> # ms1" "s' = s1" using Cons.prems(2) Some d by simp_all
    with Cons.IH [OF conjunct1 [OF r] d] conjunct2 [OF r] show ?thesis by simp
  qed
qed (simp add: map_filter_simps)

lemma runtime_destroy_eq:
  "runtime_destroy p =
     (if \<not> mc_runtime (main p) then p
      else (let d = (case mc_modules (main p) of None \<Rightarrow> ([], objs p) | Some ms \<Rightarrow> delete_modules ms (objs p));
                s = (case rt_linker p of None \<Rightarrow> snd d | Some i \<Rightarrow> release (LinkerH i) (snd d));
                s = (case rt_engine p of None \<Rightarrow> s | Some i \<Rightarrow> release (EngineH i) s)
            in p\<lparr>main := (main p)\<lparr>mc_modules := map_option (\<lambda>_. fst d) (mc_modules (main p))\<rparr>,
                 rt_engine := None, rt_linker := None, objs := s\<rparr>))"
proof -
  have "p\<lparr>main := main p\<rparr> = p" "main p\<lparr>mc_modules := mc_modules (main p)\<rparr> = main p"
    "p\<lparr>rt_engine := rt_engine p\<rparr> = p" "p\<lparr>rt_linker := rt_linker p\<rparr> = p" "p\<lparr>objs := objs p\<rparr> = p" by simp_all
  then show ?thesis
    by (cases "mc_modules (main p)"; cases "rt_linker p"; cases "rt_engine p")
      (auto simp: runtime_destroy_def Let_def case_prod_beta process.defs)
qed

lemma runtime_destroy_spec:
  assumes "mc_runtime (main p)" "\<not> bad_delete (objs p)" "mset (live (objs p)) = mset (owned p)"
  shows "live (objs (runtime_destroy p)) = []" "\<not> bad_delete (objs (runtime_destroy p))"
    "rt_engine (runtime_destroy p) = None" "rt_linker (runtime_destroy p) = None"
    "main (runtime_destroy p) =
       (main p)\<lparr>mc_modules := map_option (map (compiled_update (\<lambda>_. None))) (mc_modules (main p))\<rparr>"
proof -
  let ?R = "mset (case rt_engine p of None \<Rightarrow> [] | Some i \<Rightarrow> [EngineH i])"
  let ?L = "mset (case rt_linker p of None \<Rightarrow> [] | Some i \<Rightarrow> [LinkerH i])"
  obtain ms s where d: "(case mc_modules (main p) of None \<Rightarrow> ([], objs p) | Some ms \<Rightarrow> delete_modules ms (objs p)) = (ms, s)"
    by fastforce
  have s: "mset (live s) = ?L + (?R + {#}) \<and> bad_delete s = bad_delete (objs p) \<and>
    (\<forall>ms0. mc_modules (main p) = Some ms0 \<longrightarrow> ms = map (compiled_update (\<lambda>_. None)) ms0)"
  proof (cases "mc_modules (main p)")
    case None
    then show ?thesis using d assms(3) by (simp add: owned_def union_ac)
  next
    case (Some ms0)
    then have "mset (live (objs p)) = mset (map ModuleH (List.map_filter compiled ms0)) + (?L + ?R)"
      using assms(3) by (simp add: owned_def union_ac)
    from delete_modules_spec [OF this] d Some show ?thesis by simp
  qed
  let ?s = "case rt_engine p of None \<Rightarrow> (case rt_linker p of None \<Rightarrow> s | Some i \<Rightarrow> release (LinkerH i) s)
     | Some i \<Rightarrow> release (EngineH i) (case rt_linker p of None \<Rightarrow> s | Some i \<Rightarrow> release (LinkerH i) s)"
  note l = release_opt [where mk = LinkerH, OF conjunct1 [OF s]]
  note r = release_opt [where mk = EngineH, OF conjunct1 [OF l]]
  have "map_option (\<lambda>_. ms) (mc_modules (main p)) =
      map_option (map (compiled_update (\<lambda>_. None))) (mc_modules (main p))"
    using s by (cases "mc_modules (main p)") simp_all
  moreover have e: "runtime_destroy p = p\<lparr>main := (main p)\<lparr>mc_modules := map_option (\<lambda>_. ms) (mc_modules (main p))\<rparr>,
      rt_engine := None, rt_linker := None, objs := ?s\<rparr>"
    using assms(1) by (simp add: runtime_destroy_eq d Let_def cong: option.case_cong)
  ultimately show "live (objs (runtime_destroy p)) = []" "\<not> bad_delete (objs (runtime_destroy p))"
    "rt_engine (runtime_destroy p) = None" "rt_linker (runtime_destroy p) = None"
    "main (runtime_destroy p) =
       (main p)\<lparr>mc_modules := map_option (map (compiled_update (\<lambda>_. None))) (mc_modules (main p))\<rparr>"
    using r l s assms(1,2) by (auto simp: e)
qed

lemma owned_destroyed: "owned (runtime_destroy p) = []" if "accounted p"
proof -
  have "List.map_filter compiled (map (compiled_update (\<lambda>_. None)) ms) = []" for ms :: "nat cached_module list"
    by (induction ms) (simp_all add: map_filter_simps)
  with runtime_destroy_spec [of p] that show ?thesis by (auto simp: accounted_def owned_def split: option.splits)
qed

lemma runtime_destroy_accounted: "accounted p \<Longrightarrow> accounted (runtime_destroy p)"
  using runtime_destroy_spec [of p] owned_destroyed [of p] by (auto simp: accounted_def)

lemma runtime_destroy_again: "runtime_destroy (runtime_destroy p) = runtime_destroy p" if "accounted p"
proof -
  have "delete_modules (map (compiled_update (\<lambda>_. None)) ms) s = (map (compiled_update (\<lambda>_. None)) ms, s)" for ms s
    by (induction ms) simp_all
  with that runtime_destroy_spec [of p] show ?thesis
    by (auto simp: accounted_def runtime_destroy_def [of "runtime_destroy p"])
qed

section \<open>Loading\<close>

lemma get_or_load_grows:
  "get_or_load fs nw ww allocs ms path = (m, ms') \<Longrightarrow>
     ms' = ms \<or> (\<exists>d i. nw d = Some i \<and> ms' = ms @ [\<lparr>module_path = path, compiled = Some i\<rparr>])"
  by (auto simp: get_or_load_def compile_module_def Let_def split: prod.splits option.splits if_splits)

lemma load_module_accounted:
  assumes "accounted p" "load_module fs compiles ww allocs path p = (m, p')"
  shows "accounted p' \<and> rt_engine p' = rt_engine p"
proof -
  obtain ms where ms: "mc_modules (main p) = Some ms" using assms(1) by (auto simp: accounted_def)
  obtain ms' where g: "get_or_load fs (\<lambda>d. if compiles d then Some (fresh (objs p)) else None) ww allocs ms path = (m, ms')"
    and p': "p' = p\<lparr>main := (main p)\<lparr>mc_modules := Some ms'\<rparr>,
        objs := (if length ms' = length ms then objs p else snd (acquire True ModuleH (objs p)))\<rparr>"
    using assms(2) by (auto simp: load_module_def ms Let_def split: prod.splits)
  from get_or_load_grows [OF g]
  have "ms' = ms \<or> ms' = ms @ [\<lparr>module_path = path, compiled = Some (fresh (objs p))\<rparr>]" by (auto split: if_splits)
  then show ?thesis
    using assms(1) by (auto simp: p' accounted_def owned_def ms acquire_def map_filter_def)
qed

lemma life_accounted: "life t p p' \<Longrightarrow> accounted p \<Longrightarrow> accounted p'"
  by (induction rule: life.induct)
    (auto simp: exit_process_def cleanup_main_conf_def runtime_destroy_accounted dest: load_module_accounted)

section \<open>Setting up\<close>

definition imported :: "nat \<Rightarrow> (string \<times> nat) list \<Rightarrow> (nat \<times> string \<times> nat) list" where
  "imported linker fs = map (\<lambda>(name, k). (linker, name, k)) fs"

lemma imported_simps [simp]:
  "imported l [] = []" "imported l ((n, k) # fs) = (l, n, k) # imported l fs"
  "imported l (fs @ gs) = imported l fs @ imported l gs"
  by (simp_all add: imported_def)

lemma imported_names: "map (fst \<circ> snd) (filter (\<lambda>f. fst f = l) (imported l fs)) = map fst fs"
  by (induction fs) auto

lemma define_funcs_spec:
  assumes "linker_funcs s = imported l gs" and "define_funcs e l fs s = (rc, s')"
  shows "live s' = live s \<and> bad_delete s' = bad_delete s \<and> (rc = NGX_OK \<or> rc = NGX_ERROR) \<and>
    (rc = NGX_OK \<longrightarrow> linker_funcs s' = imported l (gs @ fs)) \<and>
    ((\<forall>ns n. n \<notin> set ns \<longrightarrow> linker_accepts e ns n) \<and> distinct (map fst (gs @ fs)) \<longrightarrow> rc = NGX_OK)"
  using assms
proof (induction fs arbitrary: s gs)
  case (Cons f fs)
  obtain n k where f: "f = (n, k)" by fastforce
  define ok where "ok = linker_accepts e (map fst gs) n"
  define s2 where "s2 = s\<lparr>fresh := fresh s + 1, linker_funcs := linker_funcs s @ (if ok then [(l, n, k)] else [])\<rparr>"
  have step: "define_funcs e l (f # fs) s = (if ok then define_funcs e l fs s2 else (NGX_ERROR, s2))"
    using Cons.prems(1) imported_names [of l gs]
    by (simp add: f functype_new_def acquire_def define_func_def ok_def s2_def release_def Let_def comp_def)
  show ?case
  proof (cases ok)
    case True
    then have "linker_funcs s2 = imported l (gs @ [f])" by (simp add: s2_def Cons.prems(1) f)
    from Cons.IH [OF this] Cons.prems(2) True show ?thesis unfolding step by (simp add: s2_def f)
  next
    case False
    moreover have "distinct (map fst (gs @ f # fs)) \<Longrightarrow> n \<notin> set (map fst gs)" by (simp add: f)
    ultimately show ?thesis using Cons.prems(2) unfolding step ok_def by (auto simp: s2_def simp del: set_map)
  qed
qed simp

abbreviation no_objects :: "nat \<Rightarrow> objects" where
  "no_objects n \<equiv> \<lparr>fresh = n, live = [], linker_funcs = [], bad_delete = False\<rparr>"

definition ready_with :: "(string \<times> nat) list \<Rightarrow> process \<Rightarrow> bool" where
  "ready_with fs p \<longleftrightarrow> accounted p \<and> rt_engine p \<noteq> None \<and>
     (\<exists>l. rt_linker p = Some l \<and> linker_funcs (objs p) = imported l fs)"

definition wasmtime_works :: "setup_env \<Rightarrow> bool" where
  "wasmtime_works e \<longleftrightarrow> config_new_ok e \<and> engine_new_ok e \<and> linker_new_ok e \<and>
     (\<forall>names n. n \<notin> set names \<longrightarrow> linker_accepts e names n)"

lemma runtime_init_spec:
  assumes "runtime_init e a_rt fs p = (rc, p')" and "\<not> mc_runtime (main p)" "mc_modules (main p) = Some []"
    and "objs p = no_objects n"
  shows "(if rc = NGX_OK then ready_with fs p' else live (objs p') = [] \<and> \<not> bad_delete (objs p')) \<and>
    (rc = NGX_OK \<longrightarrow> main p' = (main p)\<lparr>mc_runtime := True\<rparr>) \<and>
    (a_rt \<and> wasmtime_works e \<and> distinct (map fst fs) \<longrightarrow> rc = NGX_OK)"
proof -
  define p1 where "p1 = (set_runtime True p)\<lparr>rt_engine := None, rt_linker := None\<rparr>"
  have p1: "mc_runtime (main p1)" "mc_modules (main p1) = Some []" "rt_engine p1 = None" "rt_linker p1 = None"
    using assms by (simp_all add: p1_def)
  define s1 where "s1 = \<lparr>fresh = n + 2, live = [EngineH (n + 1)], linker_funcs = [], bad_delete = False\<rparr>"
  define p2 where "p2 = p1\<lparr>rt_engine := Some (n + 1), objs := s1\<rparr>"
  have p2: "accounted p2" by (simp add: p2_def accounted_def owned_def p1 s1_def map_filter_simps)
  define s2 where "s2 = \<lparr>fresh = n + 3, live = [LinkerH (n + 2), EngineH (n + 1)], linker_funcs = [], bad_delete = False\<rparr>"
  obtain rcf s3 where f: "define_funcs e (n + 2) fs s2 = (rcf, s3)" by fastforce
  have "linker_funcs s2 = imported (n + 2) []" by (simp add: s2_def)
  from define_funcs_spec [OF this f] have s3: "live s3 = [LinkerH (n + 2), EngineH (n + 1)]" "\<not> bad_delete s3"
    "rcf = NGX_OK \<or> rcf = NGX_ERROR" "rcf = NGX_OK \<Longrightarrow> linker_funcs s3 = imported (n + 2) fs"
    "wasmtime_works e \<Longrightarrow> distinct (map fst fs) \<Longrightarrow> rcf = NGX_OK"
    by (auto simp: s2_def wasmtime_works_def simp del: set_map)
  define p3 where "p3 = p1\<lparr>rt_engine := Some (n + 1), rt_linker := Some (n + 2), objs := s3\<rparr>"
  have p3: "accounted p3" by (simp add: p3_def accounted_def owned_def p1 s3 map_filter_simps)
  have run: "runtime_init e a_rt fs p =
     (if \<not> a_rt then (NGX_ERROR, p)
      else if \<not> config_new_ok e then (NGX_ERROR, p1)
      else if \<not> engine_new_ok e then (NGX_ERROR, set_runtime False (p1\<lparr>objs := (no_objects (n + 1))\<rparr>))
      else if \<not> linker_new_ok e then (NGX_ERROR, set_runtime False (runtime_destroy p2))
      else if rcf \<noteq> NGX_OK then (NGX_ERROR, set_runtime False (runtime_destroy p3)) else (NGX_OK, p3))"
    using assms(2,4) f
    by (auto simp: runtime_init_def acquire_def release_def Let_def p1_def p2_def p3_def s1_def s2_def numeral_3_eq_3)
  have o1: "objs p1 = no_objects n" "main p1 = (main p)\<lparr>mc_runtime := True\<rparr>" by (simp_all add: p1_def assms(4))
  have dead: "live (objs (runtime_destroy q)) = [] \<and> \<not> bad_delete (objs (runtime_destroy q))" if "accounted q" for q
    using that runtime_destroy_spec [of q] by (auto simp: accounted_def)
  have "ready_with fs p3" if "rcf = NGX_OK" using p3 s3(4) that by (simp add: ready_with_def p3_def)
  then show ?thesis
    using assms(1,4) dead [OF p2] dead [OF p3] s3(3,5) o1
    unfolding run by (auto simp: wasmtime_works_def p3_def split: if_splits)
qed

lemma create_main_spec:
  assumes "create_main e (a_conf, a_modules, a_defs, a_rt, a_cln) fs (no_objects n) = (ok, p)"
  shows "(if ok then ready_with fs p else live (objs p) = [] \<and> \<not> bad_delete (objs p)) \<and>
    (ok \<longrightarrow> create_main_conf a_conf a_modules a_defs True a_cln = Some (main p)) \<and>
    (a_conf \<and> a_modules \<and> a_defs \<and> a_rt \<and> a_cln \<and> wasmtime_works e \<and> distinct (map fst fs) \<longrightarrow> ok)"
proof -
  define p0 where "p0 = \<lparr>main = zero_main\<lparr>mc_modules := Some [], mc_definitions := Some []\<rparr>,
    rt_engine = None, rt_linker = None, objs = no_objects n\<rparr>"
  obtain rc p1 where r: "runtime_init e a_rt fs p0 = (rc, p1)" by fastforce
  from runtime_init_spec [OF this]
  have i: "if rc = NGX_OK then ready_with fs p1 else live (objs p1) = [] \<and> \<not> bad_delete (objs p1)"
    "rc = NGX_OK \<Longrightarrow> main p1 = (main p0)\<lparr>mc_runtime := True\<rparr>"
    "a_rt \<and> wasmtime_works e \<and> distinct (map fst fs) \<Longrightarrow> rc = NGX_OK"
    by (auto simp: p0_def zero_main_def)
  have dead: "live (objs (runtime_destroy p1)) = [] \<and> \<not> bad_delete (objs (runtime_destroy p1))" if "ready_with fs p1"
    using that runtime_destroy_spec [of p1] by (auto simp: ready_with_def accounted_def)
  show ?thesis
    using assms i dead r
    by (auto simp: create_main_def Let_def p0_def zero_main_def create_main_conf_def split: if_splits)
qed

lemma host_imports_distinct: "distinct (map fst (host_imports h))"
  by (simp add: host_imports_def host_funcs_def)

section \<open>The life of the runtime\<close>

text \<open>C11: nothing lost, nothing deleted twice. If the main record cannot be made, whatever failed, no
  object of Wasmtime is left. If it can, the linker has each of the host functions once; and then,
  whatever is loaded and however often the exit handler and the pool's cleanup come, no object has
  been deleted twice, the living ones are those the main record leads to, after a cleanup there are
  none and another cleanup does nothing. When every allocation succeeds and Wasmtime takes any
  name it does not have yet, the record is made.\<close>

theorem runtime_lifecycle:
  assumes "create_main e (a_conf, a_modules, a_defs, a_rt, a_cln) (host_imports h) (no_objects n) = (ok, p)"
  shows "(\<not> ok \<longrightarrow> live (objs p) = [] \<and> \<not> bad_delete (objs p)) \<and>
    (a_conf \<and> a_modules \<and> a_defs \<and> a_rt \<and> a_cln \<and> wasmtime_works e \<longrightarrow> ok) \<and>
    (ok \<longrightarrow> create_main_conf a_conf a_modules a_defs True a_cln = Some (main p) \<and>
       (\<exists>l. rt_linker p = Some l \<and> linker_funcs (objs p) = imported l (host_imports h)) \<and>
       (\<forall>p'. life t p p' \<longrightarrow> \<not> bad_delete (objs p') \<and> mset (live (objs p')) = mset (owned p') \<and>
          live (objs (cleanup_main_conf p')) = [] \<and> \<not> bad_delete (objs (cleanup_main_conf p')) \<and>
          exit_process True (cleanup_main_conf p') = cleanup_main_conf p'))"
proof -
  note c = create_main_spec [OF assms]
  have "accounted p" if ok using c that by (simp add: ready_with_def)
  then have acc: "accounted p'" if ok "life t p p'" for p' using that life_accounted by blast
  show ?thesis
  proof (intro conjI impI allI)
    fix p' assume "ok" "life t p p'"
    note a = acc [OF this]
    show "\<not> bad_delete (objs p')" "mset (live (objs p')) = mset (owned p')" using a by (simp_all add: accounted_def)
    show "live (objs (cleanup_main_conf p')) = []" "\<not> bad_delete (objs (cleanup_main_conf p'))"
      using a runtime_destroy_spec [of p'] by (simp_all add: cleanup_main_conf_def accounted_def)
    show "exit_process True (cleanup_main_conf p') = cleanup_main_conf p'"
      using a by (simp add: exit_process_def cleanup_main_conf_def runtime_destroy_again)
  qed (use c host_imports_distinct in \<open>auto simp: ready_with_def split: if_splits\<close>)
qed

definition demo_setup :: setup_env where
  "demo_setup = \<lparr>config_new_ok = True, engine_new_ok = True, linker_new_ok = True,
     linker_accepts = (\<lambda>names n. n \<notin> set names)\<rparr>"

theorem runtime_lifecycle_witness:
  "\<exists>p. create_main demo_setup (True, True, True, True, True) (host_imports demo_host_env) (no_objects 0) = (True, p) \<and>
     live (objs (cleanup_main_conf p)) = [] \<and> \<not> bad_delete (objs (cleanup_main_conf p))"
proof -
  obtain ok p where c: "create_main demo_setup (True, True, True, True, True) (host_imports demo_host_env) (no_objects 0) = (ok, p)"
    by fastforce
  have "wasmtime_works demo_setup" by (simp add: wasmtime_works_def demo_setup_def)
  with runtime_lifecycle [OF c, of "TYPE(nat)"] have ok
    "\<forall>p'. life TYPE(nat) p p' \<longrightarrow> live (objs (cleanup_main_conf p')) = [] \<and> \<not> bad_delete (objs (cleanup_main_conf p'))"
    by blast+
  with c life.start [of "TYPE(nat)" p] show ?thesis by auto
qed

section \<open>The filter chains\<close>

text \<open>A process that starts puts the module before the filters there were, in both chains.\<close>

lemma init_process_spec:
  "init_process f = (NGX_OK, \<lparr>top_header_filter = WasmFilter, next_header_filter = Some (top_header_filter f),
     top_body_filter = WasmFilter, next_body_filter_cb = Some (top_body_filter f)\<rparr>)"
  by (simp add: init_process_def header_filter_init_process_def body_filter_init_process_def)

end
