(* ===== verification/Runtime_Correct.thy ===== *)
theory Runtime_Correct
  imports Runtime
begin

text \<open>
  Correctness of a run: the invariant of the state kept across suspensions, the three outcomes,
  what Wasmtime is relied on for, and the fuel each suspension costs.
\<close>

section \<open>Steps\<close>

text \<open>
  \<open>step_sat P Q r\<close>: a step that returns satisfies \<open>P\<close>, one that goes on satisfies \<open>Q\<close>.
\<close>

definition step_sat :: "('e \<Rightarrow> bool) \<Rightarrow> ('a \<Rightarrow> bool) \<Rightarrow> 'e + 'a \<Rightarrow> bool" where
  "step_sat P Q r \<longleftrightarrow> (case r of Inl e \<Rightarrow> P e | Inr a \<Rightarrow> Q a)"

lemma step_sat_simps [simp]: "step_sat P Q (Inl e) \<longleftrightarrow> P e" "step_sat P Q (Inr a) \<longleftrightarrow> Q a"
  by (simp_all add: step_sat_def)

lemma step_sat_andthen:
  "step_sat P Q r \<Longrightarrow> (\<And>a. Q a \<Longrightarrow> step_sat P R (f a)) \<Longrightarrow> step_sat P R (andthen r f)"
  by (cases r) (simp_all add: andthen_def)

section \<open>Invariant\<close>

definition resume_ok :: "'w resume_state \<Rightarrow> bool" where
  "resume_ok rs \<longleftrightarrow>
     (future rs \<longleftrightarrow> future_kind rs \<noteq> FUTURE_NONE) \<and>
     (future rs \<or> instance_ready rs \<longrightarrow> store rs \<noteq> None) \<and>
     (func_ready rs \<longrightarrow> instance_ready rs) \<and>
     (future_kind rs = FUTURE_INSTANTIATE \<longrightarrow> \<not> instance_ready rs) \<and>
     (future_kind rs = FUTURE_CALL \<longrightarrow> func_ready rs)"

text \<open>The three ways a run ends.\<close>

definition run_ended :: "int \<times> ('p, 's, 'c, 'm, 'w) run_state \<Rightarrow> bool" where
  "run_ended = (\<lambda>(rc, ctx, rs).
     resume_ok rs \<and> store rs \<noteq> None \<and>
     (rc = NGX_OK \<and> exec_state ctx = EXEC_DONE \<and> \<not> yielded ctx \<and> \<not> future rs \<and> instance_ready rs \<and>
        func_ready rs \<and> trap rs = None \<and> results rs = I32 0 \<or>
      rc = NGX_AGAIN \<and> exec_state ctx = EXEC_SUSPENDED \<and> suspend_kind ctx \<noteq> SUSPEND_NONE \<and>
        (future rs \<or> func_ready rs \<and> yielded ctx) \<or>
      rc = NGX_ERROR \<and> exec_state ctx = EXEC_ERROR))"

definition run_going :: "('p, 's, 'c, 'm, 'w) run_state \<Rightarrow> bool" where
  "run_going = (\<lambda>(ctx, rs). resume_ok rs \<and> store rs \<noteq> None)"

lemma start_future_sat:
  assumes "run_going x" and "future_kind (snd x) \<in> {FUTURE_NONE, kind}" and "kind \<noteq> FUTURE_NONE"
    and "if kind = FUTURE_CALL then func_ready (snd x) else \<not> instance_ready (snd x)"
  shows "step_sat run_ended
     (\<lambda>y. run_going y \<and> future_kind (snd y) = kind \<and> future (snd y) \<and>
        instance_ready (snd y) = instance_ready (snd x) \<and> func_ready (snd y) = func_ready (snd x))
     (start_future wt kind st x)"
  using assms
  by (cases kind; cases x) (auto simp: start_future_def run_going_def run_ended_def resume_ok_def failed_def
      prepare_async_op_def clear_async_outputs_def clear_async_future_def Let_def
      split: option.split prod.split)

lemma await_future_sat:
  assumes "run_going x" and "future_kind (snd x) = kind" and "future (snd x)"
  shows "step_sat run_ended
     (\<lambda>y. run_going y \<and> \<not> future (snd y) \<and> future_kind (snd y) = FUTURE_NONE \<and> \<not> error (snd y) \<and>
        instance_ready (snd y) = instance_ready (snd x) \<and> func_ready (snd y) = func_ready (snd x))
     (await_future wt x)"
  using assms
  by (cases x) (auto simp: await_future_def run_going_def run_ended_def resume_ok_def failed_def suspend_def
      clear_async_future_def put_outputs_def Let_def split: option.split prod.split poll.split)

lemma run_instantiate_sat:
  fixes wt :: "('w, 'm, ('p, 's, 'c, 'm) exec_ctx) wasmtime"
  assumes "run_going x"
  shows "step_sat run_ended
     (\<lambda>y. run_going y \<and> instance_ready (snd y) \<and> future_kind (snd y) \<in> {FUTURE_NONE, FUTURE_CALL})
     (run_instantiate wt m x)"
proof -
  obtain ctx rs where x: "x = (ctx, rs)" by (cases x)
  show ?thesis
  proof (cases "instance_ready rs")
    case True
    then have "future_kind rs \<in> {FUTURE_NONE, FUTURE_CALL}"
      using assms by (cases "future_kind rs") (auto simp: x run_going_def resume_ok_def)
    with True assms show ?thesis by (simp add: run_instantiate_def x)
  next
    case False
    then have k: "future_kind rs \<in> {FUTURE_NONE, FUTURE_INSTANTIATE}" "\<not> func_ready rs"
      using assms by (cases "future_kind rs"; auto simp: x run_going_def resume_ok_def)+
    note st = start_future_sat [OF assms, of FUTURE_INSTANTIATE wt "linker_instantiate_async wt m", simplified x snd_conv]
    have s: "step_sat run_ended
       (\<lambda>y. run_going y \<and> \<not> future (snd y) \<and> future_kind (snd y) = FUTURE_NONE \<and> \<not> error (snd y) \<and>
          \<not> instance_ready (snd y) \<and> \<not> func_ready (snd y))
       (andthen (start_future wt FUTURE_INSTANTIATE (linker_instantiate_async wt m) (ctx, rs)) (await_future wt))"
      using st k False
      by (intro step_sat_andthen [where Q = "\<lambda>y. run_going y \<and> future_kind (snd y) = FUTURE_INSTANTIATE \<and>
            future (snd y) \<and> \<not> instance_ready (snd y) \<and> \<not> func_ready (snd y)"])
        (auto dest!: await_future_sat [where kind = FUTURE_INSTANTIATE and wt = wt] simp: x)
    show ?thesis
      unfolding run_instantiate_def x prod.case if_not_P [OF False]
    proof (rule step_sat_andthen [OF s])
      fix y :: "('p, 's, 'c, 'm, 'w) run_state"
      assume y: "run_going y \<and> \<not> future (snd y) \<and> future_kind (snd y) = FUTURE_NONE \<and> \<not> error (snd y) \<and>
          \<not> instance_ready (snd y) \<and> \<not> func_ready (snd y)"
      obtain c q where yq: "y = (c, q)" by (cases y)
      show "step_sat run_ended (\<lambda>y. run_going y \<and> instance_ready (snd y) \<and>
          future_kind (snd y) \<in> {FUTURE_NONE, FUTURE_CALL})
        (case y of (ctx, rs) \<Rightarrow> if trap rs \<noteq> None then Inl (NGX_ERROR, failed ctx, rs\<lparr>trap := None\<rparr>)
           else Inr (ctx, rs\<lparr>instance_ready := True\<rparr>))"
        using y by (cases "trap q") (simp_all add: yq run_ended_def run_going_def resume_ok_def failed_def)
    qed
  qed
qed

lemma run_lookup_sat:
  assumes "run_going x" and "instance_ready (snd x)" and "future_kind (snd x) \<in> {FUTURE_NONE, FUTURE_CALL}"
  shows "step_sat run_ended
     (\<lambda>y. run_going y \<and> func_ready (snd y) \<and> future_kind (snd y) \<in> {FUTURE_NONE, FUTURE_CALL})
     (run_lookup wt x)"
  using assms
  by (cases x) (auto simp: run_lookup_def run_going_def run_ended_def resume_ok_def failed_def)

lemma run_result_sat:
  assumes "run_going x" and "func_ready (snd x)" and "\<not> future (snd x)"
  shows "run_ended (run_result x)"
  using assms
  by (cases x) (auto simp: run_result_def run_going_def run_ended_def resume_ok_def failed_def suspend_def)

lemma run_guest_sat:
  fixes wt :: "('w, 'm, ('p, 's, 'c, 'm) exec_ctx) wasmtime"
  assumes "run_going x"
  shows "run_ended (run_guest wt m x)"
proof -
  have "step_sat run_ended (\<lambda>y. run_going y \<and> func_ready (snd y) \<and> \<not> future (snd y))
     (andthen (andthen (andthen (run_instantiate wt m x) (run_lookup wt))
             (start_future wt FUTURE_CALL (func_call_async wt))) (await_future wt))"
  proof (rule step_sat_andthen, rule step_sat_andthen, rule step_sat_andthen)
    show "step_sat run_ended (\<lambda>y. run_going y \<and> instance_ready (snd y) \<and>
        future_kind (snd y) \<in> {FUTURE_NONE, FUTURE_CALL}) (run_instantiate wt m x)"
      by (rule run_instantiate_sat [OF assms])
  next
    fix y :: "('p, 's, 'c, 'm, 'w) run_state"
    assume "run_going y \<and> instance_ready (snd y) \<and> future_kind (snd y) \<in> {FUTURE_NONE, FUTURE_CALL}"
    then show "step_sat run_ended (\<lambda>y. run_going y \<and> func_ready (snd y) \<and>
        future_kind (snd y) \<in> {FUTURE_NONE, FUTURE_CALL}) (run_lookup wt y)"
      by (intro run_lookup_sat) auto
  next
    fix y :: "('p, 's, 'c, 'm, 'w) run_state"
    assume "run_going y \<and> func_ready (snd y) \<and> future_kind (snd y) \<in> {FUTURE_NONE, FUTURE_CALL}"
    then show "step_sat run_ended (\<lambda>z. run_going z \<and> future_kind (snd z) = FUTURE_CALL \<and> future (snd z) \<and>
         func_ready (snd z))
       (start_future wt FUTURE_CALL (func_call_async wt) y)"
      using start_future_sat [of y FUTURE_CALL wt "func_call_async wt"]
      by (auto simp: step_sat_def split: sum.splits)
  next
    fix y :: "('p, 's, 'c, 'm, 'w) run_state"
    assume "run_going y \<and> future_kind (snd y) = FUTURE_CALL \<and> future (snd y) \<and> func_ready (snd y)"
    then show "step_sat run_ended (\<lambda>y. run_going y \<and> func_ready (snd y) \<and> \<not> future (snd y)) (await_future wt y)"
      using await_future_sat [of y FUTURE_CALL wt]
      by (auto simp: step_sat_def split: sum.splits)
  qed
  then show ?thesis
    unfolding run_guest_def step_sat_def by (auto split: sum.splits intro: run_result_sat)
qed

text \<open>The whole run, with the outcomes that leave before the guest is reached.\<close>

definition resume_opt_ok :: "'w resume_state option \<Rightarrow> bool" where
  "resume_opt_ok r \<longleftrightarrow> (case r of None \<Rightarrow> True | Some rs \<Rightarrow> resume_ok rs)"

lemma resume_zero_ok [simp]: "resume_ok resume_zero"
  by (simp add: resume_ok_def resume_zero_def)

lemma runtime_run_cases:
  assumes "runtime_run wt pc ctx r = (rc, ctx', r')" and "resume_opt_ok r"
  obtains (fail) "rc = NGX_ERROR" "ctx' = failed ctx" "resume_opt_ok r'"
  | (guest) m rs rs' where "r' = Some rs'" "runtime_ready ctx" "run_going (begin_run ctx, rs)"
      "run_guest wt m (begin_run ctx, rs) = (rc, ctx', rs')"
      "case r of None \<Rightarrow> \<exists>w0. store_new wt = Some w0 \<and>
           (if fuel_limit ctx > 0 then set_fuel wt (fuel_limit ctx) w0 = store rs else store rs = Some w0)
       | Some rs0 \<Rightarrow> store rs0 \<noteq> None \<longrightarrow> rs = rs0"
proof -
  let ?rs = "case r of Some rs \<Rightarrow> Some rs | None \<Rightarrow> if pc then Some resume_zero else None"
  show thesis
  proof (cases "runtime_ready ctx \<and> Option.bind (phase_module (exec_conf ctx)) compiled \<noteq> None \<and> ?rs \<noteq> None")
    case False
    with assms show thesis
      by (intro fail) (auto simp: runtime_run_def resume_opt_ok_def split: if_splits option.splits)
  next
    case True
    then obtain m rs0 where m: "runtime_ready ctx" "Option.bind (phase_module (exec_conf ctx)) compiled = Some m"
      and rs0: "?rs = Some rs0" by auto
    have ok0: "resume_ok rs0" using assms(2) rs0
      by (auto simp: resume_opt_ok_def split: option.splits if_splits)
    define fresh where "fresh \<longleftrightarrow> store rs0 = None"
    define rs1 where "rs1 = (if fresh then rs0\<lparr>store := store_new wt\<rparr> else rs0)"
    have ok1: "resume_ok rs1" using ok0 by (auto simp: rs1_def fresh_def resume_ok_def)
    note run = assms(1) [unfolded runtime_run_def m rs0 option.case Let_def, folded fresh_def, folded rs1_def]
    show thesis
    proof (cases "store rs1")
      case None
      with run m ok1 show thesis by (intro fail) (auto simp: resume_opt_ok_def)
    next
      case (Some w)
      show thesis
      proof (cases "if fresh \<and> fuel_limit ctx > 0 then set_fuel wt (fuel_limit ctx) w else Some w")
        case None
        with run m ok1 Some show thesis by (intro fail) (auto simp: resume_opt_ok_def split: if_splits)
      next
        case (Some w')
        note w' = this
        let ?rs2 = "rs1\<lparr>store := Some w'\<rparr>"
        obtain ctx2 rs2 rc2 where g: "run_guest wt m (begin_run ctx, ?rs2) = (rc2, ctx2, rs2)"
          by (metis prod_cases3)
        have out: "rc2 = rc" "ctx2 = ctx'" "r' = Some rs2"
          using run m \<open>store rs1 = Some w\<close> w' g by auto
        show thesis
        proof (rule guest [OF out(3) m(1)])
          show "run_going (begin_run ctx, ?rs2)" using ok1 by (simp add: run_going_def resume_ok_def)
          show "run_guest wt m (begin_run ctx, ?rs2) = (rc, ctx', rs2)" using g out by simp
          show "case r of None \<Rightarrow> \<exists>w0. store_new wt = Some w0 \<and>
               (if fuel_limit ctx > 0 then set_fuel wt (fuel_limit ctx) w0 = store ?rs2 else store ?rs2 = Some w0)
             | Some rs0 \<Rightarrow> store rs0 \<noteq> None \<longrightarrow> ?rs2 = rs0"
            using rs0 \<open>store rs1 = Some w\<close> w'
            by (auto simp: rs1_def fresh_def resume_zero_def split: option.splits if_splits)
        qed
      qed
    qed
  qed
qed

section \<open>What Wasmtime is relied on for\<close>

text \<open>
  Documented behaviour of Wasmtime: the guest reaches the execution context through the calls
  of host functions only; polling never adds fuel, and a poll that stops in the middle of the
  guest, or in which the guest called a function that yields, has consumed some; setting the
  fuel sets it; configuring the yield interval and starting a future consume none.
\<close>

definition wasmtime_ok ::
  "('p, 's, 'c, 'x, 'k) host_env \<Rightarrow> ('w, 'm, ('p, 's, 'c, 'm) exec_ctx) wasmtime \<Rightarrow> bool" where
  "wasmtime_ok h wt \<longleftrightarrow>
     (\<forall>w x p w' y. call_future_poll wt w x = (p, w', y) \<longrightarrow> guest_run h x y) \<and>
     (\<forall>w x p w' y f'. call_future_poll wt w x = (p, w', y) \<longrightarrow> get_fuel wt w' = Some f' \<longrightarrow>
        (\<exists>f. get_fuel wt w = Some f \<and> f' \<le> f \<and> (p = Pending \<or> \<not> yielded x \<and> yielded y \<longrightarrow> f' < f))) \<and>
     (\<forall>f w w'. set_fuel wt f w = Some w' \<longrightarrow> get_fuel wt w' = Some f) \<and>
     (\<forall>i w w'. fuel_async_yield_interval wt i w = Some w' \<longrightarrow> get_fuel wt w' = get_fuel wt w) \<and>
     (\<forall>m w w' q. linker_instantiate_async wt m w = (w', q) \<longrightarrow> get_fuel wt w' = get_fuel wt w) \<and>
     (\<forall>w w' q. func_call_async wt w = (w', q) \<longrightarrow> get_fuel wt w' = get_fuel wt w)"

text \<open>What a run keeps of the context.\<close>

definition run_frame :: "('p, 's, 'c, 'm) exec_ctx \<Rightarrow> ('p, 's, 'c, 'm) exec_ctx \<Rightarrow> bool" where
  "run_frame x y \<longleftrightarrow>
     abi_frame (exec_abi x) (exec_abi y) \<and> exec_conf y = exec_conf x \<and>
     runtime_ready y = runtime_ready x \<and> fuel_limit y = fuel_limit x \<and>
     timeslice_fuel y = timeslice_fuel x \<and> phase_kind y = phase_kind x"

lemma run_frame_updates [simp]:
  "run_frame x (begin_run x)"
  "run_frame x (failed y) \<longleftrightarrow> run_frame x y"
  "run_frame x (y\<lparr>exec_state := st\<rparr>) \<longleftrightarrow> run_frame x y"
  "run_frame x (y\<lparr>suspend_kind := k\<rparr>) \<longleftrightarrow> run_frame x y"
  "run_frame x (y\<lparr>fuel_remaining := f\<rparr>) \<longleftrightarrow> run_frame x y"
  by (simp_all add: run_frame_def begin_run_def failed_def)

lemma run_frame_guest:
  assumes "run_frame x y" and "null_safe (exec_abi x)" and "guest_run h y z"
  shows "run_frame x z"
proof -
  have "null_safe (exec_abi y)" using assms(1,2) null_safe_frame [of "exec_abi x" "exec_abi y"]
    by (simp add: run_frame_def)
  from guest_run_frame [OF assms(3) this] assms(1) show ?thesis
    using abi_frame_trans [of "exec_abi x" "exec_abi y" "exec_abi z"] by (simp add: run_frame_def exec_frame_def)
qed

text \<open>
  Along a run that starts with \<open>f0\<close> units of fuel in context \<open>c0\<close>: the frame holds, the fuel is
  at most \<open>f0\<close>, and less once the guest has yielded; a suspension has consumed some.
\<close>

definition fuel_bound :: "('w, 'm, 'x) wasmtime \<Rightarrow> u64 \<Rightarrow> 'w resume_state \<Rightarrow> bool \<Rightarrow> bool" where
  "fuel_bound wt f0 rs strict \<longleftrightarrow>
     (\<forall>w f. store rs = Some w \<longrightarrow> get_fuel wt w = Some f \<longrightarrow> f \<le> f0 \<and> (strict \<longrightarrow> f < f0))"

definition run_inv where
  "run_inv wt c0 f0 = (\<lambda>(ctx, rs). run_frame c0 ctx \<and> store rs \<noteq> None \<and> fuel_bound wt f0 rs (yielded ctx))"

definition run_post where
  "run_post wt c0 f0 = (\<lambda>(rc, ctx, rs). run_frame c0 ctx \<and>
     (rc = NGX_AGAIN \<longrightarrow> fuel_remaining ctx < f0 \<and>
        (\<exists>w. store rs = Some w \<and> get_fuel wt w = Some (fuel_remaining ctx))))"

definition run_read where
  "run_read wt = (\<lambda>(ctx, rs). \<exists>w. store rs = Some w \<and> get_fuel wt w = Some (fuel_remaining ctx))"

lemma start_future_inv:
  assumes "run_inv wt c0 f0 x"
    and "\<And>i w w'. fuel_async_yield_interval wt i w = Some w' \<Longrightarrow> get_fuel wt w' = get_fuel wt w"
    and "\<And>w w' q. st w = (w', q) \<Longrightarrow> get_fuel wt w' = get_fuel wt w"
  shows "step_sat (run_post wt c0 f0) (run_inv wt c0 f0) (start_future wt kind st x)"
proof -
  obtain ctx rs where x: "x = (ctx, rs)" by (cases x)
  from assms(1) obtain w where w: "store rs = Some w" by (auto simp: run_inv_def x)
  show ?thesis
  proof (cases "future rs")
    case True
    with assms(1) show ?thesis by (simp add: start_future_def x)
  next
    case nf: False
    show ?thesis
    proof (cases "prepare_async_yield wt ctx w")
      case None
      with nf w assms(1) show ?thesis by (simp add: start_future_def x run_post_def run_inv_def)
    next
      case (Some w1)
      then have f1: "get_fuel wt w1 = get_fuel wt w"
        using assms(2) by (auto simp: prepare_async_yield_def split: if_splits)
      show ?thesis
      proof (cases "prepare_async_op kind (rs\<lparr>store := Some w1\<rparr>)")
        case None
        with nf w Some assms(1) show ?thesis by (simp add: start_future_def x run_post_def run_inv_def)
      next
        case (Some rs1)
        obtain w2 q where st: "st w1 = (w2, q)" by (cases "st w1")
        have f2: "get_fuel wt w2 = get_fuel wt w" using assms(3) [OF st] f1 by simp
        show ?thesis
          using nf w \<open>prepare_async_yield wt ctx w = Some w1\<close> Some st f2 assms(1)
          by (auto simp: start_future_def x run_post_def run_inv_def fuel_bound_def split: option.split)
      qed
    qed
  qed
qed

lemma await_future_inv:
  assumes "run_inv wt c0 f0 x" and "null_safe (exec_abi c0)" and "wasmtime_ok h wt"
  shows "step_sat (run_post wt c0 f0) (\<lambda>y. run_inv wt c0 f0 y \<and> run_read wt y) (await_future wt x)"
proof -
  obtain ctx rs where x: "x = (ctx, rs)" by (cases x)
  from assms(1) obtain w where w: "store rs = Some w" by (auto simp: run_inv_def x)
  obtain p w1 y where poll: "call_future_poll wt w ctx = (p, w1, y)" by (metis prod_cases3)
  have g: "guest_run h ctx y" and
    f: "get_fuel wt w1 = Some f' \<Longrightarrow> \<exists>f. get_fuel wt w = Some f \<and> f' \<le> f \<and>
      (p = Pending \<or> \<not> yielded ctx \<and> yielded y \<longrightarrow> f' < f)" for f'
    using assms(3) poll by (auto simp: wasmtime_ok_def)
  have fr: "run_frame c0 y" using run_frame_guest [OF _ assms(2) g] assms(1) by (simp add: run_inv_def x)
  have b: "f' \<le> f0 \<and> (p = Pending \<or> yielded y \<longrightarrow> f' < f0)" if "get_fuel wt w1 = Some f'" for f'
    using f [OF that] assms(1) w by (force simp: run_inv_def x fuel_bound_def)
  show ?thesis
    using poll w fr b
    by (cases p) (auto simp: await_future_def x update_fuel_def run_post_def run_inv_def fuel_bound_def run_read_def
        suspend_def clear_async_future_def put_outputs_def Let_def split: option.split)
qed

lemma step_sat_weaken: "step_sat P Q r \<Longrightarrow> (\<And>x. Q x \<Longrightarrow> R x) \<Longrightarrow> step_sat P R r"
  by (cases r) simp_all

lemma run_instantiate_inv:
  fixes wt :: "('w, 'm, ('p, 's, 'c, 'm) exec_ctx) wasmtime"
  assumes "run_inv wt c0 f0 x" and "null_safe (exec_abi c0)" and ok: "wasmtime_ok h wt"
  shows "step_sat (run_post wt c0 f0) (run_inv wt c0 f0) (run_instantiate wt m x)"
proof -
  obtain ctx rs where x: "x = (ctx, rs)" by (cases x)
  show ?thesis
  proof (cases "instance_ready rs")
    case True
    with assms(1) show ?thesis by (simp add: run_instantiate_def x)
  next
    case False
    have laws: "fuel_async_yield_interval wt i w = Some w' \<Longrightarrow> get_fuel wt w' = get_fuel wt w"
      "linker_instantiate_async wt m w = (w', q) \<Longrightarrow> get_fuel wt w' = get_fuel wt w" for i w w' q
      using ok unfolding wasmtime_ok_def by blast+
    have st: "step_sat (run_post wt c0 f0) (run_inv wt c0 f0)
        (start_future wt FUTURE_INSTANTIATE (linker_instantiate_async wt m) x)"
      using assms(1) laws by (rule start_future_inv)
    have aw: "step_sat (run_post wt c0 f0) (run_inv wt c0 f0) (await_future wt y)"
      if "run_inv wt c0 f0 y" for y
      using step_sat_weaken [OF await_future_inv [OF that assms(2) ok]] by blast
    show ?thesis
      unfolding run_instantiate_def x prod.case if_not_P [OF False]
    proof (rule step_sat_andthen, rule step_sat_andthen)
      show "step_sat (run_post wt c0 f0) (run_inv wt c0 f0)
          (start_future wt FUTURE_INSTANTIATE (linker_instantiate_async wt m) (ctx, rs))"
        using st by (simp add: x)
    next
      fix y :: "('p, 's, 'c, 'm, 'w) run_state"
      assume y: "run_inv wt c0 f0 y"
      obtain c q where yq: "y = (c, q)" by (cases y)
      show "step_sat (run_post wt c0 f0) (run_inv wt c0 f0)
        (case y of (ctx, rs) \<Rightarrow> if trap rs \<noteq> None then Inl (NGX_ERROR, failed ctx, rs\<lparr>trap := None\<rparr>)
           else Inr (ctx, rs\<lparr>instance_ready := True\<rparr>))"
        using y by (cases "trap q") (simp_all add: yq run_inv_def run_post_def fuel_bound_def)
    qed (rule aw)
  qed
qed

lemma run_guest_inv:
  assumes "run_inv wt c0 f0 x" and "null_safe (exec_abi c0)" and ok: "wasmtime_ok h wt"
  shows "run_post wt c0 f0 (run_guest wt m x)"
proof -
  have laws: "fuel_async_yield_interval wt i w = Some w' \<Longrightarrow> get_fuel wt w' = get_fuel wt w"
    "func_call_async wt w = (w', q) \<Longrightarrow> get_fuel wt w' = get_fuel wt w" for i w w' q
    using ok unfolding wasmtime_ok_def by blast+
  have look: "step_sat (run_post wt c0 f0) (run_inv wt c0 f0) (run_lookup wt y)" if "run_inv wt c0 f0 y" for y
    using that by (cases y) (simp add: run_lookup_def run_inv_def run_post_def fuel_bound_def)
  have st: "step_sat (run_post wt c0 f0) (run_inv wt c0 f0) (start_future wt FUTURE_CALL (func_call_async wt) y)"
    if "run_inv wt c0 f0 y" for y
    using that laws by (rule start_future_inv)
  have aw: "step_sat (run_post wt c0 f0) (\<lambda>y. run_inv wt c0 f0 y \<and> run_read wt y) (await_future wt y)"
    if "run_inv wt c0 f0 y" for y
    using that assms(2) ok by (rule await_future_inv)
  have "step_sat (run_post wt c0 f0) (\<lambda>y. run_inv wt c0 f0 y \<and> run_read wt y)
     (andthen (andthen (andthen (run_instantiate wt m x) (run_lookup wt))
             (start_future wt FUTURE_CALL (func_call_async wt))) (await_future wt))"
    by (rule step_sat_andthen [where Q = "run_inv wt c0 f0"], rule step_sat_andthen [where Q = "run_inv wt c0 f0"],
        rule step_sat_andthen [OF run_instantiate_inv [OF assms(1-3)]])
      (fact look st aw)+
  moreover have "run_post wt c0 f0 (run_result y)" if "run_inv wt c0 f0 y" "run_read wt y" for y
    using that by (cases y) (auto simp: run_result_def run_inv_def run_post_def run_read_def suspend_def fuel_bound_def)
  ultimately show ?thesis
    unfolding run_guest_def step_sat_def by (auto split: sum.splits)
qed

text \<open>
  Between two runs: the fuel of the store is the fuel the context remembers, or the store is
  still to be made and will get the limit.
\<close>

definition fuel_in_sync ::
  "('w, 'm, 'x) wasmtime \<Rightarrow> ('p, 's, 'c, 'm) exec_ctx \<Rightarrow> 'w resume_state option \<Rightarrow> bool" where
  "fuel_in_sync wt ctx r \<longleftrightarrow>
     (case r of
        None \<Rightarrow> fuel_remaining ctx = fuel_limit ctx \<and> 0 < fuel_limit ctx
      | Some rs \<Rightarrow> \<exists>w. store rs = Some w \<and> get_fuel wt w = Some (fuel_remaining ctx))"

lemma runtime_run_post:
  assumes run: "runtime_run wt pc ctx r = (rc, ctx', r')"
    and "resume_opt_ok r" and sync: "fuel_in_sync wt ctx r" and "null_safe (exec_abi ctx)"
    and ok: "wasmtime_ok h wt"
  shows "run_frame ctx ctx'" and "resume_opt_ok r'"
    and "rc = NGX_AGAIN \<Longrightarrow> fuel_remaining ctx' < fuel_remaining ctx \<and> fuel_in_sync wt ctx' r'"
proof -
  have "run_frame ctx ctx' \<and> resume_opt_ok r' \<and>
    (rc = NGX_AGAIN \<longrightarrow> fuel_remaining ctx' < fuel_remaining ctx \<and> fuel_in_sync wt ctx' r')"
    using run assms(2)
  proof (cases rule: runtime_run_cases)
    case fail
    then show ?thesis by (simp add: run_frame_def failed_def)
  next
    case (guest m rs rs')
    from guest(3) obtain w where w: "store rs = Some w" by (auto simp: run_going_def)
    have fw: "get_fuel wt w = Some (fuel_remaining ctx)"
      using sync guest(5) w ok by (auto simp: fuel_in_sync_def wasmtime_ok_def split: option.splits if_splits)
    have inv: "run_inv wt ctx (fuel_remaining ctx) (begin_run ctx, rs)"
      using w fw by (auto simp: run_inv_def fuel_bound_def begin_run_def run_frame_def)
    have "run_post wt ctx (fuel_remaining ctx) (rc, ctx', rs')"
      using run_guest_inv [OF inv assms(4) ok, of m] guest(4) by simp
    moreover have "run_ended (rc, ctx', rs')" using run_guest_sat [OF guest(3), of wt m] guest(4) by simp
    ultimately show ?thesis using guest(1)
      by (auto simp: run_post_def run_ended_def resume_opt_ok_def fuel_in_sync_def)
  qed
  then show "run_frame ctx ctx'" and "resume_opt_ok r'"
    and "rc = NGX_AGAIN \<Longrightarrow> fuel_remaining ctx' < fuel_remaining ctx \<and> fuel_in_sync wt ctx' r'"
    by auto
qed

text \<open>
  Running, with whatever nginx does to the request, the zones and the subrequest while the guest
  is suspended.
\<close>

inductive suspended_runs ::
  "('w, 'm, ('p, 's, 'c, 'm) exec_ctx) wasmtime \<Rightarrow> ('p, 's, 'c, 'm) exec_ctx \<Rightarrow> nat
     \<Rightarrow> ('p, 's, 'c, 'm) exec_ctx \<Rightarrow> 'w resume_state option \<Rightarrow> bool" for wt c0 where
  first: "suspended_runs wt c0 0 c0 None"
| again: "suspended_runs wt c0 n c r \<Longrightarrow> null_safe a \<Longrightarrow>
     runtime_run wt pc (c\<lparr>exec_abi := a\<rparr>) r = (NGX_AGAIN, c', r') \<Longrightarrow>
     suspended_runs wt c0 (Suc n) c' r'"

lemma suspended_runs_fuel:
  assumes "suspended_runs wt c0 n c r" and "wasmtime_ok h wt" and "null_safe (exec_abi c0)"
    and "fuel_remaining c0 = fuel_limit c0" and "0 < fuel_limit c0"
  shows "n + unat (fuel_remaining c) \<le> unat (fuel_limit c0) \<and> fuel_in_sync wt c r \<and> resume_opt_ok r \<and>
    null_safe (exec_abi c)"
  using assms(1)
proof induction
  case first
  show ?case using assms(3-) by (simp add: fuel_in_sync_def resume_opt_ok_def)
next
  case (again n c r a pc c' r')
  let ?c = "c\<lparr>exec_abi := a\<rparr>"
  have ns: "null_safe (exec_abi ?c)" using again.hyps by simp
  have sync: "fuel_in_sync wt ?c r" using again.IH by (simp add: fuel_in_sync_def split: option.splits)
  from again.IH have ok: "resume_opt_ok r" by blast
  note post = runtime_run_post [OF again.hyps(3) ok sync ns assms(2)]
  have "unat (fuel_remaining c') < unat (fuel_remaining c)"
    using post(3) by (simp add: word_less_nat_alt)
  moreover have "null_safe (exec_abi c')"
    using post(1) ns null_safe_frame [of "exec_abi ?c" "exec_abi c'"] by (simp add: run_frame_def)
  ultimately show ?case using again.IH post by simp
qed

text \<open>The code of a run and the state it leaves the context in.\<close>

lemma runtime_run_code:
  assumes "runtime_run wt pc ctx r = (rc, ctx', r')" and "resume_opt_ok r"
  obtains (finished) "rc = NGX_OK" "exec_state ctx' = EXEC_DONE" "\<not> yielded ctx'"
    | (suspended) "rc = NGX_AGAIN" "exec_state ctx' = EXEC_SUSPENDED" "suspend_kind ctx' \<noteq> SUSPEND_NONE"
    | (broken) "rc = NGX_ERROR" "exec_state ctx' = EXEC_ERROR"
  using assms
proof (cases rule: runtime_run_cases)
  case fail
  then show thesis by (intro broken) (simp_all add: failed_def)
next
  case (guest m rs rs')
  with run_guest_sat [OF guest(3), of wt m] show thesis
    using finished suspended broken by (auto simp: run_ended_def)
qed

end
