(* ===== verification/Runtime_Props.thy ===== *)
theory Runtime_Props
  imports Runtime_Correct Host_Props
begin

text \<open>
  The properties of a run, with an instance of Wasmtime: a guest that burns all its fuel but one
  unit, a unit per slice, and then returns 0.
\<close>

section \<open>Instance\<close>

definition demo_poll :: "u64 \<Rightarrow> 'x \<Rightarrow> poll \<times> u64 \<times> 'x" where
  "demo_poll w x =
     (if 1 < w then (Pending, w - 1, x)
      else (Complete \<lparr>out_error = False, out_trap = None, out_result = I32 0\<rparr>, w, x))"

definition demo_wasmtime :: "(u64, unit, (nat, demo_slab, nat, unit) exec_ctx) wasmtime" where
  "demo_wasmtime = \<lparr>store_new = Some 0, set_fuel = (\<lambda>f w. Some f), get_fuel = Some,
     fuel_async_yield_interval = (\<lambda>i w. Some w), linker_instantiate_async = (\<lambda>m w. (w, None)),
     instance_export_get = (\<lambda>w name. Some ExternFunc), func_call_async = (\<lambda>w. (w, None)),
     call_future_poll = demo_poll\<rparr>"

lemma demo_wasmtime_sel [simp]:
  "store_new demo_wasmtime = Some 0" "set_fuel demo_wasmtime f w = Some f" "get_fuel demo_wasmtime w = Some w"
  "fuel_async_yield_interval demo_wasmtime i w = Some w" "linker_instantiate_async demo_wasmtime m w = (w, None)"
  "instance_export_get demo_wasmtime w name = Some ExternFunc" "func_call_async demo_wasmtime w = (w, None)"
  "call_future_poll demo_wasmtime w x = demo_poll w x"
  by (simp_all add: demo_wasmtime_def)

lemma demo_wasmtime_ok: "wasmtime_ok h demo_wasmtime"
proof -
  have "w - 1 < w" if "1 < w" for w :: u64 using that
    by (metis measure_unat word_less_nat_alt word_not_simps(1))
  then show ?thesis
    by (auto simp: wasmtime_ok_def demo_poll_def intro: guest_run.start less_imp_le split: if_splits)
qed

definition demo_conf :: "unit phase_conf" where
  "demo_conf = \<lparr>phase_set = Some True, phase_module = Some \<lparr>module_path = [], compiled = Some ()\<rparr>,
     phase_module_path = Some [], phase_export = Some []\<rparr>"

definition demo_run_ctx :: "phase \<Rightarrow> (nat, demo_slab, nat, unit) exec_ctx" where
  "demo_run_ctx phase = (init_exec_ctx demo_request None None (Some demo_subreq) demo_conf phase True)
     \<lparr>fuel_limit := 3, timeslice_fuel := 1, fuel_remaining := 3\<rparr>"

lemmas run_eval = runtime_run_def run_guest_def run_instantiate_def run_lookup_def run_result_def andthen_def
  start_future_def await_future_def prepare_async_yield_def prepare_async_op_def yield_interval_def
  update_fuel_def suspend_def begin_run_def failed_def clear_async_future_def clear_async_outputs_def
  put_outputs_def resume_zero_def Let_def demo_poll_def

section \<open>Properties\<close>

text \<open>C12: outcomes. From a state that an earlier run left, a run ends in one of three ways, and the
  code it returns to nginx and the state of the context agree: done, with no live future and
  the export's result 0; suspended, for a reason, with a live future or after a yield; or
  failed. The state it leaves can be resumed.\<close>

theorem runtime_run_outcome:
  assumes "runtime_run wt pc ctx r = (rc, ctx', r')" and "resume_opt_ok r"
  shows "resume_opt_ok r' \<and>
    (rc = NGX_OK \<and> exec_state ctx' = EXEC_DONE \<and> \<not> yielded ctx' \<and>
       (\<exists>rs. r' = Some rs \<and> \<not> future rs \<and> instance_ready rs \<and> func_ready rs \<and> trap rs = None \<and> results rs = I32 0) \<or>
     rc = NGX_AGAIN \<and> exec_state ctx' = EXEC_SUSPENDED \<and> suspend_kind ctx' \<noteq> SUSPEND_NONE \<and>
       (\<exists>rs. r' = Some rs \<and> store rs \<noteq> None \<and> (future rs \<or> func_ready rs \<and> yielded ctx')) \<or>
     rc = NGX_ERROR \<and> exec_state ctx' = EXEC_ERROR)"
  using assms
proof (cases rule: runtime_run_cases)
  case fail
  then show ?thesis by (simp add: failed_def)
next
  case (guest m rs rs')
  with run_guest_sat [OF guest(3), of wt m] show ?thesis
    by (auto simp: run_ended_def resume_opt_ok_def)
qed

theorem runtime_run_outcome_witness:
  "\<exists>ctx' rs. runtime_run demo_wasmtime True (demo_run_ctx PHASE_CONTENT) None = (NGX_AGAIN, ctx', Some rs) \<and>
     exec_state ctx' = EXEC_SUSPENDED \<and> resume_ok rs"
proof -
  obtain ctx' rs where run: "runtime_run demo_wasmtime True (demo_run_ctx PHASE_CONTENT) None = (NGX_AGAIN, ctx', Some rs)"
    by (simp add: run_eval demo_run_ctx_def demo_conf_def init_exec_ctx_def)
  from runtime_run_outcome [OF run] run show ?thesis by (auto simp: resume_opt_ok_def)
qed

text \<open>C10: an execution is not suspended for ever. From a fresh context with \<open>fuel_limit\<close> units of
  fuel, at most \<open>fuel_limit\<close> runs in a row can return \<^verbatim>\<open>NGX_AGAIN\<close>, whatever nginx does to
  the request in between: every suspension has consumed fuel, and the fuel is never set again.\<close>

theorem runtime_suspensions_bounded:
  assumes "suspended_runs wt c0 n c r" and "wasmtime_ok h wt" and "null_safe (exec_abi c0)"
    and "fuel_remaining c0 = fuel_limit c0" and "0 < fuel_limit c0"
  shows "n + unat (fuel_remaining c) \<le> unat (fuel_limit c0)"
  using suspended_runs_fuel [OF assms] by blast

theorem runtime_suspensions_bounded_witness:
  "\<exists>c r. suspended_runs demo_wasmtime (demo_run_ctx PHASE_CONTENT) 1 c r \<and> unat (fuel_remaining c) \<le> 2"
proof -
  have ns: "null_safe (exec_abi (demo_run_ctx PHASE_CONTENT))"
    by (simp add: demo_run_ctx_def null_safe_def)
  obtain c r where run: "runtime_run demo_wasmtime True ((demo_run_ctx PHASE_CONTENT)
        \<lparr>exec_abi := exec_abi (demo_run_ctx PHASE_CONTENT)\<rparr>) None = (NGX_AGAIN, c, r)"
    by (simp add: run_eval demo_run_ctx_def demo_conf_def init_exec_ctx_def)
  have s: "suspended_runs demo_wasmtime (demo_run_ctx PHASE_CONTENT) (Suc 0) c r"
    by (rule suspended_runs.again [OF suspended_runs.first ns run])
  from runtime_suspensions_bounded [OF s demo_wasmtime_ok ns] s show ?thesis
    by (auto simp: demo_run_ctx_def)
qed



text \<open>C36: what a run leaves alone. A run of a guest keeps the phase, its capabilities and the
  limits, and a guest of the log phase, however often it is suspended, leaves the request's
  headers, the response and the variables as they were.\<close>

theorem runtime_run_confined:
  assumes "runtime_run wt pc ctx r = (rc, ctx', r')" and "resume_opt_ok r" and "fuel_in_sync wt ctx r"
    and "request (exec_abi ctx) = Some q" and "wasmtime_ok h wt"
  shows "phase_kind ctx' = phase_kind ctx \<and> capabilities (exec_abi ctx') = capabilities (exec_abi ctx) \<and>
    fuel_limit ctx' = fuel_limit ctx \<and> timeslice_fuel ctx' = timeslice_fuel ctx \<and> exec_conf ctx' = exec_conf ctx \<and>
    (capabilities (exec_abi ctx) = phase_capabilities PHASE_LOG \<longrightarrow>
       (\<exists>q'. request (exec_abi ctx') = Some q' \<and> headers_in q' = headers_in q \<and>
          headers_out q' = headers_out q \<and> variables q' = variables q) \<and> wctx (exec_abi ctx') = wctx (exec_abi ctx))"
proof -
  have "null_safe (exec_abi ctx)" using assms(4) by (simp add: null_safe_def)
  from runtime_run_post(1) [OF assms(1-3) this assms(5)]
  have F: "run_frame ctx ctx'" "abi_frame (exec_abi ctx) (exec_abi ctx')" by (simp_all add: run_frame_def)
  have cp: "phase_kind ctx' = phase_kind ctx \<and> capabilities (exec_abi ctx') = capabilities (exec_abi ctx) \<and>
    fuel_limit ctx' = fuel_limit ctx \<and> timeslice_fuel ctx' = timeslice_fuel ctx \<and> exec_conf ctx' = exec_conf ctx"
    using F(1) F(2) by (simp add: run_frame_def abi_frame_def)
  have "(\<exists>q'. request (exec_abi ctx') = Some q' \<and> headers_in q' = headers_in q \<and>
      headers_out q' = headers_out q \<and> variables q' = variables q) \<and> wctx (exec_abi ctx') = wctx (exec_abi ctx)"
    if log: "capabilities (exec_abi ctx) = phase_capabilities PHASE_LOG"
  proof -
    have no: "\<not> abi_require (exec_abi ctx) (CAP_REQ_HEADERS_RW OR CAP_VAR_SET)"
      "\<not> abi_require (exec_abi ctx) (CAP_RESP_HEADERS_RW OR CAP_VAR_SET)"
      "\<not> abi_require (exec_abi ctx) CAP_VAR_SET" "\<not> abi_require (exec_abi ctx) CAP_SUBREQUEST"
      by (simp_all add: abi_require_def log phase_capabilities_def caps)
    have "request (exec_abi ctx') \<noteq> None" using F(2) assms(4) unfolding abi_frame_def by (metis option.distinct(1))
    then obtain q' where q': "request (exec_abi ctx') = Some q'" by blast
    have "Some (headers_in q') = Some (headers_in q) \<and> Some (headers_out q') = Some (headers_out q) \<and>
        Some (variables q') = Some (variables q) \<and> wctx (exec_abi ctx') = wctx (exec_abi ctx)"
      using F(2) [unfolded abi_frame_def q' assms(4) option.map] no by blast
    then show ?thesis using q' by blast
  qed
  with cp show ?thesis by blast
qed

theorem runtime_run_confined_witness:
  "\<exists>ctx' r. runtime_run demo_wasmtime True (demo_run_ctx PHASE_LOG) None = (NGX_AGAIN, ctx', r) \<and>
     map_option headers_out (request (exec_abi ctx')) = Some demo_headers_out"
proof -
  obtain ctx' r where run: "runtime_run demo_wasmtime True (demo_run_ctx PHASE_LOG) None = (NGX_AGAIN, ctx', r)"
    by (simp add: run_eval demo_run_ctx_def demo_conf_def init_exec_ctx_def)
  have "resume_opt_ok None" "fuel_in_sync demo_wasmtime (demo_run_ctx PHASE_LOG) None"
    "request (exec_abi (demo_run_ctx PHASE_LOG)) = Some demo_request"
    "capabilities (exec_abi (demo_run_ctx PHASE_LOG)) = phase_capabilities PHASE_LOG"
    by (simp_all add: resume_opt_ok_def fuel_in_sync_def demo_run_ctx_def init_exec_ctx_def abi_init_def)
  from runtime_run_confined [OF run this(1-3) demo_wasmtime_ok] this(4) run show ?thesis
    by (auto simp: demo_request_def)
qed

section \<open>The module cache\<close>

text \<open>Two cached paths are the same for \<open>find_module\<close>.\<close>

definition same_path :: "bytes \<Rightarrow> bytes \<Rightarrow> bool" where
  "same_path x y \<longleftrightarrow> length x = length y \<and> strn_eq x y"

definition cache_ok :: "'m cached_module list \<Rightarrow> bool" where
  "cache_ok modules \<longleftrightarrow>
     (\<forall>md \<in> set modules. compiled md \<noteq> None) \<and>
     sorted_wrt (\<lambda>x y. \<not> same_path (module_path x) (module_path y)) modules"

lemma find_module_same_path:
  "find_module modules path = find (\<lambda>md. same_path (module_path md) path) modules"
  by (simp add: find_module_def same_path_def)

text \<open>C37: the module cache. A path is compiled at most once: a load finds the cached module or
  adds one that is found from then on, never changes the module of another path, and a load
  that fails leaves the cache as it was.\<close>

theorem module_cache_spec:
  assumes "cache_ok modules"
    and "get_or_load fs module_new wat2wasm allocs modules path = (entry, modules')"
  shows "cache_ok modules' \<and> entry = find_module modules' path \<and>
    (find_module modules path \<noteq> None \<longrightarrow> modules' = modules) \<and>
    (entry = None \<longrightarrow> modules' = modules) \<and>
    (\<forall>other md. find_module modules other = Some md \<longrightarrow> find_module modules' other = Some md)"
proof (cases "modules' = modules")
  case True
  with assms show ?thesis
    by (auto simp: get_or_load_def Let_def split: prod.splits option.splits if_splits)
next
  case False
  with assms(2) obtain md where md: "modules' = modules @ [md]" "entry = Some md" "module_path md = path"
      "compiled md \<noteq> None" "find_module modules path = None"
    by (auto simp: get_or_load_def Let_def split: prod.splits option.splits if_splits)
  then have "\<forall>x \<in> set modules. \<not> same_path (module_path x) path"
    by (auto simp: find_module_same_path find_None_iff)
  with md assms(1) show ?thesis
    by (auto simp: cache_ok_def find_module_same_path find_append sorted_wrt_append same_path_def strn_eq_def)
qed

theorem module_cache_spec_witness:
  "\<exists>md. get_or_load \<lparr>open_file = Some, file_size = (\<lambda>_. Some 4), read_fd = (\<lambda>_ n. (4, wasm_magic))\<rparr>
       Some (\<lambda>_. None) (True, True, True, True) [] [47] = (Some md, [md]) \<and> find_module [md] [47] = Some md"
proof -
  let ?fs = "\<lparr>open_file = Some, file_size = (\<lambda>_. Some 4), read_fd = (\<lambda>_ n. (4, wasm_magic))\<rparr>"
  obtain md where r: "get_or_load ?fs Some (\<lambda>_. None) (True, True, True, True) [] [47] = (Some md, [md])"
    by (simp add: get_or_load_def read_file_def compile_module_def find_module_def wasm_magic_def Let_def)
  have "cache_ok []" by (simp add: cache_ok_def)
  from module_cache_spec [OF this r] r show ?thesis by auto
qed

end
