(* ===== verification/Conf_Props.thy ===== *)
theory Conf_Props
  imports Conf
begin

text \<open>
  What configuration guarantees: an inner block overrides the outer one directive by directive,
  and every phase that is switched on in an effective configuration has a compiled module.
\<close>

section \<open>Phases of a configuration\<close>

text \<open>
  A phase is switched on with everything a run needs, or off with nothing. A block that has not
  been merged has no phase switched off explicitly.
\<close>

definition phase_on :: "'m phase_conf \<Rightarrow> bool" where
  "phase_on p \<longleftrightarrow> phase_set p = Some True"

definition runnable :: "'m phase_conf \<Rightarrow> bool" where
  "runnable p \<longleftrightarrow> Option.bind (phase_module p) compiled \<noteq> None \<and>
     phase_module_path p \<noteq> None \<and> phase_export p \<noteq> None"

definition phase_ok :: "'m phase_conf \<Rightarrow> bool" where
  "phase_ok p \<longleftrightarrow> (if phase_on p then runnable p
     else phase_module p = None \<and> phase_module_path p = None \<and> phase_export p = None)"

definition conf_ok :: "'m wasm_conf \<Rightarrow> bool" where
  "conf_ok c \<longleftrightarrow> (\<forall>ph. phase_ok (phase_of ph c))"

definition block_ok :: "'m wasm_conf \<Rightarrow> bool" where
  "block_ok c \<longleftrightarrow> (\<forall>ph. phase_ok (phase_of ph c) \<and> phase_set (phase_of ph c) \<noteq> Some False)"

lemma block_ok_conf_ok: "block_ok c \<Longrightarrow> conf_ok c"
  by (simp add: block_ok_def conf_ok_def)

section \<open>Merge\<close>

lemma phase_of_merge: "phase_of ph (snd (merge_conf p c)) = merge_phase_conf (phase_of ph p) (phase_of ph c)"
  by (cases ph) (simp_all add: merge_conf_def)

lemma merge_phase_cases:
  assumes "phase_ok c" "phase_set c \<noteq> Some False"
  shows "merge_phase_conf p c = (if phase_on c then c else p\<lparr>phase_set := Some (phase_on p)\<rparr>)"
proof (cases c)
  case (fields on m path export)
  show ?thesis
    using assms by (cases p)
      (auto simp: fields phase_ok_def phase_on_def runnable_def merge_phase_conf_def conf_merge_def
        inherit_def split: option.splits)
qed

lemma merge_phase_ok:
  assumes "phase_ok p" "phase_ok c" "phase_set c \<noteq> Some False"
  shows "phase_ok (merge_phase_conf p c)"
  unfolding merge_phase_cases [OF assms(2,3)]
  using assms by (auto simp: phase_ok_def phase_on_def runnable_def)

lemma merge_conf_ok: "conf_ok p \<Longrightarrow> block_ok c \<Longrightarrow> conf_ok (snd (merge_conf p c))"
  unfolding conf_ok_def block_ok_def phase_of_merge by (blast intro: merge_phase_ok)

section \<open>Directives\<close>

lemma command_conf_simps [simp]:
  "command_conf ''content_by_wasm'' = Some LocConf"
  "command_conf ''rewrite_by_wasm'' = Some LocConf"
  "command_conf ''server_rewrite_by_wasm'' = Some SrvConf"
  "command_conf ''balancer_by_wasm'' = Some SrvConf"
  "command_conf ''header_filter_by_wasm'' = Some LocConf"
  "command_conf ''body_filter_by_wasm'' = Some LocConf"
  "command_conf ''log_by_wasm'' = Some LocConf"
  "command_conf ''ssl_client_hello_by_wasm'' = Some SrvConf"
  "command_conf ''ssl_certificate_by_wasm'' = Some SrvConf"
  "command_conf ''wasm_fuel_limit'' = Some LocConf"
  "command_conf ''wasm_shm_zone'' = Some MainConf"
  "command_conf ''wasm_metrics_zone'' = Some MainConf"
  "command_conf ''wasm_counter'' = Some MainConf"
  "command_conf ''wasm_gauge'' = Some MainConf"
  "command_conf ''wasm_metrics'' = Some LocConf"
  "command_conf ''wasm_request_body_buffer_size'' = Some LocConf"
  "command_conf ''wasm_body_filter_file_chunk_size'' = Some LocConf"
  "command_conf ''wasm_subrequest_buffer_size'' = Some LocConf"
  "command_conf ''wasm_timeslice_fuel'' = Some LocConf"
  by (simp_all add: command_conf_def commands_def)

definition all_compiled :: "'m cached_module list \<Rightarrow> bool" where
  "all_compiled ms \<longleftrightarrow> (\<forall>m \<in> set ms. compiled m \<noteq> None)"

lemma get_or_load_compiled:
  assumes "get_or_load fs mn w2w al ms path = (r, ms')" "all_compiled ms"
  shows "all_compiled ms'" and "r = Some m \<Longrightarrow> compiled m \<noteq> None"
proof -
  have "find_module ms path = Some x \<Longrightarrow> x \<in> set ms" for x
    by (auto simp: find_module_def find_Some_iff)
  then show "all_compiled ms'" "r = Some m \<Longrightarrow> compiled m \<noteq> None"
    using assms by (auto simp: get_or_load_def all_compiled_def Let_def split: option.splits prod.splits if_splits)
qed

lemma configure_phase_ok:
  assumes "configure_phase e path name (Some ms) p = (rc, p', ms')" "all_compiled ms" "rc = NGX_OK"
  shows "phase_ok p'" "phase_set p' \<noteq> Some False" "\<exists>ms1. ms' = Some ms1 \<and> all_compiled ms1"
proof -
  from assms(1,3) obtain full m ms1 where
    load: "get_or_load (cf_files e) (cf_module_new e) (cf_wat2wasm e) (cf_allocs e) ms full = (Some m, ms1)"
    and p': "p' = p\<lparr>phase_module_path := Some full, phase_export := Some name, phase_set := Some True, phase_module := Some m\<rparr>"
    and ms': "ms' = Some ms1"
    by (auto simp: configure_phase_def Let_def split: option.splits prod.splits if_splits)
  from get_or_load_compiled [OF load assms(2)] p' ms'
  show "phase_ok p'" "phase_set p' \<noteq> Some False" "\<exists>ms1. ms' = Some ms1 \<and> all_compiled ms1"
    by (auto simp: phase_ok_def phase_on_def runnable_def)
qed

lemma phase_directive_ok: "phase_directive rc = ConfOk \<longleftrightarrow> rc = NGX_OK"
  by (simp add: phase_directive_def)

text \<open>
  The configuration of one block, for the records of one level: directives of that level that
  succeed, in any order, from a fresh record. Directives of other blocks come in between; they
  share the list of modules.
\<close>

inductive directive ::
  "('m, 'f) conf_env \<Rightarrow> conf_level \<Rightarrow> 'm wasm_conf \<Rightarrow> 'm cached_module list \<Rightarrow> 'm wasm_conf
     \<Rightarrow> 'm cached_module list \<Rightarrow> bool"
  for e lv where
  content: "command_conf ''content_by_wasm'' = Some lv \<Longrightarrow>
     content_by e path name (Some ms) c = (ConfOk, c', Some ms') \<Longrightarrow> directive e lv c ms c' ms'"
| rewrite: "command_conf ''rewrite_by_wasm'' = Some lv \<Longrightarrow>
     rewrite_by e path name (Some ms) c = (ConfOk, c', Some ms') \<Longrightarrow> directive e lv c ms c' ms'"
| server_rewrite: "command_conf ''server_rewrite_by_wasm'' = Some lv \<Longrightarrow>
     server_rewrite_by e path name (Some ms) c = (ConfOk, c', Some ms') \<Longrightarrow> directive e lv c ms c' ms'"
| balancer: "command_conf ''balancer_by_wasm'' = Some lv \<Longrightarrow>
     balancer_by e path name us (Some ms) c = (ConfOk, c', Some ms', us') \<Longrightarrow> directive e lv c ms c' ms'"
| header_filter: "command_conf ''header_filter_by_wasm'' = Some lv \<Longrightarrow>
     header_filter_by e path name (Some ms) c = (ConfOk, c', Some ms') \<Longrightarrow> directive e lv c ms c' ms'"
| body_filter: "command_conf ''body_filter_by_wasm'' = Some lv \<Longrightarrow>
     body_filter_by e path name (Some ms) c = (ConfOk, c', Some ms') \<Longrightarrow> directive e lv c ms c' ms'"
| log: "command_conf ''log_by_wasm'' = Some lv \<Longrightarrow>
     log_by e path name (Some ms) c = (ConfOk, c', Some ms') \<Longrightarrow> directive e lv c ms c' ms'"
| ssl_client_hello: "command_conf ''ssl_client_hello_by_wasm'' = Some lv \<Longrightarrow>
     ssl_client_hello_by e path name (Some ms) c = (ConfOk, c', Some ms') \<Longrightarrow> directive e lv c ms c' ms'"
| ssl_certificate: "command_conf ''ssl_certificate_by_wasm'' = Some lv \<Longrightarrow>
     ssl_certificate_by e path name (Some ms) c = (ConfOk, c', Some ms') \<Longrightarrow> directive e lv c ms c' ms'"
| metrics: "command_conf ''wasm_metrics'' = Some lv \<Longrightarrow>
     metrics_directive c = (ConfOk, c') \<Longrightarrow> directive e lv c ms c' ms"
| request_body: "command_conf ''wasm_request_body_buffer_size'' = Some lv \<Longrightarrow>
     set_request_body_buffer_size e v c = (ConfOk, c') \<Longrightarrow> directive e lv c ms c' ms"
| file_chunk: "command_conf ''wasm_body_filter_file_chunk_size'' = Some lv \<Longrightarrow>
     set_body_filter_file_chunk_size e v c = (ConfOk, c') \<Longrightarrow> directive e lv c ms c' ms"
| subrequest: "command_conf ''wasm_subrequest_buffer_size'' = Some lv \<Longrightarrow>
     set_subrequest_buffer_size e v c = (ConfOk, c') \<Longrightarrow> directive e lv c ms c' ms"
| fuel: "command_conf ''wasm_fuel_limit'' = Some lv \<Longrightarrow>
     set_fuel_limit e v c = (ConfOk, c') \<Longrightarrow> directive e lv c ms c' ms"
| timeslice: "command_conf ''wasm_timeslice_fuel'' = Some lv \<Longrightarrow>
     set_timeslice_fuel e v c = (ConfOk, c') \<Longrightarrow> directive e lv c ms c' ms"

inductive block ::
  "('m, 'f) conf_env \<Rightarrow> conf_level \<Rightarrow> 'm wasm_conf \<Rightarrow> 'm cached_module list \<Rightarrow> bool" for e where
  start: "create_conf True = Some c \<Longrightarrow> block e lv c []"
| own: "block e lv c ms \<Longrightarrow> directive e lv c ms c' ms' \<Longrightarrow> block e lv c' ms'"
| other: "block e lv c ms \<Longrightarrow> block e lv' d ms \<Longrightarrow> directive e lv' d ms d' ms' \<Longrightarrow> block e lv c ms'"

lemma phase_of_upd [simp]:
  "phase_of ph (c\<lparr>content_conf := p\<rparr>) = (if ph = PHASE_CONTENT then p else phase_of ph c)"
  "phase_of ph (c\<lparr>rewrite_conf := p\<rparr>) = (if ph = PHASE_REWRITE then p else phase_of ph c)"
  "phase_of ph (c\<lparr>server_rewrite_conf := p\<rparr>) = (if ph = PHASE_SERVER_REWRITE then p else phase_of ph c)"
  "phase_of ph (c\<lparr>balancer_conf := p\<rparr>) = (if ph = PHASE_BALANCER then p else phase_of ph c)"
  "phase_of ph (c\<lparr>header_filter_conf := p\<rparr>) = (if ph = PHASE_HEADER_FILTER then p else phase_of ph c)"
  "phase_of ph (c\<lparr>body_filter_conf := p\<rparr>) = (if ph = PHASE_BODY_FILTER then p else phase_of ph c)"
  "phase_of ph (c\<lparr>log_conf := p\<rparr>) = (if ph = PHASE_LOG then p else phase_of ph c)"
  "phase_of ph (c\<lparr>ssl_client_hello_conf := p\<rparr>) = (if ph = PHASE_SSL_CLIENT_HELLO then p else phase_of ph c)"
  "phase_of ph (c\<lparr>ssl_certificate_conf := p\<rparr>) = (if ph = PHASE_SSL_CERTIFICATE then p else phase_of ph c)"
  "phase_of ph (c\<lparr>conf_fuel_limit := vco\<rparr>) = phase_of ph c"
  "phase_of ph (c\<lparr>conf_timeslice_fuel := vco\<rparr>) = phase_of ph c"
  "phase_of ph (c\<lparr>request_body_buffer_size := vre\<rparr>) = phase_of ph c"
  "phase_of ph (c\<lparr>body_filter_file_chunk_size := vbo\<rparr>) = phase_of ph c"
  "phase_of ph (c\<lparr>subrequest_buffer_size := vsu\<rparr>) = phase_of ph c"
  "phase_of ph (c\<lparr>metrics_endpoint := vme\<rparr>) = phase_of ph c"
  "phase_of ph (c\<lparr>original_init_upstream := vor\<rparr>) = phase_of ph c"
  by (cases ph; simp)+

lemma block_ok_phase:
  assumes "block_ok c" "configure_phase e path name (Some ms) p0 = (NGX_OK, p, ms')" "all_compiled ms"
    and "\<And>ph. phase_of ph c' = (if ph = k then p else phase_of ph c)"
  shows "block_ok c'" "\<exists>ms1. ms' = Some ms1 \<and> all_compiled ms1"
  using configure_phase_ok [OF assms(2,3) refl] assms(1,4) by (simp_all add: block_ok_def)

lemma block_ok_same: "block_ok c \<Longrightarrow> (\<And>ph. phase_of ph c' = phase_of ph c) \<Longrightarrow> block_ok c'"
  by (simp add: block_ok_def)

lemmas phase_directives = content_by_def rewrite_by_def server_rewrite_by_def balancer_by_def
  header_filter_by_def body_filter_by_def log_by_def ssl_client_hello_by_def ssl_certificate_by_def

lemmas value_directives = metrics_directive_def set_request_body_buffer_size_def
  set_body_filter_file_chunk_size_def set_subrequest_buffer_size_def set_fuel_limit_def
  set_timeslice_fuel_def

text \<open>A successful directive sets one phase by \<open>configure_phase\<close>, or no phase.\<close>

lemma directive_cases:
  assumes "directive e lv c ms c' ms'"
  obtains (set_phase) path name p0 p k where
      "configure_phase e path name (Some ms) p0 = (NGX_OK, p, Some ms')"
      "\<And>ph. phase_of ph c' = (if ph = k then p else phase_of ph c)"
    | (set_value) "ms' = ms" "\<And>ph. phase_of ph c' = phase_of ph c"
  using assms
  by cases (auto simp: phase_directives value_directives phase_directive_ok Let_def
      split: prod.splits if_splits option.splits)

lemma directive_block_ok:
  assumes "directive e lv c ms c' ms'" "block_ok c" "all_compiled ms"
  shows "block_ok c' \<and> all_compiled ms'"
  using assms(1)
proof (cases rule: directive_cases)
  case set_phase
  with block_ok_phase [OF assms(2) set_phase(1) assms(3) set_phase(2)] show ?thesis by simp
next
  case set_value
  with block_ok_same [OF assms(2) set_value(2)] assms(3) show ?thesis by simp
qed

lemma create_block_ok: "create_conf True = Some c \<Longrightarrow> block_ok c"
proof -
  assume "create_conf True = Some c"
  then have "phase_of ph c = unset_phase" for ph
    by (cases ph) (auto simp: create_conf_def)
  then show "block_ok c" by (simp add: block_ok_def phase_ok_def phase_on_def unset_phase_def)
qed

lemma block_block_ok: "block e lv c ms \<Longrightarrow> block_ok c \<and> all_compiled ms"
proof (induction rule: block.induct)
  case start
  then show ?case by (simp add: create_block_ok all_compiled_def)
qed (simp_all add: directive_block_ok)

text \<open>The effective configuration of a block: its directives merged with what is around it.\<close>

inductive effective :: "('m, 'f) conf_env \<Rightarrow> conf_level \<Rightarrow> 'm wasm_conf \<Rightarrow> bool" for e lv where
  outermost: "block e lv c ms \<Longrightarrow> effective e lv c"
| inner: "effective e lv p \<Longrightarrow> block e lv c ms \<Longrightarrow> merge_conf p c = (ConfOk, c') \<Longrightarrow> effective e lv c'"

lemma effective_conf_ok: "effective e lv c \<Longrightarrow> conf_ok c"
proof (induction rule: effective.induct)
  case outermost
  then show ?case by (simp add: block_block_ok block_ok_conf_ok)
next
  case (inner p c ms c')
  then show ?case using merge_conf_ok [of p c] by (simp add: block_block_ok)
qed

section \<open>Properties\<close>

text \<open>C21: inheritance. A phase that an inner block configures replaces the outer block's as a whole,
  a phase it does not configure is the outer block's, and each number and the metrics flag is the
  innermost one that was given, else the documented default. The callbacks saved for the balancer are
  the inner block's own.\<close>

theorem conf_merge_inherits:
  assumes "block_ok c"
  shows "let m = snd (merge_conf p c) in
    (\<forall>ph. phase_of ph m = (if phase_on (phase_of ph c) then phase_of ph c
       else (phase_of ph p)\<lparr>phase_set := Some (phase_on (phase_of ph p))\<rparr>)) \<and>
    conf_fuel_limit m = Some (case (conf_fuel_limit c, conf_fuel_limit p) of
       (Some x, _) \<Rightarrow> x | (None, Some x) \<Rightarrow> x | _ \<Rightarrow> 1000000) \<and>
    conf_timeslice_fuel m = Some (case (conf_timeslice_fuel c, conf_timeslice_fuel p) of
       (Some x, _) \<Rightarrow> x | (None, Some x) \<Rightarrow> x | _ \<Rightarrow> 10000) \<and>
    request_body_buffer_size m = Some (case (request_body_buffer_size c, request_body_buffer_size p) of
       (Some x, _) \<Rightarrow> x | (None, Some x) \<Rightarrow> x | _ \<Rightarrow> 0) \<and>
    body_filter_file_chunk_size m = Some (case (body_filter_file_chunk_size c, body_filter_file_chunk_size p) of
       (Some x, _) \<Rightarrow> x | (None, Some x) \<Rightarrow> x | _ \<Rightarrow> 16384) \<and>
    subrequest_buffer_size m = Some (case (subrequest_buffer_size c, subrequest_buffer_size p) of
       (Some x, _) \<Rightarrow> x | (None, Some x) \<Rightarrow> x | _ \<Rightarrow> 65536) \<and>
    metrics_endpoint m = Some (case (metrics_endpoint c, metrics_endpoint p) of
       (Some x, _) \<Rightarrow> x | (None, Some x) \<Rightarrow> x | _ \<Rightarrow> False) \<and>
    original_init_upstream m = original_init_upstream c \<and> original_init_peer m = original_init_peer c"
proof -
  have "phase_of ph (snd (merge_conf p c)) = (if phase_on (phase_of ph c) then phase_of ph c
       else (phase_of ph p)\<lparr>phase_set := Some (phase_on (phase_of ph p))\<rparr>)" for ph
    unfolding phase_of_merge using assms
    by (intro merge_phase_cases) (simp_all add: block_ok_def)
  then show ?thesis
    by (simp add: Let_def merge_conf_def conf_merge_def DEFAULT_FUEL_LIMIT_def DEFAULT_TIMESLICE_FUEL_def
        DEFAULT_REQUEST_BODY_BUFFER_SIZE_def DEFAULT_BODY_FILTER_FILE_CHUNK_SIZE_def
        DEFAULT_SUBREQUEST_BUFFER_SIZE_def split: option.splits)
qed

text \<open>C28: a configured phase can run. In every configuration that nginx accepts, whatever the order
  and the nesting of the blocks, a phase that is switched on has a compiled module and the name
  of an export.\<close>

theorem conf_phase_runnable:
  assumes "effective e lv c" "phase_set (phase_of ph c) = Some True"
  shows "\<exists>m. Option.bind (phase_module (phase_of ph c)) compiled = Some m \<and>
     phase_export (phase_of ph c) \<noteq> None"
proof -
  have "phase_ok (phase_of ph c)" using effective_conf_ok [OF assms(1)] by (simp add: conf_ok_def)
  with assms(2) show ?thesis by (auto simp: phase_ok_def phase_on_def runnable_def)
qed

text \<open>
  The records of servers: no directive that writes them sets a number, and the phases of
  locations are not theirs.
\<close>

definition server_defaults :: "'m wasm_conf \<Rightarrow> bool" where
  "server_defaults c \<longleftrightarrow>
     conf_fuel_limit c \<in> {None, Some DEFAULT_FUEL_LIMIT} \<and>
     conf_timeslice_fuel c \<in> {None, Some DEFAULT_TIMESLICE_FUEL} \<and>
     request_body_buffer_size c \<in> {None, Some DEFAULT_REQUEST_BODY_BUFFER_SIZE} \<and>
     \<not> phase_on (content_conf c)"

lemma server_directive:
  assumes "directive e SrvConf c ms c' ms'"
  shows "conf_fuel_limit c' = conf_fuel_limit c \<and> conf_timeslice_fuel c' = conf_timeslice_fuel c \<and>
    request_body_buffer_size c' = request_body_buffer_size c \<and> content_conf c' = content_conf c"
  using assms
  by cases (auto simp: server_rewrite_by_def balancer_by_def ssl_client_hello_by_def ssl_certificate_by_def
      Let_def split: prod.splits if_splits option.splits)

lemma conf_merge_defaults: "c \<in> {None, Some d} \<Longrightarrow> p \<in> {None, Some d} \<Longrightarrow> conf_merge c p d \<in> {None, Some d}"
  by (auto simp: conf_merge_def)

lemma merge_phase_off: "\<not> phase_on p \<Longrightarrow> \<not> phase_on c \<Longrightarrow> \<not> phase_on (merge_phase_conf p c)"
  by (auto simp: phase_on_def merge_phase_conf_def conf_merge_def split: option.splits)

lemma merge_conf_sel:
  "conf_fuel_limit (snd (merge_conf p c)) = conf_merge (conf_fuel_limit c) (conf_fuel_limit p) DEFAULT_FUEL_LIMIT"
  "conf_timeslice_fuel (snd (merge_conf p c)) =
     conf_merge (conf_timeslice_fuel c) (conf_timeslice_fuel p) DEFAULT_TIMESLICE_FUEL"
  "request_body_buffer_size (snd (merge_conf p c)) =
     conf_merge (request_body_buffer_size c) (request_body_buffer_size p) DEFAULT_REQUEST_BODY_BUFFER_SIZE"
  "content_conf (snd (merge_conf p c)) = merge_phase_conf (content_conf p) (content_conf c)"
  by (simp_all add: merge_conf_def)

lemma server_merge: "server_defaults p \<Longrightarrow> server_defaults c \<Longrightarrow> server_defaults (snd (merge_conf p c))"
  unfolding server_defaults_def merge_conf_sel
  by (elim conjE, intro conjI conf_merge_defaults merge_phase_off)

lemma server_block: "block e lv c ms \<Longrightarrow> lv = SrvConf \<Longrightarrow> server_defaults c"
proof (induction rule: block.induct)
  case start
  then show ?case by (auto simp: create_conf_def server_defaults_def phase_on_def unset_phase_def)
qed (simp_all add: server_defaults_def server_directive)

text \<open>C29: numbers of a server. The directives \<^verbatim>\<open>wasm_fuel_limit\<close>, \<^verbatim>\<open>wasm_timeslice_fuel\<close> and
  \<^verbatim>\<open>wasm_request_body_buffer_size\<close> write the record of a location, wherever they stand. The
  record of a server, which the server-rewrite phase, the TLS phases and the balancer read, has
  only their defaults: no configuration changes what those guests get.\<close>

theorem conf_server_defaults:
  assumes "effective e SrvConf c"
  shows "conf_fuel_limit c \<in> {None, Some 1000000} \<and> conf_timeslice_fuel c \<in> {None, Some 10000} \<and>
    request_body_buffer_size c \<in> {None, Some 0} \<and> phase_set (content_conf c) \<noteq> Some True"
proof -
  from assms have "server_defaults c"
  proof (induction rule: effective.induct)
    case (outermost c ms)
    then show ?case by (simp add: server_block)
  next
    case (inner p c ms c')
    then show ?case using server_merge [of p c] server_block by (metis snd_conv)
  qed
  then show ?thesis
    by (simp add: server_defaults_def phase_on_def DEFAULT_FUEL_LIMIT_def DEFAULT_TIMESLICE_FUEL_def
        DEFAULT_REQUEST_BODY_BUFFER_SIZE_def)
qed

section \<open>Witnesses\<close>

definition demo_conf_env :: "(unit, bytes) conf_env" where
  "demo_conf_env = \<lparr>ngx_conf_full_name = (\<lambda>n. Some (47 # n)), ngx_parse_size = (\<lambda>v. int (length v)),
     ngx_atoi = (\<lambda>v. int (length v)), ngx_pagesize = 4096,
     cf_files = \<lparr>open_file = Some, file_size = (\<lambda>_. Some 4), read_fd = (\<lambda>_ n. (4, wasm_magic))\<rparr>,
     cf_module_new = (\<lambda>_. Some ()), cf_wat2wasm = (\<lambda>_. None), cf_allocs = (True, True, True, True)\<rparr>"

lemmas conf_eval = content_by_def log_by_def configure_phase_def demo_conf_env_def get_or_load_def
  read_file_def compile_module_def find_module_def wasm_magic_def Let_def phase_directive_def
  create_conf_def unset_phase_def

text \<open>The outer block logs with one guest, the inner one answers with another.\<close>

definition demo_outer :: "unit wasm_conf" where
  "demo_outer = fst (snd (log_by demo_conf_env [97] [98] (Some []) (the (create_conf True))))"

definition demo_inner :: "unit wasm_conf" where
  "demo_inner = fst (snd (content_by demo_conf_env [99] [100]
     (Some [\<lparr>module_path = [47, 97], compiled = Some ()\<rparr>]) (the (create_conf True))))"

lemma demo_outer_block: "block demo_conf_env LocConf demo_outer [\<lparr>module_path = [47, 97], compiled = Some ()\<rparr>]"
proof -
  obtain c where c: "create_conf True = Some (c :: unit wasm_conf)" by (simp add: create_conf_def)
  then have "log_by demo_conf_env [97] [98] (Some []) c =
      (ConfOk, demo_outer, Some [\<lparr>module_path = [47, 97], compiled = Some ()\<rparr>])"
    by (auto simp: demo_outer_def conf_eval)
  from block.own [OF block.start [OF c] directive.log [OF _ this]] show ?thesis by simp
qed

lemma demo_inner_block:
  "\<exists>ms. block demo_conf_env LocConf demo_inner ms"
proof -
  obtain c where c: "create_conf True = Some (c :: unit wasm_conf)" by (simp add: create_conf_def)
  let ?ms = "[\<lparr>module_path = [47, 97], compiled = Some ()\<rparr>]"
  have "log_by demo_conf_env [97] [98] (Some []) c = (ConfOk, demo_outer, Some ?ms)"
    using c by (auto simp: demo_outer_def conf_eval)
  from block.other [OF block.start [OF c] block.start [OF c] directive.log [OF _ this]]
  have b: "block demo_conf_env LocConf c ?ms" by simp
  obtain ms' where "content_by demo_conf_env [99] [100] (Some ?ms) c = (ConfOk, demo_inner, Some ms')"
    using c by (auto simp: demo_inner_def conf_eval strn_eq_def)
  from block.own [OF b directive.content [OF _ this]] show ?thesis by auto
qed

theorem conf_merge_inherits_witness:
  "let m = snd (merge_conf demo_outer demo_inner) in
     phase_on (content_conf m) \<and> phase_export (content_conf m) = Some [100] \<and>
     phase_on (log_conf m) \<and> phase_export (log_conf m) = Some [98] \<and> conf_fuel_limit m = Some 1000000"
proof -
  obtain ms where "block demo_conf_env LocConf demo_inner ms" using demo_inner_block by blast
  then have "block_ok demo_inner" by (simp add: block_block_ok)
  from conf_merge_inherits [OF this, of demo_outer]
  have "phase_of ph (snd (merge_conf demo_outer demo_inner)) =
      (if phase_on (phase_of ph demo_inner) then phase_of ph demo_inner
       else (phase_of ph demo_outer)\<lparr>phase_set := Some (phase_on (phase_of ph demo_outer))\<rparr>)" for ph
    by (simp add: Let_def)
  from this [of PHASE_CONTENT] this [of PHASE_LOG] conf_merge_inherits [OF \<open>block_ok demo_inner\<close>, of demo_outer]
  show ?thesis
    by (simp add: Let_def phase_on_def demo_inner_def demo_outer_def conf_eval strn_eq_def)
qed

theorem conf_phase_runnable_witness:
  "\<exists>c. effective demo_conf_env LocConf c \<and> Option.bind (phase_module (log_conf c)) compiled = Some () \<and>
     Option.bind (phase_module (content_conf c)) compiled = Some ()"
proof -
  obtain ms where i: "block demo_conf_env LocConf demo_inner ms" using demo_inner_block by blast
  obtain c where m: "merge_conf demo_outer demo_inner = (ConfOk, c)" by (simp add: merge_conf_def)
  have e: "effective demo_conf_env LocConf c"
    by (rule effective.inner [OF effective.outermost [OF demo_outer_block] i m])
  have "phase_set (phase_of PHASE_LOG c) = Some True" "phase_set (phase_of PHASE_CONTENT c) = Some True"
    using m by (auto simp: merge_conf_def merge_phase_conf_def conf_merge_def demo_inner_def demo_outer_def
        conf_eval strn_eq_def)
  with conf_phase_runnable [OF e, of PHASE_LOG] conf_phase_runnable [OF e, of PHASE_CONTENT] e
  show ?thesis by auto
qed

text \<open>A server with a guest for its handshakes.\<close>

theorem conf_server_defaults_witness:
  "\<exists>c. effective demo_conf_env SrvConf c \<and> phase_on (ssl_certificate_conf c) \<and>
     conf_fuel_limit c \<in> {None, Some 1000000}"
proof -
  obtain c where c: "create_conf True = Some (c :: unit wasm_conf)" by (simp add: create_conf_def)
  obtain c' ms where d: "ssl_certificate_by demo_conf_env [97] [98] (Some []) c = (ConfOk, c', Some ms)"
      "phase_on (ssl_certificate_conf c')"
    using c by (auto simp: ssl_certificate_by_def phase_on_def conf_eval)
  have "directive demo_conf_env SrvConf c [] c' ms" by (rule directive.ssl_certificate [OF _ d(1)]) simp
  then have e: "effective demo_conf_env SrvConf c'"
    by (rule effective.outermost [OF block.own [OF block.start [OF c]]])
  from conf_server_defaults [OF e] e d(2) show ?thesis by blast
qed

end
