(* ===== verification/Module.thy ===== *)
theory Module
  imports Conf
begin

text \<open>
  A request and its guests: the module context of a request, the phase handlers of
  \<^verbatim>\<open>src/ngx_http_wasm_module.c\<close>, the request body of \<^verbatim>\<open>src/ngx_http_wasm_request_body.c\<close> and the
  header filter of \<^verbatim>\<open>src/ngx_http_wasm_header_filter.c\<close>.
\<close>

section \<open>State\<close>

text \<open>
  An execution context in the module context of a request: the context, its
  \<^verbatim>\<open>resume_state\<close>, and its \<^verbatim>\<open>conf\<close> pointer, which is the address of a configuration record and
  the phase in it. \<open>None\<close> stands for one that is zeroed; for the filters and the log phase,
  whose contexts have a flag, for one whose flag is not set.
\<close>

record ('p, 's, 'c, 'm, 'w) slot =
  slot_exec :: "('p, 's, 'c, 'm) exec_ctx"
  slot_resume :: "'w resume_state option"
  slot_conf :: "addr \<times> phase"

text \<open>
  A buffer of a response: the bytes it has in memory, or the file it is in with the range from
  \<^verbatim>\<open>file_pos\<close> to \<^verbatim>\<open>file_last\<close>, and its flags.
\<close>

record body_buf =
  buf_memory :: "bytes option"
  buf_file :: "(nat \<times> int \<times> int) option"
  buf_flush :: bool
  buf_sync :: bool
  buf_last_buf :: bool
  buf_last_in_chain :: bool

text \<open>
  What the body filter keeps in the module context: the buffers that wait, whether the pointer to
  the end of their chain has been set, the file, size and offset of the read in progress, the
  flags of its chunk, and whether a read is in progress.
\<close>

record filter_state =
  body_filter_pending :: "body_buf list"
  body_filter_pending_last :: bool
  body_filter_file :: nat
  body_filter_read_size :: nat
  body_filter_read_offset :: int
  body_filter_waiting :: bool
  chunk_flush :: bool
  chunk_sync :: bool
  chunk_last_buf :: bool
  chunk_last_in_chain :: bool

definition zero_filter :: filter_state where
  "zero_filter = \<lparr>body_filter_pending = [], body_filter_pending_last = False, body_filter_file = 0,
     body_filter_read_size = 0, body_filter_read_offset = 0, body_filter_waiting = False,
     chunk_flush = False, chunk_sync = False, chunk_last_buf = False, chunk_last_in_chain = False\<rparr>"

record ('p, 's, 'c, 'm, 'w) wasm_ctx =
  main_exec :: "('p, 's, 'c, 'm, 'w) slot option"
  header_filter_exec :: "('p, 's, 'c, 'm, 'w) slot option"
  body_filter_exec :: "('p, 's, 'c, 'm, 'w) slot option"
  log_exec :: "('p, 's, 'c, 'm, 'w) slot option"
  exec_completed :: bool
  waiting :: bool
  request_body_reading :: bool
  request_body_ready :: bool
  request_body_async :: bool
  request_body_status :: int
  ctx_subrequest :: "'p subreq_state"
  ctx_filter :: filter_state

definition zero_subrequest :: "'p subreq_state" where
  "zero_subrequest = \<lparr>subrequest = None, pending_headers = None, capture_body = False, active = False,
     sub_done = False, sub_rc = 0, body_limit = 0\<rparr>"

definition zero_ctx :: "('p, 's, 'c, 'm, 'w) wasm_ctx" where
  "zero_ctx = \<lparr>main_exec = None, header_filter_exec = None, body_filter_exec = None, log_exec = None,
     exec_completed = False, waiting = False, request_body_reading = False, request_body_ready = False,
     request_body_async = False, request_body_status = NGX_OK, ctx_subrequest = zero_subrequest, ctx_filter = zero_filter\<rparr>"

text \<open>
  What the module leaves to nginx to do with the request is recorded in order; \<open>OutputBody\<close> is
  the buffer given to the output filters with its \<^verbatim>\<open>last_buf\<close> flag, \<open>NextBody\<close> the chain given to
  the next body filter; the others are the request's and the connection's write handlers, and
  the posted requests.
\<close>

datatype nginx_call = PostRequest | Finalize int | RunPhases | OutputBody bytes bool
  | NextBody "body_buf list" | WriteEvent | ConnectionWrite | RunPosted

datatype write_handler = CoreRunPhases | ResumeHandler | OtherWriteHandler nat

text \<open>
  The request as the handlers see it: nginx's request with its module context and the addresses
  and contents of its location's and server's configuration, the reference count of the main
  request, the write event handler, the zones of the main configuration, and the flags of the
  body filter's I/O: its bit of \<^verbatim>\<open>buffered\<close>, \<^verbatim>\<open>aio\<close>, the main request's \<^verbatim>\<open>blocked\<close>, and whether the
  request is done or terminated.
\<close>

record ('p, 's, 'c, 'm, 'w) rq =
  rq_request :: "'p http_request"
  rq_ctx :: "('p, 's, 'c, 'm, 'w) wasm_ctx option"
  rq_loc_conf :: "(addr \<times> 'm wasm_conf) option"
  rq_srv_conf :: "(addr \<times> 'm wasm_conf) option"
  rq_shm :: "'s shm_zone option"
  rq_metrics :: "'s metrics_zone option"
  rq_count :: int
  rq_write :: write_handler
  rq_calls :: "nginx_call list"
  rq_content_length :: int
  rq_chunked :: bool
  rq_single_buf :: bool
  rq_preserve_body :: bool
  rq_buffered :: bool
  rq_aio :: bool
  rq_blocked :: int
  rq_done :: bool

text \<open>
  A request body nginx has read: the buffers in memory, and whether there is a temporary file.
  \<^verbatim>\<open>ngx_http_read_client_request_body\<close> returns a code, and calls its handler before it returns
  (\<open>Some\<close> body) or not yet. \<open>main_runtime\<close> is \<^verbatim>\<open>wmcf->runtime\<close>, \<open>None\<close> for a NULL pointer, else
  whether it has an engine and a linker; the booleans are the successes of allocations and of
  \<^verbatim>\<open>ngx_http_post_request\<close>.
\<close>

record req_body =
  body_bufs :: "bytes list option"
  body_temp_file :: bool

record ('p, 's, 'c, 'm, 'w) module_env =
  me_http :: "'p nginx_http"
  me_wasmtime :: "('w, 'm, ('p, 's, 'c, 'm) exec_ctx) wasmtime"
  main_runtime :: "bool option"
  me_resume_alloc :: bool
  me_ctx_alloc :: bool
  me_cleanup_alloc :: bool
  me_buf_alloc :: bool
  ngx_http_post_request_ok :: bool
  ngx_http_discard_request_body :: "'p http_request \<Rightarrow> int"
  ngx_http_read_client_request_body :: "'p http_request \<Rightarrow> int \<times> req_body option"
  next_header_filter :: "'p http_request \<Rightarrow> int"
  ngx_http_clear_content_length :: "'p http_request \<Rightarrow> 'p http_request"
  ngx_http_clear_accept_ranges :: "'p http_request \<Rightarrow> 'p http_request"

section \<open>Running an execution of a request\<close>

text \<open>
  The execution context has pointers to the request, the zones and the module context, which
  other executions of the request share. Here a run takes their current values into the
  context, and puts the values it leaves back.
\<close>

definition attach ::
  "('p, 's, 'c, 'm, 'w) rq \<Rightarrow> 'p subreq_state \<Rightarrow> ('p, 's, 'c) abi_ctx \<Rightarrow> ('p, 's, 'c) abi_ctx" where
  "attach q st a = a\<lparr>request := Some (rq_request q), shm_zone := rq_shm q, metrics_zone := rq_metrics q,
     wctx := Some st\<rparr>"

definition detach ::
  "('p, 's, 'c) abi_ctx \<Rightarrow> ('p, 's, 'c, 'm, 'w) wasm_ctx \<Rightarrow> ('p, 's, 'c, 'm, 'w) rq
     \<Rightarrow> ('p, 's, 'c, 'm, 'w) wasm_ctx \<times> ('p, 's, 'c, 'm, 'w) rq" where
  "detach a ctx q =
     (ctx\<lparr>ctx_subrequest := the (wctx a)\<rparr>,
      q\<lparr>rq_request := the (request a), rq_shm := shm_zone a, rq_metrics := metrics_zone a\<rparr>)"

definition run_slot ::
  "('p, 's, 'c, 'm, 'w) module_env \<Rightarrow> ('p, 's, 'c, 'm, 'w) rq \<Rightarrow> ('p, 's, 'c, 'm, 'w) wasm_ctx
     \<Rightarrow> ('p, 's, 'c, 'm, 'w) slot
     \<Rightarrow> int \<times> ('p, 's, 'c, 'm, 'w) slot \<times> ('p, 's, 'c, 'm, 'w) wasm_ctx \<times> ('p, 's, 'c, 'm, 'w) rq" where
  "run_slot e q ctx sl =
     (let x = slot_exec sl
      in case runtime_run (me_wasmtime e) (me_resume_alloc e)
                (x\<lparr>exec_abi := attach q (ctx_subrequest ctx) (exec_abi x)\<rparr>) (slot_resume sl) of
           (rc, x, rs) \<Rightarrow>
             (case detach (exec_abi x) ctx q of
                (ctx, q) \<Rightarrow> (rc, sl\<lparr>slot_exec := x, slot_resume := rs\<rparr>, ctx, q)))"

text \<open>A new execution of a phase, with all of its fuel.\<close>

definition new_slot ::
  "('p, 's, 'c, 'm, 'w) module_env \<Rightarrow> ('p, 's, 'c, 'm, 'w) rq \<Rightarrow> 'p subreq_state
     \<Rightarrow> addr \<times> 'm wasm_conf \<Rightarrow> phase \<Rightarrow> u64 \<Rightarrow> ('p, 's, 'c, 'm, 'w) slot" where
  "new_slot e q st wcf ph timeslice =
     \<lparr>slot_exec = (init_exec_ctx (rq_request q) (rq_shm q) (rq_metrics q) (Some st)
          (phase_of ph (snd wcf)) ph (main_runtime e = Some True))
        \<lparr>fuel_limit := conf_uint (conf_fuel_limit (snd wcf)), timeslice_fuel := timeslice,
         fuel_remaining := conf_uint (conf_fuel_limit (snd wcf))\<rparr>,
      slot_resume = None, slot_conf = (fst wcf, ph)\<rparr>"

definition init_request_exec ::
  "('p, 's, 'c, 'm, 'w) module_env \<Rightarrow> ('p, 's, 'c, 'm, 'w) rq \<Rightarrow> addr \<times> 'm wasm_conf \<Rightarrow> phase
     \<Rightarrow> ('p, 's, 'c, 'm, 'w) wasm_ctx \<Rightarrow> ('p, 's, 'c, 'm, 'w) wasm_ctx" where
  "init_request_exec e q wcf ph ctx =
     ctx\<lparr>main_exec := Some (new_slot e q (ctx_subrequest ctx) wcf ph (conf_uint (conf_timeslice_fuel (snd wcf)))),
         exec_completed := False\<rparr>"

definition init_log_exec ::
  "('p, 's, 'c, 'm, 'w) module_env \<Rightarrow> ('p, 's, 'c, 'm, 'w) rq \<Rightarrow> addr \<times> 'm wasm_conf
     \<Rightarrow> ('p, 's, 'c, 'm, 'w) wasm_ctx \<Rightarrow> ('p, 's, 'c, 'm, 'w) wasm_ctx" where
  "init_log_exec e q wcf ctx =
     ctx\<lparr>log_exec := Some (new_slot e q (ctx_subrequest ctx) wcf PHASE_LOG 0)\<rparr>"

section \<open>The context of a request\<close>

abbreviation on :: "addr \<times> 'm wasm_conf \<Rightarrow> phase \<Rightarrow> bool" where
  "on wcf ph \<equiv> phase_set (phase_of ph (snd wcf)) = Some True"

definition request_phase :: "phase \<Rightarrow> bool" where
  "request_phase ph \<longleftrightarrow> ph = PHASE_REWRITE \<or> ph = PHASE_SERVER_REWRITE \<or> ph = PHASE_CONTENT"

text \<open>
  The phase is given as the part of \<open>wcf\<close> it is, which is how all callers give it. The result
  says whether a context is returned.
\<close>

definition get_or_create_ctx ::
  "('p, 's, 'c, 'm, 'w) module_env \<Rightarrow> addr \<times> 'm wasm_conf \<Rightarrow> phase \<Rightarrow> ('p, 's, 'c, 'm, 'w) rq
     \<Rightarrow> bool \<times> ('p, 's, 'c, 'm, 'w) rq" where
  "get_or_create_ctx e wcf ph q =
     (case rq_ctx q of
        Some ctx \<Rightarrow>
          (let ctx = (if ph = PHASE_LOG \<and> on wcf PHASE_LOG \<and> log_exec ctx = None
                      then init_log_exec e q wcf ctx else ctx);
               ctx = (if exec_completed ctx \<and> map_option slot_conf (main_exec ctx) \<noteq> Some (fst wcf, ph) \<and>
                         request_phase ph \<and> on wcf ph
                      then init_request_exec e q wcf ph ctx else ctx)
           in (True, q\<lparr>rq_ctx := Some ctx\<rparr>))
      | None \<Rightarrow>
          if \<not> me_ctx_alloc e then (False, q)
          else if \<not> me_cleanup_alloc e then (False, q\<lparr>rq_ctx := Some zero_ctx\<rparr>)
          else if request_phase ph \<and> on wcf ph
          then (True, q\<lparr>rq_ctx := Some (init_request_exec e q wcf ph zero_ctx)\<rparr>)
          else if ph = PHASE_LOG \<and> on wcf PHASE_LOG
          then (True, q\<lparr>rq_ctx := Some (init_log_exec e q wcf zero_ctx)\<rparr>)
          else (False, q\<lparr>rq_ctx := Some zero_ctx\<rparr>))"

section \<open>The request body\<close>

text \<open>\<^verbatim>\<open>ngx_http_wasm_abi_req_set_body\<close> on the context's execution; it allocates in the request's pool.\<close>

definition set_exec_body ::
  "('p, 's, 'c, 'm, 'w) module_env \<Rightarrow> bytes \<Rightarrow> ('p, 's, 'c, 'm, 'w) wasm_ctx \<Rightarrow> ('p, 's, 'c, 'm, 'w) rq
     \<Rightarrow> int \<times> ('p, 's, 'c, 'm, 'w) wasm_ctx \<times> ('p, 's, 'c, 'm, 'w) rq" where
  "set_exec_body e d ctx q =
     (let sl = the (main_exec ctx); x = slot_exec sl
      in case abi_req_set_body (me_http e) d (attach q (ctx_subrequest ctx) (exec_abi x)) of
           (rc, a) \<Rightarrow>
             (case detach a ctx q of
                (ctx, q) \<Rightarrow> (rc, ctx\<lparr>main_exec := Some (sl\<lparr>slot_exec := x\<lparr>exec_abi := a\<rparr>\<rparr>)\<rparr>, q)))"

text \<open>The first loop over the buffers: the total length, or \<open>None\<close> as soon as it exceeds the limit.\<close>

fun body_length :: "nat \<Rightarrow> nat \<Rightarrow> bytes list \<Rightarrow> nat option" where
  "body_length limit len [] = Some len"
| "body_length limit len (b # bs) =
     (if len + length b > limit then None else body_length limit (len + length b) bs)"

definition store_request_body ::
  "('p, 's, 'c, 'm, 'w) module_env \<Rightarrow> nat \<Rightarrow> req_body option \<Rightarrow> ('p, 's, 'c, 'm, 'w) wasm_ctx
     \<Rightarrow> ('p, 's, 'c, 'm, 'w) rq
     \<Rightarrow> int \<times> ('p, 's, 'c, 'm, 'w) wasm_ctx \<times> ('p, 's, 'c, 'm, 'w) rq" where
  "store_request_body e limit body ctx q =
     (let set = (\<lambda>d ctx q. case set_exec_body e d ctx q of
                   (rc, ctx, q) \<Rightarrow> (if rc = NGX_HTTP_WASM_OK then NGX_OK else 500, ctx, q))
      in case Option.bind body body_bufs of
           None \<Rightarrow> set [] ctx q
         | Some bufs \<Rightarrow>
             if body_temp_file (the body) then (500, ctx, q)
             else (case body_length limit 0 bufs of
                     None \<Rightarrow> (413, ctx, q)
                   | Some 0 \<Rightarrow> set [] ctx q
                   | Some len \<Rightarrow>
                       (case ngx_palloc (me_http e) (pool (rq_request q)) len of
                          None \<Rightarrow> (500, ctx, q)
                        | Some p \<Rightarrow>
                            set (concat bufs) ctx (q\<lparr>rq_request := (rq_request q)\<lparr>pool := p\<rparr>\<rparr>))))"

section \<open>Running and resuming a request\<close>

text \<open>A zeroed execution has no runtime, which is an error.\<close>

definition run_request ::
  "('p, 's, 'c, 'm, 'w) module_env \<Rightarrow> ('p, 's, 'c, 'm, 'w) rq \<Rightarrow> int \<times> ('p, 's, 'c, 'm, 'w) rq" where
  "run_request e q =
     (let ctx = the (rq_ctx q)
      in case main_exec ctx of
           None \<Rightarrow> (500, q)
         | Some sl \<Rightarrow>
             (case run_slot e q ctx sl of
                (rc, sl, ctx, q) \<Rightarrow>
                  (let x = slot_exec sl;
                       ctx = ctx\<lparr>main_exec := Some sl\<rparr>
                   in if rc = NGX_AGAIN
                      then (let q = q\<lparr>rq_ctx := Some ctx, rq_write := ResumeHandler\<rparr>
                            in if suspend_kind x = SUSPEND_RESCHEDULE \<and> \<not> ngx_http_post_request_ok e
                               then (500, q)
                               else (NGX_DONE, q
                                 \<lparr>rq_calls := rq_calls q @ (if suspend_kind x = SUSPEND_RESCHEDULE then [PostRequest] else []),
                                  rq_count := rq_count q + (if \<not> waiting ctx \<and> phase_kind x = PHASE_CONTENT then 1 else 0),
                                  rq_ctx := Some (ctx\<lparr>waiting := True\<rparr>)\<rparr>))
                      else if rc \<noteq> NGX_OK then (500, q\<lparr>rq_ctx := Some ctx\<rparr>)
                      else (let ctx = ctx\<lparr>waiting := False, exec_completed := True\<rparr>; a = exec_abi x
                            in if (phase_kind x = PHASE_REWRITE \<or> phase_kind x = PHASE_SERVER_REWRITE) \<and>
                                  \<not> status_set a \<and> \<not> body_set a \<and> \<not> content_type_set a
                               then (NGX_DECLINED, q\<lparr>rq_ctx := Some ctx\<rparr>)
                               else (case abi_send_response (me_http e) (me_buf_alloc e) a of
                                       (rc, a, out) \<Rightarrow>
                                         (if rc = NGX_ERROR then 500 else rc,
                                          q\<lparr>rq_request := the (request a),
                                            rq_calls := rq_calls q @
                                              (case out of None \<Rightarrow> [] | Some (d, eof) \<Rightarrow> [OutputBody d eof]),
                                            rq_ctx := Some (ctx\<lparr>main_exec := Some (sl\<lparr>slot_exec := x\<lparr>exec_abi := a\<rparr>\<rparr>)\<rparr>)\<rparr>))))))"

abbreviation finalize :: "int \<Rightarrow> ('p, 's, 'c, 'm, 'w) rq \<Rightarrow> ('p, 's, 'c, 'm, 'w) rq" where
  "finalize rc q \<equiv> q\<lparr>rq_calls := rq_calls q @ [Finalize rc]\<rparr>"

definition resume_handler ::
  "('p, 's, 'c, 'm, 'w) module_env \<Rightarrow> ('p, 's, 'c, 'm, 'w) rq \<Rightarrow> ('p, 's, 'c, 'm, 'w) rq" where
  "resume_handler e q =
     (case rq_ctx q of
        None \<Rightarrow> finalize 500 q
      | Some ctx \<Rightarrow>
          if request_body_status ctx \<noteq> NGX_OK then finalize (request_body_status ctx) q
          else (case run_request e q of
                  (rc, q) \<Rightarrow>
                    if rc = NGX_DONE then q
                    else if rc = NGX_DECLINED
                    then q\<lparr>rq_write := CoreRunPhases, rq_calls := rq_calls q @ [RunPhases]\<rparr>
                    else finalize rc q))"

section \<open>Reading the body\<close>

text \<open>
  The handler nginx calls when the body has been read: the limit is the location's, or the
  server's if the location has none.
\<close>

definition request_body_handler ::
  "('p, 's, 'c, 'm, 'w) module_env \<Rightarrow> req_body \<Rightarrow> ('p, 's, 'c, 'm, 'w) rq \<Rightarrow> ('p, 's, 'c, 'm, 'w) rq" where
  "request_body_handler e body q =
     (case rq_ctx q of
        None \<Rightarrow> finalize 500 q
      | Some ctx \<Rightarrow>
          (let limit = (\<lambda>c. case c of None \<Rightarrow> 0 | Some wcf \<Rightarrow> conf_size (request_body_buffer_size (snd wcf)));
               n = (if limit (rq_loc_conf q) = 0 then limit (rq_srv_conf q) else limit (rq_loc_conf q))
           in case (if n = 0 then (500, ctx, q) else store_request_body e n (Some body) ctx q) of
                (st, ctx, q) \<Rightarrow>
                  (let q = q\<lparr>rq_preserve_body := True,
                             rq_ctx := Some (ctx\<lparr>request_body_status := st, request_body_reading := False,
                                                request_body_ready := (st = NGX_OK)\<rparr>)\<rparr>
                   in if \<not> request_body_async ctx then q
                      else if st \<noteq> NGX_OK then finalize st q
                      else resume_handler e q)))"

text \<open>
  \<^verbatim>\<open>ngx_http_read_client_request_body\<close> takes a reference to the main request unless it fails.
\<close>

definition prepare_request_body ::
  "('p, 's, 'c, 'm, 'w) module_env \<Rightarrow> 'm wasm_conf \<Rightarrow> ('p, 's, 'c, 'm, 'w) rq
     \<Rightarrow> int \<times> ('p, 's, 'c, 'm, 'w) rq" where
  "prepare_request_body e wcf q =
     (let ctx = the (rq_ctx q); limit = conf_size (request_body_buffer_size wcf)
      in if request_body_status ctx \<noteq> NGX_OK then (request_body_status ctx, q)
         else if limit = 0 then (ngx_http_discard_request_body e (rq_request q), q)
         else if request_body_ready ctx then (NGX_OK, q)
         else if request_body_reading ctx then (NGX_DONE, q)
         else if rq_content_length q > 0 \<and> rq_content_length q > int limit then (413, q)
         else if rq_content_length q \<le> 0 \<and> \<not> rq_chunked q
         then (case set_exec_body e [] ctx q of
                 (rc, ctx, q) \<Rightarrow>
                   if rc \<noteq> NGX_HTTP_WASM_OK then (500, q\<lparr>rq_ctx := Some ctx\<rparr>)
                   else (NGX_OK, q\<lparr>rq_ctx := Some (ctx\<lparr>request_body_ready := True\<rparr>)\<rparr>))
         else (let q = q\<lparr>rq_single_buf := True,
                         rq_ctx := Some (ctx\<lparr>request_body_reading := True, request_body_async := False,
                                            request_body_status := NGX_OK\<rparr>)\<rparr>
               in case ngx_http_read_client_request_body e (rq_request q) of
                    (rc, body) \<Rightarrow>
                      (let q = (case body of None \<Rightarrow> q | Some b \<Rightarrow> request_body_handler e b q);
                           ctx = the (rq_ctx q)
                       in if rc \<ge> 300
                          then (rc, q\<lparr>rq_ctx := Some (ctx\<lparr>request_body_reading := False,
                                                         request_body_status := rc\<rparr>)\<rparr>)
                          else (let q = q\<lparr>rq_count := rq_count q + 1\<rparr>;
                                    q = (if \<not> request_body_reading ctx
                                         then q\<lparr>rq_count := rq_count q - 1\<rparr> else q)
                                in if request_body_status ctx \<noteq> NGX_OK
                                   then (request_body_status ctx, q)
                                   else if request_body_ready ctx then (NGX_OK, q)
                                   else (NGX_DONE, q\<lparr>rq_ctx := Some (ctx\<lparr>request_body_async := True\<rparr>)\<rparr>)))))"

section \<open>Phase handlers\<close>

definition run_phase ::
  "('p, 's, 'c, 'm, 'w) module_env \<Rightarrow> addr \<times> 'm wasm_conf \<Rightarrow> phase \<Rightarrow> ('p, 's, 'c, 'm, 'w) rq
     \<Rightarrow> int \<times> ('p, 's, 'c, 'm, 'w) rq" where
  "run_phase e wcf ph q =
     (if \<not> on wcf ph \<or> main_runtime e = None then (NGX_DECLINED, q)
      else (case get_or_create_ctx e wcf ph q of
              (ok, q) \<Rightarrow>
                if \<not> ok then (500, q)
                else (let ctx = the (rq_ctx q)
                      in if map_option slot_conf (main_exec ctx) \<noteq> Some (fst wcf, ph) then (500, q)
                         else if exec_completed ctx \<and> (ph = PHASE_REWRITE \<or> ph = PHASE_SERVER_REWRITE)
                         then (NGX_DECLINED, q)
                         else (case prepare_request_body e (snd wcf) q of
                                 (rc, q) \<Rightarrow>
                                   if rc = NGX_OK then run_request e q
                                   else (rc, if rc = NGX_DONE \<and> request_body_async (the (rq_ctx q))
                                             then finalize NGX_DONE q else q)))))"

definition content_handler ::
  "('p, 's, 'c, 'm, 'w) module_env \<Rightarrow> ('p, 's, 'c, 'm, 'w) rq \<Rightarrow> int \<times> ('p, 's, 'c, 'm, 'w) rq" where
  "content_handler e q =
     (case rq_loc_conf q of None \<Rightarrow> (NGX_DECLINED, q) | Some wcf \<Rightarrow> run_phase e wcf PHASE_CONTENT q)"

definition server_rewrite_handler ::
  "('p, 's, 'c, 'm, 'w) module_env \<Rightarrow> ('p, 's, 'c, 'm, 'w) rq \<Rightarrow> int \<times> ('p, 's, 'c, 'm, 'w) rq" where
  "server_rewrite_handler e q =
     (case rq_srv_conf q of
        None \<Rightarrow> (NGX_DECLINED, q)
      | Some wcf \<Rightarrow> if \<not> on wcf PHASE_SERVER_REWRITE then (NGX_DECLINED, q)
                   else run_phase e wcf PHASE_SERVER_REWRITE q)"

definition rewrite_handler ::
  "('p, 's, 'c, 'm, 'w) module_env \<Rightarrow> ('p, 's, 'c, 'm, 'w) rq \<Rightarrow> int \<times> ('p, 's, 'c, 'm, 'w) rq" where
  "rewrite_handler e q =
     (case rq_loc_conf q of
        None \<Rightarrow> (NGX_DECLINED, q)
      | Some wcf \<Rightarrow> if \<not> on wcf PHASE_REWRITE then (NGX_DECLINED, q)
                   else run_phase e wcf PHASE_REWRITE q)"

text \<open>The log phase runs to the end at once; a suspension is reported in the log and dropped.\<close>

definition log_handler ::
  "('p, 's, 'c, 'm, 'w) module_env \<Rightarrow> ('p, 's, 'c, 'm, 'w) rq \<Rightarrow> int \<times> ('p, 's, 'c, 'm, 'w) rq" where
  "log_handler e q =
     (if \<not> is_main (rq_request q) then (NGX_OK, q)
      else case rq_loc_conf q of
             None \<Rightarrow> (NGX_OK, q)
           | Some wcf \<Rightarrow>
               if \<not> on wcf PHASE_LOG \<or> main_runtime e = None then (NGX_OK, q)
               else (case get_or_create_ctx e wcf PHASE_LOG q of
                       (ok, q) \<Rightarrow>
                         (case (if ok then log_exec (the (rq_ctx q)) else None) of
                            None \<Rightarrow> (NGX_OK, q)
                          | Some sl \<Rightarrow>
                              (case run_slot e q (the (rq_ctx q)) sl of
                                 (rc, sl, ctx, q) \<Rightarrow>
                                   (NGX_OK, q\<lparr>rq_ctx := Some (ctx\<lparr>log_exec := None\<rparr>)\<rparr>)))))"

section \<open>The header filter\<close>

definition header_filter_handler ::
  "('p, 's, 'c, 'm, 'w) module_env \<Rightarrow> ('p, 's, 'c, 'm, 'w) rq \<Rightarrow> int \<times> ('p, 's, 'c, 'm, 'w) rq" where
  "header_filter_handler e q =
     (let next = (\<lambda>q. (next_header_filter e (rq_request q), q))
      in case rq_loc_conf q of
           None \<Rightarrow> next q
         | Some wcf \<Rightarrow>
             if main_runtime e = None then next q
             else (let q = (if on wcf PHASE_BODY_FILTER \<and> \<not> header_only (rq_request q)
                            then q\<lparr>rq_request := ngx_http_clear_accept_ranges e
                                     (ngx_http_clear_content_length e (rq_request q))\<rparr>
                            else q)
                   in if \<not> on wcf PHASE_HEADER_FILTER then next q
                      else if rq_ctx q = None \<and> \<not> me_ctx_alloc e then (NGX_ERROR, q)
                      else if rq_ctx q = None \<and> \<not> me_cleanup_alloc e
                      then (NGX_ERROR, q\<lparr>rq_ctx := Some zero_ctx\<rparr>)
                      else (let ctx = (case rq_ctx q of None \<Rightarrow> zero_ctx | Some ctx \<Rightarrow> ctx);
                                sl = (case header_filter_exec ctx of
                                        Some sl \<Rightarrow> sl
                                      | None \<Rightarrow> new_slot e q (ctx_subrequest ctx) wcf PHASE_HEADER_FILTER
                                                  (conf_uint (conf_timeslice_fuel (snd wcf))))
                            in case run_slot e q ctx sl of
                                 (rc, sl, ctx, q) \<Rightarrow>
                                   (let q = q\<lparr>rq_ctx := Some (ctx\<lparr>header_filter_exec := Some sl\<rparr>)\<rparr>;
                                        a = exec_abi (slot_exec sl)
                                    in if rc \<noteq> NGX_OK then (NGX_ERROR, q)
                                       else next (if status_set a
                                                  then q\<lparr>rq_request := (rq_request q)
                                                          \<lparr>headers_out := (headers_out (rq_request q))
                                                            \<lparr>status := abi_status a\<rparr>\<rparr>\<rparr>
                                                  else q)))))"

section \<open>The end of a request\<close>

text \<open>
  The cleanup handler of the request's pool: it releases the suspended executions of the request,
  the header filter and the body filter.
\<close>

definition cleanup_slot :: "('p, 's, 'c, 'm, 'w) slot option \<Rightarrow> ('p, 's, 'c, 'm, 'w) slot option" where
  "cleanup_slot = map_option (\<lambda>sl. sl\<lparr>slot_resume := snd (cleanup_exec_ctx (slot_resume sl))\<rparr>)"

definition cleanup_ctx :: "('p, 's, 'c, 'm, 'w) wasm_ctx option \<Rightarrow> ('p, 's, 'c, 'm, 'w) wasm_ctx option" where
  "cleanup_ctx = map_option (\<lambda>ctx. ctx
     \<lparr>main_exec := cleanup_slot (main_exec ctx),
      header_filter_exec := cleanup_slot (header_filter_exec ctx),
      body_filter_exec := cleanup_slot (body_filter_exec ctx)\<rparr>)"

end
