(* ===== verification/Module_Correct.thy ===== *)
theory Module_Correct
  imports Module Runtime_Correct
begin

text \<open>
  Lemmas on the life of a request: what running one of its executions changes, the states of the
  main execution, and the request body.
\<close>

section \<open>Executions of a request\<close>

text \<open>An execution that has not failed: its state can be resumed, and it belongs to its phase.\<close>

definition slot_ok ::
  "('w, 'm, ('p, 's, 'c, 'm) exec_ctx) wasmtime \<Rightarrow> ('p, 's, 'c, 'm, 'w) slot \<Rightarrow> bool" where
  "slot_ok wt sl \<longleftrightarrow> resume_opt_ok (slot_resume sl) \<and> fuel_in_sync wt (slot_exec sl) (slot_resume sl) \<and>
     phase_kind (slot_exec sl) = snd (slot_conf sl) \<and>
     capabilities (exec_abi (slot_exec sl)) = phase_capabilities (snd (slot_conf sl))"

lemma attach_sel [simp]:
  "request (attach q st a) = Some (rq_request q)" "shm_zone (attach q st a) = rq_shm q"
  "metrics_zone (attach q st a) = rq_metrics q" "wctx (attach q st a) = Some st"
  "capabilities (attach q st a) = capabilities a" "status_set (attach q st a) = status_set a"
  "body_set (attach q st a) = body_set a" "content_type_set (attach q st a) = content_type_set a"
  "request_body_set (attach q st a) = request_body_set a" "request_body (attach q st a) = request_body a"
  "response_sent (attach q st a) = response_sent a" "abi_body (attach q st a) = abi_body a"
  by (simp_all add: attach_def)

lemma null_safe_attach [simp]: "null_safe (attach q st a)"
  by (simp add: null_safe_def)

text \<open>The parts of the state that a run of an execution can change.\<close>

lemma run_slot_frame:
  assumes "run_slot e q ctx sl = (rc, sl', ctx', q')"
  shows "\<exists>st. ctx' = ctx\<lparr>ctx_subrequest := st\<rparr>"
    and "\<exists>r shm mz. q' = q\<lparr>rq_request := r, rq_shm := shm, rq_metrics := mz\<rparr>"
    and "slot_conf sl' = slot_conf sl"
  using assms by (auto simp: run_slot_def detach_def Let_def split: prod.splits)

lemma run_slot_run:
  assumes "run_slot e q ctx sl = (rc, sl', ctx', q')"
  shows "runtime_run (me_wasmtime e) (me_resume_alloc e)
      ((slot_exec sl)\<lparr>exec_abi := attach q (ctx_subrequest ctx) (exec_abi (slot_exec sl))\<rparr>) (slot_resume sl)
      = (rc, slot_exec sl', slot_resume sl')"
    and "rq_request q' = the (request (exec_abi (slot_exec sl')))"
  using assms by (auto simp: run_slot_def detach_def Let_def split: prod.splits)

lemma run_slot_post:
  assumes run: "run_slot e q ctx sl = (rc, sl', ctx', q')"
    and ok: "slot_ok (me_wasmtime e) sl" and wt: "wasmtime_ok h (me_wasmtime e)"
  shows "run_frame ((slot_exec sl)\<lparr>exec_abi := attach q (ctx_subrequest ctx) (exec_abi (slot_exec sl))\<rparr>) (slot_exec sl')"
    and "rc = NGX_AGAIN \<Longrightarrow> fuel_remaining (slot_exec sl') < fuel_remaining (slot_exec sl) \<and> slot_ok (me_wasmtime e) sl'"
proof -
  let ?x = "(slot_exec sl)\<lparr>exec_abi := attach q (ctx_subrequest ctx) (exec_abi (slot_exec sl))\<rparr>"
  have r: "resume_opt_ok (slot_resume sl)" and f: "fuel_in_sync (me_wasmtime e) ?x (slot_resume sl)"
    using ok by (simp_all add: slot_ok_def fuel_in_sync_def split: option.splits)
  have n: "null_safe (exec_abi ?x)" by simp
  note post = runtime_run_post [OF run_slot_run(1) [OF run] r f n wt]
  show F: "run_frame ?x (slot_exec sl')" by (rule post(1))
  show "fuel_remaining (slot_exec sl') < fuel_remaining (slot_exec sl) \<and> slot_ok (me_wasmtime e) sl'" if "rc = NGX_AGAIN"
    using post(2) post(3) [OF that] F ok run_slot_frame(3) [OF run]
    by (simp add: slot_ok_def run_frame_def abi_frame_def)
qed

lemma run_slot_kind:
  assumes "run_slot e q ctx sl = (rc, sl', ctx', q')" "slot_ok (me_wasmtime e) sl" "wasmtime_ok h (me_wasmtime e)"
  shows "phase_kind (slot_exec sl') = snd (slot_conf sl)"
    and "capabilities (exec_abi (slot_exec sl')) = phase_capabilities (snd (slot_conf sl))"
    and "request (exec_abi (slot_exec sl')) = Some (rq_request q')"
  using run_slot_post(1) [OF assms] assms(2) run_slot_run(2) [OF assms(1)]
  by (auto simp: run_frame_def abi_frame_def slot_ok_def)

lemma new_slot_sel [simp]:
  "slot_conf (new_slot e q st wcf ph ts) = (fst wcf, ph)" "slot_resume (new_slot e q st wcf ph ts) = None"
  "fuel_remaining (slot_exec (new_slot e q st wcf ph ts)) = conf_uint (conf_fuel_limit (snd wcf))"
  "fuel_limit (slot_exec (new_slot e q st wcf ph ts)) = conf_uint (conf_fuel_limit (snd wcf))"
  "exec_state (slot_exec (new_slot e q st wcf ph ts)) = EXEC_READY"
  "phase_kind (slot_exec (new_slot e q st wcf ph ts)) = ph"
  by (simp_all add: new_slot_def init_exec_ctx_def)

lemma new_slot_ok:
  assumes "0 < conf_uint (conf_fuel_limit (snd wcf))"
  shows "slot_ok wt (new_slot e q st wcf ph ts)"
  using assms by (simp add: slot_ok_def new_slot_def fuel_in_sync_def resume_opt_ok_def init_exec_ctx_def abi_init_def)

section \<open>The states of a request\<close>

text \<open>
  One run of the main execution: the three outcomes, with the code the handler returns and the
  whole of the request's state.
\<close>

lemma run_request_cases:
  assumes run: "run_request e q = (rc, q')" and ctx: "rq_ctx q = Some ctx" and sl: "main_exec ctx = Some sl"
    and ok: "slot_ok (me_wasmtime e) sl" and wt: "wasmtime_ok h (me_wasmtime e)"
  obtains (broken) sl1 ctx1 q1 where "run_slot e q ctx sl = (NGX_ERROR, sl1, ctx1, q1)" "rc = 500"
      "exec_state (slot_exec sl1) = EXEC_ERROR"
      "q' = q1\<lparr>rq_ctx := Some (ctx1\<lparr>main_exec := Some sl1\<rparr>)\<rparr>"
    | (suspended) sl1 ctx1 q1 where "run_slot e q ctx sl = (NGX_AGAIN, sl1, ctx1, q1)"
      "exec_state (slot_exec sl1) = EXEC_SUSPENDED" "suspend_kind (slot_exec sl1) \<noteq> SUSPEND_NONE"
      "fuel_remaining (slot_exec sl1) < fuel_remaining (slot_exec sl)" "slot_ok (me_wasmtime e) sl1"
      "(rc, q') = (if suspend_kind (slot_exec sl1) = SUSPEND_RESCHEDULE \<and> \<not> ngx_http_post_request_ok e
         then (500, q1\<lparr>rq_ctx := Some (ctx1\<lparr>main_exec := Some sl1\<rparr>), rq_write := ResumeHandler\<rparr>)
         else (NGX_DONE, q1\<lparr>rq_write := ResumeHandler,
           rq_calls := rq_calls q @ (if suspend_kind (slot_exec sl1) = SUSPEND_RESCHEDULE then [PostRequest] else []),
           rq_count := rq_count q + (if \<not> waiting ctx \<and> snd (slot_conf sl) = PHASE_CONTENT then 1 else 0),
           rq_ctx := Some (ctx1\<lparr>main_exec := Some sl1, waiting := True\<rparr>)\<rparr>))"
    | (declined) sl1 ctx1 q1 where "run_slot e q ctx sl = (NGX_OK, sl1, ctx1, q1)"
      "exec_state (slot_exec sl1) = EXEC_DONE" "rc = NGX_DECLINED"
      "snd (slot_conf sl) = PHASE_REWRITE \<or> snd (slot_conf sl) = PHASE_SERVER_REWRITE"
      "\<not> status_set (exec_abi (slot_exec sl1))" "\<not> body_set (exec_abi (slot_exec sl1))"
      "\<not> content_type_set (exec_abi (slot_exec sl1))"
      "q' = q1\<lparr>rq_ctx := Some (ctx1\<lparr>main_exec := Some sl1, waiting := False, exec_completed := True\<rparr>)\<rparr>"
    | (respond) sl1 ctx1 q1 rc1 a out where "run_slot e q ctx sl = (NGX_OK, sl1, ctx1, q1)"
      "exec_state (slot_exec sl1) = EXEC_DONE"
      "snd (slot_conf sl) \<noteq> PHASE_REWRITE \<and> snd (slot_conf sl) \<noteq> PHASE_SERVER_REWRITE \<or>
       status_set (exec_abi (slot_exec sl1)) \<or> body_set (exec_abi (slot_exec sl1)) \<or>
       content_type_set (exec_abi (slot_exec sl1))"
      "abi_send_response (me_http e) (me_buf_alloc e) (exec_abi (slot_exec sl1)) = (rc1, a, out)"
      "rc = (if rc1 = NGX_ERROR then 500 else rc1)"
      "q' = q1\<lparr>rq_request := the (request a),
          rq_calls := rq_calls q1 @ (case out of None \<Rightarrow> [] | Some (d, eof) \<Rightarrow> [OutputBody d eof]),
          rq_ctx := Some (ctx1\<lparr>waiting := False, exec_completed := True,
            main_exec := Some (sl1\<lparr>slot_exec := (slot_exec sl1)\<lparr>exec_abi := a\<rparr>\<rparr>)\<rparr>)\<rparr>"
proof -
  obtain rc1 sl1 ctx1 q1 where rs: "run_slot e q ctx sl = (rc1, sl1, ctx1, q1)"
    by (cases "run_slot e q ctx sl") auto
  note D = run_slot_kind(1) [OF rs ok wt]
  obtain st r shm mz where fr: "ctx1 = ctx\<lparr>ctx_subrequest := st\<rparr>"
      "q1 = q\<lparr>rq_request := r, rq_shm := shm, rq_metrics := mz\<rparr>"
    using run_slot_frame [OF rs] by blast
  have r: "resume_opt_ok (slot_resume sl)" using ok by (simp add: slot_ok_def)
  note R = run [unfolded run_request_def ctx sl, simplified, unfolded sl rs, simplified, unfolded Let_def D]
  show thesis
    using run_slot_run(1) [OF rs] r
  proof (cases rule: runtime_run_code)
    case broken
    with R rs show thesis by (intro that(1)) auto
  next
    case suspended
    with R rs run_slot_post(2) [OF rs ok wt] show thesis
      by (intro that(2)) (auto simp: fr D)
  next
    case finished
    note S = R [unfolded finished(1), simplified]
    show thesis
    proof (cases "(snd (slot_conf sl) = PHASE_REWRITE \<or> snd (slot_conf sl) = PHASE_SERVER_REWRITE) \<and>
        \<not> status_set (exec_abi (slot_exec sl1)) \<and> \<not> body_set (exec_abi (slot_exec sl1)) \<and>
        \<not> content_type_set (exec_abi (slot_exec sl1))")
      case True
      with S rs finished show thesis by (intro that(3)) (auto simp: D)
    next
      case False
      obtain rc2 a out where "abi_send_response (me_http e) (me_buf_alloc e) (exec_abi (slot_exec sl1)) = (rc2, a, out)"
        by (cases "abi_send_response (me_http e) (me_buf_alloc e) (exec_abi (slot_exec sl1))") auto
      with S rs finished False show thesis by (intro that(4)) (auto simp: D)
    qed
  qed
qed

section \<open>Suspensions of a request\<close>

text \<open>
  While a request is suspended, nginx and other modules do what they like with it, but the main
  execution and the \<open>waiting\<close> flag are the module's.
\<close>

definition nginx_between :: "('p, 's, 'c, 'm, 'w) rq \<Rightarrow> ('p, 's, 'c, 'm, 'w) rq \<Rightarrow> bool" where
  "nginx_between q q' \<longleftrightarrow>
     map_option main_exec (rq_ctx q') = map_option main_exec (rq_ctx q) \<and>
     map_option waiting (rq_ctx q') = map_option waiting (rq_ctx q)"

definition main_suspended :: "('p, 's, 'c, 'm, 'w) rq \<Rightarrow> bool" where
  "main_suspended q \<longleftrightarrow>
     (\<exists>ctx sl. rq_ctx q = Some ctx \<and> main_exec ctx = Some sl \<and> exec_state (slot_exec sl) = EXEC_SUSPENDED)"

text \<open>Runs of the main execution that all end suspended, and the references taken by them.\<close>

inductive request_runs ::
  "('w, 'm, ('p, 's, 'c, 'm) exec_ctx) wasmtime \<Rightarrow> ('p, 's, 'c, 'm, 'w) rq \<Rightarrow> nat \<Rightarrow> int
     \<Rightarrow> ('p, 's, 'c, 'm, 'w) rq \<Rightarrow> bool" for wt q0 where
  first: "request_runs wt q0 0 0 q0"
| again: "request_runs wt q0 n k q \<Longrightarrow> nginx_between q q1 \<Longrightarrow> me_wasmtime e = wt \<Longrightarrow>
     run_request e q1 = (rc, q2) \<Longrightarrow> main_suspended q2 \<Longrightarrow>
     request_runs wt q0 (Suc n) (k + (rq_count q2 - rq_count q1)) q2"

definition runs_inv where
  "runs_inv wt sl0 n k q \<longleftrightarrow>
     (\<exists>ctx sl. rq_ctx q = Some ctx \<and> main_exec ctx = Some sl \<and> slot_ok wt sl \<and> slot_conf sl = slot_conf sl0 \<and>
        n + unat (fuel_remaining (slot_exec sl)) \<le> unat (fuel_remaining (slot_exec sl0)) \<and>
        k = (if waiting ctx \<and> snd (slot_conf sl0) = PHASE_CONTENT then 1 else (0::int)))"

lemma runs_inv_iff:
  "rq_ctx q = Some ctx \<Longrightarrow> main_exec ctx = Some sl \<Longrightarrow> runs_inv wt sl0 n k q \<longleftrightarrow>
     slot_ok wt sl \<and> slot_conf sl = slot_conf sl0 \<and>
     n + unat (fuel_remaining (slot_exec sl)) \<le> unat (fuel_remaining (slot_exec sl0)) \<and>
     k = (if waiting ctx \<and> snd (slot_conf sl0) = PHASE_CONTENT then 1 else (0::int))"
  by (simp add: runs_inv_def)

lemma runs_inv_between: "runs_inv wt sl0 n k q \<Longrightarrow> nginx_between q q1 \<Longrightarrow> runs_inv wt sl0 n k q1"
  by (cases "rq_ctx q1") (auto simp: runs_inv_def nginx_between_def)

lemma runs_inv_step:
  assumes inv: "runs_inv wt sl0 n k q" and run: "run_request e q = (rc, q2)" and "me_wasmtime e = wt"
    and "main_suspended q2" and wt: "wasmtime_ok h wt"
  shows "runs_inv wt sl0 (Suc n) (k + (rq_count q2 - rq_count q)) q2"
proof -
  from inv obtain ctx sl where c: "rq_ctx q = Some ctx" "main_exec ctx = Some sl" and
    I: "slot_ok wt sl" "slot_conf sl = slot_conf sl0"
      "n + unat (fuel_remaining (slot_exec sl)) \<le> unat (fuel_remaining (slot_exec sl0))"
      "k = (if waiting ctx \<and> snd (slot_conf sl0) = PHASE_CONTENT then 1 else 0)"
    by (auto simp: runs_inv_def)
  show ?thesis
    using run c I(1)[folded \<open>me_wasmtime e = wt\<close>] wt[folded \<open>me_wasmtime e = wt\<close>]
  proof (cases rule: run_request_cases)
    case (suspended sl1 ctx1 q1)
    from suspended(4) have f: "unat (fuel_remaining (slot_exec sl1)) < unat (fuel_remaining (slot_exec sl))"
      by (simp add: word_less_nat_alt)
    from run_slot_frame [OF suspended(1)] suspended(5,6) f I \<open>me_wasmtime e = wt\<close> show ?thesis
      by (auto simp: runs_inv_iff split: if_splits)
  qed (use \<open>main_suspended q2\<close> in \<open>auto simp: main_suspended_def\<close>)
qed

lemma request_runs_inv:
  assumes "request_runs wt q0 n k q" and "wasmtime_ok h wt" and "rq_ctx q0 = Some ctx0"
    and "main_exec ctx0 = Some sl0" and "slot_ok wt sl0" and "\<not> waiting ctx0"
  shows "runs_inv wt sl0 n k q"
  using assms(1)
proof induction
  case first
  then show ?case using assms(3-) by (simp add: runs_inv_def)
next
  case (again n k q q1 e rc q2)
  from runs_inv_step [OF runs_inv_between [OF again.IH again.hyps(2)] again.hyps(4,3,5) assms(2)]
  show ?case .
qed

section \<open>The request body\<close>

lemma body_length_spec:
  "body_length limit len bs =
     (if bs \<noteq> [] \<and> limit < len + length (concat bs) then None else Some (len + length (concat bs)))"
  by (induction bs arbitrary: len) (auto simp: not_less)

text \<open>The body that the guest of the main execution can read.\<close>

definition exec_body :: "('p, 's, 'c, 'm, 'w) wasm_ctx \<Rightarrow> bytes option" where
  "exec_body ctx = (case main_exec ctx of None \<Rightarrow> None
     | Some sl \<Rightarrow> if request_body_set (exec_abi (slot_exec sl)) then Some (request_body (exec_abi (slot_exec sl))) else None)"

lemma set_exec_body_effect:
  assumes "set_exec_body e d ctx q = (rc, ctx', q')" and "main_exec ctx = Some sl"
  shows "rc = NGX_HTTP_WASM_OK \<or> rc = NGX_HTTP_WASM_ERROR"
    and "exec_body ctx' = (if rc = NGX_HTTP_WASM_OK then Some d else exec_body ctx)"
  using assms
  by (auto simp: set_exec_body_def abi_req_set_body_def abi_set_str_def detach_def Let_def exec_body_def
      split: option.splits prod.splits)

lemma store_request_body_effect:
  assumes "store_request_body e limit body ctx q = (rc, ctx', q')" and "main_exec ctx = Some sl"
    and "bufs = (case Option.bind body body_bufs of None \<Rightarrow> [] | Some bs \<Rightarrow> bs)"
  shows "rc \<in> {NGX_OK, 413, 500}"
    and "exec_body ctx' = (if rc = NGX_OK then Some (concat bufs) else exec_body ctx)"
    and "rc = 413 \<longleftrightarrow> limit < length (concat bufs) \<and> \<not> body_temp_file (the body)"
    and "rc = NGX_OK \<Longrightarrow> length (concat bufs) \<le> limit"
proof -
  have set: "rc \<in> {NGX_OK, 500} \<and> exec_body ctx' = (if rc = NGX_OK then Some d else exec_body ctx)"
    if "(case set_exec_body e d ctx q1 of (rc, ctx, q) \<Rightarrow> (if rc = NGX_HTTP_WASM_OK then NGX_OK else 500, ctx, q))
       = (rc, ctx', q')" for d q1
    using that set_exec_body_effect [OF _ assms(2)] by (auto split: prod.splits)
  have "rc \<in> {NGX_OK, 413, 500} \<and> exec_body ctx' = (if rc = NGX_OK then Some (concat bufs) else exec_body ctx) \<and>
    (rc = 413 \<longleftrightarrow> limit < length (concat bufs) \<and> \<not> body_temp_file (the body)) \<and>
    (rc = NGX_OK \<longrightarrow> length (concat bufs) \<le> limit)"
  proof (cases "Option.bind body body_bufs")
    case None
    with assms(1,3) show ?thesis using set [of "[]" q] by (auto simp: store_request_body_def Let_def)
  next
    case (Some bs)
    then have bs: "bufs = bs" using assms(3) by simp
    show ?thesis
    proof (cases "body_temp_file (the body) \<or> limit < length (concat bs)")
      case True
      with Some assms(1) show ?thesis
        by (auto simp: bs store_request_body_def Let_def body_length_spec split: if_splits)
    next
      case small: False
      then have L: "body_length limit 0 bs = Some (length (concat bs))" by (auto simp: body_length_spec)
      show ?thesis
      proof (cases "length (concat bs)")
        case 0
        from assms(1) Some small L [unfolded 0] have "(case set_exec_body e [] ctx q of
             (rc, ctx, q) \<Rightarrow> (if rc = NGX_HTTP_WASM_OK then NGX_OK else 500, ctx, q)) = (rc, ctx', q')"
          by (simp add: store_request_body_def Let_def)
        moreover from 0 have "concat bs = []" by (rule length_0_conv [THEN iffD1])
        ultimately show ?thesis using set [of "[]" q] unfolding bs by (simp del: concat_eq_Nil_conv) linarith
      next
        case (Suc n)
        note S = assms(1) [unfolded store_request_body_def Let_def Some, simplified]
        show ?thesis
        proof (cases "ngx_palloc (me_http e) (pool (rq_request q)) (Suc n)")
          case None
          with S L [unfolded Suc] Suc small show ?thesis by (auto simp: bs)
        next
          case (Some p)
          with S L [unfolded Suc] Suc small set [of "concat bs"] show ?thesis by (auto simp: bs)
        qed
      qed
    qed
  qed
  then show "rc \<in> {NGX_OK, 413, 500}"
    and "exec_body ctx' = (if rc = NGX_OK then Some (concat bufs) else exec_body ctx)"
    and "rc = 413 \<longleftrightarrow> limit < length (concat bufs) \<and> \<not> body_temp_file (the body)"
    and "rc = NGX_OK \<Longrightarrow> length (concat bufs) \<le> limit"
    by blast+
qed

text \<open>Storing a body touches the execution's data and nothing of its progress.\<close>

definition body_frame ::
  "('p, 's, 'c, 'm, 'w) slot \<Rightarrow> ('p, 's, 'c, 'm, 'w) wasm_ctx \<Rightarrow> ('p, 's, 'c, 'm, 'w) rq
     \<Rightarrow> ('p, 's, 'c, 'm, 'w) wasm_ctx \<Rightarrow> ('p, 's, 'c, 'm, 'w) rq \<Rightarrow> bool" where
  "body_frame sl ctx q ctx' q' \<longleftrightarrow>
     (\<exists>sl'. main_exec ctx' = Some sl' \<and> slot_resume sl' = slot_resume sl \<and> slot_conf sl' = slot_conf sl \<and>
        exec_state (slot_exec sl') = exec_state (slot_exec sl) \<and>
        fuel_remaining (slot_exec sl') = fuel_remaining (slot_exec sl) \<and>
        capabilities (exec_abi (slot_exec sl')) = capabilities (exec_abi (slot_exec sl))) \<and>
     request_body_async ctx' = request_body_async ctx \<and> exec_completed ctx' = exec_completed ctx \<and>
     rq_calls q' = rq_calls q \<and> rq_count q' = rq_count q \<and> rq_write q' = rq_write q"

lemma set_exec_body_frame:
  assumes "set_exec_body e d ctx q = (rc, ctx', q')" and "main_exec ctx = Some sl"
  shows "body_frame sl ctx q ctx' q'"
  using assms
  by (auto simp: body_frame_def set_exec_body_def abi_req_set_body_def abi_set_str_def detach_def Let_def
      split: option.splits prod.splits)

lemma store_request_body_frame:
  assumes "store_request_body e limit body ctx q = (rc, ctx', q')" and "main_exec ctx = Some sl"
  shows "body_frame sl ctx q ctx' q'"
proof -
  have keep: "body_frame sl ctx q ctx q" using assms(2) by (simp add: body_frame_def)
  have set: "body_frame sl ctx q ctx' q'"
    if "(case set_exec_body e d ctx q1 of (rc, ctx, q) \<Rightarrow> (if rc = NGX_HTTP_WASM_OK then NGX_OK else 500, ctx, q))
       = (rc, ctx', q')" "q1 = q\<lparr>rq_request := r\<rparr>" for d q1 r
  proof -
    have "set_exec_body e d ctx q1 = (fst (set_exec_body e d ctx q1), ctx', q')" using that(1) by (auto split: prod.splits)
    from set_exec_body_frame [OF this assms(2)] show ?thesis by (simp add: body_frame_def that(2))
  qed
  have same: "q = q\<lparr>rq_request := rq_request q\<rparr>" by simp
  show ?thesis
  proof (cases "Option.bind body body_bufs")
    case None
    with assms(1) show ?thesis using set [OF _ same] by (simp add: store_request_body_def Let_def)
  next
    case (Some bs)
    note S = assms(1) [unfolded store_request_body_def Let_def Some option.case]
    show ?thesis
    proof (cases "body_temp_file (the body)")
      case True
      with S keep show ?thesis by auto
    next
      case False
      show ?thesis
      proof (cases "body_length limit 0 bs")
        case None
        with S False keep show ?thesis by auto
      next
        case (Some len)
        show ?thesis
        proof (cases len)
          case 0
          with S False Some show ?thesis using set [OF _ same] by simp
        next
          case (Suc n)
          show ?thesis
          proof (cases "ngx_palloc (me_http e) (pool (rq_request q)) (Suc n)")
            case None
            with S False Some Suc keep show ?thesis by auto
          next
            case (Some p)
            with S False \<open>body_length limit 0 bs = Some len\<close> Suc show ?thesis using set [OF _ refl] by simp
          qed
        qed
      qed
    qed
  qed
qed

section \<open>Phases\<close>

lemma rq_ctx_same: "rq_ctx q = Some ctx \<Longrightarrow> q\<lparr>rq_ctx := Some ctx\<rparr> = q"
  by (cases q) simp

lemma get_or_create_request_phase:
  assumes "rq_ctx q = Some ctx" and "request_phase ph" and "on wcf ph"
  shows "get_or_create_ctx e wcf ph q =
    (True, if exec_completed ctx \<and> map_option slot_conf (main_exec ctx) \<noteq> Some (fst wcf, ph)
           then q\<lparr>rq_ctx := Some (init_request_exec e q wcf ph ctx)\<rparr> else q)"
proof -
  have "ph \<noteq> PHASE_LOG" using assms(2) by (auto simp: request_phase_def)
  with assms show ?thesis by (auto simp: get_or_create_ctx_def Let_def rq_ctx_same)
qed

lemma phase_has_body: "request_phase ph \<Longrightarrow> phase_capabilities ph AND CAP_REQ_BODY_GET \<noteq> 0"
  by (auto simp: request_phase_def phase_capabilities_def request_capabilities_def caps)

text \<open>A guest of the log phase leaves the request's headers and variables alone.\<close>

lemma log_run_frame:
  assumes "run_slot e q ctx sl = (rc, sl', ctx', q')" and "slot_ok (me_wasmtime e) sl"
    and "wasmtime_ok h (me_wasmtime e)" and "snd (slot_conf sl) = PHASE_LOG"
  shows "headers_in (rq_request q') = headers_in (rq_request q) \<and>
    headers_out (rq_request q') = headers_out (rq_request q) \<and>
    variables (rq_request q') = variables (rq_request q)"
proof -
  let ?a = "attach q (ctx_subrequest ctx) (exec_abi (slot_exec sl))"
  have F: "abi_frame ?a (exec_abi (slot_exec sl'))"
    using run_slot_post(1) [OF assms(1-3)] by (simp add: run_frame_def)
  have no: "\<not> abi_require ?a (CAP_REQ_HEADERS_RW OR CAP_VAR_SET)"
    "\<not> abi_require ?a (CAP_RESP_HEADERS_RW OR CAP_VAR_SET)" "\<not> abi_require ?a CAP_VAR_SET"
    using assms(2,4) by (simp_all add: abi_require_def slot_ok_def phase_capabilities_def caps)
  have r: "request (exec_abi (slot_exec sl')) = Some (rq_request q')"
    using run_slot_kind(3) [OF assms(1-3)] .
  have "Some (headers_in (rq_request q')) = Some (headers_in (rq_request q)) \<and>
      Some (headers_out (rq_request q')) = Some (headers_out (rq_request q)) \<and>
      Some (variables (rq_request q')) = Some (variables (rq_request q))"
    using F [unfolded abi_frame_def r attach_sel option.map] no by blast
  then show ?thesis by blast
qed

end
