(* ===== verification/Module_Props.thy ===== *)
theory Module_Props
  imports Module_Correct Runtime_Props Conf_Props
begin

text \<open>
  The properties of a request's life, with an instance of nginx and of a configuration that has
  a guest in every phase.
\<close>

section \<open>Instance\<close>

definition demo_wcf :: "addr \<times> unit wasm_conf" where
  "demo_wcf = (1, (the (create_conf True))
     \<lparr>content_conf := demo_conf, rewrite_conf := demo_conf, log_conf := demo_conf,
      header_filter_conf := demo_conf, conf_fuel_limit := Some 3, conf_timeslice_fuel := Some 1,
      request_body_buffer_size := Some 8\<rparr>)"

definition demo_env_with ::
  "(nat http_request \<Rightarrow> int \<times> req_body option) \<Rightarrow> (nat, demo_slab, nat, unit, u64) module_env" where
  "demo_env_with read = \<lparr>me_http = demo_http, me_wasmtime = demo_wasmtime, main_runtime = Some True,
     me_resume_alloc = True, me_ctx_alloc = True, me_cleanup_alloc = True, me_buf_alloc = True,
     ngx_http_post_request_ok = True, ngx_http_discard_request_body = (\<lambda>_. NGX_OK),
     ngx_http_read_client_request_body = read, next_header_filter = (\<lambda>_. NGX_OK),
     ngx_http_clear_content_length = (\<lambda>r. r), ngx_http_clear_accept_ranges = (\<lambda>r. r)\<rparr>"

abbreviation demo_env :: "(nat, demo_slab, nat, unit, u64) module_env" where
  "demo_env \<equiv> demo_env_with (\<lambda>_. (NGX_AGAIN, None))"

definition demo_rq :: "(nat, demo_slab, nat, unit, u64) rq" where
  "demo_rq = \<lparr>rq_request = demo_request, rq_ctx = None, rq_loc_conf = Some demo_wcf, rq_srv_conf = None,
     rq_shm = None, rq_metrics = None, rq_count = 1, rq_write = CoreRunPhases, rq_calls = [],
     rq_content_length = 4, rq_chunked = False, rq_single_buf = False, rq_preserve_body = False,
     rq_buffered = False, rq_aio = False, rq_blocked = 0, rq_done = False\<rparr>"

lemma demo_env_sel [simp]:
  "me_wasmtime (demo_env_with f) = demo_wasmtime" "me_http (demo_env_with f) = demo_http"
  "main_runtime (demo_env_with f) = Some True" "me_resume_alloc (demo_env_with f)"
  "me_ctx_alloc (demo_env_with f)" "me_cleanup_alloc (demo_env_with f)" "me_buf_alloc (demo_env_with f)"
  "ngx_http_post_request_ok (demo_env_with f)" "ngx_http_read_client_request_body (demo_env_with f) = f"
  "next_header_filter (demo_env_with f) r = NGX_OK"
  by (simp_all add: demo_env_with_def)

lemma demo_wcf_sel [simp]:
  "content_conf (snd demo_wcf) = demo_conf" "rewrite_conf (snd demo_wcf) = demo_conf"
  "log_conf (snd demo_wcf) = demo_conf" "header_filter_conf (snd demo_wcf) = demo_conf"
  "body_filter_conf (snd demo_wcf) = unset_phase"
  "conf_uint (conf_fuel_limit (snd demo_wcf)) = 3" "conf_uint (conf_timeslice_fuel (snd demo_wcf)) = 1"
  "conf_size (request_body_buffer_size (snd demo_wcf)) = 8" "fst demo_wcf = 1"
  "phase_set demo_conf = Some True" "phase_set unset_phase = None"
  by (simp_all add: demo_wcf_def demo_conf_def create_conf_def unset_phase_def conf_uint_def conf_size_def)

text \<open>The request with a fresh execution of a phase.\<close>

definition demo_started :: "phase \<Rightarrow> (nat, demo_slab, nat, unit, u64) rq" where
  "demo_started ph = demo_rq\<lparr>rq_ctx := Some (init_request_exec demo_env demo_rq demo_wcf ph zero_ctx)\<rparr>"

lemma demo_started_slot:
  "\<exists>ctx sl. rq_ctx (demo_started ph) = Some ctx \<and> main_exec ctx = Some sl \<and> slot_ok demo_wasmtime sl \<and>
     \<not> waiting ctx \<and> snd (slot_conf sl) = ph \<and> fuel_remaining (slot_exec sl) = 3"
  by (simp add: demo_started_def init_request_exec_def zero_ctx_def new_slot_ok)

section \<open>Running and resuming\<close>

text \<open>C6: the suspension protocol. One run of the main execution is a run of the guest, on the
  request's data, and its end decides what follows. If the guest is suspended, the request will be resumed
  by the module, it is posted again when the guest did not wait for I/O, and nginx's reference is
  taken once, for the content phase only. If it is done, the phase is completed: in a rewrite phase in
  which the guest has set no status, no body and no content type, the code is \<^verbatim>\<open>NGX_DECLINED\<close> and nothing
  is sent; in every other case the response is sent from what the guest has left, and the code is that of
  sending it. A failure is an internal error, completes nothing and sends nothing.\<close>

theorem run_request_outcome:
  assumes "run_request e q = (rc, q')" "rq_ctx q = Some ctx" "main_exec ctx = Some sl"
    and "slot_ok (me_wasmtime e) sl" "wasmtime_ok h (me_wasmtime e)"
    and guest: "runtime_run (me_wasmtime e) (me_resume_alloc e)
      ((slot_exec sl)\<lparr>exec_abi := attach q (ctx_subrequest ctx) (exec_abi (slot_exec sl))\<rparr>) (slot_resume sl) = (rcg, x, rs)"
  shows "\<exists>ctx' sl'. rq_ctx q' = Some ctx' \<and> main_exec ctx' = Some sl' \<and>
    slot_conf sl' = slot_conf sl \<and> slot_resume sl' = rs \<and>
    (let rewrite = (snd (slot_conf sl) = PHASE_REWRITE \<or> snd (slot_conf sl) = PHASE_SERVER_REWRITE); a = exec_abi x
     in case exec_state x of
       EXEC_SUSPENDED \<Rightarrow> slot_exec sl' = x \<and> rq_write q' = ResumeHandler \<and> slot_ok (me_wasmtime e) sl' \<and>
         exec_completed ctx' = exec_completed ctx \<and> rq_request q' = the (request a) \<and>
         (if suspend_kind x = SUSPEND_RESCHEDULE \<and> \<not> ngx_http_post_request_ok e
          then rc = 500 \<and> rq_count q' = rq_count q \<and> rq_calls q' = rq_calls q \<and> waiting ctx' = waiting ctx
          else rc = NGX_DONE \<and> waiting ctx' \<and>
            rq_calls q' = rq_calls q @ (if suspend_kind x = SUSPEND_RESCHEDULE then [PostRequest] else []) \<and>
            rq_count q' = rq_count q + (if \<not> waiting ctx \<and> snd (slot_conf sl) = PHASE_CONTENT then 1 else 0))
     | EXEC_DONE \<Rightarrow> exec_completed ctx' \<and> \<not> waiting ctx' \<and> rq_count q' = rq_count q \<and> rq_write q' = rq_write q \<and>
         (if rewrite \<and> \<not> status_set a \<and> \<not> body_set a \<and> \<not> content_type_set a
          then rc = NGX_DECLINED \<and> slot_exec sl' = x \<and> rq_request q' = the (request a) \<and> rq_calls q' = rq_calls q
          else (case abi_send_response (me_http e) (me_buf_alloc e) a of
                  (rc1, a1, out) \<Rightarrow> rc = (if rc1 = NGX_ERROR then 500 else rc1) \<and>
                    slot_exec sl' = x\<lparr>exec_abi := a1\<rparr> \<and> rq_request q' = the (request a1) \<and>
                    rq_calls q' = rq_calls q @ (case out of None \<Rightarrow> [] | Some (d, eof) \<Rightarrow> [OutputBody d eof])))
     | EXEC_ERROR \<Rightarrow> rc = 500 \<and> slot_exec sl' = x \<and> exec_completed ctx' = exec_completed ctx \<and>
         waiting ctx' = waiting ctx \<and> rq_count q' = rq_count q \<and> rq_calls q' = rq_calls q \<and>
         rq_write q' = rq_write q
     | _ \<Rightarrow> False)"
proof -
  have G: "slot_exec sl1 = x \<and> slot_resume sl1 = rs \<and> rq_request q1 = the (request (exec_abi x))"
    if "run_slot e q ctx sl = (rc1, sl1, ctx1, q1)" for rc1 sl1 ctx1 q1
    using run_slot_run [OF that] guest by simp
  show ?thesis
    using assms(1-5)
  proof (cases rule: run_request_cases)
    case broken
    with G [OF broken(1)] run_slot_frame [OF broken(1)] show ?thesis by auto
  next
    case (suspended sl1 ctx1 q1)
    note fr = run_slot_frame [OF suspended(1)] G [OF suspended(1)]
    show ?thesis
    proof (cases "suspend_kind (slot_exec sl1) = SUSPEND_RESCHEDULE \<and> \<not> ngx_http_post_request_ok e")
      case True
      with suspended fr show ?thesis by (intro exI [of _ "ctx1\<lparr>main_exec := Some sl1\<rparr>"] exI [of _ sl1]) auto
    next
      case False
      with suspended fr show ?thesis
        by (intro exI [of _ "ctx1\<lparr>main_exec := Some sl1, waiting := True\<rparr>"] exI [of _ sl1]) auto
    qed
  next
    case declined
    with G [OF declined(1)] run_slot_frame [OF declined(1)] show ?thesis by auto
  next
    case (respond sl1 ctx1 q1 rc1 a out)
    let ?s = "sl1\<lparr>slot_exec := (slot_exec sl1)\<lparr>exec_abi := a\<rparr>\<rparr>"
    have "\<not> ((snd (slot_conf sl) = PHASE_REWRITE \<or> snd (slot_conf sl) = PHASE_SERVER_REWRITE) \<and> \<not> status_set (exec_abi x) \<and>
        \<not> body_set (exec_abi x) \<and> \<not> content_type_set (exec_abi x))"
      using respond(3) G [OF respond(1)] by auto
    note ans = if_not_P [OF this]
    show ?thesis
      using respond(2,4,5,6) G [OF respond(1)] run_slot_frame [OF respond(1)] unfolding Let_def ans
      by (intro exI [of _ "ctx1\<lparr>waiting := False, exec_completed := True, main_exec := Some ?s\<rparr>"] exI [of _ ?s]) auto
  qed
qed

lemmas module_eval = demo_started_def run_request_def run_slot_def detach_def attach_def init_request_exec_def
  zero_ctx_def zero_subrequest_def new_slot_def init_exec_ctx_def demo_rq_def demo_conf_def

theorem run_request_outcome_witness:
  "\<exists>q'. run_request demo_env (demo_started PHASE_CONTENT) = (NGX_DONE, q') \<and> rq_write q' = ResumeHandler \<and>
     rq_calls q' = [PostRequest] \<and> rq_count q' = 2"
proof -
  obtain ctx sl where C: "rq_ctx (demo_started PHASE_CONTENT) = Some ctx" "main_exec ctx = Some sl"
      "slot_ok (me_wasmtime demo_env) sl" "snd (slot_conf sl) = PHASE_CONTENT" "\<not> waiting ctx"
    using demo_started_slot [of PHASE_CONTENT] by auto
  obtain q' where run: "run_request demo_env (demo_started PHASE_CONTENT) = (NGX_DONE, q')"
      and s: "main_suspended q'" "rq_calls (demo_started PHASE_CONTENT) = []" "rq_count (demo_started PHASE_CONTENT) = 1"
    by (simp add: module_eval run_eval main_suspended_def)
  have r: "\<And>ctx' sl'. rq_ctx q' = Some ctx' \<Longrightarrow> main_exec ctx' = Some sl' \<Longrightarrow> suspend_kind (slot_exec sl') = SUSPEND_RESCHEDULE"
    using run by (auto simp: module_eval run_eval)
  have wt: "wasmtime_ok undefined (me_wasmtime demo_env)" by (simp add: demo_wasmtime_ok)
  obtain rcg x rs where g: "runtime_run (me_wasmtime demo_env) (me_resume_alloc demo_env)
      ((slot_exec sl)\<lparr>exec_abi := attach (demo_started PHASE_CONTENT) (ctx_subrequest ctx) (exec_abi (slot_exec sl))\<rparr>)
      (slot_resume sl) = (rcg, x, rs)" by (rule prod_cases3)
  obtain rc1 a1 out where o: "abi_send_response (me_http demo_env) (me_buf_alloc demo_env) (exec_abi x) = (rc1, a1, out)"
    by (rule prod_cases3)
  from run_request_outcome [OF run C(1-3) wt g] run s r C(4,5) o show ?thesis
    by (cases "exec_state x") (auto simp: main_suspended_def Let_def split: if_splits)
qed

text \<open>C7: a request is not suspended for ever. From a fresh execution, at most as many runs in a row
  can end suspended as the execution has units of fuel, whatever nginx does to the request in
  between; and all of them together take one more reference to the request if the guest answers
  for the location, and none in the rewrite phases.\<close>

theorem request_suspensions_bounded:
  assumes "request_runs wt q0 n k q" and "wasmtime_ok h wt" and "rq_ctx q0 = Some ctx0"
    and "main_exec ctx0 = Some sl0" and "slot_ok wt sl0" and "\<not> waiting ctx0"
  shows "\<exists>ctx sl. rq_ctx q = Some ctx \<and> main_exec ctx = Some sl \<and>
    n + unat (fuel_remaining (slot_exec sl)) \<le> unat (fuel_remaining (slot_exec sl0)) \<and>
    k = (if waiting ctx \<and> snd (slot_conf sl0) = PHASE_CONTENT then 1 else 0)"
  using request_runs_inv [OF assms] by (auto simp: runs_inv_def)

theorem request_suspensions_bounded_witness:
  "\<exists>q. request_runs demo_wasmtime (demo_started PHASE_CONTENT) 1 1 q \<and>
     (\<exists>ctx sl. rq_ctx q = Some ctx \<and> main_exec ctx = Some sl \<and> unat (fuel_remaining (slot_exec sl)) \<le> 2)"
proof -
  obtain ctx sl where C: "rq_ctx (demo_started PHASE_CONTENT) = Some ctx" "main_exec ctx = Some sl"
      "slot_ok demo_wasmtime sl" "\<not> waiting ctx" "fuel_remaining (slot_exec sl) = 3"
    using demo_started_slot [of PHASE_CONTENT] by auto
  obtain q' where run: "run_request demo_env (demo_started PHASE_CONTENT) = (NGX_DONE, q')"
      and s: "main_suspended q'" and k: "rq_count q' - rq_count (demo_started PHASE_CONTENT) = 1"
    by (simp add: module_eval run_eval main_suspended_def)
  have b: "nginx_between (demo_started PHASE_CONTENT) (demo_started PHASE_CONTENT)"
    by (simp add: nginx_between_def)
  have R: "request_runs demo_wasmtime (demo_started PHASE_CONTENT) 1 1 q'"
    using request_runs.again [OF request_runs.first b demo_env_sel(1) run s] k by simp
  from request_suspensions_bounded [OF R demo_wasmtime_ok C(1-4)] R C(5) show ?thesis
    by (auto simp: unat_numeral)
qed

section \<open>The request body\<close>

text \<open>C20: storing the body. The guest gets exactly the bytes nginx has read, in order, and only if
  there are no more of them than the configured limit; a longer body in memory is refused as too
  large, and whenever the body is not stored the guest keeps what it had.\<close>

theorem request_body_stored:
  assumes "main_exec ctx = Some sl" and "store_request_body e limit body ctx q = (rc, ctx', q')"
  shows "let bufs = (case Option.bind body body_bufs of None \<Rightarrow> [] | Some bs \<Rightarrow> bs) in
    rc \<in> {NGX_OK, 413, 500} \<and>
    exec_body ctx' = (if rc = NGX_OK then Some (concat bufs) else exec_body ctx) \<and>
    (rc = 413 \<longleftrightarrow> limit < length (concat bufs) \<and> \<not> body_temp_file (the body)) \<and>
    (rc = NGX_OK \<longrightarrow> length (concat bufs) \<le> limit)"
  using store_request_body_effect [OF assms(2,1) refl] by (simp add: Let_def)

theorem request_body_stored_witness:
  "\<exists>ctx' q'. store_request_body demo_env 8 (Some \<lparr>body_bufs = Some [[1, 2], [3]], body_temp_file = False\<rparr>)
       (the (rq_ctx (demo_started PHASE_CONTENT))) (demo_started PHASE_CONTENT) = (NGX_OK, ctx', q') \<and>
     exec_body ctx' = Some [1, 2, 3]"
proof -
  let ?b = "Some \<lparr>body_bufs = Some [[1, 2], [3]], body_temp_file = False\<rparr>"
  let ?c = "the (rq_ctx (demo_started PHASE_CONTENT))"
  obtain sl where sl: "main_exec ?c = Some sl" using demo_started_slot [of PHASE_CONTENT] by auto
  obtain ctx' q' where st: "store_request_body demo_env 8 ?b ?c (demo_started PHASE_CONTENT) = (NGX_OK, ctx', q')"
    by (simp add: store_request_body_def set_exec_body_def abi_req_set_body_def abi_set_str_def copy_bytes_def
        demo_request_def wasm_codes module_eval split: prod.splits)
  from request_body_stored [OF sl st] st show ?thesis by (simp add: Let_def)
qed

section \<open>Phases\<close>

text \<open>C15: one execution after the other. A request keeps one main execution: a completed rewrite
  phase is not run again; while a phase is not completed no other phase can run; and a phase
  that follows a completed one starts afresh, with its own capabilities and all of its fuel. It
  starts without the request's body too: the body an earlier phase has read is not read again
  and not handed over, so that the guest of the second phase finds none.\<close>

theorem phase_sequence:
  assumes "rq_ctx q = Some ctx" and "main_exec ctx = Some sl"
    and "request_phase ph" and "on wcf ph" and "main_runtime e \<noteq> None"
  shows "(exec_completed ctx \<and> slot_conf sl = (fst wcf, ph) \<and> ph \<noteq> PHASE_CONTENT \<longrightarrow>
       run_phase e wcf ph q = (NGX_DECLINED, q)) \<and>
    (\<not> exec_completed ctx \<and> slot_conf sl \<noteq> (fst wcf, ph) \<longrightarrow> run_phase e wcf ph q = (500, q)) \<and>
    (exec_completed ctx \<and> slot_conf sl \<noteq> (fst wcf, ph) \<and> request_body_status ctx = NGX_OK \<and>
     request_body_ready ctx \<and> 0 < conf_size (request_body_buffer_size (snd wcf)) \<longrightarrow>
       (\<exists>q1 ctx1 sl1. run_phase e wcf ph q = run_request e q1 \<and> rq_ctx q1 = Some ctx1 \<and>
          main_exec ctx1 = Some sl1 \<and> slot_conf sl1 = (fst wcf, ph) \<and> slot_resume sl1 = None \<and>
          fuel_remaining (slot_exec sl1) = conf_uint (conf_fuel_limit (snd wcf)) \<and>
          capabilities (exec_abi (slot_exec sl1)) = phase_capabilities ph \<and>
          (\<forall>buf. abi_req_get_body buf (exec_abi (slot_exec sl1)) = (NGX_HTTP_WASM_NOT_FOUND, buf))))"
proof (intro conjI impI)
  note G = get_or_create_request_phase [OF assms(1,3,4)]
  show "run_phase e wcf ph q = (NGX_DECLINED, q)"
    if "exec_completed ctx \<and> slot_conf sl = (fst wcf, ph) \<and> ph \<noteq> PHASE_CONTENT"
    using that assms by (auto simp: run_phase_def G Let_def request_phase_def)
  show "run_phase e wcf ph q = (500, q)" if "\<not> exec_completed ctx \<and> slot_conf sl \<noteq> (fst wcf, ph)"
    using that assms by (auto simp: run_phase_def G Let_def)
  assume A: "exec_completed ctx \<and> slot_conf sl \<noteq> (fst wcf, ph) \<and> request_body_status ctx = NGX_OK \<and>
     request_body_ready ctx \<and> 0 < conf_size (request_body_buffer_size (snd wcf))"
  let ?c = "init_request_exec e q wcf ph ctx"
  let ?q = "q\<lparr>rq_ctx := Some ?c\<rparr>"
  let ?s = "new_slot e q (ctx_subrequest ctx) wcf ph (conf_uint (conf_timeslice_fuel (snd wcf)))"
  have c: "main_exec ?c = Some ?s" "\<not> exec_completed ?c" "request_body_status ?c = NGX_OK" "request_body_ready ?c"
    using A by (simp_all add: init_request_exec_def)
  have p: "prepare_request_body e (snd wcf) ?q = (NGX_OK, ?q)"
    using A c by (simp add: prepare_request_body_def Let_def)
  have run: "run_phase e wcf ph q = run_request e ?q"
    using A assms c p by (auto simp: run_phase_def G Let_def)
  have "capabilities (exec_abi (slot_exec ?s)) = phase_capabilities ph" "\<not> request_body_set (exec_abi (slot_exec ?s))"
    by (simp_all add: new_slot_def init_exec_ctx_def abi_init_def)
  moreover from this have "abi_req_get_body buf (exec_abi (slot_exec ?s)) = (NGX_HTTP_WASM_NOT_FOUND, buf)" for buf
    using phase_has_body [OF assms(3)] by (simp add: abi_req_get_body_def requiring_get_def abi_require_def)
  ultimately show "\<exists>q1 ctx1 sl1. run_phase e wcf ph q = run_request e q1 \<and> rq_ctx q1 = Some ctx1 \<and>
          main_exec ctx1 = Some sl1 \<and> slot_conf sl1 = (fst wcf, ph) \<and> slot_resume sl1 = None \<and>
          fuel_remaining (slot_exec sl1) = conf_uint (conf_fuel_limit (snd wcf)) \<and>
          capabilities (exec_abi (slot_exec sl1)) = phase_capabilities ph \<and>
          (\<forall>buf. abi_req_get_body buf (exec_abi (slot_exec sl1)) = (NGX_HTTP_WASM_NOT_FOUND, buf))"
    using run c(1) by (intro exI [of _ ?q] exI [of _ ?c] exI [of _ ?s]) simp
qed

text \<open>The rewrite phase has read a body and is completed; the content phase comes next.\<close>

theorem phase_sequence_witness:
  "\<exists>ctx q1 ctx1 sl1. rq_ctx (demo_started PHASE_REWRITE) = Some ctx \<and>
     run_phase demo_env demo_wcf PHASE_CONTENT
       ((demo_started PHASE_REWRITE)\<lparr>rq_ctx := Some (ctx\<lparr>exec_completed := True, request_body_ready := True\<rparr>)\<rparr>)
       = run_request demo_env q1 \<and>
     rq_ctx q1 = Some ctx1 \<and> main_exec ctx1 = Some sl1 \<and>
     abi_req_get_body [0] (exec_abi (slot_exec sl1)) = (NGX_HTTP_WASM_NOT_FOUND, [0])"
proof -
  obtain ctx sl where C: "rq_ctx (demo_started PHASE_REWRITE) = Some ctx" "main_exec ctx = Some sl"
      "snd (slot_conf sl) = PHASE_REWRITE"
    using demo_started_slot [of PHASE_REWRITE] by auto
  let ?c = "ctx\<lparr>exec_completed := True, request_body_ready := True\<rparr>"
  let ?q = "(demo_started PHASE_REWRITE)\<lparr>rq_ctx := Some ?c\<rparr>"
  have st: "request_body_status ctx = NGX_OK" using C(1) by (auto simp: demo_started_def init_request_exec_def zero_ctx_def)
  have "slot_conf sl \<noteq> (fst demo_wcf, PHASE_CONTENT)" using C(3) by auto
  with phase_sequence [of ?q ?c sl PHASE_CONTENT demo_wcf demo_env] C st show ?thesis
    by (auto simp: request_phase_def)
qed






text \<open>C26: logging changes nothing. The log phase of a request always lets nginx go on, whatever its
  guest does, and leaves the headers, the response, the variables, the main execution, the
  references and what nginx is asked to do as they were; its execution is over afterwards.\<close>

theorem log_handler_transparent:
  assumes "log_handler e q = (rc, q')" and "wasmtime_ok h (me_wasmtime e)"
    and "rq_loc_conf q = Some wcf" and "0 < conf_uint (conf_fuel_limit (snd wcf))"
    and "\<And>ctx. rq_ctx q = Some ctx \<Longrightarrow> log_exec ctx = None"
  shows "rc = NGX_OK \<and> rq_calls q' = rq_calls q \<and> rq_count q' = rq_count q \<and> rq_write q' = rq_write q \<and>
    headers_in (rq_request q') = headers_in (rq_request q) \<and>
    headers_out (rq_request q') = headers_out (rq_request q) \<and>
    variables (rq_request q') = variables (rq_request q) \<and>
    Option.bind (rq_ctx q') main_exec = Option.bind (rq_ctx q) main_exec \<and>
    Option.bind (rq_ctx q') log_exec = None"
proof (cases "is_main (rq_request q) \<and> on wcf PHASE_LOG \<and> main_runtime e \<noteq> None \<and>
    (rq_ctx q = None \<longrightarrow> me_ctx_alloc e \<and> me_cleanup_alloc e)")
  case False
  with assms show ?thesis
    by (cases "rq_ctx q") (auto simp: log_handler_def get_or_create_ctx_def zero_ctx_def split: if_splits)
next
  case True
  let ?old = "case rq_ctx q of None \<Rightarrow> zero_ctx | Some ctx \<Rightarrow> ctx"
  let ?c = "init_log_exec e q wcf ?old"
  let ?s = "new_slot e q (ctx_subrequest ?old) wcf PHASE_LOG 0"
  have g: "get_or_create_ctx e wcf PHASE_LOG q = (True, q\<lparr>rq_ctx := Some ?c\<rparr>)"
    using True assms(5) by (cases "rq_ctx q") (auto simp: get_or_create_ctx_def request_phase_def Let_def)
  have c: "log_exec ?c = Some ?s" "main_exec ?c = main_exec ?old"
    by (simp_all add: init_log_exec_def)
  obtain rc1 sl1 ctx1 q1 where run: "run_slot e (q\<lparr>rq_ctx := Some ?c\<rparr>) ?c ?s = (rc1, sl1, ctx1, q1)"
    by (metis prod_cases4)
  have q': "rc = NGX_OK" "q' = q1\<lparr>rq_ctx := Some (ctx1\<lparr>log_exec := None\<rparr>)\<rparr>"
    using assms(1,3) True by (auto simp: log_handler_def g c run)
  note fr = run_slot_frame(1,2) [OF run]
  have ok: "slot_ok (me_wasmtime e) ?s" by (rule new_slot_ok [OF assms(4)])
  have m: "Option.bind (rq_ctx q) main_exec = main_exec ?old"
    by (cases "rq_ctx q") (simp_all add: zero_ctx_def)
  from log_run_frame [OF run ok assms(2)] fr c(2) m show ?thesis by (auto simp: q')
qed

theorem log_handler_transparent_witness:
  "\<exists>q'. log_handler demo_env demo_rq = (NGX_OK, q') \<and> headers_out (rq_request q') = demo_headers_out"
proof -
  obtain rc q' where run: "log_handler demo_env demo_rq = (rc, q')" by (cases "log_handler demo_env demo_rq")
  have l: "rq_loc_conf demo_rq = Some demo_wcf" "0 < conf_uint (conf_fuel_limit (snd demo_wcf))"
    "\<And>ctx. rq_ctx demo_rq = Some ctx \<Longrightarrow> log_exec ctx = None" "headers_out (rq_request demo_rq) = demo_headers_out"
    by (simp_all add: demo_rq_def demo_request_def)
  have wt: "wasmtime_ok undefined (me_wasmtime demo_env)" by (simp add: demo_wasmtime_ok)
  from log_handler_transparent [OF run wt l(1-3)] run l(4) show ?thesis by auto
qed

end
