(* ===== verification/Balancer.thy ===== *)
theory Balancer
  imports Module
begin

text \<open>
  The balancer phase, \<^verbatim>\<open>src/ngx_http_wasm_module.c\<close>: the hooks of an upstream's peer selection,
  the run of the guest for each connection attempt, and the selection of the round-robin peer
  the guest has named. nginx's round robin is a parameter, its records are modelled as far as
  the module reads and writes them.
\<close>

section \<open>Round-robin peers\<close>

text \<open>
  \<^verbatim>\<open>ngx_http_upstream_rr_peer_t\<close>; \<open>refs\<close> counts the references nginx takes by
  \<^verbatim>\<open>ngx_http_upstream_rr_peer_ref\<close>. Times are in seconds.
\<close>

record rr_peer =
  peer_down :: bool
  max_fails :: nat
  fails :: nat
  checked :: int
  fail_timeout :: int
  max_conns :: nat
  conns :: nat
  refs :: nat
  peer_addr :: nat

text \<open>
  The round-robin state of a request: the peers, the configuration they had when the request
  started and have now (if they are in a shared zone), the bitmap of the peers tried, word by
  word, and the current peer.
\<close>

record rr_data =
  rr_peers :: "rr_peer list option"
  peers_config :: "nat option"
  rr_config :: nat
  tried :: "nat \<Rightarrow> u64"
  rr_current :: "nat option"

record peer_conn =
  pc_cached :: bool
  pc_connection :: "nat option"
  pc_addr :: "nat option"

definition select_peer ::
  "int \<Rightarrow> nat \<Rightarrow> peer_conn \<Rightarrow> rr_data option \<Rightarrow> int \<times> peer_conn \<times> rr_data option" where
  "select_peer now idx pc d =
     (case d of
        None \<Rightarrow> (NGX_ERROR, pc, d)
      | Some rr \<Rightarrow>
          (case rr_peers rr of
             None \<Rightarrow> (NGX_ERROR, pc, d)
           | Some ps \<Rightarrow>
               (let pc = pc\<lparr>pc_cached := False, pc_connection := None\<rparr>
                in if peers_config rr \<noteq> None \<and> peers_config rr \<noteq> Some (rr_config rr) then (NGX_BUSY, pc, d)
                   else if length ps \<le> idx then (NGX_ERROR, pc, d)
                   else (let peer = ps ! idx; n = idx div 64; m = push_bit (idx mod 64) (1 :: u64)
                         in if tried rr n AND m \<noteq> 0 then (NGX_BUSY, pc, d)
                            else if peer_down peer then (NGX_BUSY, pc, d)
                            else if max_fails peer \<noteq> 0 \<and> fails peer \<ge> max_fails peer \<and>
                                    now - checked peer \<le> fail_timeout peer then (NGX_BUSY, pc, d)
                            else if max_conns peer \<noteq> 0 \<and> conns peer \<ge> max_conns peer then (NGX_BUSY, pc, d)
                            else (NGX_OK, pc\<lparr>pc_addr := Some (peer_addr peer)\<rparr>,
                                  Some (rr\<lparr>rr_current := Some idx,
                                      tried := (tried rr)(n := tried rr n OR m),
                                      rr_peers := Some (ps[idx := peer
                                        \<lparr>refs := refs peer + 1,
                                         checked := (if now - checked peer > fail_timeout peer then now else checked peer),
                                         conns := conns peer + 1\<rparr>])\<rparr>))))))"

section \<open>The hooks of an upstream\<close>

text \<open>
  The data of the module's hooks: the phase's configuration, the runtime (whether it has an
  engine and a linker), the fuel, and the hooks they replace.
\<close>

record 'm balancer_data =
  bd_conf :: "'m phase_conf"
  bd_runtime :: bool
  bd_fuel_limit :: u64
  bd_get_peer :: "upstream_cb option"
  bd_free_peer :: "upstream_cb option"

record 'm peer_hooks =
  hook_data :: "'m balancer_data option"
  hook_get_peer :: "upstream_cb option"
  hook_free_peer :: "upstream_cb option"

text \<open>\<open>init\<close> is what the upstream's own \<^verbatim>\<open>init_peer\<close> does to the hooks of the request.\<close>

definition upstream_init_peer ::
  "bool option \<Rightarrow> bool \<Rightarrow> (upstream_cb \<Rightarrow> int \<times> 'm peer_hooks) \<Rightarrow> 'm wasm_conf option \<Rightarrow> 'm peer_hooks
     \<Rightarrow> int \<times> 'm peer_hooks" where
  "upstream_init_peer runtime pcalloc init wcf hooks =
     (case wcf of
        None \<Rightarrow> (NGX_ERROR, hooks)
      | Some c \<Rightarrow>
          (case (runtime, original_init_peer c) of
             (Some rt, Some cb) \<Rightarrow>
               if phase_set (balancer_conf c) \<noteq> Some True then (NGX_ERROR, hooks)
               else if \<not> pcalloc then (NGX_ERROR, hooks)
               else (case init cb of
                       (rc, hooks) \<Rightarrow>
                         if rc \<noteq> NGX_OK then (rc, hooks)
                         else (NGX_OK,
                               \<lparr>hook_data = Some \<lparr>bd_conf = balancer_conf c, bd_runtime = rt,
                                   bd_fuel_limit = (case conf_fuel_limit c of None \<Rightarrow> DEFAULT_FUEL_LIMIT | Some f \<Rightarrow> f),
                                   bd_get_peer = hook_get_peer hooks, bd_free_peer = hook_free_peer hooks\<rparr>,
                                hook_get_peer = Some WasmCb, hook_free_peer = Some WasmCb\<rparr>))
           | _ \<Rightarrow> (NGX_ERROR, hooks)))"

text \<open>
  One attempt to get a peer. The execution is local to the call. \<open>get\<close> is the hook that the
  module's replaces; \<open>now\<close> is \<^verbatim>\<open>ngx_time\<close>.
\<close>

definition balancer_exec ::
  "'m balancer_data \<Rightarrow> ('p, 's, 'c, 'm, 'w) rq \<Rightarrow> ('p, 's, 'c, 'm) exec_ctx" where
  "balancer_exec bd q =
     (init_exec_ctx (rq_request q) (rq_shm q) (rq_metrics q) (map_option ctx_subrequest (rq_ctx q))
        (bd_conf bd) PHASE_BALANCER (bd_runtime bd))
       \<lparr>fuel_limit := bd_fuel_limit bd, timeslice_fuel := 0, fuel_remaining := bd_fuel_limit bd\<rparr>"

definition upstream_get_peer ::
  "('p, 's, 'c, 'm, 'w) module_env \<Rightarrow> (peer_conn \<Rightarrow> rr_data option \<Rightarrow> int \<times> peer_conn \<times> rr_data option) \<Rightarrow> int
     \<Rightarrow> 'm balancer_data option \<Rightarrow> ('p, 's, 'c, 'm, 'w) rq \<Rightarrow> peer_conn \<Rightarrow> rr_data option
     \<Rightarrow> int \<times> ('p, 's, 'c, 'm, 'w) rq \<times> peer_conn \<times> rr_data option" where
  "upstream_get_peer e get now bd q pc d =
     (case bd of
        None \<Rightarrow> (NGX_ERROR, q, pc, d)
      | Some bd \<Rightarrow>
          (case runtime_run (me_wasmtime e) (me_resume_alloc e) (balancer_exec bd q) None of
             (rc, x, rs) \<Rightarrow>
               (let a = exec_abi x;
                    q = q\<lparr>rq_request := the (request a), rq_shm := shm_zone a, rq_metrics := metrics_zone a\<rparr>
                in if rc \<noteq> NGX_OK then (NGX_ERROR, q, pc, d)
                   else if \<not> balancer_peer_set a then (case get pc d of (rc, pc, d) \<Rightarrow> (rc, q, pc, d))
                   else (case select_peer now (balancer_peer_index a) pc d of
                           (rc, pc, d) \<Rightarrow> (rc, q, pc, d)))))"

text \<open>\<open>free\<close> is what the replaced hook does with the peer and a state.\<close>

definition upstream_free_peer ::
  "(upstream_cb \<Rightarrow> nat \<Rightarrow> rr_data option \<Rightarrow> rr_data option) \<Rightarrow> 'm balancer_data option \<Rightarrow> nat \<Rightarrow> rr_data option
     \<Rightarrow> rr_data option" where
  "upstream_free_peer free bd state d =
     (case Option.bind bd bd_free_peer of None \<Rightarrow> d | Some cb \<Rightarrow> free cb state d)"

end
