(* ===== verification/Tls.thy ===== *)
theory Tls
  imports Module
begin

text \<open>
  The TLS phases, \<^verbatim>\<open>src/ngx_http_wasm_module.c\<close>: OpenSSL's callbacks for the server name and for
  the certificate, each of which runs a guest on an execution that is local to the call.
\<close>

definition SSL_TLSEXT_ERR_OK :: int where "SSL_TLSEXT_ERR_OK = 0"
definition SSL_TLSEXT_ERR_ALERT_FATAL :: int where "SSL_TLSEXT_ERR_ALERT_FATAL = 2"
definition SSL_AD_INTERNAL_ERROR :: int where "SSL_AD_INTERNAL_ERROR = 80"

text \<open>
  The handshake: OpenSSL's connection, nginx's flag that it was rejected, and the alert, which
  is the callback's output parameter. The configuration of the connection is \<open>None\<close> when one
  of the pointers to it is NULL or the runtime is missing.
\<close>

record 'c handshake =
  hs_conn :: 'c
  hs_rejected :: bool
  hs_alert :: int

definition tls_exec ::
  "'m phase_conf \<Rightarrow> phase \<Rightarrow> bool \<Rightarrow> u64 \<Rightarrow> 'c \<Rightarrow> ('p, 's, 'c, 'm) exec_ctx" where
  "tls_exec conf ph rt fuel c =
     (init_ssl_exec_ctx c conf ph rt)\<lparr>fuel_limit := fuel, timeslice_fuel := 0, fuel_remaining := fuel\<rparr>"

text \<open>\<open>sni\<close> is what nginx's own callback returns, with the alert it sets.\<close>

definition ssl_servername ::
  "('w, 'm, ('p, 's, 'c, 'm) exec_ctx) wasmtime \<Rightarrow> bool \<Rightarrow> ('c handshake \<Rightarrow> int \<times> 'c handshake)
     \<Rightarrow> (bool \<times> 'm wasm_conf) option \<Rightarrow> 'c handshake \<Rightarrow> int \<times> 'c handshake" where
  "ssl_servername wt pcalloc sni conf hs =
     (case sni hs of
        (rc, hs) \<Rightarrow>
          if rc \<noteq> SSL_TLSEXT_ERR_OK then (rc, hs)
          else (case conf of
                  None \<Rightarrow> (SSL_TLSEXT_ERR_OK, hs)
                | Some (rt, wcf) \<Rightarrow>
                    if phase_set (ssl_client_hello_conf wcf) \<noteq> Some True then (SSL_TLSEXT_ERR_OK, hs)
                    else (case runtime_run wt pcalloc
                                 (tls_exec (ssl_client_hello_conf wcf) PHASE_SSL_CLIENT_HELLO rt
                                    (conf_uint (conf_fuel_limit wcf)) (hs_conn hs)) None of
                            (rc, x, rs) \<Rightarrow>
                              (let a = exec_abi x; hs = hs\<lparr>hs_conn := the (ssl_conn a)\<rparr>
                               in if rc \<noteq> NGX_OK
                                  then (SSL_TLSEXT_ERR_ALERT_FATAL, hs\<lparr>hs_alert := SSL_AD_INTERNAL_ERROR\<rparr>)
                                  else if ssl_handshake_rejected a
                                  then (SSL_TLSEXT_ERR_ALERT_FATAL,
                                        hs\<lparr>hs_rejected := True, hs_alert := ssl_handshake_alert a\<rparr>)
                                  else (SSL_TLSEXT_ERR_OK, hs)))))"

definition ssl_certificate ::
  "('w, 'm, ('p, 's, 'c, 'm) exec_ctx) wasmtime \<Rightarrow> bool \<Rightarrow> (bool \<times> 'm wasm_conf) option
     \<Rightarrow> 'c handshake \<Rightarrow> int \<times> 'c handshake" where
  "ssl_certificate wt pcalloc conf hs =
     (case conf of
        None \<Rightarrow> (0, hs)
      | Some (rt, wcf) \<Rightarrow>
          if phase_set (ssl_certificate_conf wcf) \<noteq> Some True then (0, hs)
          else (case runtime_run wt pcalloc
                       (tls_exec (ssl_certificate_conf wcf) PHASE_SSL_CERTIFICATE rt
                          (conf_uint (conf_fuel_limit wcf)) (hs_conn hs)) None of
                  (rc, x, rs) \<Rightarrow>
                    (let a = exec_abi x; hs = hs\<lparr>hs_conn := the (ssl_conn a)\<rparr>
                     in if rc \<noteq> NGX_OK then (0, hs)
                        else if ssl_handshake_rejected a then (0, hs\<lparr>hs_rejected := True\<rparr>)
                        else (1, hs))))"

end
