(* ===== verification/Edge_Props.thy ===== *)
theory Edge_Props
  imports Balancer Tls Module_Props
begin

text \<open>
  The properties of the phases at the edges of a request: the balancer's choice of a peer, and
  the handshakes of a connection.
\<close>

section \<open>Peers\<close>

definition peer_tried :: "rr_data \<Rightarrow> nat \<Rightarrow> bool" where
  "peer_tried rr i \<longleftrightarrow> bit (tried rr (i div 64)) (i mod 64)"

definition peer_available :: "int \<Rightarrow> rr_peer \<Rightarrow> bool" where
  "peer_available now p \<longleftrightarrow> \<not> peer_down p \<and>
     \<not> (max_fails p \<noteq> 0 \<and> fails p \<ge> max_fails p \<and> now - checked p \<le> fail_timeout p) \<and>
     \<not> (max_conns p \<noteq> 0 \<and> conns p \<ge> max_conns p)"

definition selectable :: "int \<Rightarrow> nat \<Rightarrow> rr_data \<Rightarrow> rr_peer list \<Rightarrow> bool" where
  "selectable now idx rr ps \<longleftrightarrow> rr_peers rr = Some ps \<and>
     (peers_config rr = None \<or> peers_config rr = Some (rr_config rr)) \<and>
     idx < length ps \<and> \<not> peer_tried rr idx \<and> peer_available now (ps ! idx)"

lemma tried_mask: "w AND 2 ^ k = 0 \<longleftrightarrow> \<not> bit w k" for w :: u64
  by (rule and_exp_eq_0_iff_not_bit)

lemma bit_tried_mask: "j < 64 \<Longrightarrow> bit (w OR push_bit k 1) j \<longleftrightarrow> bit w j \<or> j = k" for w :: u64
  by (auto simp: bit_simps push_bit_of_1)

lemma div_mod_eq: "(j::nat) div 64 = i div 64 \<Longrightarrow> j mod 64 = i mod 64 \<longleftrightarrow> j = i"
  by (metis div_mult_mod_eq)

lemma select_peer_cases:
  assumes "select_peer now idx pc (Some rr) = (rc, pc', d')"
  obtains (picked) ps where "selectable now idx rr ps" "rc = NGX_OK"
      "d' = Some (rr\<lparr>rr_current := Some idx,
         tried := (tried rr)(idx div 64 := tried rr (idx div 64) OR push_bit (idx mod 64) 1),
         rr_peers := Some (ps[idx := (ps ! idx)\<lparr>refs := refs (ps ! idx) + 1,
           checked := (if now - checked (ps ! idx) > fail_timeout (ps ! idx) then now else checked (ps ! idx)),
           conns := conns (ps ! idx) + 1\<rparr>])\<rparr>)"
    | (refused) "\<nexists>ps. selectable now idx rr ps" "rc \<noteq> NGX_OK" "d' = Some rr"
  using assms
  by (auto simp: select_peer_def selectable_def peer_tried_def peer_available_def tried_mask Let_def
      split: option.splits if_splits)

lemma tried_after:
  "peer_tried (rr\<lparr>rr_current := c, tried := (tried rr)(i div 64 := tried rr (i div 64) OR push_bit (i mod 64) 1),
     rr_peers := q\<rparr>) j \<longleftrightarrow> peer_tried rr j \<or> j = i"
proof (cases "j div 64 = i div 64")
  case True
  have "j mod 64 < 64" by simp
  from bit_tried_mask [OF this, of "tried rr (i div 64)" "i mod 64"] div_mod_eq [OF True] True
  show ?thesis by (simp add: peer_tried_def)
next
  case False
  then have "j \<noteq> i" by auto
  with False show ?thesis by (simp add: peer_tried_def)
qed

text \<open>
  What the guest of an attempt names, if its run succeeds and it names a peer.
\<close>

definition guest_choice ::
  "('p, 's, 'c, 'm, 'w) module_env \<Rightarrow> 'm balancer_data \<Rightarrow> ('p, 's, 'c, 'm, 'w) rq \<Rightarrow> nat option" where
  "guest_choice e bd q =
     (case runtime_run (me_wasmtime e) (me_resume_alloc e) (balancer_exec bd q) None of
        (rc, x, rs) \<Rightarrow> if rc = NGX_OK \<and> balancer_peer_set (exec_abi x) then Some (balancer_peer_index (exec_abi x)) else None)"

lemma upstream_get_peer_guest:
  assumes "upstream_get_peer e get now (Some bd) q pc d = (rc, q', pc', d')"
  obtains (named) i where "guest_choice e bd q = Some i" "select_peer now i pc d = (rc, pc', d')"
    | (unnamed) "guest_choice e bd q = None" "get pc d = (rc, pc', d')"
    | (failed) "guest_choice e bd q = None" "rc = NGX_ERROR" "d' = d"
proof -
  obtain rc1 x rs where "runtime_run (me_wasmtime e) (me_resume_alloc e) (balancer_exec bd q) None = (rc1, x, rs)"
    by (rule prod_cases3)
  with assms that show thesis
    by (auto simp: upstream_get_peer_def guest_choice_def Let_def split: prod.splits if_splits)
qed

text \<open>
  What the rest of nginx may do to the round-robin data between two attempts, and in the hooks the
  module's replace: connections and failures are counted, peers go up and down, the peers change if
  the configuration's number goes up, and peers are tried; a peer tried stays tried.
\<close>

definition stale :: "rr_data \<Rightarrow> bool" where
  "stale rr \<longleftrightarrow> (\<exists>c. peers_config rr = Some c \<and> rr_config rr < c)"

definition rr_between :: "rr_data option \<Rightarrow> rr_data option \<Rightarrow> bool" where
  "rr_between d d' \<longleftrightarrow>
     (case (d, d') of
        (Some rr, Some rr') \<Rightarrow>
          (\<forall>i. peer_tried rr i \<longrightarrow> peer_tried rr' i) \<and> (stale rr \<longrightarrow> stale rr') \<and>
          (map_option length (rr_peers rr') = map_option length (rr_peers rr) \<or> stale rr')
      | (None, None) \<Rightarrow> True
      | _ \<Rightarrow> False)"

lemma rr_between_refl: "rr_between d d"
  by (simp add: rr_between_def split: option.splits)

lemma selectable_fresh: "selectable now i rr ps \<Longrightarrow> \<not> stale rr"
  by (auto simp: selectable_def stale_def)

lemma select_peer_between: "select_peer now i pc d = (rc, pc', d') \<Longrightarrow> rr_between d d'"
proof (cases d)
  case (Some rr)
  assume "select_peer now i pc d = (rc, pc', d')"
  then have s: "select_peer now i pc (Some rr) = (rc, pc', d')" using Some by simp
  show ?thesis using s
  proof (cases rule: select_peer_cases)
    case (picked ps)
    then show ?thesis using tried_after Some by (auto simp: rr_between_def selectable_def stale_def)
  qed (simp add: Some rr_between_refl)
qed (simp add: select_peer_def rr_between_refl)

text \<open>
  The attempts of a request, by the module's two hooks, with anything else in between: \<open>idxs\<close> are
  the peers its guest has been given, the last one first.
\<close>

inductive attempts ::
  "('p, 's, 'c, 'm, 'w) module_env \<Rightarrow> (peer_conn \<Rightarrow> rr_data option \<Rightarrow> int \<times> peer_conn \<times> rr_data option)
     \<Rightarrow> (upstream_cb \<Rightarrow> nat \<Rightarrow> rr_data option \<Rightarrow> rr_data option) \<Rightarrow> 'm balancer_data \<Rightarrow> rr_data
     \<Rightarrow> nat list \<Rightarrow> rr_data option \<Rightarrow> bool" for e get free bd rr0 where
  start: "attempts e get free bd rr0 [] (Some rr0)"
| given: "attempts e get free bd rr0 idxs d \<Longrightarrow> upstream_get_peer e get now (Some bd) q pc d = (NGX_OK, q', pc', d') \<Longrightarrow>
    guest_choice e bd q = Some i \<Longrightarrow> attempts e get free bd rr0 (i # idxs) d'"
| other: "attempts e get free bd rr0 idxs d \<Longrightarrow> upstream_get_peer e get now (Some bd) q pc d = (rc, q', pc', d') \<Longrightarrow>
    rc \<noteq> NGX_OK \<or> guest_choice e bd q = None \<Longrightarrow> attempts e get free bd rr0 idxs d'"
| free: "attempts e get free bd rr0 idxs d \<Longrightarrow> attempts e get free bd rr0 idxs (upstream_free_peer free (Some bd) state d)"
| nginx: "attempts e get free bd rr0 idxs d \<Longrightarrow> rr_between d d' \<Longrightarrow> attempts e get free bd rr0 idxs d'"

definition attempts_inv :: "nat \<Rightarrow> nat list \<Rightarrow> rr_data option \<Rightarrow> bool" where
  "attempts_inv n idxs d \<longleftrightarrow> distinct idxs \<and> set idxs \<subseteq> {..< n} \<and>
     (\<exists>rr. d = Some rr \<and> (\<forall>i \<in> set idxs. peer_tried rr i) \<and> (map_option length (rr_peers rr) = Some n \<or> stale rr))"

lemma attempts_inv_between: "attempts_inv n idxs d \<Longrightarrow> rr_between d d' \<Longrightarrow> attempts_inv n idxs d'"
  by (fastforce simp: attempts_inv_def rr_between_def split: option.splits)

lemma attempts_inv_selected:
  assumes "attempts_inv n idxs d" "select_peer now i pc d = (NGX_OK, pc', d')"
  shows "attempts_inv n (i # idxs) d'"
proof -
  obtain rr where rr: "d = Some rr" "\<forall>i \<in> set idxs. peer_tried rr i" "map_option length (rr_peers rr) = Some n \<or> stale rr"
    using assms(1) by (auto simp: attempts_inv_def)
  have s: "select_peer now i pc (Some rr) = (NGX_OK, pc', d')" using assms(2) rr(1) by simp
  show ?thesis using s
  proof (cases rule: select_peer_cases)
    case (picked ps)
    then have "i < n" "\<not> peer_tried rr i" using rr(3) selectable_fresh by (auto simp: selectable_def)
    moreover have "peer_tried (the d') i" "d' \<noteq> None" using picked(3) tried_after by auto
    moreover have "attempts_inv n idxs d'" by (rule attempts_inv_between [OF assms(1) select_peer_between [OF assms(2)]])
    ultimately show ?thesis using rr(2) by (auto simp: attempts_inv_def)
  qed simp
qed

lemma attempts_invI:
  assumes "attempts e get free bd rr0 idxs d" "map_option length (rr_peers rr0) = Some n"
    and get: "\<And>c d. rr_between d (snd (snd (get c d)))" and free: "\<And>cb st d. rr_between d (free cb st d)"
  shows "attempts_inv n idxs d"
  using assms(1)
proof induction
  case start
  then show ?case using assms(2) by (simp add: attempts_inv_def)
next
  case (given idxs d now q pc q' pc' d' i)
  from given.hyps(2) show ?case
    by (cases rule: upstream_get_peer_guest) (use given attempts_inv_selected in auto)
next
  case (other idxs d now q pc rc q' pc' d')
  from other.hyps(2) have "rr_between d d'"
    by (cases rule: upstream_get_peer_guest) (use get [of d pc] in \<open>auto intro: select_peer_between rr_between_refl\<close>)
  with other.IH show ?case by (rule attempts_inv_between)
next
  case (free idxs d state)
  have "rr_between d (upstream_free_peer free (Some bd) state d)"
    using assms(4) by (simp add: upstream_free_peer_def rr_between_refl split: option.splits)
  with free.IH show ?case by (rule attempts_inv_between)
qed (rule attempts_inv_between)

section \<open>Properties\<close>


definition demo_rr :: rr_data where
  "demo_rr = \<lparr>rr_peers = Some (replicate 2 \<lparr>peer_down = False, max_fails = 1, fails = 0, checked = 0, fail_timeout = 10,
       max_conns = 0, conns = 0, refs = 0, peer_addr = 7\<rparr>),
     peers_config = None, rr_config = 0, tried = (\<lambda>_. 0), rr_current = None\<rparr>"

definition demo_pc :: peer_conn where
  "demo_pc = \<lparr>pc_cached = True, pc_connection = None, pc_addr = None\<rparr>"



text \<open>C27: the attempts come to an end. Whatever its guest does, and whatever the hooks the module
  replaces, the other requests and the reloads of the upstream do to the peers in between, as long as they
  do not mark a tried peer as untried (nginx does so only when it turns to an upstream's backup
  servers), the peers a request is given by its guest are pairwise different peers of the upstream. So a
  guest that always names a peer cannot make nginx try for ever: once it has been given as many peers
  as there are, every further attempt in which it names one is refused.\<close>

theorem balancer_attempts_bounded:
  assumes "attempts e get free bd rr idxs d" and "rr_peers rr = Some ps"
    and "\<And>c d. rr_between d (snd (snd (get c d)))" and "\<And>cb st d. rr_between d (free cb st d)"
  shows "distinct idxs \<and> set idxs \<subseteq> {..< length ps} \<and> length idxs \<le> length ps \<and>
    (length idxs = length ps \<longrightarrow> guest_choice e bd q \<noteq> None \<longrightarrow> fst (upstream_get_peer e get now (Some bd) q pc d) \<noteq> NGX_OK)"
proof -
  have n: "map_option length (rr_peers rr) = Some (length ps)" using assms(2) by simp
  have le: "length js \<le> length ps" if "attempts e get free bd rr js d'" for js d'
    using attempts_invI [OF that n assms(3,4)] card_mono [of "{..< length ps}" "set js"]
    by (auto simp: attempts_inv_def distinct_card)
  obtain rc q' pc' d' where g: "upstream_get_peer e get now (Some bd) q pc d = (rc, q', pc', d')" by (rule prod_cases4)
  have "rc \<noteq> NGX_OK" if "length idxs = length ps" "guest_choice e bd q = Some i" for i
    using le [OF attempts.given [OF assms(1), of now q pc q' pc' d' i]] g that by auto
  with attempts_invI [OF assms(1) n assms(3,4)] le [OF assms(1)] g show ?thesis by (auto simp: attempts_inv_def)
qed

text \<open>
  Two attempts: a guest that names the peer with the number of the request's method, the round robin's
  free hook in between, and a third attempt.
\<close>

definition demo_naming :: "(nat, demo_slab, nat, unit, u64) module_env" where
  "demo_naming = demo_env\<lparr>me_wasmtime := demo_wasmtime\<lparr>call_future_poll :=
     (\<lambda>w x. (Complete \<lparr>out_error = False, out_trap = None, out_result = I32 0\<rparr>, w,
        x\<lparr>exec_abi := snd (abi_balancer_set_peer (req_method (the (request (exec_abi x)))) (exec_abi x))\<rparr>))\<rparr>\<rparr>"

definition demo_method :: "nat \<Rightarrow> (nat, demo_slab, nat, unit, u64) rq" where
  "demo_method n = demo_rq\<lparr>rq_request := demo_request\<lparr>req_method := n, has_upstream := True\<rparr>\<rparr>"

definition demo_balancer :: "unit balancer_data" where
  "demo_balancer = \<lparr>bd_conf = demo_conf, bd_runtime = True, bd_fuel_limit = 1, bd_get_peer = Some (OtherCb 1),
     bd_free_peer = Some (OtherCb 2)\<rparr>"

lemma demo_choice: "guest_choice demo_naming demo_balancer (demo_method n) = Some n"
  by (simp add: guest_choice_def demo_naming_def demo_method_def demo_balancer_def balancer_exec_def run_eval demo_conf_def
      init_exec_ctx_def abi_balancer_set_peer_def requiring_def abi_init_def abi_require_def phase_capabilities_def caps)

definition demo_free :: "upstream_cb \<Rightarrow> nat \<Rightarrow> rr_data option \<Rightarrow> rr_data option" where
  "demo_free cb st = map_option (\<lambda>rr. rr\<lparr>rr_peers := map_option (map (\<lambda>p. p\<lparr>conns := conns p - 1\<rparr>)) (rr_peers rr)\<rparr>)"

lemma demo_free_between: "rr_between d (demo_free cb st d)"
  by (cases d) (auto simp: rr_between_def demo_free_def stale_def peer_tried_def option.map_comp comp_def)

definition demo_get :: "peer_conn \<Rightarrow> rr_data option \<Rightarrow> int \<times> peer_conn \<times> rr_data option" where
  "demo_get pc d = (NGX_BUSY, pc, d)"

lemma demo_get_peer:
  "fst (upstream_get_peer demo_naming demo_get now (Some demo_balancer) (demo_method n) pc d) = fst (select_peer now n pc d)"
  "snd (snd (snd (upstream_get_peer demo_naming demo_get now (Some demo_balancer) (demo_method n) pc d))) =
     snd (snd (select_peer now n pc d))"
proof -
  obtain rc q' pc' d' where g: "upstream_get_peer demo_naming demo_get now (Some demo_balancer) (demo_method n) pc d =
    (rc, q', pc', d')" by (rule prod_cases4)
  from g have "select_peer now n pc d = (rc, pc', d')"
    by (cases rule: upstream_get_peer_guest) (simp_all add: demo_choice)
  with g show "fst (upstream_get_peer demo_naming demo_get now (Some demo_balancer) (demo_method n) pc d) = fst (select_peer now n pc d)"
    "snd (snd (snd (upstream_get_peer demo_naming demo_get now (Some demo_balancer) (demo_method n) pc d))) =
     snd (snd (select_peer now n pc d))" by simp_all
qed

lemma demo_given:
  assumes "attempts demo_naming demo_get demo_free demo_balancer demo_rr idxs d" "select_peer now n pc d = (NGX_OK, pc', d')"
  shows "attempts demo_naming demo_get demo_free demo_balancer demo_rr (n # idxs) d'"
  using attempts.given [OF assms(1) _ demo_choice, of now n pc _ pc'] demo_get_peer [of now n pc d] assms(2)
  by (cases "upstream_get_peer demo_naming demo_get now (Some demo_balancer) (demo_method n) pc d") (auto intro: attempts.given [OF assms(1) _ demo_choice])

theorem balancer_attempts_bounded_witness:
  "\<exists>d. attempts demo_naming demo_get demo_free demo_balancer demo_rr [1, 0] d \<and>
     fst (upstream_get_peer demo_naming demo_get 5 (Some demo_balancer) (demo_method 0) demo_pc d) \<noteq> NGX_OK"
proof -
  note A = attempts.start [of demo_naming demo_get demo_free demo_balancer demo_rr]
  obtain pc1 d1 where s1: "select_peer 5 0 demo_pc (Some demo_rr) = (NGX_OK, pc1, d1)" and d1: "snd (snd (select_peer 5 0 demo_pc (Some demo_rr))) = d1"
    by (simp add: select_peer_def demo_rr_def demo_pc_def Let_def)
  note A1 = attempts.free [OF demo_given [OF A s1], of 0]
  have "\<exists>pc2 d2. select_peer 5 1 demo_pc (upstream_free_peer demo_free (Some demo_balancer) 0 d1) = (NGX_OK, pc2, d2)"
    unfolding d1 [symmetric]
    by (simp add: select_peer_def demo_rr_def demo_pc_def Let_def upstream_free_peer_def demo_balancer_def demo_free_def
        numeral_2_eq_2)
  then obtain pc2 d2 where s2: "select_peer 5 1 demo_pc (upstream_free_peer demo_free (Some demo_balancer) 0 d1) = (NGX_OK, pc2, d2)"
    by blast
  note A2 = demo_given [OF A1 s2]
  have ps: "rr_peers demo_rr = Some (replicate 2 (the (rr_peers demo_rr) ! 0))" by (simp add: demo_rr_def)
  have between: "\<And>c d. rr_between d (snd (snd (demo_get c d)))" by (simp add: demo_get_def rr_between_refl)
  from balancer_attempts_bounded [OF A2 ps between demo_free_between, of "demo_method 0" 5 demo_pc] A2 demo_choice [of 0]
  show ?thesis by auto
qed

section \<open>Handshakes\<close>

lemma tls_run_conn:
  assumes "runtime_run wt pc x0 None = (rc, x, rs)" and "wasmtime_ok h wt"
    and x0: "x0 = tls_exec conf PHASE_SSL_CLIENT_HELLO rt fuel c" and "0 < fuel"
  shows "ssl_conn (exec_abi x) = Some c"
proof -
  have "null_safe (exec_abi x0)" using null_safe_init(2) by (simp add: x0 tls_exec_def)
  moreover have "fuel_in_sync wt x0 None" using assms(4) by (simp add: fuel_in_sync_def x0 tls_exec_def)
  ultimately have "abi_frame (exec_abi x0) (exec_abi x)"
    using runtime_run_post(1) [OF assms(1) _ _ _ assms(2)] by (simp add: resume_opt_ok_def run_frame_def)
  moreover have "\<not> abi_require (exec_abi x0) CAP_SSL_CERTIFICATE_SET"
    by (simp add: x0 tls_exec_def abi_require_def ssl_capabilities_def caps)
  ultimately show ?thesis by (auto simp: abi_frame_def x0 tls_exec_def)
qed

text \<open>C25: handshakes fail closed. With a guest configured, the server-name callback lets a handshake
  go on only if the guest has run to its end and has not rejected it, tells OpenSSL of every
  other outcome with the guest's alert or an internal error, and never changes the connection.
  The certificate callback succeeds in the same case only.\<close>

theorem handshake_fail_closed:
  assumes "wasmtime_ok h wt" and "0 < conf_uint (conf_fuel_limit wcf)"
    and "phase_set (ssl_client_hello_conf wcf) = Some True" and "phase_set (ssl_certificate_conf wcf) = Some True"
    and "sni hs = (SSL_TLSEXT_ERR_OK, hs)"
    and hello: "runtime_run wt pc (tls_exec (ssl_client_hello_conf wcf) PHASE_SSL_CLIENT_HELLO rt
       (conf_uint (conf_fuel_limit wcf)) (hs_conn hs)) None = (rc1, x1, rs1)"
    and cert: "runtime_run wt pc (tls_exec (ssl_certificate_conf wcf) PHASE_SSL_CERTIFICATE rt
       (conf_uint (conf_fuel_limit wcf)) (hs_conn hs)) None = (rc2, x2, rs2)"
  shows "(\<exists>hs'. ssl_servername wt pc sni (Some (rt, wcf)) hs =
       (if rc1 = NGX_OK \<and> \<not> ssl_handshake_rejected (exec_abi x1) then SSL_TLSEXT_ERR_OK else SSL_TLSEXT_ERR_ALERT_FATAL, hs') \<and>
       hs_conn hs' = hs_conn hs \<and>
       (hs_rejected hs' \<longleftrightarrow> hs_rejected hs \<or> rc1 = NGX_OK \<and> ssl_handshake_rejected (exec_abi x1)) \<and>
       hs_alert hs' = (if rc1 \<noteq> NGX_OK then SSL_AD_INTERNAL_ERROR
         else if ssl_handshake_rejected (exec_abi x1) then ssl_handshake_alert (exec_abi x1) else hs_alert hs)) \<and>
    (\<exists>hs'. ssl_certificate wt pc (Some (rt, wcf)) hs =
       (if rc2 = NGX_OK \<and> \<not> ssl_handshake_rejected (exec_abi x2) then 1 else 0, hs') \<and>
       (hs_rejected hs' \<longleftrightarrow> hs_rejected hs \<or> rc2 = NGX_OK \<and> ssl_handshake_rejected (exec_abi x2)))"
proof -
  have h: "ssl_conn (exec_abi x1) = Some (hs_conn hs)"
    by (rule tls_run_conn [OF hello assms(1) refl assms(2)])
  show ?thesis using assms(3,4,5) hello cert h
    by (simp add: ssl_servername_def ssl_certificate_def SSL_TLSEXT_ERR_OK_def SSL_TLSEXT_ERR_ALERT_FATAL_def Let_def)
qed

definition demo_tls_conf :: "unit wasm_conf" where
  "demo_tls_conf = (the (create_conf True))\<lparr>ssl_client_hello_conf := demo_conf, ssl_certificate_conf := demo_conf,
     conf_fuel_limit := Some 1\<rparr>"

definition demo_handshake :: "nat handshake" where
  "demo_handshake = \<lparr>hs_conn = 5, hs_rejected = False, hs_alert = 0\<rparr>"

theorem handshake_fail_closed_witness:
  "\<exists>hs'. ssl_servername demo_wasmtime True (\<lambda>hs. (SSL_TLSEXT_ERR_OK, hs)) (Some (True, demo_tls_conf)) demo_handshake =
     (SSL_TLSEXT_ERR_OK, hs') \<and> \<not> hs_rejected hs'"
proof -
  let ?x = "\<lambda>ph. tls_exec demo_conf ph True 1 5"
  have ok: "0 < conf_uint (conf_fuel_limit demo_tls_conf)" "phase_set (ssl_client_hello_conf demo_tls_conf) = Some True"
    "phase_set (ssl_certificate_conf demo_tls_conf) = Some True"
    by (simp_all add: demo_tls_conf_def conf_uint_def demo_conf_def)
  obtain x1 rs1 where r1: "runtime_run demo_wasmtime True (tls_exec (ssl_client_hello_conf demo_tls_conf)
      PHASE_SSL_CLIENT_HELLO True (conf_uint (conf_fuel_limit demo_tls_conf)) (hs_conn demo_handshake)) None = (NGX_OK, x1, rs1)"
      and nr: "\<not> ssl_handshake_rejected (exec_abi x1)"
    by (simp add: run_eval tls_exec_def demo_tls_conf_def demo_handshake_def conf_uint_def demo_conf_def
        init_ssl_exec_ctx_def abi_init_def)
  obtain rc2 x2 rs2 where r2: "runtime_run demo_wasmtime True (tls_exec (ssl_certificate_conf demo_tls_conf)
      PHASE_SSL_CERTIFICATE True (conf_uint (conf_fuel_limit demo_tls_conf)) (hs_conn demo_handshake)) None = (rc2, x2, rs2)"
    using prod_cases3 by blast
  show ?thesis
    using handshake_fail_closed [OF demo_wasmtime_ok ok _ r1 r2, of "\<lambda>hs. (SSL_TLSEXT_ERR_OK, hs)"] nr
    by (auto simp: demo_handshake_def)
qed

end
