(* ===== verification/BodyFilter.thy ===== *)
theory BodyFilter
  imports Module
begin

text \<open>
  The body filter, \<^verbatim>\<open>src/ngx_http_wasm_body_filter.c\<close>: the guest sees each buffer of the response as
  a chunk and may replace it. Buffers in a file are read a chunk at a time by a thread, and the
  rest of the chain waits in a queue. An operation that would write through a NULL pointer has
  the result \<open>None\<close>.
\<close>

section \<open>Environment\<close>

text \<open>
  nginx as the filter uses it: the next body filter; the allocation of buffers and links from
  the request's pool; whether nginx has threads, and its thread pools; the two calls of
  \<^verbatim>\<open>ngx_thread_read\<close>, the one that starts a read, which calls the handler it is given, and the
  one that fetches the count and the bytes read from a file, given the size and the offset.
\<close>

record ('p, 's, 'c, 'm, 'w) filter_env =
  next_body_filter :: "'p http_request \<Rightarrow> body_buf list \<Rightarrow> int"
  ngx_calloc_buf :: "'p \<Rightarrow> 'p option"
  ngx_alloc_chain_link :: "'p \<Rightarrow> 'p option"
  ngx_threads :: bool
  core_thread_pool :: bool
  thread_pool_value :: "'p http_request \<Rightarrow> bytes option"
  ngx_thread_pool_get :: "bytes \<Rightarrow> bool"
  ngx_thread_task_post :: bool
  ngx_thread_read :: "(('p, 's, 'c, 'm, 'w) rq \<Rightarrow> int \<times> ('p, 's, 'c, 'm, 'w) rq)
     \<Rightarrow> ('p, 's, 'c, 'm, 'w) rq \<Rightarrow> int \<times> ('p, 's, 'c, 'm, 'w) rq"
  ngx_thread_result :: "nat \<Rightarrow> nat \<Rightarrow> int \<Rightarrow> int \<times> bytes"

definition set_pool :: "'p \<Rightarrow> ('p, 's, 'c, 'm, 'w) rq \<Rightarrow> ('p, 's, 'c, 'm, 'w) rq" where
  "set_pool p q = q\<lparr>rq_request := (rq_request q)\<lparr>pool := p\<rparr>\<rparr>"

definition filter_of :: "('p, 's, 'c, 'm, 'w) rq \<Rightarrow> filter_state" where
  "filter_of q = ctx_filter (the (rq_ctx q))"

definition on_filter ::
  "(filter_state \<Rightarrow> filter_state) \<Rightarrow> ('p, 's, 'c, 'm, 'w) rq \<Rightarrow> ('p, 's, 'c, 'm, 'w) rq" where
  "on_filter f q = q\<lparr>rq_ctx := map_option (\<lambda>ctx. ctx\<lparr>ctx_filter := f (ctx_filter ctx)\<rparr>) (rq_ctx q)\<rparr>"

section \<open>Buffers\<close>

text \<open>Links are added at the end of the chain that \<open>out\<close> and its tail are.\<close>

definition body_filter_append ::
  "('p, 's, 'c, 'm, 'w) filter_env \<Rightarrow> body_buf \<Rightarrow> body_buf list \<Rightarrow> ('p, 's, 'c, 'm, 'w) rq
     \<Rightarrow> int \<times> body_buf list \<times> ('p, 's, 'c, 'm, 'w) rq" where
  "body_filter_append b buf out q =
     (case ngx_alloc_chain_link b (pool (rq_request q)) of
        None \<Rightarrow> (NGX_ERROR, out, q)
      | Some p \<Rightarrow> (NGX_OK, out @ [buf], set_pool p q))"

definition body_filter_enqueue ::
  "('p, 's, 'c, 'm, 'w) filter_env \<Rightarrow> body_buf \<Rightarrow> ('p, 's, 'c, 'm, 'w) rq
     \<Rightarrow> (int \<times> ('p, 's, 'c, 'm, 'w) rq) option" where
  "body_filter_enqueue b buf q =
     (case ngx_alloc_chain_link b (pool (rq_request q)) of
        None \<Rightarrow> Some (NGX_ERROR, q)
      | Some p \<Rightarrow>
          if \<not> body_filter_pending_last (filter_of q) then None
          else Some (NGX_OK, on_filter (\<lambda>s. s\<lparr>body_filter_pending := body_filter_pending s @ [buf]\<rparr>)
                               (set_pool p q)))"

definition body_filter_create_buf ::
  "('p, 's, 'c, 'm, 'w) filter_env \<Rightarrow> bytes \<Rightarrow> body_buf \<Rightarrow> ('p, 's, 'c, 'm, 'w) rq
     \<Rightarrow> body_buf option \<times> ('p, 's, 'c, 'm, 'w) rq" where
  "body_filter_create_buf b chunk src q =
     (case ngx_calloc_buf b (pool (rq_request q)) of
        None \<Rightarrow> (None, q)
      | Some p \<Rightarrow> (Some (src\<lparr>buf_memory := Some chunk, buf_file := None\<rparr>), set_pool p q))"

definition body_filter_copy_buf ::
  "('p, 's, 'c, 'm, 'w) module_env \<Rightarrow> ('p, 's, 'c, 'm, 'w) filter_env \<Rightarrow> body_buf \<Rightarrow> ('p, 's, 'c, 'm, 'w) rq
     \<Rightarrow> body_buf option \<times> ('p, 's, 'c, 'm, 'w) rq" where
  "body_filter_copy_buf e b src q =
     (case ngx_calloc_buf b (pool (rq_request q)) of
        None \<Rightarrow> (None, q)
      | Some p \<Rightarrow>
          (let q = set_pool p q
           in case buf_memory src of
                None \<Rightarrow> (Some src, q)
              | Some d \<Rightarrow>
                  if d = [] then (Some (src\<lparr>buf_file := None\<rparr>), q)
                  else (case ngx_palloc (me_http e) (pool (rq_request q)) (length d) of
                          None \<Rightarrow> (None, q)
                        | Some p \<Rightarrow> (Some (src\<lparr>buf_file := None\<rparr>), set_pool p q))))"

section \<open>The queue\<close>

fun body_filter_queue_tail ::
  "('p, 's, 'c, 'm, 'w) module_env \<Rightarrow> ('p, 's, 'c, 'm, 'w) filter_env \<Rightarrow> body_buf list \<Rightarrow> ('p, 's, 'c, 'm, 'w) rq
     \<Rightarrow> (int \<times> ('p, 's, 'c, 'm, 'w) rq) option" where
  "body_filter_queue_tail e b [] q = Some (NGX_OK, q)"
| "body_filter_queue_tail e b (buf # cl) q =
     (case body_filter_copy_buf e b buf q of
        (None, q) \<Rightarrow> Some (NGX_ERROR, q)
      | (Some d, q) \<Rightarrow>
          (case body_filter_enqueue b d q of
             None \<Rightarrow> None
           | Some (rc, q) \<Rightarrow> if rc \<noteq> NGX_OK then Some (NGX_ERROR, q) else body_filter_queue_tail e b cl q))"

text \<open>The file buffer goes on at \<open>file_pos\<close>; 0 means that there is none to go on with.\<close>

definition body_filter_queue_remaining ::
  "('p, 's, 'c, 'm, 'w) module_env \<Rightarrow> ('p, 's, 'c, 'm, 'w) filter_env \<Rightarrow> body_buf list \<Rightarrow> int
     \<Rightarrow> ('p, 's, 'c, 'm, 'w) rq \<Rightarrow> (int \<times> ('p, 's, 'c, 'm, 'w) rq) option" where
  "body_filter_queue_remaining e b cl file_pos q =
     (case cl of
        [] \<Rightarrow> Some (NGX_OK, q)
      | buf # rest \<Rightarrow>
          if file_pos \<noteq> 0 \<and> buf_file buf \<noteq> None
          then (case body_filter_copy_buf e b buf q of
                  (None, q) \<Rightarrow> Some (NGX_ERROR, q)
                | (Some d, q) \<Rightarrow>
                    (let d = d\<lparr>buf_file := map_option (\<lambda>(f, p, l). (f, file_pos, if l < file_pos then file_pos else l))
                               (buf_file d)\<rparr>
                     in case body_filter_enqueue b d q of
                          None \<Rightarrow> None
                        | Some (rc, q) \<Rightarrow>
                            if rc \<noteq> NGX_OK then Some (NGX_ERROR, q) else body_filter_queue_tail e b rest q))
          else body_filter_queue_tail e b cl q)"

section \<open>Running the guest on a chunk\<close>

definition body_filter_get_or_init_exec ::
  "('p, 's, 'c, 'm, 'w) module_env \<Rightarrow> addr \<times> 'm wasm_conf \<Rightarrow> ('p, 's, 'c, 'm, 'w) rq
     \<Rightarrow> ('p, 's, 'c, 'm, 'w) wasm_ctx \<Rightarrow> ('p, 's, 'c, 'm, 'w) slot" where
  "body_filter_get_or_init_exec e wcf q ctx =
     (case body_filter_exec ctx of
        Some sl \<Rightarrow> sl
      | None \<Rightarrow> new_slot e q (ctx_subrequest ctx) wcf PHASE_BODY_FILTER (conf_uint (conf_timeslice_fuel (snd wcf))))"

text \<open>The second result is the guest's replacement, if it has set one.\<close>

definition body_filter_run_chunk ::
  "('p, 's, 'c, 'm, 'w) module_env \<Rightarrow> ('p, 's, 'c, 'm, 'w) filter_env \<Rightarrow> addr \<times> 'm wasm_conf \<Rightarrow> body_buf
     \<Rightarrow> bytes \<Rightarrow> bool \<Rightarrow> ('p, 's, 'c, 'm, 'w) rq \<Rightarrow> int \<times> body_buf option \<times> ('p, 's, 'c, 'm, 'w) rq" where
  "body_filter_run_chunk e b wcf buf d eof q =
     (let ctx = the (rq_ctx q);
          sl = body_filter_get_or_init_exec e wcf q ctx
      in case abi_resp_set_body_chunk_input d eof (exec_abi (slot_exec sl)) of
           (rc, a) \<Rightarrow>
             (let sl = sl\<lparr>slot_exec := (slot_exec sl)\<lparr>exec_abi := a\<rparr>\<rparr>
              in if rc \<noteq> NGX_HTTP_WASM_OK
                 then (NGX_ERROR, None, q\<lparr>rq_ctx := Some (ctx\<lparr>body_filter_exec := Some sl\<rparr>)\<rparr>)
                 else (case run_slot e q ctx sl of
                         (rc, sl, ctx, q) \<Rightarrow>
                           (let q = q\<lparr>rq_ctx := Some (ctx\<lparr>body_filter_exec := Some sl\<rparr>)\<rparr>;
                                a = exec_abi (slot_exec sl)
                            in if rc \<noteq> NGX_OK then (NGX_ERROR, None, q)
                               else if resp_body_chunk_output_set a
                               then (case body_filter_create_buf b (resp_body_chunk_output a) buf q of
                                       (None, q) \<Rightarrow> (NGX_ERROR, None, q)
                                     | (Some r, q) \<Rightarrow> (NGX_OK, Some r, q))
                               else (NGX_OK, None, q)))))"

section \<open>Reading a file\<close>

definition body_filter_thread_handler ::
  "('p, 's, 'c, 'm, 'w) filter_env \<Rightarrow> ('p, 's, 'c, 'm, 'w) rq \<Rightarrow> int \<times> ('p, 's, 'c, 'm, 'w) rq" where
  "body_filter_thread_handler b q =
     (if \<not> core_thread_pool b \<and>
         (case thread_pool_value b (rq_request q) of None \<Rightarrow> True | Some name \<Rightarrow> \<not> ngx_thread_pool_get b name)
      then (NGX_ERROR, q)
      else if \<not> ngx_thread_task_post b then (NGX_ERROR, q)
      else (NGX_OK, q\<lparr>rq_blocked := rq_blocked q + 1, rq_aio := True\<rparr>))"

text \<open>\<open>cl\<close> is the chain from the file buffer on.\<close>

definition body_filter_schedule_file_chunk ::
  "('p, 's, 'c, 'm, 'w) module_env \<Rightarrow> ('p, 's, 'c, 'm, 'w) filter_env \<Rightarrow> 'm wasm_conf \<Rightarrow> body_buf list
     \<Rightarrow> ('p, 's, 'c, 'm, 'w) rq \<Rightarrow> (int \<times> ('p, 's, 'c, 'm, 'w) rq) option" where
  "body_filter_schedule_file_chunk e b wcf cl q =
     (let buf = hd cl
      in case the (buf_file buf) of
           (file, file_pos, file_last) \<Rightarrow>
             (let available = file_last - file_pos
              in if available \<le> 0 then body_filter_queue_remaining e b (tl cl) 0 q
                 else (let size = (if nat available > conf_size (body_filter_file_chunk_size wcf)
                                   then conf_size (body_filter_file_chunk_size wcf) else nat available);
                           q = on_filter (\<lambda>s. s\<lparr>body_filter_file := file, body_filter_read_offset := file_pos,
                                 body_filter_read_size := size\<rparr>) q
                       in case ngx_palloc (me_http e) (pool (rq_request q)) size of
                            None \<Rightarrow> Some (NGX_ERROR, q)
                          | Some p \<Rightarrow>
                              (let final = (int size = available);
                                   q = on_filter (\<lambda>s. s\<lparr>chunk_flush := final \<and> buf_flush buf,
                                         chunk_sync := final \<and> buf_sync buf,
                                         chunk_last_buf := final \<and> buf_last_buf buf,
                                         chunk_last_in_chain := final \<and> buf_last_in_chain buf\<rparr>) (set_pool p q)
                               in case body_filter_queue_remaining e b cl (file_pos + int size) q of
                                    None \<Rightarrow> None
                                  | Some (rc, q) \<Rightarrow>
                                      if rc \<noteq> NGX_OK then Some (NGX_ERROR, q)
                                      else (case ngx_thread_read b (body_filter_thread_handler b) q of
                                              (rc, q) \<Rightarrow>
                                                if rc \<noteq> NGX_AGAIN then Some (NGX_ERROR, q)
                                                else Some (NGX_OK, on_filter (\<lambda>s. s\<lparr>body_filter_waiting := True\<rparr>) q))))))"

definition body_filter_complete_file_chunk ::
  "('p, 's, 'c, 'm, 'w) module_env \<Rightarrow> ('p, 's, 'c, 'm, 'w) filter_env \<Rightarrow> addr \<times> 'm wasm_conf
     \<Rightarrow> ('p, 's, 'c, 'm, 'w) rq \<Rightarrow> int \<times> body_buf list \<times> ('p, 's, 'c, 'm, 'w) rq" where
  "body_filter_complete_file_chunk e b wcf q =
     (let s = filter_of q
      in case ngx_thread_result b (body_filter_file s) (body_filter_read_size s) (body_filter_read_offset s) of
           (n, d) \<Rightarrow>
             if n = NGX_ERROR \<or> n \<noteq> int (body_filter_read_size s) then (NGX_ERROR, [], q)
             else (let src = \<lparr>buf_memory = None, buf_file = None, buf_flush = chunk_flush s, buf_sync = chunk_sync s,
                         buf_last_buf = chunk_last_buf s, buf_last_in_chain = chunk_last_in_chain s\<rparr>
                   in case body_filter_run_chunk e b wcf src d (buf_last_buf src \<or> buf_last_in_chain src) q of
                        (rc, replacement, q) \<Rightarrow>
                          if rc \<noteq> NGX_OK then (NGX_ERROR, [], q)
                          else (case replacement of
                                  Some r \<Rightarrow> body_filter_append b r [] q
                                | None \<Rightarrow>
                                    (case body_filter_create_buf b d src q of
                                       (None, q) \<Rightarrow> (NGX_ERROR, [], q)
                                     | (Some r, q) \<Rightarrow> body_filter_append b r [] q))))"

section \<open>Filtering a chain\<close>

definition buf_eof :: "body_buf \<Rightarrow> bool" where
  "buf_eof buf \<longleftrightarrow> buf_last_buf buf \<or> buf_last_in_chain buf"

text \<open>\<^verbatim>\<open>ngx_buf_special\<close>: flags only, neither in memory nor in a file.\<close>

definition ngx_buf_special :: "body_buf \<Rightarrow> bool" where
  "ngx_buf_special buf \<longleftrightarrow>
     (buf_flush buf \<or> buf_last_buf buf \<or> buf_sync buf) \<and> buf_memory buf = None \<and> buf_file buf = None"

definition call_next ::
  "('p, 's, 'c, 'm, 'w) filter_env \<Rightarrow> body_buf list \<Rightarrow> ('p, 's, 'c, 'm, 'w) rq \<Rightarrow> int \<times> ('p, 's, 'c, 'm, 'w) rq" where
  "call_next b out q = (next_body_filter b (rq_request q) out, q\<lparr>rq_calls := rq_calls q @ [NextBody out]\<rparr>)"

text \<open>The end of the loop: what has been collected goes to the next filter.\<close>

definition body_filter_pass ::
  "('p, 's, 'c, 'm, 'w) filter_env \<Rightarrow> body_buf list \<Rightarrow> ('p, 's, 'c, 'm, 'w) rq \<Rightarrow> int \<times> ('p, 's, 'c, 'm, 'w) rq" where
  "body_filter_pass b out q =
     (let busy = (\<lambda>q. body_filter_waiting (filter_of q) \<or> body_filter_pending (filter_of q) \<noteq> [])
      in if out = []
         then (NGX_OK, if busy q then q else q\<lparr>rq_buffered := False\<rparr>)
         else (case call_next b out q of
                 (rc, q) \<Rightarrow> if rc = NGX_ERROR then (NGX_ERROR, q) else (rc, q\<lparr>rq_buffered := busy q\<rparr>)))"

text \<open>
  A buffer that goes through the guest, or not (\<open>None\<close>), and then, itself or its replacement, to
  the end of the chain; \<open>k\<close> is the rest of the loop.
\<close>

definition body_filter_buf ::
  "('p, 's, 'c, 'm, 'w) module_env \<Rightarrow> ('p, 's, 'c, 'm, 'w) filter_env \<Rightarrow> addr \<times> 'm wasm_conf \<Rightarrow> body_buf
     \<Rightarrow> bytes option \<Rightarrow> body_buf list \<Rightarrow> ('p, 's, 'c, 'm, 'w) rq
     \<Rightarrow> int \<times> body_buf list \<times> ('p, 's, 'c, 'm, 'w) rq" where
  "body_filter_buf e b wcf buf d out q =
     (case d of
        None \<Rightarrow> body_filter_append b buf out q
      | Some d \<Rightarrow>
          (case body_filter_run_chunk e b wcf buf d (buf_eof buf) q of
             (rc, replacement, q) \<Rightarrow>
               if rc \<noteq> NGX_OK then (NGX_ERROR, out, q)
               else body_filter_append b (case replacement of None \<Rightarrow> buf | Some r \<Rightarrow> r) out q))"

fun body_filter_process ::
  "('p, 's, 'c, 'm, 'w) module_env \<Rightarrow> ('p, 's, 'c, 'm, 'w) filter_env \<Rightarrow> addr \<times> 'm wasm_conf \<Rightarrow> body_buf list
     \<Rightarrow> body_buf list \<Rightarrow> ('p, 's, 'c, 'm, 'w) rq \<Rightarrow> (int \<times> ('p, 's, 'c, 'm, 'w) rq) option" where
  "body_filter_process e b wcf [] out q = Some (body_filter_pass b out q)"
| "body_filter_process e b wcf (buf # cl) out q =
     (if buf_memory buf = None \<and> buf_file buf \<noteq> None \<and>
         conf_size (body_filter_file_chunk_size (snd wcf)) \<noteq> 0 \<and> ngx_threads b
      then (case (if out = [] then (NGX_OK, q) else call_next b out q) of
              (rc, q) \<Rightarrow>
                if rc = NGX_ERROR then Some (NGX_ERROR, q)
                else (case body_filter_schedule_file_chunk e b (snd wcf) (buf # cl) q of
                        None \<Rightarrow> None
                      | Some (rc, q) \<Rightarrow>
                          if rc \<noteq> NGX_OK then Some (NGX_ERROR, q)
                          else Some (NGX_AGAIN, q\<lparr>rq_buffered := True\<rparr>)))
      else (case body_filter_buf e b wcf buf
                   (case buf_memory buf of
                      Some d \<Rightarrow> if d \<noteq> [] \<or> buf_eof buf then Some d else None
                    | None \<Rightarrow> if ngx_buf_special buf \<and> buf_eof buf then Some [] else None) out q of
              (rc, out, q) \<Rightarrow>
                if rc \<noteq> NGX_OK then Some (NGX_ERROR, q) else body_filter_process e b wcf cl out q))"

section \<open>The handlers\<close>

text \<open>The result says whether there is a context.\<close>

definition body_filter_get_or_create_ctx ::
  "('p, 's, 'c, 'm, 'w) module_env \<Rightarrow> ('p, 's, 'c, 'm, 'w) rq \<Rightarrow> bool \<times> ('p, 's, 'c, 'm, 'w) rq" where
  "body_filter_get_or_create_ctx e q =
     (if rq_ctx q \<noteq> None then (True, q)
      else if \<not> me_ctx_alloc e then (False, q)
      else if \<not> me_cleanup_alloc e then (False, q\<lparr>rq_ctx := Some zero_ctx\<rparr>)
      else (True, q\<lparr>rq_ctx := Some (zero_ctx\<lparr>ctx_filter := zero_filter\<lparr>body_filter_pending_last := True\<rparr>\<rparr>)\<rparr>))"

definition body_filter_handler ::
  "('p, 's, 'c, 'm, 'w) module_env \<Rightarrow> ('p, 's, 'c, 'm, 'w) filter_env \<Rightarrow> body_buf list \<Rightarrow> ('p, 's, 'c, 'm, 'w) rq
     \<Rightarrow> (int \<times> ('p, 's, 'c, 'm, 'w) rq) option" where
  "body_filter_handler e b bufs q =
     (case rq_loc_conf q of
        None \<Rightarrow> Some (call_next b bufs q)
      | Some wcf \<Rightarrow>
          if bufs = [] \<or> \<not> on wcf PHASE_BODY_FILTER \<or> main_runtime e = None \<or> header_only (rq_request q)
          then Some (call_next b bufs q)
          else (case body_filter_get_or_create_ctx e q of
                  (ok, q) \<Rightarrow>
                    if \<not> ok then Some (NGX_ERROR, q)
                    else if body_filter_waiting (filter_of q)
                    then (case body_filter_queue_tail e b bufs q of
                            None \<Rightarrow> None
                          | Some (rc, q) \<Rightarrow>
                              if rc \<noteq> NGX_OK then Some (NGX_ERROR, q)
                              else Some (NGX_AGAIN, q\<lparr>rq_buffered := True\<rparr>))
                    else body_filter_process e b wcf bufs [] q))"

text \<open>The event of a thread that has read a chunk; timers are left out.\<close>

definition body_filter_thread_event_handler ::
  "('p, 's, 'c, 'm, 'w) module_env \<Rightarrow> ('p, 's, 'c, 'm, 'w) filter_env \<Rightarrow> bool \<Rightarrow> ('p, 's, 'c, 'm, 'w) rq
     \<Rightarrow> ('p, 's, 'c, 'm, 'w) rq option" where
  "body_filter_thread_event_handler e b timedout q =
     (if timedout then Some q
      else (let q = q\<lparr>rq_blocked := rq_blocked q - 1, rq_aio := False\<rparr>
            in if rq_done q then Some (q\<lparr>rq_calls := rq_calls q @ [ConnectionWrite]\<rparr>)
               else (case (rq_loc_conf q, rq_ctx q) of
                       (Some wcf, Some ctx) \<Rightarrow>
                         (case body_filter_complete_file_chunk e b wcf q of
                            (rc, out, q) \<Rightarrow>
                              if rc \<noteq> NGX_OK then Some (finalize NGX_ERROR q)
                              else (let bufs = body_filter_pending (filter_of q);
                                        q = on_filter (\<lambda>s. s\<lparr>body_filter_waiting := False, body_filter_pending := [],
                                              body_filter_pending_last := True\<rparr>) q
                                    in case body_filter_process e b wcf bufs out q of
                                         None \<Rightarrow> None
                                       | Some (rc, q) \<Rightarrow>
                                           if rc = NGX_ERROR then Some (finalize NGX_ERROR q)
                                           else Some (q\<lparr>rq_buffered := body_filter_waiting (filter_of q) \<or>
                                                          body_filter_pending (filter_of q) \<noteq> [],
                                                        rq_calls := rq_calls q @ [WriteEvent, RunPosted]\<rparr>)))
                     | _ \<Rightarrow> Some (finalize NGX_ERROR q))))"

end
