(* ===== verification/BodyFilter_Correct.thy ===== *)
theory BodyFilter_Correct
  imports BodyFilter Module_Correct
begin

text \<open>
  Lemmas on the body filter: what each step leaves alone, its effect when nginx can allocate and
  has threads, and the steps of reading a file buffer.
\<close>

section \<open>What the steps leave alone\<close>

text \<open>The body filter's execution, if there is a context.\<close>

definition filter_slot ::
  "('p, 's, 'c, 'm, 'w) rq \<Rightarrow> ('p, 's, 'c, 'm, 'w) slot option option" where
  "filter_slot q = map_option body_filter_exec (rq_ctx q)"

definition linked :: "('p, 's, 'c, 'm, 'w) rq \<Rightarrow> bool" where
  "linked q \<longleftrightarrow> rq_ctx q \<noteq> None \<and> body_filter_pending_last (filter_of q)"

text \<open>\<open>q'\<close> is \<open>q\<close> but for the request, the zones and the executions.\<close>

definition same_io :: "('p, 's, 'c, 'm, 'w) rq \<Rightarrow> ('p, 's, 'c, 'm, 'w) rq \<Rightarrow> bool" where
  "same_io q q' \<longleftrightarrow> filter_of q' = filter_of q \<and> (rq_ctx q' = None \<longleftrightarrow> rq_ctx q = None) \<and>
     rq_calls q' = rq_calls q \<and> rq_buffered q' = rq_buffered q \<and> rq_aio q' = rq_aio q \<and>
     rq_blocked q' = rq_blocked q \<and> rq_done q' = rq_done q \<and> rq_loc_conf q' = rq_loc_conf q"

lemma same_io_refl [simp]: "same_io q q"
  by (simp add: same_io_def)

lemma same_io_trans: "same_io q q1 \<Longrightarrow> same_io q1 q2 \<Longrightarrow> same_io q q2"
  by (simp add: same_io_def)

lemma same_io_linked: "same_io q q' \<Longrightarrow> linked q' = linked q"
  by (simp add: same_io_def linked_def)

lemma set_pool_sel [simp]:
  "rq_ctx (set_pool p q) = rq_ctx q" "rq_calls (set_pool p q) = rq_calls q" "rq_buffered (set_pool p q) = rq_buffered q"
  "rq_aio (set_pool p q) = rq_aio q" "rq_blocked (set_pool p q) = rq_blocked q" "rq_done (set_pool p q) = rq_done q"
  "rq_loc_conf (set_pool p q) = rq_loc_conf q" "filter_of (set_pool p q) = filter_of q"
  "filter_slot (set_pool p q) = filter_slot q" "linked (set_pool p q) = linked q"
  by (simp_all add: set_pool_def filter_of_def filter_slot_def linked_def)

lemma same_io_set_pool [simp]: "same_io q (set_pool p q')  = same_io q q'"
  by (simp add: same_io_def)

lemma on_filter_sel [simp]:
  "rq_ctx q \<noteq> None \<Longrightarrow> filter_of (on_filter f q) = f (filter_of q)"
  "(rq_ctx (on_filter f q) = None) = (rq_ctx q = None)"
  "(\<exists>y. rq_ctx (on_filter f q) = Some y) = (\<exists>y. rq_ctx q = Some y)" "filter_slot (on_filter f q) = filter_slot q"
  "rq_calls (on_filter f q) = rq_calls q" "rq_buffered (on_filter f q) = rq_buffered q"
  "rq_aio (on_filter f q) = rq_aio q" "rq_blocked (on_filter f q) = rq_blocked q"
  "rq_done (on_filter f q) = rq_done q" "rq_loc_conf (on_filter f q) = rq_loc_conf q"
  "rq_request (on_filter f q) = rq_request q"
  by (cases "rq_ctx q"; simp add: on_filter_def filter_of_def filter_slot_def)+

lemma filter_update_sel [simp]:
  "filter_of (q\<lparr>rq_calls := cs\<rparr>) = filter_of q" "filter_of (q\<lparr>rq_buffered := v\<rparr>) = filter_of q"
  "filter_of (q\<lparr>rq_blocked := n, rq_aio := v\<rparr>) = filter_of q"
  "filter_slot (q\<lparr>rq_calls := cs\<rparr>) = filter_slot q" "filter_slot (q\<lparr>rq_buffered := v\<rparr>) = filter_slot q"
  "filter_slot (q\<lparr>rq_blocked := n, rq_aio := v\<rparr>) = filter_slot q"
  "linked (q\<lparr>rq_calls := cs\<rparr>) = linked q" "linked (q\<lparr>rq_buffered := v\<rparr>) = linked q"
  "linked (q\<lparr>rq_blocked := n, rq_aio := v\<rparr>) = linked q"
  by (simp_all add: filter_of_def filter_slot_def linked_def)

lemma create_buf_same_io: "body_filter_create_buf b d src q = (r, q') \<Longrightarrow> same_io q q'"
  by (auto simp: body_filter_create_buf_def split: option.splits)

lemma copy_buf_same_io: "body_filter_copy_buf e b src q = (r, q') \<Longrightarrow> same_io q q'"
  by (auto simp: body_filter_copy_buf_def Let_def split: option.splits if_splits)

lemma append_same_io: "body_filter_append b buf out q = (rc, out', q') \<Longrightarrow> same_io q q'"
  by (auto simp: body_filter_append_def split: option.splits)

lemma run_chunk_same_io:
  assumes "body_filter_run_chunk e b wcf buf d eof q = (rc, r, q')" and "rq_ctx q \<noteq> None"
  shows "same_io q q'"
proof -
  obtain ctx where ctx: "rq_ctx q = Some ctx" using assms(2) by auto
  let ?sl = "body_filter_get_or_init_exec e wcf q ctx"
  obtain rc0 a where i: "abi_resp_set_body_chunk_input d eof (exec_abi (slot_exec ?sl)) = (rc0, a)" by (cases "abi_resp_set_body_chunk_input d eof (exec_abi (slot_exec ?sl))")
  obtain rc1 sl1 ctx1 q1 where run: "run_slot e q ctx (?sl\<lparr>slot_exec := (slot_exec ?sl)\<lparr>exec_abi := a\<rparr>\<rparr>) = (rc1, sl1, ctx1, q1)"
    by (metis prod_cases4)
  from run_slot_frame(1,2) [OF run] obtain st r shm mz
    where fr: "ctx1 = ctx\<lparr>ctx_subrequest := st\<rparr>" "q1 = q\<lparr>rq_request := r, rq_shm := shm, rq_metrics := mz\<rparr>" by blast
  have "same_io q (q1\<lparr>rq_ctx := Some (ctx1\<lparr>body_filter_exec := Some sl1\<rparr>)\<rparr>)"
    "same_io q (q\<lparr>rq_ctx := Some (ctx\<lparr>body_filter_exec := Some s\<rparr>)\<rparr>)" for s
    by (simp_all add: same_io_def filter_of_def ctx fr)
  then show ?thesis
    using assms(1) by (auto simp: body_filter_run_chunk_def ctx i run Let_def
        dest: create_buf_same_io intro: same_io_trans split: if_splits prod.splits option.splits)
qed

section \<open>The link\<close>

lemma linked_on_filter [simp]: "linked (on_filter f q) \<longleftrightarrow> rq_ctx q \<noteq> None \<and> body_filter_pending_last (f (filter_of q))"
  by (cases "rq_ctx q") (simp_all add: linked_def)

lemma enqueue_linked:
  assumes "linked q"
  obtains rc q' where "body_filter_enqueue b buf q = Some (rc, q')" "linked q'"
  using assms by (cases "ngx_alloc_chain_link b (pool (rq_request q))") (auto simp: body_filter_enqueue_def linked_def)

lemma queue_tail_linked:
  "linked q \<Longrightarrow> \<exists>rc q'. body_filter_queue_tail e b cl q = Some (rc, q') \<and> linked q'"
proof (induction cl arbitrary: q)
  case (Cons buf cl)
  obtain d q1 where c: "body_filter_copy_buf e b buf q = (d, q1)" by fastforce
  with Cons.prems have l: "linked q1" using copy_buf_same_io same_io_linked by blast
  show ?case
  proof (cases d)
    case None
    with c l show ?thesis by simp
  next
    case (Some d)
    obtain rc q2 where "body_filter_enqueue b d q1 = Some (rc, q2)" "linked q2" using enqueue_linked [OF l] by blast
    with c Some Cons.IH show ?thesis by simp
  qed
qed simp

lemma queue_remaining_linked:
  assumes "linked q"
  shows "\<exists>rc q'. body_filter_queue_remaining e b cl pos q = Some (rc, q') \<and> linked q'"
proof (cases cl)
  case (Cons buf rest)
  obtain d q1 where c: "body_filter_copy_buf e b buf q = (d, q1)" by fastforce
  with assms have l: "linked q1" using copy_buf_same_io same_io_linked by blast
  show ?thesis
  proof (cases "pos \<noteq> 0 \<and> buf_file buf \<noteq> None")
    case True
    show ?thesis
    proof (cases d)
      case None
      with c l True Cons show ?thesis by (simp add: body_filter_queue_remaining_def)
    next
      case (Some d')
      let ?d = "d'\<lparr>buf_file := map_option (\<lambda>(f, p, l). (f, pos, if l < pos then pos else l)) (buf_file d')\<rparr>"
      obtain rc q2 where "body_filter_enqueue b ?d q1 = Some (rc, q2)" "linked q2" using enqueue_linked [OF l] by blast
      with queue_tail_linked [of q2 e b rest] c Some True Cons show ?thesis
        by (auto simp: body_filter_queue_remaining_def Let_def)
    qed
  next
    case False
    with queue_tail_linked [OF assms, of e b cl] Cons show ?thesis
      by (auto simp: body_filter_queue_remaining_def simp del: body_filter_queue_tail.simps)
  qed
qed (use assms in \<open>simp add: body_filter_queue_remaining_def\<close>)

section \<open>The main loop\<close>

text \<open>
  Documented behaviour of \<^verbatim>\<open>ngx_thread_read\<close>: the first call fails, or calls the handler it is given and
  returns \<^verbatim>\<open>NGX_AGAIN\<close> if that has succeeded.
\<close>

definition thread_read_ok :: "('p, 's, 'c, 'm, 'w) filter_env \<Rightarrow> bool" where
  "thread_read_ok b \<longleftrightarrow> (\<forall>h q. ngx_thread_read b h q = (NGX_ERROR, q) \<or>
     ngx_thread_read b h q = (if fst (h q) = NGX_OK then NGX_AGAIN else NGX_ERROR, snd (h q)))"

lemma thread_handler_linked [simp]: "linked (snd (body_filter_thread_handler b q)) = linked q"
  by (simp add: body_filter_thread_handler_def)

lemma schedule_linked:
  assumes "linked q" and "thread_read_ok b"
  shows "\<exists>rc q'. body_filter_schedule_file_chunk e b wcf cl q = Some (rc, q') \<and> linked q'"
proof -
  obtain f p l where fpl: "the (buf_file (hd cl)) = (f, p, l)" by (metis prod_cases3)
  define n where "n = (if nat (l - p) > conf_size (body_filter_file_chunk_size wcf)
      then conf_size (body_filter_file_chunk_size wcf) else nat (l - p))"
  have read: "linked (snd (ngx_thread_read b (body_filter_thread_handler b) q2))" if "linked q2" for q2
    using assms(2) that unfolding thread_read_ok_def by (metis snd_conv thread_handler_linked)
  let ?q = "on_filter (\<lambda>s. s\<lparr>body_filter_file := f, body_filter_read_offset := p, body_filter_read_size := n\<rparr>) q"
  show ?thesis
  proof (cases "l - p \<le> 0")
    case True
    with queue_remaining_linked [OF assms(1)] show ?thesis by (simp add: body_filter_schedule_file_chunk_def fpl)
  next
    case False
    have lq: "linked ?q" using assms(1) by (simp add: linked_def)
    show ?thesis
    proof (cases "ngx_palloc (me_http e) (pool (rq_request ?q)) n")
      case None
      with False lq show ?thesis by (simp add: body_filter_schedule_file_chunk_def fpl Let_def n_def [symmetric])
    next
      case (Some p')
      let ?q1 = "on_filter (\<lambda>s. s\<lparr>chunk_flush := int n = l - p \<and> buf_flush (hd cl),
          chunk_sync := int n = l - p \<and> buf_sync (hd cl), chunk_last_buf := int n = l - p \<and> buf_last_buf (hd cl),
          chunk_last_in_chain := int n = l - p \<and> buf_last_in_chain (hd cl)\<rparr>) (set_pool p' ?q)"
      have "linked ?q1" using assms(1) by (simp add: linked_def)
      from queue_remaining_linked [OF this] obtain rc q2
        where "body_filter_queue_remaining e b cl (p + int n) ?q1 = Some (rc, q2)" "linked q2" by blast
      with False Some read [OF \<open>linked q2\<close>] show ?thesis
        by (auto simp: body_filter_schedule_file_chunk_def fpl Let_def n_def [symmetric] linked_def split: prod.splits)
    qed
  qed
qed

lemma pass_linked: "body_filter_pass b out q = (rc, q') \<Longrightarrow> linked q' = linked q"
  by (auto simp: body_filter_pass_def call_next_def Let_def split: if_splits)

lemma buf_same_io:
  assumes "body_filter_buf e b wcf buf d out q = (rc, out', q')" and "rq_ctx q \<noteq> None"
  shows "same_io q q'"
  using assms by (auto simp: body_filter_buf_def dest: append_same_io run_chunk_same_io intro: same_io_trans
      split: option.splits prod.splits if_splits)

lemma process_linked:
  assumes "linked q" and "thread_read_ok b"
  shows "\<exists>rc q'. body_filter_process e b wcf bufs out q = Some (rc, q') \<and> linked q'"
  using assms(1)
proof (induction bufs arbitrary: out q)
  case Nil
  then show ?case by (cases "body_filter_pass b out q") (simp add: pass_linked)
next
  case (Cons buf cl)
  show ?case
  proof (cases "buf_memory buf = None \<and> buf_file buf \<noteq> None \<and>
         conf_size (body_filter_file_chunk_size (snd wcf)) \<noteq> 0 \<and> ngx_threads b")
    case True
    obtain rc1 q1 where n: "(if out = [] then (NGX_OK, q) else call_next b out q) = (rc1, q1)" by fastforce
    then have l: "linked q1" using Cons.prems by (auto simp: call_next_def split: if_splits)
    obtain rc2 q2 where "body_filter_schedule_file_chunk e b (snd wcf) (buf # cl) q1 = Some (rc2, q2)" "linked q2"
      using schedule_linked [OF l assms(2)] by blast
    with True n l show ?thesis by (simp del: if_not_P)
  next
    case False
    define d where "d = (case buf_memory buf of
                      Some d \<Rightarrow> if d \<noteq> [] \<or> buf_eof buf then Some d else None
                    | None \<Rightarrow> if ngx_buf_special buf \<and> buf_eof buf then Some [] else None)"
    obtain rc1 out1 q1 where s: "body_filter_buf e b wcf buf d out q = (rc1, out1, q1)" by (metis prod_cases3)
    have "linked q1" using buf_same_io [OF s] Cons.prems same_io_linked by (auto simp: linked_def)
    with Cons.IH s show ?thesis unfolding body_filter_process.simps if_not_P [OF False] d_def [symmetric] by simp
  qed
qed

lemma complete_same_io:
  assumes "body_filter_complete_file_chunk e b wcf q = (rc, out, q')" and "rq_ctx q \<noteq> None"
  shows "same_io q q'"
proof -
  let ?s = "filter_of q"
  let ?src = "\<lparr>buf_memory = None, buf_file = None, buf_flush = chunk_flush ?s, buf_sync = chunk_sync ?s,
     buf_last_buf = chunk_last_buf ?s, buf_last_in_chain = chunk_last_in_chain ?s\<rparr>"
  obtain n d where r: "ngx_thread_result b (body_filter_file ?s) (body_filter_read_size ?s) (body_filter_read_offset ?s) = (n, d)"
    by fastforce
  obtain rc1 r1 q1 where c: "body_filter_run_chunk e b wcf ?src d (chunk_last_buf ?s \<or> chunk_last_in_chain ?s) q = (rc1, r1, q1)"
    by (metis prod_cases3)
  obtain r2 q2 where k: "body_filter_create_buf b d ?src q1 = (r2, q2)" by fastforce
  have "same_io q q1" "same_io q q2"
    using run_chunk_same_io [OF c assms(2)] create_buf_same_io [OF k] same_io_trans by blast+
  then show ?thesis
    using assms(1) c k r
    by (auto simp: body_filter_complete_file_chunk_def Let_def dest: append_same_io intro: same_io_trans
        split: option.splits if_splits)
qed

section \<open>When nginx has memory and threads\<close>

definition allocs_ok :: "('p, 's, 'c, 'm, 'w) module_env \<Rightarrow> ('p, 's, 'c, 'm, 'w) filter_env \<Rightarrow> bool" where
  "allocs_ok e b \<longleftrightarrow> (\<forall>p n. ngx_palloc (me_http e) p n \<noteq> None) \<and> (\<forall>p. ngx_calloc_buf b p \<noteq> None) \<and>
     (\<forall>p. ngx_alloc_chain_link b p \<noteq> None)"

lemma allocs_okE:
  assumes "allocs_ok e b"
  obtains x y z where "ngx_palloc (me_http e) p1 n = Some x" "ngx_calloc_buf b p2 = Some y" "ngx_alloc_chain_link b p3 = Some z"
  using assms unfolding allocs_ok_def by (meson not_None_eq)

definition threads_ok :: "('p, 's, 'c, 'm, 'w) filter_env \<Rightarrow> bool" where
  "threads_ok b \<longleftrightarrow> ngx_threads b \<and> core_thread_pool b \<and> ngx_thread_task_post b \<and>
     (\<forall>h q. ngx_thread_read b h q = (if fst (h q) = NGX_OK then NGX_AGAIN else NGX_ERROR, snd (h q)))"

text \<open>Also the body filter's execution is the same.\<close>

definition same_all :: "('p, 's, 'c, 'm, 'w) rq \<Rightarrow> ('p, 's, 'c, 'm, 'w) rq \<Rightarrow> bool" where
  "same_all q q' \<longleftrightarrow> same_io q q' \<and> filter_slot q' = filter_slot q"

lemma same_all_refl [simp]: "same_all q q"
  by (simp add: same_all_def)

lemma same_all_trans [trans]: "same_all q q1 \<Longrightarrow> same_all q1 q2 \<Longrightarrow> same_all q q2"
  by (auto simp: same_all_def intro: same_io_trans)

lemma same_all_set_pool [simp]: "same_all q (set_pool p q') = same_all q q'"
  by (simp add: same_all_def)

lemma same_all_on_filter: "same_all q q1 \<Longrightarrow> rq_ctx q \<noteq> None \<Longrightarrow> same_all (on_filter f q) (on_filter f q1)"
  by (auto simp: same_all_def same_io_def)

lemma same_all_linked: "same_all q q' \<Longrightarrow> linked q' = linked q"
  by (simp add: same_all_def same_io_linked)

lemma on_filter_on_filter [simp]: "on_filter f (on_filter g q) = on_filter (\<lambda>s. f (g s)) q"
  by (cases "rq_ctx q") (simp_all add: on_filter_def)

lemma set_pool_on_filter: "set_pool p (on_filter f q) = on_filter f (set_pool p q)"
  by (simp add: on_filter_def set_pool_def)

text \<open>A buffer as it is queued.\<close>

definition queued :: "body_buf \<Rightarrow> body_buf" where
  "queued buf = (if buf_memory buf = None then buf else buf\<lparr>buf_file := None\<rparr>)"

lemma queued_queued [simp]: "queued (queued buf) = queued buf" "queued \<circ> queued = queued"
  by (simp_all add: queued_def fun_eq_iff)

lemma copy_buf_ok:
  assumes "allocs_ok e b"
  shows "\<exists>q'. body_filter_copy_buf e b src q = (Some (queued src), q') \<and> same_all q q'"
proof -
  obtain p where p: "ngx_calloc_buf b (pool (rq_request q)) = Some p" using allocs_okE [OF assms] by metis
  obtain p' where "ngx_palloc (me_http e) (pool (rq_request (set_pool p q))) (length (the (buf_memory src))) = Some p'"
    using allocs_okE [OF assms] by metis
  with p show ?thesis by (cases "buf_memory src") (simp_all add: body_filter_copy_buf_def queued_def Let_def)
qed

lemma enqueue_ok:
  assumes "allocs_ok e b" "linked q"
  shows "\<exists>q'. body_filter_enqueue b buf q = Some (NGX_OK, q') \<and>
    same_all (on_filter (\<lambda>s. s\<lparr>body_filter_pending := body_filter_pending s @ [buf]\<rparr>) q) q'"
proof -
  obtain p where p: "ngx_alloc_chain_link b (pool (rq_request q)) = Some p" using allocs_okE [OF assms(1)] by metis
  have "same_all (on_filter f q) (on_filter f (set_pool p q))" for f
    using assms(2) by (intro same_all_on_filter) (auto simp: linked_def)
  with p assms(2) show ?thesis by (simp add: body_filter_enqueue_def linked_def)
qed

lemma same_all_pending:
  assumes "same_all (on_filter (\<lambda>s. s\<lparr>body_filter_pending := body_filter_pending s @ xs\<rparr>) q) q1"
    and "same_all (on_filter (\<lambda>s. s\<lparr>body_filter_pending := body_filter_pending s @ ys\<rparr>) q1) q2" and "rq_ctx q \<noteq> None"
  shows "same_all (on_filter (\<lambda>s. s\<lparr>body_filter_pending := body_filter_pending s @ xs @ ys\<rparr>) q) q2"
  using same_all_trans [OF same_all_on_filter [OF assms(1)] assms(2)] assms(3) by simp

lemma queue_tail_ok:
  assumes "allocs_ok e b" "linked q"
  shows "\<exists>q'. body_filter_queue_tail e b cl q = Some (NGX_OK, q') \<and>
    same_all (on_filter (\<lambda>s. s\<lparr>body_filter_pending := body_filter_pending s @ map queued cl\<rparr>) q) q'"
  using assms(2)
proof (induction cl arbitrary: q)
  case Nil
  then show ?case by (cases "rq_ctx q") (simp_all add: same_all_def same_io_def linked_def filter_of_def on_filter_def filter_slot_def)
next
  case (Cons buf cl)
  obtain q1 where c: "body_filter_copy_buf e b buf q = (Some (queued buf), q1)" "same_all q q1"
    using copy_buf_ok [OF assms(1)] by blast
  then have l1: "linked q1" "rq_ctx q \<noteq> None" "rq_ctx q1 \<noteq> None"
    using Cons.prems same_all_linked by (auto simp: linked_def)
  obtain q2 where n: "body_filter_enqueue b (queued buf) q1 = Some (NGX_OK, q2)"
      "same_all (on_filter (\<lambda>s. s\<lparr>body_filter_pending := body_filter_pending s @ [queued buf]\<rparr>) q1) q2"
    using enqueue_ok [OF assms(1) l1(1)] by blast
  have s2: "same_all (on_filter (\<lambda>s. s\<lparr>body_filter_pending := body_filter_pending s @ [queued buf]\<rparr>) q) q2"
    using same_all_trans [OF same_all_on_filter [OF c(2) l1(2)] n(2)] .
  have "linked q2" using same_all_linked [OF s2] Cons.prems by (simp add: linked_def)
  from Cons.IH [OF this] obtain q3 where r: "body_filter_queue_tail e b cl q2 = Some (NGX_OK, q3)"
      "same_all (on_filter (\<lambda>s. s\<lparr>body_filter_pending := body_filter_pending s @ map queued cl\<rparr>) q2) q3" by blast
  from same_all_pending [OF s2 r(2) l1(2)] c(1) n(1) r(1) show ?case by simp
qed

lemma queue_remaining_ok:
  assumes "allocs_ok e b" "linked q" "buf_memory fb = None" "buf_file fb = Some (f, p, l)" "pos \<noteq> 0" "pos \<le> l"
  shows "\<exists>q'. body_filter_queue_remaining e b (fb # rest) pos q = Some (NGX_OK, q') \<and>
    same_all (on_filter (\<lambda>s. s\<lparr>body_filter_pending := body_filter_pending s @
      fb\<lparr>buf_file := Some (f, pos, l)\<rparr> # map queued rest\<rparr>) q) q'"
proof -
  let ?fb = "fb\<lparr>buf_file := Some (f, pos, l)\<rparr>"
  obtain q1 where c: "body_filter_copy_buf e b fb q = (Some fb, q1)" "same_all q q1"
    using copy_buf_ok [OF assms(1), of fb q] assms(3) by (auto simp: queued_def)
  then have l1: "linked q1" "rq_ctx q \<noteq> None" using assms(2) same_all_linked by (auto simp: linked_def)
  obtain q2 where n: "body_filter_enqueue b ?fb q1 = Some (NGX_OK, q2)"
      "same_all (on_filter (\<lambda>s. s\<lparr>body_filter_pending := body_filter_pending s @ [?fb]\<rparr>) q1) q2"
    using enqueue_ok [OF assms(1) l1(1)] by blast
  have s2: "same_all (on_filter (\<lambda>s. s\<lparr>body_filter_pending := body_filter_pending s @ [?fb]\<rparr>) q) q2"
    using same_all_trans [OF same_all_on_filter [OF c(2) l1(2)] n(2)] .
  have "linked q2" using same_all_linked [OF s2] assms(2) by (simp add: linked_def)
  from queue_tail_ok [OF assms(1) this] obtain q3 where r: "body_filter_queue_tail e b rest q2 = Some (NGX_OK, q3)"
      "same_all (on_filter (\<lambda>s. s\<lparr>body_filter_pending := body_filter_pending s @ map queued rest\<rparr>) q2) q3" by blast
  from same_all_pending [OF s2 r(2) l1(2)] c(1) n(1) r(1) assms(4-6) show ?thesis
    by (simp add: body_filter_queue_remaining_def Let_def)
qed

section \<open>Reading a file buffer\<close>

text \<open>The state of a read of the buffer \<open>fb\<close> at \<open>p\<close>, with \<open>c\<close> the chunk size and \<open>rest\<close> behind it.\<close>

definition reading :: "nat \<Rightarrow> body_buf \<Rightarrow> body_buf list \<Rightarrow> nat \<Rightarrow> int \<Rightarrow> int \<Rightarrow> filter_state \<Rightarrow> filter_state" where
  "reading c fb rest f p l s =
     (let n = min c (nat (l - p)); final = (int n = l - p)
      in s\<lparr>body_filter_file := f, body_filter_read_offset := p, body_filter_read_size := n,
           chunk_flush := final \<and> buf_flush fb, chunk_sync := final \<and> buf_sync fb,
           chunk_last_buf := final \<and> buf_last_buf fb, chunk_last_in_chain := final \<and> buf_last_in_chain fb,
           body_filter_pending := body_filter_pending s @ fb\<lparr>buf_file := Some (f, p + int n, l)\<rparr> # map queued rest,
           body_filter_waiting := True\<rparr>)"

definition posted :: "('p, 's, 'c, 'm, 'w) rq \<Rightarrow> ('p, 's, 'c, 'm, 'w) rq" where
  "posted q = q\<lparr>rq_blocked := rq_blocked q + 1, rq_aio := True\<rparr>"

lemma posted_sel [simp]:
  "filter_of (posted q) = filter_of q" "filter_slot (posted q) = filter_slot q" "rq_ctx (posted q) = rq_ctx q"
  "rq_calls (posted q) = rq_calls q" "rq_buffered (posted q) = rq_buffered q" "rq_aio (posted q)"
  "rq_blocked (posted q) = rq_blocked q + 1" "rq_done (posted q) = rq_done q" "rq_loc_conf (posted q) = rq_loc_conf q"
  by (simp_all add: posted_def filter_of_def filter_slot_def)

lemma on_filter_posted: "on_filter f (posted q) = posted (on_filter f q)"
  by (simp add: on_filter_def posted_def)

lemma same_all_posted: "same_all q q1 \<Longrightarrow> same_all (posted q) (posted q1)"
  by (simp add: same_all_def same_io_def)

lemma schedule_ok:
  assumes "allocs_ok e b" "threads_ok b" "linked q" "buf_memory fb = None" "buf_file fb = Some (f, p, l)" "0 \<le> p" "p < l"
    and c: "c = conf_size (body_filter_file_chunk_size wcf)" "c \<noteq> 0"
  shows "\<exists>q'. body_filter_schedule_file_chunk e b wcf (fb # rest) q = Some (NGX_OK, q') \<and>
    same_all (posted (on_filter (reading c fb rest f p l) q)) q'"
proof -
  let ?n = "min c (nat (l - p))"
  have n: "(if nat (l - p) > conf_size (body_filter_file_chunk_size wcf)
      then conf_size (body_filter_file_chunk_size wcf) else nat (l - p)) = ?n" using c(1) by auto
  let ?q = "on_filter (\<lambda>s. s\<lparr>body_filter_file := f, body_filter_read_offset := p, body_filter_read_size := ?n\<rparr>) q"
  obtain p' where p': "ngx_palloc (me_http e) (pool (rq_request ?q)) ?n = Some p'" using allocs_okE [OF assms(1)] by metis
  let ?f = "\<lambda>s. s\<lparr>body_filter_file := f, body_filter_read_offset := p, body_filter_read_size := ?n,
      chunk_flush := int ?n = l - p \<and> buf_flush fb, chunk_sync := int ?n = l - p \<and> buf_sync fb,
      chunk_last_buf := int ?n = l - p \<and> buf_last_buf fb,
      chunk_last_in_chain := int ?n = l - p \<and> buf_last_in_chain fb\<rparr>"
  let ?g = "\<lambda>s. s\<lparr>body_filter_pending := body_filter_pending s @ fb\<lparr>buf_file := Some (f, p + int ?n, l)\<rparr> # map queued rest\<rparr>"
  let ?q1 = "on_filter ?f (set_pool p' q)"
  have x: "rq_ctx q \<noteq> None" and l1: "linked ?q1" using assms(3) by (auto simp: linked_def)
  have "p + int ?n \<noteq> 0" "p + int ?n \<le> l" using assms(6,7) c by auto
  from queue_remaining_ok [OF assms(1) l1 assms(4,5) this, of rest] obtain q2
    where r: "body_filter_queue_remaining e b (fb # rest) (p + int ?n) ?q1 = Some (NGX_OK, q2)" "same_all (on_filter ?g ?q1) q2"
    by blast
  have t: "ngx_thread_read b (body_filter_thread_handler b) q2 = (NGX_AGAIN, posted q2)"
    using assms(2) by (simp add: threads_ok_def body_filter_thread_handler_def posted_def)
  have "reading c fb rest f p l = (\<lambda>s. (?g (?f s))\<lparr>body_filter_waiting := True\<rparr>)"
    by (simp add: reading_def Let_def fun_eq_iff)
  moreover have "same_all (on_filter ?g (on_filter ?f q)) q2"
    using same_all_trans [OF same_all_on_filter [of q "set_pool p' q" "\<lambda>s. ?g (?f s)"]] r(2) x by simp
  ultimately have "same_all (on_filter (reading c fb rest f p l) q) (on_filter (\<lambda>s. s\<lparr>body_filter_waiting := True\<rparr>) q2)"
    using same_all_on_filter [of "on_filter ?g (on_filter ?f q)" q2 "\<lambda>s. s\<lparr>body_filter_waiting := True\<rparr>"] x by simp
  then have "same_all (posted (on_filter (reading c fb rest f p l) q)) (on_filter (\<lambda>s. s\<lparr>body_filter_waiting := True\<rparr>) (posted q2))"
    by (simp add: on_filter_posted same_all_posted)
  then show ?thesis
    using assms(4,5,7) p' r(1) t
    by (simp add: body_filter_schedule_file_chunk_def Let_def n set_pool_on_filter)
qed

text \<open>Without the link, the first file buffer is the end.\<close>

lemma schedule_unlinked:
  assumes "allocs_ok e b" and x: "rq_ctx q \<noteq> None" and nl: "\<not> linked q"
    and fb: "buf_memory fb = None" "buf_file fb = Some (f, p, l)" "0 \<le> p" "p < l"
  shows "conf_size (body_filter_file_chunk_size wcf) \<noteq> 0 \<Longrightarrow>
    body_filter_schedule_file_chunk e b wcf (fb # rest) q = None"
proof -
  assume c: "conf_size (body_filter_file_chunk_size wcf) \<noteq> 0"
  define n where "n = (if nat (l - p) > conf_size (body_filter_file_chunk_size wcf)
      then conf_size (body_filter_file_chunk_size wcf) else nat (l - p))"
  have pos: "p + int n \<noteq> 0" using c fb by (auto simp: n_def)
  have en: "body_filter_queue_remaining e b (fb # rest) (p + int n) q2 = None" if "rq_ctx q2 \<noteq> None" "\<not> linked q2" for q2
  proof -
    obtain q3 where q3: "body_filter_copy_buf e b fb q2 = (Some fb, q3)" "same_all q2 q3"
      using copy_buf_ok [OF assms(1), of fb q2] fb by (auto simp: queued_def)
    obtain z where "ngx_alloc_chain_link b (pool (rq_request q3)) = Some z" using allocs_okE [OF assms(1)] by metis
    moreover have "\<not> body_filter_pending_last (filter_of q3)"
      using q3(2) that by (simp add: same_all_def same_io_def linked_def)
    ultimately show ?thesis
      using q3(1) pos fb by (simp add: body_filter_queue_remaining_def body_filter_enqueue_def Let_def)
  qed
  let ?q = "on_filter (\<lambda>s. s\<lparr>body_filter_file := f, body_filter_read_offset := p, body_filter_read_size := n\<rparr>) q"
  obtain p' where p': "ngx_palloc (me_http e) (pool (rq_request ?q)) n = Some p'" using allocs_okE [OF assms(1)] by metis
  let ?q1 = "on_filter (\<lambda>s. s\<lparr>chunk_flush := int n = l - p \<and> buf_flush fb,
          chunk_sync := int n = l - p \<and> buf_sync fb, chunk_last_buf := int n = l - p \<and> buf_last_buf fb,
          chunk_last_in_chain := int n = l - p \<and> buf_last_in_chain fb\<rparr>) (set_pool p' ?q)"
  have "rq_ctx ?q1 \<noteq> None" "\<not> linked ?q1" using x nl by (simp_all add: linked_def)
  from en [OF this] p' fb show ?thesis
    by (simp add: body_filter_schedule_file_chunk_def Let_def n_def [symmetric] del: on_filter_on_filter)
qed

text \<open>The chunks of a file, and a guest that lets every chunk pass.\<close>

definition files_ok :: "('p, 's, 'c, 'm, 'w) filter_env \<Rightarrow> (nat \<Rightarrow> bytes) \<Rightarrow> bool" where
  "files_ok b contents \<longleftrightarrow> (\<forall>f n p. 0 \<le> p \<longrightarrow> nat p + n \<le> length (contents f) \<longrightarrow>
     ngx_thread_result b f n p = (int n, take n (drop (nat p) (contents f))))"

definition chunks_pass where
  "chunks_pass e b wcf G \<longleftrightarrow> (\<forall>buf d eof q s. filter_slot q = Some s \<longrightarrow> G s \<longrightarrow>
     (\<exists>q' s'. body_filter_run_chunk e b wcf buf d eof q = (NGX_OK, None, q') \<and> filter_slot q' = Some s' \<and> G s'))"

definition with_bytes :: "body_buf \<Rightarrow> bool \<Rightarrow> bytes \<Rightarrow> body_buf" where
  "with_bytes fb final d = fb\<lparr>buf_memory := Some d, buf_file := None, buf_flush := final \<and> buf_flush fb,
     buf_sync := final \<and> buf_sync fb, buf_last_buf := final \<and> buf_last_buf fb,
     buf_last_in_chain := final \<and> buf_last_in_chain fb\<rparr>"

definition file_bytes :: "(nat \<Rightarrow> bytes) \<Rightarrow> nat \<Rightarrow> int \<Rightarrow> int \<Rightarrow> bytes" where
  "file_bytes contents f p l = take (nat (l - p)) (drop (nat p) (contents f))"

lemma complete_ok:
  assumes "allocs_ok e b" "files_ok b contents" "chunks_pass e b wcf G" "filter_slot q = Some s" "G s"
    and s: "filter_of q = reading c fb rest f p l s0" and "0 \<le> p" "p < l" "l \<le> int (length (contents f))"
  shows "\<exists>q' s'. body_filter_complete_file_chunk e b wcf q =
      (NGX_OK, [with_bytes fb (int (min c (nat (l - p))) = l - p) (take c (file_bytes contents f p l))], q') \<and>
    same_io q q' \<and> filter_slot q' = Some s' \<and> G s'"
proof -
  let ?n = "min c (nat (l - p))" and ?s = "filter_of q"
  let ?d = "take ?n (drop (nat p) (contents f))"
  let ?src = "\<lparr>buf_memory = None, buf_file = None, buf_flush = chunk_flush ?s, buf_sync = chunk_sync ?s,
     buf_last_buf = chunk_last_buf ?s, buf_last_in_chain = chunk_last_in_chain ?s\<rparr>"
  have "ngx_thread_result b f ?n p = (int ?n, ?d)" using assms(2,7,8,9) by (simp add: files_ok_def)
  then have r: "ngx_thread_result b (body_filter_file ?s) (body_filter_read_size ?s) (body_filter_read_offset ?s) = (int ?n, ?d)"
    "body_filter_read_size ?s = ?n" by (simp_all add: s reading_def Let_def)
  obtain q1 s1 where c1: "body_filter_run_chunk e b wcf ?src ?d (chunk_last_buf ?s \<or> chunk_last_in_chain ?s) q = (NGX_OK, None, q1)"
      "filter_slot q1 = Some s1" "G s1"
    using assms(3-5) unfolding chunks_pass_def by metis
  have q1: "same_io q q1" using run_chunk_same_io [OF c1(1)] assms(4) by (auto simp: filter_slot_def)
  obtain p1 p2 where al: "ngx_calloc_buf b (pool (rq_request q1)) = Some p1"
      "ngx_alloc_chain_link b (pool (rq_request (set_pool p1 q1))) = Some p2"
    using allocs_okE [OF assms(1)] by metis
  have "with_bytes fb (int ?n = l - p) ?d = ?src\<lparr>buf_memory := Some ?d, buf_file := None\<rparr>"
    by (simp add: with_bytes_def s reading_def Let_def)
  moreover have "take c (file_bytes contents f p l) = ?d" by (simp add: file_bytes_def take_take)
  ultimately show ?thesis
    using r c1 q1 al
    by (simp add: body_filter_complete_file_chunk_def body_filter_create_buf_def body_filter_append_def Let_def)
qed

definition reads where
  "reads wcf G c fb rest f p l q \<longleftrightarrow> linked q \<and> rq_loc_conf q = Some wcf \<and> \<not> rq_done q \<and>
     (\<exists>s. filter_slot q = Some s \<and> G s) \<and>
     (\<exists>s0. filter_of q = reading c fb rest f p l s0 \<and> body_filter_pending s0 = [] \<and> body_filter_pending_last s0)"

text \<open>What nginx sees of one event.\<close>

definition piece_calls :: "body_buf \<Rightarrow> nginx_call list" where
  "piece_calls o' = [NextBody [o'], WriteEvent, RunPosted]"

lemma reading_pending_last [simp]: "body_filter_pending_last (reading c fb rest f p l s) = body_filter_pending_last s"
  by (simp add: reading_def Let_def)

lemma reading_cong:
  "map queued rest' = map queued rest \<Longrightarrow> reading c (fb\<lparr>buf_file := x\<rparr>) rest' f p l s = reading c fb rest f p l s"
  by (simp add: reading_def Let_def)

text \<open>
  The part of an event up to the next read: the state \<open>q1\<close> in which the chunk has been passed on and
  the queue taken.
\<close>

lemma event_start:
  assumes "allocs_ok e b" "files_ok b contents" "chunks_pass e b wcf G"
    and nxt: "\<forall>r out. next_body_filter b r out \<noteq> NGX_ERROR" and thr: "ngx_threads b"
    and c: "c = conf_size (body_filter_file_chunk_size (snd wcf))" "c \<noteq> 0" and mem: "buf_memory fb = None"
    and q: "reads wcf G c fb rest f p l q" and "0 \<le> p" "p < l" "l \<le> int (length (contents f))"
  obtains q1 s1 where "body_filter_thread_event_handler e b False q =
      (case body_filter_schedule_file_chunk e b (snd wcf)
              (fb\<lparr>buf_file := Some (f, p + int (min c (nat (l - p))), l)\<rparr> # map queued rest) q1 of
         None \<Rightarrow> None
       | Some (rc, q2) \<Rightarrow>
           if rc \<noteq> NGX_OK then Some (finalize NGX_ERROR q2)
           else Some (q2\<lparr>rq_buffered := body_filter_waiting (filter_of q2) \<or> body_filter_pending (filter_of q2) \<noteq> [],
                        rq_calls := rq_calls q2 @ [WriteEvent, RunPosted]\<rparr>))"
    and "linked q1" "filter_slot q1 = Some s1" "G s1" "\<not> rq_done q1" "rq_loc_conf q1 = Some wcf"
    and "rq_blocked q1 = rq_blocked q - 1" "body_filter_pending (filter_of q1) = []" "\<not> body_filter_waiting (filter_of q1)"
    and "body_filter_pending_last (filter_of q1)"
    and "rq_calls q1 = rq_calls q @ [NextBody [with_bytes fb (int (min c (nat (l - p))) = l - p) (take c (file_bytes contents f p l))]]"
proof -
  let ?n = "min c (nat (l - p))" and ?q0 = "q\<lparr>rq_blocked := rq_blocked q - 1, rq_aio := False\<rparr>"
  let ?o = "with_bytes fb (int ?n = l - p) (take c (file_bytes contents f p l))"
  let ?fb = "fb\<lparr>buf_file := Some (f, p + int ?n, l)\<rparr>"
  from q obtain s s0 where Q: "linked q" "rq_loc_conf q = Some wcf" "\<not> rq_done q" "filter_slot q = Some s" "G s"
      "filter_of q = reading c fb rest f p l s0" "body_filter_pending s0 = []"
    by (auto simp: reads_def)
  then obtain ctx where ctx: "rq_ctx q = Some ctx" by (auto simp: linked_def)
  have "filter_slot ?q0 = Some s" "filter_of ?q0 = reading c fb rest f p l s0" using Q by simp_all
  from complete_ok [OF assms(1-3) this(1) Q(5) this(2) assms(10-12)] obtain qc sc where
    cp: "body_filter_complete_file_chunk e b wcf ?q0 = (NGX_OK, [?o], qc)" "same_io ?q0 qc" "filter_slot qc = Some sc" "G sc"
    by blast
  have fc: "filter_of qc = reading c fb rest f p l s0" "linked qc" "rq_ctx qc \<noteq> None"
    using cp(2) Q(6) Q(1) by (auto simp: same_io_def linked_def)
  define qr where "qr = on_filter (\<lambda>s. s\<lparr>body_filter_waiting := False, body_filter_pending := [], body_filter_pending_last := True\<rparr>) qc"
  have pend: "body_filter_pending (filter_of qc) = ?fb # map queued rest"
    using Q(7) by (simp add: fc(1) reading_def Let_def)
  define q1 where "q1 = qr\<lparr>rq_calls := rq_calls qr @ [NextBody [?o]]\<rparr>"
  have infile: "buf_memory ?fb = None \<and> buf_file ?fb \<noteq> None \<and>
      conf_size (body_filter_file_chunk_size (snd wcf)) \<noteq> 0 \<and> ngx_threads b" using mem c thr by simp
  obtain rcn where cn: "call_next b [?o] qr = (rcn, q1)" "rcn \<noteq> NGX_ERROR" using nxt by (simp add: call_next_def q1_def)
  have P: "body_filter_process e b wcf (?fb # map queued rest) [?o] qr =
     (case body_filter_schedule_file_chunk e b (snd wcf) (?fb # map queued rest) q1 of
        None \<Rightarrow> None
      | Some (rc, q) \<Rightarrow> if rc \<noteq> NGX_OK then Some (NGX_ERROR, q) else Some (NGX_AGAIN, q\<lparr>rq_buffered := True\<rparr>))"
    unfolding body_filter_process.simps if_P [OF infile] using cn by simp
  have E: "body_filter_thread_event_handler e b False q =
      (case body_filter_schedule_file_chunk e b (snd wcf) (?fb # map queued rest) q1 of
         None \<Rightarrow> None
       | Some (rc, q2) \<Rightarrow>
           if rc \<noteq> NGX_OK then Some (finalize NGX_ERROR q2)
           else Some (q2\<lparr>rq_buffered := body_filter_waiting (filter_of q2) \<or> body_filter_pending (filter_of q2) \<noteq> [],
                        rq_calls := rq_calls q2 @ [WriteEvent, RunPosted]\<rparr>))"
    using Q(2,3) ctx cp(1) P pend
    by (simp add: body_filter_thread_event_handler_def Let_def qr_def [symmetric] split: option.split)
  show thesis
    by (rule that [OF E]) (use cp(2-4) fc Q in \<open>simp_all add: q1_def qr_def same_io_def linked_def\<close>)
qed

section \<open>A file buffer from start to end\<close>

text \<open>The events of \<open>n\<close> reads in a row.\<close>

fun thread_events ::
  "('p, 's, 'c, 'm, 'w) module_env \<Rightarrow> ('p, 's, 'c, 'm, 'w) filter_env \<Rightarrow> nat \<Rightarrow> ('p, 's, 'c, 'm, 'w) rq
     \<Rightarrow> ('p, 's, 'c, 'm, 'w) rq option" where
  "thread_events e b 0 q = Some q"
| "thread_events e b (Suc n) q = Option.bind (body_filter_thread_event_handler e b False q) (thread_events e b n)"

text \<open>Reference: the pieces of a byte string, and the buffers that carry them.\<close>

function pieces :: "nat \<Rightarrow> bytes \<Rightarrow> bytes list" where
  "pieces c d = (if c = 0 \<or> d = [] then [] else take c d # pieces c (drop c d))"
  by auto

termination pieces
  by (relation "measure (\<lambda>(c, d). length d)") auto

declare pieces.simps [simp del]

fun piece_bufs :: "body_buf \<Rightarrow> bytes list \<Rightarrow> body_buf list" where
  "piece_bufs fb [] = []"
| "piece_bufs fb (d # ds) = with_bytes fb (ds = []) d # piece_bufs fb ds"

lemma concat_pieces: "0 < c \<Longrightarrow> concat (pieces c d) = d"
proof (induction c d rule: pieces.induct)
  case (1 c d)
  then show ?case by (subst pieces.simps) (auto simp: append_take_drop_id)
qed

lemma pieces_bounded: "x \<in> set (pieces c d) \<Longrightarrow> x \<noteq> [] \<and> length x \<le> c"
proof (induction c d rule: pieces.induct)
  case (1 c d)
  from 1 show ?case by (cases "c = 0 \<or> d = []") (auto simp: pieces.simps [of c d])
qed

lemma pieces_Nil [simp]: "pieces c [] = []"
  by (simp add: pieces.simps)

lemma file_bytes_split:
  assumes "0 \<le> p" "p < l" "l \<le> int (length (contents f))" "c \<noteq> 0"
  shows "file_bytes contents f p l \<noteq> []"
    and "drop c (file_bytes contents f p l) = file_bytes contents f (p + int (min c (nat (l - p)))) l"
    and "pieces c (file_bytes contents f (p + int (min c (nat (l - p)))) l) = [] \<longleftrightarrow> int (min c (nat (l - p))) = l - p"
proof -
  let ?n = "min c (nat (l - p))"
  have len: "length (file_bytes contents f p' l) = nat (l - p')" if "p \<le> p'" "p' \<le> l" for p'
    using that assms by (simp add: file_bytes_def)
  show "file_bytes contents f p l \<noteq> []" using len [of p] assms by auto
  have "nat (p + int ?n) = nat p + ?n" "nat (l - (p + int ?n)) = nat (l - p) - ?n" using assms by auto
  moreover have "drop c (file_bytes contents f p l) = drop ?n (file_bytes contents f p l)"
    using len [of p] assms by (cases "c \<le> nat (l - p)") (simp_all add: min_def)
  ultimately show "drop c (file_bytes contents f p l) = file_bytes contents f (p + int ?n) l"
    by (simp add: file_bytes_def drop_take add.commute)
  have "p + int ?n \<le> l" using assms by auto
  then have "length (file_bytes contents f (p + int ?n) l) = nat (l - (p + int ?n))" by (intro len) auto
  then have "file_bytes contents f (p + int ?n) l = [] \<longleftrightarrow> nat (l - (p + int ?n)) = 0"
    by (metis length_0_conv)
  then have "file_bytes contents f (p + int ?n) l = [] \<longleftrightarrow> int ?n = l - p"
    using \<open>p + int ?n \<le> l\<close> by auto
  then show "pieces c (file_bytes contents f (p + int ?n) l) = [] \<longleftrightarrow> int ?n = l - p"
    using assms(4) by (subst pieces.simps) simp
qed

lemma schedule_exhausted:
  assumes "allocs_ok e b" "linked q" "buf_file fb = Some (f, l, l)"
  shows "\<exists>q'. body_filter_schedule_file_chunk e b wcf (fb # rest) q = Some (NGX_OK, q') \<and>
    same_all (on_filter (\<lambda>s. s\<lparr>body_filter_pending := body_filter_pending s @ map queued rest\<rparr>) q) q'"
  using queue_tail_ok [OF assms(1,2), of rest] queue_tail_ok [OF assms(1,2), of "[]"] assms(3)
  by (cases rest) (auto simp: body_filter_schedule_file_chunk_def body_filter_queue_remaining_def
      simp del: body_filter_queue_tail.simps(2))

text \<open>When the file has been read, what was behind it is in the queue, and no read is in progress.\<close>

definition read_up where
  "read_up wcf G rest q \<longleftrightarrow> linked q \<and> rq_loc_conf q = Some wcf \<and> \<not> rq_done q \<and>
     (\<exists>s. filter_slot q = Some s \<and> G s) \<and> \<not> body_filter_waiting (filter_of q) \<and>
     body_filter_pending (filter_of q) = map queued rest \<and> rq_buffered q = (rest \<noteq> [])"

lemma read_through:
  assumes env: "allocs_ok e b" "files_ok b contents" "chunks_pass e b wcf G" "threads_ok b"
    and nxt: "\<forall>r out. next_body_filter b r out \<noteq> NGX_ERROR"
    and c: "c = conf_size (body_filter_file_chunk_size (snd wcf))" "c \<noteq> 0" and mem: "buf_memory fb = None"
    and "reads wcf G c fb rest f p l q" "0 \<le> p" "p < l" and l: "l \<le> int (length (contents f))"
  shows "\<exists>q'. thread_events e b (length (pieces c (file_bytes contents f p l))) q = Some q' \<and> read_up wcf G rest q' \<and>
    rq_calls q' = rq_calls q @ concat (map piece_calls (piece_bufs fb (pieces c (file_bytes contents f p l)))) \<and>
    rq_blocked q' = rq_blocked q - 1"
  using assms(9-11)
proof (induction "nat (l - p)" arbitrary: p q rule: less_induct)
  case less
  let ?n = "min c (nat (l - p))"
  let ?p = "p + int ?n"
  let ?d = "take c (file_bytes contents f p l)" and ?ds = "pieces c (file_bytes contents f ?p l)"
  let ?fb = "fb\<lparr>buf_file := Some (f, ?p, l)\<rparr>"
  note B = file_bytes_split [of p l contents f c, OF less.prems(2,3) l c(2)]
  have ps: "pieces c (file_bytes contents f p l) = ?d # ?ds" using B(1,2) c(2) by (subst pieces.simps) simp
  have thr: "ngx_threads b" using env(4) by (simp add: threads_ok_def)
  obtain q1 s1 where E: "body_filter_thread_event_handler e b False q =
      (case body_filter_schedule_file_chunk e b (snd wcf) (?fb # map queued rest) q1 of
         None \<Rightarrow> None
       | Some (rc, q2) \<Rightarrow>
           if rc \<noteq> NGX_OK then Some (finalize NGX_ERROR q2)
           else Some (q2\<lparr>rq_buffered := body_filter_waiting (filter_of q2) \<or> body_filter_pending (filter_of q2) \<noteq> [],
                        rq_calls := rq_calls q2 @ [WriteEvent, RunPosted]\<rparr>))"
    and q1: "linked q1" "filter_slot q1 = Some s1" "G s1" "\<not> rq_done q1" "rq_loc_conf q1 = Some wcf"
      "rq_blocked q1 = rq_blocked q - 1" "body_filter_pending (filter_of q1) = []" "\<not> body_filter_waiting (filter_of q1)"
      "body_filter_pending_last (filter_of q1)"
      "rq_calls q1 = rq_calls q @ [NextBody [with_bytes fb (?ds = []) ?d]]"
    using event_start [OF env(1-3) nxt thr c mem less.prems l] unfolding B(3) by blast
  have x: "rq_ctx q1 \<noteq> None" using q1(1) by (simp add: linked_def)
  show ?case
  proof (cases "?ds = []")
    case True
    then have "buf_file ?fb = Some (f, l, l)" using B(3) by simp
    from schedule_exhausted [OF env(1) q1(1) this, of "snd wcf" "map queued rest"] obtain q2
      where s: "body_filter_schedule_file_chunk e b (snd wcf) (?fb # map queued rest) q1 = Some (NGX_OK, q2)"
        "same_all (on_filter (\<lambda>s. s\<lparr>body_filter_pending := body_filter_pending s @ map queued rest\<rparr>) q1) q2"
      by auto
    then show ?thesis using E True q1 x
      by (auto simp: ps piece_calls_def read_up_def linked_def same_all_def same_io_def)
  next
    case False
    then have lt: "?p < l" "0 \<le> ?p" "nat (l - ?p) < nat (l - p)" using B(3) less.prems(2,3) c(2) by auto
    have fb: "buf_memory ?fb = None" "buf_file ?fb = Some (f, ?p, l)" using mem by simp_all
    from schedule_ok [OF env(1,4) q1(1) fb lt(2,1) c, of "map queued rest"] obtain q2
      where s: "body_filter_schedule_file_chunk e b (snd wcf) (?fb # map queued rest) q1 = Some (NGX_OK, q2)"
        "same_all (posted (on_filter (reading c ?fb (map queued rest) f ?p l) q1)) q2" by blast
    define q3 where "q3 = q2\<lparr>rq_buffered := body_filter_waiting (filter_of q2) \<or> body_filter_pending (filter_of q2) \<noteq> [],
        rq_calls := rq_calls q2 @ [WriteEvent, RunPosted]\<rparr>"
    have fo: "filter_of q2 = reading c fb rest f ?p l (filter_of q1)"
      using s(2) x by (simp add: same_all_def same_io_def reading_cong)
    have "rq_ctx q2 \<noteq> None" "rq_done q2 = rq_done q1" "rq_loc_conf q2 = rq_loc_conf q1" "filter_slot q2 = filter_slot q1"
      using s(2) x by (simp_all add: same_all_def same_io_def)
    then have "linked q3" "rq_loc_conf q3 = Some wcf" "\<not> rq_done q3" "filter_slot q3 = Some s1"
      "filter_of q3 = reading c fb rest f ?p l (filter_of q1)"
      using q1 fo by (simp_all add: q3_def linked_def)
    then have r3: "reads wcf G c fb rest f ?p l q3"
      using q1(3,7,9) unfolding reads_def by blast
    from less.hyps [OF lt(3) r3 lt(2,1)] obtain q' where IH: "thread_events e b (length ?ds) q3 = Some q'"
        "read_up wcf G rest q'" "rq_calls q' = rq_calls q3 @ concat (map piece_calls (piece_bufs fb ?ds))"
        "rq_blocked q' = rq_blocked q3 - 1" by blast
    have "body_filter_thread_event_handler e b False q = Some q3" using E s(1) by (simp add: q3_def)
    moreover have "rq_calls q3 = rq_calls q @ piece_calls (with_bytes fb (?ds = []) ?d)" "rq_blocked q3 = rq_blocked q"
      using s(2) q1 by (simp_all add: q3_def same_all_def same_io_def piece_calls_def)
    ultimately show ?thesis using IH by (simp add: ps)
  qed
qed

text \<open>The handler's part: with nothing in the queue, it starts to read.\<close>

definition filter_on where
  "filter_on e wcf q \<longleftrightarrow> rq_loc_conf q = Some wcf \<and> on wcf PHASE_BODY_FILTER \<and> main_runtime e \<noteq> None \<and>
     \<not> header_only (rq_request q)"

definition idle where
  "idle G q \<longleftrightarrow> linked q \<and> \<not> body_filter_waiting (filter_of q) \<and> body_filter_pending (filter_of q) = [] \<and>
     (\<exists>s. filter_slot q = Some s \<and> G s)"

lemma get_or_create_sel:
  assumes "body_filter_get_or_create_ctx e q = (ok, q0)"
  shows "rq_calls q0 = rq_calls q" "rq_blocked q0 = rq_blocked q" "rq_done q0 = rq_done q" "rq_loc_conf q0 = rq_loc_conf q"
    "rq_request q0 = rq_request q" "rq_ctx q \<noteq> None \<Longrightarrow> q0 = q"
  using assms by (auto simp: body_filter_get_or_create_ctx_def split: if_splits)

lemma handler_reads:
  assumes env: "allocs_ok e b" "threads_ok b" and "filter_on e wcf q" "\<not> rq_done q"
    and q0: "body_filter_get_or_create_ctx e q = (True, q0)" "idle G q0"
    and c: "c = conf_size (body_filter_file_chunk_size (snd wcf))" "c \<noteq> 0"
    and fb: "buf_memory fb = None" "buf_file fb = Some (f, p, l)" and "0 \<le> p" "p < l"
  shows "\<exists>q1. body_filter_handler e b (fb # rest) q = Some (NGX_AGAIN, q1) \<and> reads wcf G c fb rest f p l q1 \<and>
    rq_calls q1 = rq_calls q \<and> rq_blocked q1 = rq_blocked q + 1"
proof -
  have l0: "linked q0" "rq_ctx q0 \<noteq> None" using q0(2) by (simp_all add: idle_def linked_def)
  from schedule_ok [OF env l0(1) fb assms(11,12) c, of rest] obtain q1
    where s: "body_filter_schedule_file_chunk e b (snd wcf) (fb # rest) q0 = Some (NGX_OK, q1)"
      "same_all (posted (on_filter (reading c fb rest f p l) q0)) q1" by blast
  have "buf_memory fb = None \<and> buf_file fb \<noteq> None \<and>
      conf_size (body_filter_file_chunk_size (snd wcf)) \<noteq> 0 \<and> ngx_threads b"
    using fb c env(2) by (simp add: threads_ok_def)
  note P = if_P [OF this]
  have "body_filter_process e b wcf (fb # rest) [] q0 = Some (NGX_AGAIN, q1\<lparr>rq_buffered := True\<rparr>)"
    unfolding body_filter_process.simps P using s(1) by simp
  then have h: "body_filter_handler e b (fb # rest) q = Some (NGX_AGAIN, q1\<lparr>rq_buffered := True\<rparr>)"
    using assms(3) q0 by (auto simp: body_filter_handler_def filter_on_def idle_def)
  have "filter_of q1 = reading c fb rest f p l (filter_of q0)" "filter_slot q1 = filter_slot q0"
      "rq_ctx q1 \<noteq> None" "rq_loc_conf q1 = rq_loc_conf q" "rq_done q1 = rq_done q"
    and k: "rq_calls q1 = rq_calls q" "rq_blocked q1 = rq_blocked q + 1"
    using s(2) l0 get_or_create_sel [OF q0(1)] by (simp_all add: same_all_def same_io_def)
  then have "reads wcf G c fb rest f p l (q1\<lparr>rq_buffered := True\<rparr>)"
    using q0(2) assms(3,4) unfolding reads_def
    by (simp add: linked_def idle_def filter_on_def) blast
  with h k show ?thesis by simp
qed

section \<open>A chain in memory\<close>

text \<open>
  A guest sees a buffer as the bytes it has, if any, or as no bytes when the buffer ends the response;
  other buffers are not shown to it.
\<close>

definition shown :: "body_buf \<Rightarrow> bytes option" where
  "shown buf =
     (case buf_memory buf of
        Some d \<Rightarrow> if d = [] \<and> \<not> buf_last_buf buf \<and> \<not> buf_last_in_chain buf then None else Some d
      | None \<Rightarrow> if buf_file buf = None \<and> buf_last_buf buf \<or>
                  buf_file buf = None \<and> buf_last_in_chain buf \<and> (buf_flush buf \<or> buf_sync buf) then Some [] else None)"

text \<open>
  A complete run of the body filter's guest on a chunk: \<open>ans\<close> is the replacement it has set, if it has.
  It starts with no replacement, from where the chunk before left its execution.
\<close>

definition guest_on_chunk ::
  "('p, 's, 'c, 'm, 'w) module_env \<Rightarrow> addr \<times> 'm wasm_conf \<Rightarrow> bytes \<Rightarrow> bool \<Rightarrow> ('p, 's, 'c, 'm, 'w) rq
     \<Rightarrow> bytes option \<Rightarrow> ('p, 's, 'c, 'm, 'w) rq \<Rightarrow> bool" where
  "guest_on_chunk e wcf d eof q ans q' \<longleftrightarrow>
     (\<exists>ctx sl' ctx' q1. rq_ctx q = Some ctx \<and>
        (let sl = body_filter_get_or_init_exec e wcf q ctx;
             a = (exec_abi (slot_exec sl))\<lparr>resp_body_chunk := d, resp_body_chunk_set := True, resp_body_chunk_eof := eof,
                   resp_body_chunk_output_set := False, resp_body_chunk_output := []\<rparr>
         in run_slot e q ctx (sl\<lparr>slot_exec := (slot_exec sl)\<lparr>exec_abi := a\<rparr>\<rparr>) = (NGX_OK, sl', ctx', q1)) \<and>
        q' = q1\<lparr>rq_ctx := Some (ctx'\<lparr>body_filter_exec := Some sl'\<rparr>)\<rparr> \<and>
        ans = (if resp_body_chunk_output_set (exec_abi (slot_exec sl'))
               then Some (resp_body_chunk_output (exec_abi (slot_exec sl'))) else None))"

text \<open>The buffers that go on, for a chain that comes in: one for each, and the allocations between the runs.\<close>

definition new_link :: "('p, 's, 'c, 'm, 'w) filter_env \<Rightarrow> ('p, 's, 'c, 'm, 'w) rq \<Rightarrow> ('p, 's, 'c, 'm, 'w) rq option" where
  "new_link b q = map_option (\<lambda>p. set_pool p q) (ngx_alloc_chain_link b (pool (rq_request q)))"

definition new_buf :: "('p, 's, 'c, 'm, 'w) filter_env \<Rightarrow> ('p, 's, 'c, 'm, 'w) rq \<Rightarrow> ('p, 's, 'c, 'm, 'w) rq option" where
  "new_buf b q = map_option (\<lambda>p. set_pool p q) (ngx_calloc_buf b (pool (rq_request q)))"

inductive filtered ::
  "('p, 's, 'c, 'm, 'w) module_env \<Rightarrow> ('p, 's, 'c, 'm, 'w) filter_env \<Rightarrow> addr \<times> 'm wasm_conf
     \<Rightarrow> ('p, 's, 'c, 'm, 'w) rq \<Rightarrow> body_buf list \<Rightarrow> body_buf list \<Rightarrow> ('p, 's, 'c, 'm, 'w) rq \<Rightarrow> bool" for e b wcf where
  all: "filtered e b wcf q [] [] q"
| unseen: "shown buf = None \<Longrightarrow> new_link b q = Some q1 \<Longrightarrow> filtered e b wcf q1 bufs outs q' \<Longrightarrow>
    filtered e b wcf q (buf # bufs) (buf # outs) q'"
| kept: "shown buf = Some d \<Longrightarrow> guest_on_chunk e wcf d (buf_eof buf) q None q1 \<Longrightarrow> new_link b q1 = Some q2 \<Longrightarrow>
    filtered e b wcf q2 bufs outs q' \<Longrightarrow> filtered e b wcf q (buf # bufs) (buf # outs) q'"
| replaced: "shown buf = Some d \<Longrightarrow> guest_on_chunk e wcf d (buf_eof buf) q (Some d') q1 \<Longrightarrow> new_buf b q1 = Some q2 \<Longrightarrow>
    new_link b q2 = Some q3 \<Longrightarrow> filtered e b wcf q3 bufs outs q' \<Longrightarrow>
    filtered e b wcf q (buf # bufs) (buf\<lparr>buf_memory := Some d', buf_file := None\<rparr> # outs) q'"

inductive_simps filtered_simps: "filtered e b wcf q [] outs q'" "filtered e b wcf q (buf # bufs) outs q'"

definition same_flags :: "body_buf \<Rightarrow> body_buf \<Rightarrow> bool" where
  "same_flags i j \<longleftrightarrow> buf_flush j = buf_flush i \<and> buf_sync j = buf_sync i \<and> buf_last_buf j = buf_last_buf i \<and>
     buf_last_in_chain j = buf_last_in_chain i"

lemma filtered_flags: "filtered e b wcf q bufs outs q' \<Longrightarrow> list_all2 same_flags bufs outs"
  by (induction rule: filtered.induct) (simp_all add: same_flags_def)

lemma shown_eq:
  "(case buf_memory buf of Some d \<Rightarrow> if d \<noteq> [] \<or> buf_eof buf then Some d else None
      | None \<Rightarrow> if ngx_buf_special buf \<and> buf_eof buf then Some [] else None) = shown buf"
  by (auto simp: shown_def buf_eof_def ngx_buf_special_def split: option.splits)

lemma run_chunk_guest:
  assumes "body_filter_run_chunk e b wcf buf d eof q = (NGX_OK, r, q')" and "rq_ctx q \<noteq> None"
  obtains (keep) "r = None" "guest_on_chunk e wcf d eof q None q'"
    | (swap) d' q1 where "r = Some (buf\<lparr>buf_memory := Some d', buf_file := None\<rparr>)"
      "guest_on_chunk e wcf d eof q (Some d') q1" "new_buf b q1 = Some q'"
proof -
  obtain ctx where ctx: "rq_ctx q = Some ctx" using assms(2) by auto
  define sl where "sl = body_filter_get_or_init_exec e wcf q ctx"
  define a where "a = (exec_abi (slot_exec sl))\<lparr>resp_body_chunk := d, resp_body_chunk_set := True, resp_body_chunk_eof := eof,
                   resp_body_chunk_output_set := False, resp_body_chunk_output := []\<rparr>"
  obtain rc1 sl1 ctx1 q1 where run: "run_slot e q ctx (sl\<lparr>slot_exec := (slot_exec sl)\<lparr>exec_abi := a\<rparr>\<rparr>) = (rc1, sl1, ctx1, q1)"
    by (metis prod_cases4)
  define q2 where "q2 = q1\<lparr>rq_ctx := Some (ctx1\<lparr>body_filter_exec := Some sl1\<rparr>)\<rparr>"
  let ?o = "exec_abi (slot_exec sl1)"
  have body: "(if rc1 \<noteq> NGX_OK then (NGX_ERROR, None, q2)
      else if resp_body_chunk_output_set ?o
      then (case body_filter_create_buf b (resp_body_chunk_output ?o) buf q2 of
              (None, q) \<Rightarrow> (NGX_ERROR, None, q) | (Some r, q) \<Rightarrow> (NGX_OK, Some r, q))
      else (NGX_OK, None, q2)) = (NGX_OK, r, q')"
    using assms(1) by (simp add: body_filter_run_chunk_def ctx abi_resp_set_body_chunk_input_def Let_def run q2_def
        split: if_splits flip: sl_def a_def)
  then have rc1: "rc1 = NGX_OK" by (auto split: if_splits)
  then have g: "guest_on_chunk e wcf d eof q
      (if resp_body_chunk_output_set ?o then Some (resp_body_chunk_output ?o) else None) q2"
    using run ctx by (simp add: guest_on_chunk_def Let_def q2_def flip: sl_def a_def)
  show thesis
  proof (cases "resp_body_chunk_output_set ?o")
    case True
    with body rc1 g show thesis
      by (intro swap [of "resp_body_chunk_output ?o" q2])
        (auto simp: body_filter_create_buf_def new_buf_def split: option.splits)
  qed (use body rc1 g in \<open>intro keep; simp\<close>)
qed

lemma append_link:
  assumes "body_filter_append b buf out q = (rc, out', q')" "rc = NGX_OK"
  shows "out' = out @ [buf] \<and> new_link b q = Some q'"
  using assms by (auto simp: body_filter_append_def new_link_def split: option.splits)

text \<open>One buffer of the loop does what \<open>filtered\<close> says of it.\<close>

lemma buf_filtered:
  assumes "body_filter_buf e b wcf buf (shown buf) out q = (NGX_OK, out', q')" and "rq_ctx q \<noteq> None"
  obtains j where "out' = out @ [j]"
    "\<And>bufs outs q1. filtered e b wcf q' bufs outs q1 \<Longrightarrow> filtered e b wcf q (buf # bufs) (j # outs) q1"
proof (cases "shown buf")
  case None
  with assms(1) have "out' = out @ [buf] \<and> new_link b q = Some q'" by (simp add: body_filter_buf_def append_link)
  with None that [of buf] show thesis by (auto intro: unseen)
next
  case (Some d)
  obtain rc r q1 where run: "body_filter_run_chunk e b wcf buf d (buf_eof buf) q = (rc, r, q1)" by (rule prod_cases3)
  with assms(1) Some have rc: "rc = NGX_OK"
    and app: "body_filter_append b (case r of None \<Rightarrow> buf | Some r \<Rightarrow> r) out q1 = (NGX_OK, out', q')"
    by (auto simp: body_filter_buf_def split: if_splits)
  note al = append_link [OF app refl]
  show thesis using run [unfolded rc] assms(2)
  proof (cases rule: run_chunk_guest)
    case keep
    with al Some that [of buf] show thesis by (auto intro: kept)
  next
    case (swap d' q2)
    with al Some that [of "buf\<lparr>buf_memory := Some d', buf_file := None\<rparr>"] show thesis by (auto intro: replaced)
  qed
qed

definition in_memory :: "('p, 's, 'c, 'm, 'w) filter_env \<Rightarrow> 'm wasm_conf \<Rightarrow> body_buf \<Rightarrow> bool" where
  "in_memory b wcf buf \<longleftrightarrow> buf_memory buf \<noteq> None \<or> buf_file buf = None \<or>
     conf_size (body_filter_file_chunk_size wcf) = 0 \<or> \<not> ngx_threads b"

lemma process_in_memory:
  assumes "body_filter_process e b wcf bufs out q = Some (rc, q')" and "rq_ctx q \<noteq> None"
    and "\<forall>buf \<in> set bufs. in_memory b (snd wcf) buf" "out \<noteq> [] \<or> bufs \<noteq> []" "rc \<noteq> NGX_ERROR"
  shows "\<exists>outs q1. filtered e b wcf q bufs outs q1 \<and> rc = next_body_filter b (rq_request q1) (out @ outs) \<and>
    rq_calls q' = rq_calls q @ [NextBody (out @ outs)] \<and> filter_of q' = filter_of q \<and> rq_request q' = rq_request q1"
  using assms
proof (induction bufs arbitrary: out q)
  case Nil
  then show ?case by (auto simp: body_filter_pass_def call_next_def Let_def filtered_simps split: if_splits)
next
  case (Cons buf cl)
  have nf: "\<not> (buf_memory buf = None \<and> buf_file buf \<noteq> None \<and>
         conf_size (body_filter_file_chunk_size (snd wcf)) \<noteq> 0 \<and> ngx_threads b)"
    using Cons.prems(3) by (auto simp: in_memory_def)
  obtain rc1 out1 q1 where B: "body_filter_buf e b wcf buf (shown buf) out q = (rc1, out1, q1)"
    by (rule prod_cases3)
  from Cons.prems(1,5) have R: "rc1 = NGX_OK" "body_filter_process e b wcf cl out1 q1 = Some (rc, q')"
    unfolding body_filter_process.simps if_not_P [OF nf] shown_eq B by (auto split: if_splits)
  obtain j where j: "out1 = out @ [j]"
      "\<And>bufs outs q2. filtered e b wcf q1 bufs outs q2 \<Longrightarrow> filtered e b wcf q (buf # bufs) (j # outs) q2"
    using buf_filtered [OF B [unfolded R(1)] Cons.prems(2)] by blast
  have S: "same_io q q1" by (rule buf_same_io [OF B Cons.prems(2)])
  have x1: "rq_ctx q1 \<noteq> None" and m1: "\<forall>buf \<in> set cl. in_memory b (snd wcf) buf" and n1: "out1 \<noteq> [] \<or> cl \<noteq> []"
    using S Cons.prems(2,3) j(1) by (simp_all add: same_io_def)
  obtain outs q2 where "filtered e b wcf q1 cl outs q2" "rc = next_body_filter b (rq_request q2) (out1 @ outs)"
      "rq_calls q' = rq_calls q1 @ [NextBody (out1 @ outs)]" "filter_of q' = filter_of q1" "rq_request q' = rq_request q2"
    using Cons.IH [OF R(2) x1 m1 n1 Cons.prems(5)] by blast
  with j S show ?case by (intro exI [of _ "j # outs"] exI [of _ q2]) (simp add: same_io_def)
qed

end
