(* ===== verification/BodyFilter_Props.thy ===== *)
theory BodyFilter_Props
  imports BodyFilter_Correct Module_Props
begin

text \<open>
  The properties of the body filter, with an instance: a guest that returns at once and lets every
  chunk pass, for a location with chunks of two bytes, and a file of three.
\<close>

section \<open>Instance\<close>

definition demo_filter_env :: "(nat, demo_slab, nat, unit, u64) filter_env" where
  "demo_filter_env = \<lparr>next_body_filter = (\<lambda>r out. NGX_OK), ngx_calloc_buf = Some, ngx_alloc_chain_link = Some,
     ngx_threads = True, core_thread_pool = True, thread_pool_value = (\<lambda>_. None), ngx_thread_pool_get = (\<lambda>_. True),
     ngx_thread_task_post = True,
     ngx_thread_read = (\<lambda>h q. (if fst (h q) = NGX_OK then NGX_AGAIN else NGX_ERROR, snd (h q))),
     ngx_thread_result = (\<lambda>f n p. (int n, take n (drop (nat p) [1, 2, 3])))\<rparr>"

definition demo_body_env :: "(nat, demo_slab, nat, unit, u64) module_env" where
  "demo_body_env = demo_env\<lparr>me_http := demo_http\<lparr>ngx_palloc := \<lambda>p n. Some p\<rparr>\<rparr>"

definition demo_body_wcf :: "addr \<times> unit wasm_conf" where
  "demo_body_wcf = (1, (the (create_conf True))\<lparr>header_filter_conf := demo_conf, body_filter_conf := demo_conf,
     conf_fuel_limit := Some 1, body_filter_file_chunk_size := Some 2\<rparr>)"

definition demo_body_rq :: "(nat, demo_slab, nat, unit, u64) rq" where
  "demo_body_rq = demo_rq\<lparr>rq_loc_conf := Some demo_body_wcf\<rparr>"

lemma demo_filter_env_sel [simp]:
  "next_body_filter demo_filter_env r out = NGX_OK" "ngx_threads demo_filter_env"
  by (simp_all add: demo_filter_env_def)

lemma demo_body_env_sel [simp]:
  "me_wasmtime demo_body_env = demo_wasmtime" "main_runtime demo_body_env = Some True" "me_resume_alloc demo_body_env"
  "me_ctx_alloc demo_body_env" "me_cleanup_alloc demo_body_env" "next_header_filter demo_body_env r = NGX_OK"
  "ngx_http_clear_content_length demo_body_env r = r" "ngx_http_clear_accept_ranges demo_body_env r = r"
  by (simp_all add: demo_body_env_def demo_env_with_def)

lemma demo_body_wcf_sel [simp]:
  "conf_size (body_filter_file_chunk_size (snd demo_body_wcf)) = 2" "header_filter_conf (snd demo_body_wcf) = demo_conf"
  "body_filter_conf (snd demo_body_wcf) = demo_conf" "conf_uint (conf_fuel_limit (snd demo_body_wcf)) = 1"
  by (simp_all add: demo_body_wcf_def conf_size_def conf_uint_def)

lemma demo_allocs_ok: "allocs_ok demo_body_env demo_filter_env"
  by (simp add: allocs_ok_def demo_body_env_def demo_filter_env_def)

lemma demo_threads_ok: "threads_ok demo_filter_env" "thread_read_ok demo_filter_env"
  by (simp_all add: threads_ok_def thread_read_ok_def demo_filter_env_def)

lemma demo_files_ok: "files_ok demo_filter_env (\<lambda>_. [1, 2, 3])"
  by (simp add: files_ok_def demo_filter_env_def)

lemma demo_filter_on: "filter_on demo_body_env demo_body_wcf demo_body_rq"
  by (simp add: filter_on_def demo_body_rq_def demo_rq_def demo_request_def demo_conf_def)

text \<open>The guest's execution before its first chunk and between two chunks.\<close>

definition demo_slot :: "(nat, demo_slab, nat, unit, u64) slot option \<Rightarrow> bool" where
  "demo_slot s \<longleftrightarrow> (case s of None \<Rightarrow> True
     | Some sl \<Rightarrow> runtime_ready (slot_exec sl) \<and> exec_conf (slot_exec sl) = demo_conf \<and>
         fuel_remaining (slot_exec sl) = 1 \<and>
         (\<exists>rs. slot_resume sl = Some rs \<and> store rs = Some 1 \<and> instance_ready rs \<and> func_ready rs \<and>
            \<not> future rs \<and> future_kind rs = FUTURE_NONE \<and> trap rs = None \<and> \<not> error rs))"

lemma demo_chunks_pass: "chunks_pass demo_body_env demo_filter_env demo_body_wcf demo_slot"
  unfolding chunks_pass_def
proof (intro allI impI)
  fix buf d eof s and q :: "(nat, demo_slab, nat, unit, u64) rq"
  assume "filter_slot q = Some s" "demo_slot s"
  then obtain ctx where "rq_ctx q = Some ctx" "body_filter_exec ctx = s" by (auto simp: filter_slot_def)
  with \<open>demo_slot s\<close> show "\<exists>q' s'. body_filter_run_chunk demo_body_env demo_filter_env demo_body_wcf buf d eof q = (NGX_OK, None, q') \<and>
      filter_slot q' = Some s' \<and> demo_slot s'"
    by (cases s) (auto simp: body_filter_run_chunk_def body_filter_get_or_init_exec_def abi_resp_set_body_chunk_input_def
        new_slot_def init_exec_ctx_def run_slot_def detach_def attach_def demo_conf_def run_eval filter_slot_def demo_slot_def)
qed

definition demo_file_buf :: body_buf where
  "demo_file_buf = \<lparr>buf_memory = None, buf_file = Some (0, 0, 3), buf_flush = False, buf_sync = False,
     buf_last_buf = True, buf_last_in_chain = True\<rparr>"

definition demo_mem_buf :: "bytes \<Rightarrow> body_buf" where
  "demo_mem_buf d = \<lparr>buf_memory = Some d, buf_file = None, buf_flush = False, buf_sync = False,
     buf_last_buf = True, buf_last_in_chain = True\<rparr>"

lemma demo_created:
  obtains q0 where "body_filter_get_or_create_ctx demo_body_env demo_body_rq = (True, q0)" "idle demo_slot q0"
proof -
  have "rq_ctx demo_body_rq = None" by (simp add: demo_body_rq_def demo_rq_def)
  then show thesis
    by (intro that) (auto simp: body_filter_get_or_create_ctx_def idle_def linked_def filter_of_def filter_slot_def zero_ctx_def
        zero_filter_def demo_slot_def)
qed

section \<open>Properties\<close>

text \<open>C9: a file goes out in pieces. A buffer of a file, in a guest's hands that lets it pass, is
  delivered in as many reads as it has pieces of the configured size: each event passes on one
  piece, in order, together they are the bytes of the file, and only the last one has the flags of the
  buffer. Then nothing waits, and the request is blocked no more.\<close>

theorem file_delivered_in_pieces:
  assumes "allocs_ok e b" "files_ok b contents" "chunks_pass e b wcf G" "threads_ok b"
    and "\<forall>r out. next_body_filter b r out \<noteq> NGX_ERROR"
    and "filter_on e wcf q" "\<not> rq_done q" "body_filter_get_or_create_ctx e q = (True, q0)" "idle G q0"
    and "c = conf_size (body_filter_file_chunk_size (snd wcf))" "c \<noteq> 0"
    and "buf_memory fb = None" "buf_file fb = Some (f, p, l)" "0 \<le> p" "p < l" "l \<le> int (length (contents f))"
  shows "let ps = pieces c (file_bytes contents f p l) in
    concat ps = file_bytes contents f p l \<and> (\<forall>d \<in> set ps. d \<noteq> [] \<and> length d \<le> c) \<and>
    (\<exists>q1 q2. body_filter_handler e b [fb] q = Some (NGX_AGAIN, q1) \<and> thread_events e b (length ps) q1 = Some q2 \<and>
       rq_calls q2 = rq_calls q @ concat (map piece_calls (piece_bufs fb ps)) \<and>
       \<not> body_filter_waiting (filter_of q2) \<and> body_filter_pending (filter_of q2) = [] \<and> \<not> rq_buffered q2 \<and>
       rq_blocked q2 = rq_blocked q)"
proof -
  obtain q1 where h: "body_filter_handler e b [fb] q = Some (NGX_AGAIN, q1)" "reads wcf G c fb [] f p l q1"
      "rq_calls q1 = rq_calls q" "rq_blocked q1 = rq_blocked q + 1"
    using handler_reads [OF assms(1,4,6-15), of "[]"] by blast
  from read_through [OF assms(1-5,10-12) h(2) assms(14-16)] obtain q2 where
    "thread_events e b (length (pieces c (file_bytes contents f p l))) q1 = Some q2" "read_up wcf G [] q2"
    "rq_calls q2 = rq_calls q1 @ concat (map piece_calls (piece_bufs fb (pieces c (file_bytes contents f p l))))"
    "rq_blocked q2 = rq_blocked q1 - 1" by blast
  with h show ?thesis using concat_pieces pieces_bounded assms(11) by (auto simp: Let_def read_up_def)
qed

theorem file_delivered_in_pieces_witness:
  "\<exists>q1 q2. body_filter_handler demo_body_env demo_filter_env [demo_file_buf] demo_body_rq = Some (NGX_AGAIN, q1) \<and>
     thread_events demo_body_env demo_filter_env (Suc (Suc 0)) q1 = Some q2 \<and>
     rq_calls q2 = [NextBody [with_bytes demo_file_buf False [1, 2]], WriteEvent, RunPosted,
       NextBody [with_bytes demo_file_buf True [3]], WriteEvent, RunPosted]"
proof -
  obtain q0 where q0: "body_filter_get_or_create_ctx demo_body_env demo_body_rq = (True, q0)" "idle demo_slot q0"
    by (rule demo_created)
  have fb: "buf_memory demo_file_buf = None" "buf_file demo_file_buf = Some (0, 0, 3)" by (simp_all add: demo_file_buf_def)
  have r: "\<not> rq_done demo_body_rq" "rq_calls demo_body_rq = []" by (simp_all add: demo_body_rq_def demo_rq_def)
  have ps: "pieces 2 (file_bytes (\<lambda>_. [1, 2, 3]) 0 0 3) = [[1, 2], [3]]"
    by (simp add: file_bytes_def pieces.simps)
  show ?thesis
    using file_delivered_in_pieces [OF demo_allocs_ok demo_files_ok demo_chunks_pass demo_threads_ok(1) _ demo_filter_on r(1)
        q0 refl _ fb] r(2)
    by (simp add: ps piece_calls_def) blast
qed

text \<open>C17: what follows a file is stranded. If the chain has more buffers behind the one of the file,
  they are in the queue when the last piece has gone out, no read is in progress that could bring
  an event, and a call without new buffers, which is how nginx goes on with a response, does not
  take them out: the response never ends.\<close>

theorem file_strands_rest:
  assumes "allocs_ok e b" "files_ok b contents" "chunks_pass e b wcf G" "threads_ok b"
    and "\<forall>r out. next_body_filter b r out \<noteq> NGX_ERROR"
    and "filter_on e wcf q" "\<not> rq_done q" "body_filter_get_or_create_ctx e q = (True, q0)" "idle G q0"
    and "c = conf_size (body_filter_file_chunk_size (snd wcf))" "c \<noteq> 0"
    and "buf_memory fb = None" "buf_file fb = Some (f, p, l)" "0 \<le> p" "p < l" "l \<le> int (length (contents f))"
    and "rest \<noteq> []"
  shows "\<exists>n q1 q2. body_filter_handler e b (fb # rest) q = Some (NGX_AGAIN, q1) \<and> thread_events e b n q1 = Some q2 \<and>
    rq_calls q2 = rq_calls q @ concat (map piece_calls (piece_bufs fb (pieces c (file_bytes contents f p l)))) \<and>
    body_filter_pending (filter_of q2) = map queued rest \<and> rq_buffered q2 \<and>
    \<not> body_filter_waiting (filter_of q2) \<and> rq_blocked q2 = rq_blocked q \<and>
    body_filter_handler e b [] q2 = Some (call_next b [] q2)"
proof -
  obtain q1 where h: "body_filter_handler e b (fb # rest) q = Some (NGX_AGAIN, q1)" "reads wcf G c fb rest f p l q1"
      "rq_calls q1 = rq_calls q" "rq_blocked q1 = rq_blocked q + 1"
    using handler_reads [OF assms(1,4,6-15), of rest] by blast
  from read_through [OF assms(1-5,10-12) h(2) assms(14-16)] obtain q2 where
    "thread_events e b (length (pieces c (file_bytes contents f p l))) q1 = Some q2" "read_up wcf G rest q2"
    "rq_calls q2 = rq_calls q1 @ concat (map piece_calls (piece_bufs fb (pieces c (file_bytes contents f p l))))"
    "rq_blocked q2 = rq_blocked q1 - 1" by blast
  moreover from this(2) have "body_filter_handler e b [] q2 = Some (call_next b [] q2)"
    by (simp add: body_filter_handler_def read_up_def)
  ultimately show ?thesis using h assms(17) by (auto simp: read_up_def)
qed

theorem file_strands_rest_witness:
  "\<exists>n q1 q2. body_filter_handler demo_body_env demo_filter_env [demo_file_buf, demo_mem_buf [4]] demo_body_rq
       = Some (NGX_AGAIN, q1) \<and>
     thread_events demo_body_env demo_filter_env n q1 = Some q2 \<and>
     body_filter_pending (filter_of q2) = [demo_mem_buf [4]] \<and> \<not> body_filter_waiting (filter_of q2)"
proof -
  obtain q0 where q0: "body_filter_get_or_create_ctx demo_body_env demo_body_rq = (True, q0)" "idle demo_slot q0"
    by (rule demo_created)
  have fb: "buf_memory demo_file_buf = None" "buf_file demo_file_buf = Some (0, 0, 3)" by (simp_all add: demo_file_buf_def)
  have r: "\<not> rq_done demo_body_rq" by (simp add: demo_body_rq_def demo_rq_def)
  have "queued (demo_mem_buf [4]) = demo_mem_buf [4]" by (simp add: queued_def demo_mem_buf_def)
  with file_strands_rest [OF demo_allocs_ok demo_files_ok demo_chunks_pass demo_threads_ok(1) _ demo_filter_on r
        q0 refl _ fb, of "[demo_mem_buf [4]]"]
  show ?thesis by (simp del: not_None_eq) blast
qed



text \<open>C18: a context of another phase faults. After the header filter has run a guest on a request
  without a context, the first buffer of a file that the body filter gets makes it write through
  a NULL pointer: only the body filter sets the pointer to the end of its queue, and only when it
  makes the context.\<close>

theorem body_filter_foreign_context:
  assumes "header_filter_handler e q = (rc, q1)" and "rq_ctx q = None" "rq_loc_conf q = Some wcf"
    and "on wcf PHASE_HEADER_FILTER" "me_ctx_alloc e" "me_cleanup_alloc e" "filter_on e wcf q1"
    and "allocs_ok e b" "ngx_threads b" "0 < conf_size (body_filter_file_chunk_size (snd wcf))"
    and "buf_memory fb = None" "buf_file fb = Some (f, p, l)" "0 \<le> p" "p < l"
  shows "body_filter_handler e b (fb # rest) q1 = None"
proof -
  have x: "rq_ctx q1 \<noteq> None" and z: "filter_of q1 = zero_filter"
    using assms(1-7) by (auto simp: header_filter_handler_def Let_def filter_on_def filter_of_def zero_ctx_def
        dest!: run_slot_frame(1) split: prod.splits if_splits)
  have "\<not> linked q1" "\<not> body_filter_waiting (filter_of q1)" using z by (simp_all add: linked_def zero_filter_def)
  moreover have "body_filter_get_or_create_ctx e q1 = (True, q1)" using x by (simp add: body_filter_get_or_create_ctx_def)
  ultimately show ?thesis
    using assms x schedule_unlinked [OF assms(8) x _ assms(11-14), of "snd wcf" rest]
    by (auto simp: body_filter_handler_def filter_on_def)
qed

theorem body_filter_foreign_context_witness:
  "\<exists>rc q1. header_filter_handler demo_body_env demo_body_rq = (rc, q1) \<and>
     body_filter_handler demo_body_env demo_filter_env [demo_file_buf] q1 = None"
proof -
  obtain q1 where h: "header_filter_handler demo_body_env demo_body_rq = (NGX_OK, q1)"
      and on: "filter_on demo_body_env demo_body_wcf q1"
    by (simp add: header_filter_handler_def demo_body_rq_def filter_on_def module_eval run_eval demo_request_def)
  have fb: "buf_memory demo_file_buf = None" "buf_file demo_file_buf = Some (0, 0, 3)" by (simp_all add: demo_file_buf_def)
  have r: "rq_ctx demo_body_rq = None" "rq_loc_conf demo_body_rq = Some demo_body_wcf"
    "on demo_body_wcf PHASE_HEADER_FILTER" by (simp_all add: demo_body_rq_def demo_rq_def demo_conf_def)
  from body_filter_foreign_context [OF h r _ _ on demo_allocs_ok _ _ fb, of "[]"] h show ?thesis by simp
qed

text \<open>C13: a chain in memory. If no buffer has to be read from a file, a call that succeeds hands exactly
  one chain to the next filter, and its code is the next filter's. The guest is run to its end on each buffer it
  can see, in order, with the buffer's bytes and its mark of the end; for a buffer the guest has set a
  replacement for, a buffer with exactly these bytes and the same flags goes on, for any other the buffer
  itself. A buffer without bytes that ends nothing is not shown to the guest, and nothing is queued.\<close>

theorem body_filter_memory_chain:
  assumes "body_filter_handler e b bufs q = Some (rc, q')" "rc \<noteq> NGX_ERROR" and "filter_on e wcf q" "bufs \<noteq> []"
    and "body_filter_get_or_create_ctx e q = (True, q0)" "idle G q0" and "\<forall>buf \<in> set bufs. in_memory b (snd wcf) buf"
  shows "\<exists>outs q1. filtered e b wcf q0 bufs outs q1 \<and> list_all2 same_flags bufs outs \<and>
    rc = next_body_filter b (rq_request q1) outs \<and> rq_calls q' = rq_calls q @ [NextBody outs] \<and>
    rq_request q' = rq_request q1 \<and> filter_of q' = filter_of q0"
proof -
  have "body_filter_process e b wcf bufs [] q0 = Some (rc, q')" "rq_ctx q0 \<noteq> None"
    using assms by (auto simp: body_filter_handler_def filter_on_def idle_def linked_def)
  from process_in_memory [OF this assms(7) _ assms(2)] assms(4) get_or_create_sel(1) [OF assms(5)]
  show ?thesis using filtered_flags by fastforce
qed

theorem body_filter_memory_chain_witness:
  "\<exists>rc q' q0 q1 outs. body_filter_handler demo_body_env demo_filter_env [demo_mem_buf [1, 2]] demo_body_rq = Some (rc, q') \<and>
     filtered demo_body_env demo_filter_env demo_body_wcf q0 [demo_mem_buf [1, 2]] outs q1 \<and> length outs = 1 \<and>
     rq_calls q' = [NextBody outs]"
proof -
  obtain q0 where q0: "body_filter_get_or_create_ctx demo_body_env demo_body_rq = (True, q0)" "idle demo_slot q0"
    by (rule demo_created)
  have m: "\<forall>buf \<in> set [demo_mem_buf [1, 2]]. in_memory demo_filter_env (snd demo_body_wcf) buf" "rq_calls demo_body_rq = []"
    by (simp_all add: in_memory_def demo_mem_buf_def demo_body_rq_def demo_rq_def)
  obtain s where "filter_slot q0 = Some s" "demo_slot s" using q0(2) by (auto simp: idle_def)
  then obtain q1 where "body_filter_run_chunk demo_body_env demo_filter_env demo_body_wcf (demo_mem_buf [1, 2]) [1, 2] True q0
      = (NGX_OK, None, q1)"
    using demo_chunks_pass unfolding chunks_pass_def by blast
  then obtain q' where h: "body_filter_handler demo_body_env demo_filter_env [demo_mem_buf [1, 2]] demo_body_rq = Some (NGX_OK, q')"
    using demo_filter_on q0
    by (auto simp: body_filter_handler_def filter_on_def idle_def body_filter_buf_def body_filter_append_def buf_eof_def
        demo_mem_buf_def demo_filter_env_def body_filter_pass_def call_next_def Let_def)
  from body_filter_memory_chain [OF h _ demo_filter_on _ q0 m(1)] m(2)
  obtain outs q1 where "filtered demo_body_env demo_filter_env demo_body_wcf q0 [demo_mem_buf [1, 2]] outs q1"
    "list_all2 same_flags [demo_mem_buf [1, 2]] outs" "rq_calls q' = [NextBody outs]" by auto
  moreover from this(2) have "length outs = 1" by (auto dest: list_all2_lengthD)
  ultimately show ?thesis using h by blast
qed

end
