(* ===== verification/Spec2Isabelle.thy ===== *)
theory Spec2Isabelle
  imports Shm_Props Metrics_Props Abi_Props Host_Props Setup_Props Runtime_Props Conf_Props Module_Props Edge_Props BodyFilter_Props
begin

text \<open>
  A verification library for \<^bold>\<open>ngx_wasm\<close>, an nginx HTTP module that runs WebAssembly guests in the
  phases of a request. This theory imports the whole library and holds the property that spans the
  stores and the guests; every other property is in the \<open>_Props\<close> theory of its component, each after
  a text with its number.

  \<^bold>\<open>The program.\<close> A configuration names, for each phase of a location, a server or an upstream, a
  module and one of its exports. At start the module compiles each file once and gives Wasmtime 38
  host functions. When a phase comes, it makes an execution context with the capabilities of that
  phase and a budget of fuel, and runs the export until it returns, traps, or suspends itself, that is
  yields, waits for a subrequest, or ends a time slice; nginx then resumes it later from an event. A host
  function checks its arguments and the span of guest memory, then calls an operation of the guest ABI,
  which checks the capability, and works on the request, the key-value store and the metrics in shared
  memory, a subrequest, the balancer's peer, the TLS handshake, or the chunk of the body filter.

  \<^bold>\<open>Theories and code\<close> (paths under \<^verbatim>\<open>src/\<close>; functions without their prefix \<^verbatim>\<open>ngx_http_wasm_\<close>).
  \<^item> \<open>Prelude\<close>: bytes, machine words, return codes, the copy-out of getters, the collection \<open>wasm_defs\<close>.
    \<open>NginxCore\<close>: nginx's red-black tree, slab pool, checksum as fields of a record, with their contract
    and a small instance. \<open>RBTree\<close>: the locales \<open>rbtree_insertion\<close> and \<open>rbtree_search\<close>, what the module's
    comparison callbacks must satisfy to keep a tree sorted and to find a node in it; interpreted on both stores.
    \<open>Refine\<close>: the locales of a store whose operations, one after the other under a mutex, do to its abstraction
    what a specification allows (\<open>refinement\<close>) or computes (\<open>exact_refinement\<close>); each store interprets one.
  \<^item> \<open>Shm\<close> (code), \<open>Shm_Correct\<close>, \<open>Shm_Ops\<close>, \<open>Shm_Order\<close>, \<open>Shm_Int\<close>, \<open>Shm_Props\<close>: \<^verbatim>\<open>src/ngx_http_wasm_shm.c\<close>. A segment is
    its slab pool, its tree, its LRU queue and the entries by address; one definition per C function, those
    ending in \<open>_locked\<close> under the mutex. The segment stands for a finite map from keys to values and
    expiry times; each operation refines the relation \<open>kv_allows\<close> of an abstract cache that may evict. \<open>Shm_Order\<close>
    has the invariant that holds for any keys, also those on which the callbacks disagree.
  \<^item> \<open>Metrics\<close> (code), \<open>Metrics_Correct\<close>, \<open>Metrics_Props\<close>: \<^verbatim>\<open>src/ngx_http_wasm_metrics.c\<close>, and the metrics
    handler of \<^verbatim>\<open>module.c\<close>. The registry stands for a map from names to kinds and 64-bit values; each
    operation is a function of it.
  \<^item> \<open>Request\<close>, \<open>Abi\<close>, \<open>Subrequest\<close> (code), \<open>Headers\<close>, \<open>Abi_Props\<close>: \<^verbatim>\<open>src/ngx_http_wasm_abi.c\<close>: the request as far as
    the module reads and writes it, each \<^verbatim>\<open>abi_*\<close> operation with its capability, and the life of a
    subrequest. The locale \<open>header_table\<close> is the contract of a table of headers, interpreted on those of the
    request and those of the response.
  \<^item> \<open>Exec\<close>, \<open>Host\<close> (code), \<open>Host_Correct\<close>, \<open>Host_Props\<close>: the execution context and the host functions of
    \<^verbatim>\<open>src/ngx_http_wasm_runtime.c\<close>, in the order \<^verbatim>\<open>runtime_define_host_funcs\<close> defines them. \<open>guest_run\<close> is any
    sequence of host calls; \<open>Host_Correct\<close> ties each field a call can write to a capability.
  \<^item> \<open>Runtime\<close> (code), \<open>Runtime_Correct\<close>, \<open>Runtime_Props\<close>: \<^verbatim>\<open>runtime_run\<close>, the state kept across suspensions, fuel and
    time slices, the cache of modules. \<open>Setup\<close> (code), \<open>Setup_Props\<close>: \<^verbatim>\<open>runtime_init\<close>, \<^verbatim>\<open>runtime_destroy\<close>, the
    creation of the main record and the handlers of a process, with the objects of Wasmtime that are alive.
  \<^item> \<open>Conf\<close> (code), \<open>Conf_Props\<close>: the directives, the merge and the installation of handlers in
    \<^verbatim>\<open>src/ngx_http_wasm_module.c\<close>. \<open>effective\<close> are the configurations that nested blocks can result in.
  \<^item> \<open>Module\<close> (code), \<open>Module_Correct\<close>, \<open>Module_Props\<close>: the request's module context, the phase handlers, running,
    suspending, resuming and cleaning up, with \<^verbatim>\<open>src/ngx_http_wasm_request_body.c\<close> and
    \<^verbatim>\<open>src/ngx_http_wasm_header_filter.c\<close>. The state is \<open>rq\<close>: the request, its reference count, its module
    context, its handlers, and the calls made to nginx, in order.
  \<^item> \<open>Balancer\<close>, \<open>Tls\<close> (code), \<open>Edge_Props\<close>: the upstream hooks and the handshake callbacks of \<^verbatim>\<open>module.c\<close>.
  \<^item> \<open>BodyFilter\<close> (code), \<open>BodyFilter_Correct\<close>, \<open>BodyFilter_Props\<close>: \<^verbatim>\<open>src/ngx_http_wasm_body_filter.c\<close>, with the queue of
    buffers that wait while a thread reads a file. A write through a NULL pointer has the value \<open>None\<close>.

  \<^bold>\<open>What the lemmas show.\<close> The stores refine their abstract maps, and what a guest stores another reads.
  Guest memory outside a call's buffer is never written; a guest changes only what its phase allows,
  whatever sequence of calls it makes. A run ends done, suspended or failed, and its code agrees with its
  state; suspensions are bounded by the fuel, of a run and of a request; a request holds at most one
  reference of the module's. Phases of a request follow each other and start afresh. Headers, integers and
  subrequests read back; configuration is inherited directive by directive and leaves no phase without a
  module; a peer that is tried, down or full is not chosen, a handshake fails closed, a file is
  delivered in pieces that make it up. Every object of Wasmtime is deleted once.

  \<^bold>\<open>Where the code does not do what it means to\<close>, the model has the code's behaviour and a theorem
  states it: of two keys with equal checksums, the longer one the smaller,
  the store never shows both, though both can be stored (\<open>shm_colliding_keys_exclusive\<close>), a yield
  before the end of a time slice is forgotten (\<open>runtime_call_completes\<close>), the body is not handed to a
  second phase (\<open>phase_sequence\<close>), server-level phases do not get the configured limits
  (\<open>conf_server_defaults\<close>), a phase that waits for the body both finalizes the
  request with \<^verbatim>\<open>NGX_DONE\<close> and returns this code (\<open>guest_waits_for_body\<close>), the buffers after a file
  stay in the queue (\<open>file_strands_rest\<close>), and a context that another phase has made lacks the queue's end
  (\<open>body_filter_foreign_context\<close>).

  \<^bold>\<open>Parameters and hypotheses.\<close> nginx, OpenSSL and Wasmtime are not in the repository: their functions are
  fields of the records \<open>nginx_core\<close>, \<open>nginx_http\<close>, \<open>openssl\<close>, \<open>wasmtime\<close>, \<open>conf_env\<close>, \<open>module_env\<close>,
  \<open>filter_env\<close> and \<open>setup_env\<close>, so that an allocation may fail at every place. What they document is collected
  in \<open>nginx_core_ok\<close>, \<open>nginx_http_ok\<close>, \<open>wasmtime_ok\<close> (a poll makes host calls only; fuel never rises and falls
  at each suspension) and \<open>thread_read_ok\<close>; \<open>allocs_ok\<close>, \<open>threads_ok\<close>, \<open>files_ok\<close> and
  \<open>chunks_pass\<close> say that nothing fails in a scenario. \<open>hash_orders_agree\<close> restricts the keys to those on which
  the two comparison callbacks agree; without it the refinement is false. \<open>rr_between\<close> lets nginx do what it
  will to the peers of a request, except to mark a tried one as untried. Each has an instance
  (\<open>demo_core\<close>, \<open>demo_http\<close>, \<open>demo_wasmtime\<close> and others), on which the witnesses evaluate the code.

  \<^bold>\<open>Bounds and termination.\<close> Words have the width of the C type: 64 bits for sizes, capabilities, times and
  metrics, 32 for guest pointers; indices and lengths that cannot overflow are natural numbers. No
  definition has artificial fuel: loops over lists are structural, the two that are not
  (\<open>shm_format_tmp\<close>, \<open>pieces\<close>) end by a measure. Fuel in the theorems is Wasmtime's.

  \<^bold>\<open>Not modelled.\<close> Locks and interleaving inside a critical section: the mutex of a store makes each
  operation one step. Timers, logging, the text of error messages and the release of Wasmtime's errors and
  messages. The flags of the engine. Guests, the header they are compiled with, scripts and tests have
  no code of the module. nginx's event loop is a sequence of steps (\<open>request_runs\<close>, \<open>thread_events\<close>,
  \<open>life\<close>); what it does in between is arbitrary where a theorem says so.
\<close>

text \<open>C2: guests share values. What a guest stores with \<^verbatim>\<open>ngx_wasm_shm_set\<close> is what another guest, in any
  phase that has the key-value store, at any later time and with its own memory, gets with
  \<^verbatim>\<open>ngx_wasm_shm_get\<close> as the next operation on the zone: it returns the length of the value, and the
  guest's memory holds as much of the value as the span it has given can take, and is otherwise as
  it was. The key is of admitted length and from a set on which the tree's comparison callbacks agree
  (\<open>hash_orders_agree\<close>), to which the keys stored before belong.\<close>

theorem guests_share_values:
  assumes "nginx_core_ok (core h)" and "hash_orders_agree (core h) K" and "shm_zone_inv (core h) K (shm_zone (exec_abi x))"
    and "key_fits k" and "k \<in> K" and "length v \<le> NGX_HTTP_WASM_SHM_MAX_VALUE_LEN"
    and set: "host_shm_set h [I32 kp, I32 kl, I32 vp, I32 vl] 1 (mem, x) = Ret 0 (mem', x')"
    and "get_memory mem kp kl = Inr k" and "get_memory mem vp vl = Inr v"
    and get: "core h2 = core h" "shm_zone (exec_abi y) = shm_zone (exec_abi x')"
      "capabilities (exec_abi y) AND CAP_SHARED_KV \<noteq> 0" "\<forall>a \<in> {kp2, kl2, bp, bl}. 0 \<le>s a"
      "get_memory mem2 kp2 kl2 = Inr k" "get_memory mem2 bp bl = Inr buf"
  shows "\<exists>y'. host_shm_get h2 [I32 kp2, I32 kl2, I32 bp, I32 bl] 1 (mem2, y) =
    Ret (word_of_nat (length v)) (put_memory mem2 bp (copy_out v buf), y')"
proof -
  obtain rc z1 where st: "shm_set (core h) (current_msec h) (shm_zone (exec_abi x)) k v = (rc, z1)" by fastforce
  then have "shm_step (core h) (current_msec h) (ShmSet k v) (shm_zone (exec_abi x)) = ((rc, []), z1)" by (simp add: no_buf_def)
  from shm_step_refines [OF assms(1-3) _ this] assms(4-6)
  have "rc \<in> {0, -1, -2}" by (auto simp: op_ok_def kv_put_checked_def kv_set_def kv_put_def wasm_codes)
  then have w: "(word_of_int rc :: u32) = 0 \<Longrightarrow> rc = 0" by auto
  have "rc = 0" "shm_zone (exec_abi x') = z1"
    using assms(7-9) st w
    by (auto simp: host_shm_set_def host_defs sig_ok_def abi_shm_set_def on_shm_def requiring_def abi_require_def wasm_codes
        split: if_splits)
  then have "shm_step (core h) (current_msec h) (ShmSet k v) (shm_zone (exec_abi x)) = ((NGX_HTTP_WASM_OK, []), shm_zone (exec_abi x'))"
    using st by (simp add: no_buf_def wasm_codes)
  from shm_step_refines [OF assms(1-3) _ this] assms(4-6)
  have z': "shm_zone_inv (core h) K (shm_zone (exec_abi x'))" "shm_zone_abs (shm_zone (exec_abi x')) k = Some (v, 0)"
    by (auto simp: op_ok_def kv_put_checked_def kv_set_def kv_put_def)
  obtain r z2 where g: "shm_step (core h) (current_msec h2) (ShmGet k buf) (shm_zone (exec_abi x')) = (r, z2)" by fastforce
  have "r = (int (length v), copy_out v buf)"
    using shm_step_refines [OF assms(1,2) z'(1) _ g] assms(4,5) z'(2) by (auto simp: op_ok_def kv_live_def kv_expired_def)
  then show ?thesis using g get
    by (simp add: host_shm_get_def host_defs sig_ok_def abi_shm_get_def abi_require_def word_sless_alt word_sle_eq not_le)
qed

definition demo_sharing_host :: "(nat, demo_slab, nat, nat, nat) host_env" where
  "demo_sharing_host = demo_host_env\<lparr>core := Shm_Props.demo_env\<rparr>"

definition demo_sharing :: "demo_slab shm_zone option \<Rightarrow> phase \<Rightarrow> (nat, demo_slab, nat, unit) exec_ctx" where
  "demo_sharing z ph = init_exec_ctx demo_request z None None demo_conf ph True"

lemma demo_sharing_sel [simp]:
  "core demo_sharing_host = Shm_Props.demo_env" "shm_zone (exec_abi (demo_sharing z ph)) = z"
  "capabilities (exec_abi (demo_sharing z ph)) = phase_capabilities ph"
  by (simp_all add: demo_sharing_host_def demo_sharing_def)

theorem guests_share_values_witness:
  "\<exists>x' y'. host_shm_set demo_sharing_host [I32 0, I32 1, I32 1, I32 2] 1
         (Some [0x61, 7, 8], demo_sharing (demo_zone 3) PHASE_CONTENT) = Ret 0 (Some [0x61, 7, 8], x') \<and>
     host_shm_get demo_sharing_host [I32 0, I32 1, I32 1, I32 3] 1
         (Some [0x61, 0, 0, 0], demo_sharing (shm_zone (exec_abi x')) PHASE_LOG) = Ret 2 (Some [0x61, 7, 8, 0], y')"
proof -
  let ?x = "demo_sharing (demo_zone 3) PHASE_CONTENT"
  obtain z where z: "shm_set Shm_Props.demo_env (current_msec demo_sharing_host) (demo_zone 3) [0x61] [7, 8] = (0, z)"
    by (simp add: shm_eval)
  have m: "get_memory (Some [0x61, 7, 8]) 0 1 = Inr [0x61]" "get_memory (Some [0x61, 7, 8]) 1 2 = Inr [7, 8]"
    "get_memory (Some [0x61, 0, 0, 0]) 0 1 = Inr [0x61]" "get_memory (Some [0x61, 0, 0, 0]) 1 3 = Inr [0, 0, 0]"
    by (simp_all add: get_memory_def)
  have p: "\<not> (0::u32) <s 0" "\<not> (1::u32) <s 0" "\<not> (2::u32) <s 0" "\<forall>a \<in> {0, 1, 1, 3::u32}. 0 \<le>s a" by code_simp+
  have caps: "phase_capabilities PHASE_CONTENT AND CAP_SHARED_KV \<noteq> 0" "phase_capabilities PHASE_LOG AND CAP_SHARED_KV \<noteq> 0"
    by (simp_all add: phase_capabilities_def request_capabilities_def caps)
  have s: "host_shm_set demo_sharing_host [I32 0, I32 1, I32 1, I32 2] 1 (Some [0x61, 7, 8], ?x) =
      Ret 0 (Some [0x61, 7, 8], ?x\<lparr>exec_abi := (exec_abi ?x)\<lparr>shm_zone := z\<rparr>\<rparr>)"
    using m p caps z
    by (simp add: host_shm_set_def host_defs sig_ok_def abi_shm_set_def on_shm_def requiring_def abi_require_def)
  have k: "key_fits [0x61]" "[0x61] \<in> demo_keys" "length [7, 8::byte] \<le> NGX_HTTP_WASM_SHM_MAX_VALUE_LEN"
    by (simp_all add: key_fits_def demo_keys_def NGX_HTTP_WASM_SHM_MAX_KEY_LEN_def NGX_HTTP_WASM_SHM_MAX_VALUE_LEN_def)
  have a: "nginx_core_ok (core demo_sharing_host)" "hash_orders_agree (core demo_sharing_host) demo_keys"
    "shm_zone_inv (core demo_sharing_host) demo_keys (shm_zone (exec_abi ?x))"
    using demo_env_ok demo_agree demo_zone_inv [of 3] by simp_all
  let ?x' = "?x\<lparr>exec_abi := (exec_abi ?x)\<lparr>shm_zone := z\<rparr>\<rparr>"
  let ?y = "demo_sharing (shm_zone (exec_abi ?x')) PHASE_LOG"
  have y: "shm_zone (exec_abi ?y) = shm_zone (exec_abi ?x')" "capabilities (exec_abi ?y) AND CAP_SHARED_KV \<noteq> 0"
    using caps(2) by simp_all
  from guests_share_values [OF a k s m(1,2) refl y p(4) m(3,4)] obtain y' where
    "host_shm_get demo_sharing_host [I32 0, I32 1, I32 1, I32 3] 1 (Some [0x61, 0, 0, 0], ?y) =
      Ret (word_of_nat (length [7, 8::byte])) (put_memory (Some [0x61, 0, 0, 0]) 1 (copy_out [7, 8] [0, 0, 0]), y')" by blast
  moreover have "put_memory (Some [0x61, 0, 0, 0]) 1 (copy_out [7, 8] [0, 0, 0]) = Some [0x61, 7, 8, 0]"
    "word_of_nat (length [7, 8::byte]) = (2 :: u32)"
    by (simp_all add: put_memory_def mem_write_def copy_out_def)
  ultimately show ?thesis using s by (intro exI [of _ ?x'] exI [of _ y']) simp
qed

end
